(* ===== verification/Prelude.thy ===== *)
theory Prelude
  imports Main "HOL-Library.Word" "HOL-Library.Monad_Syntax"
begin

text \<open>
  Shared vocabulary of the development.

  \<^item> Memory is a list of bytes.  Multi-byte objects are stored little-endian
    (the daemon is built for x86 and ARM hosts; the bit-fields of the packed
    structures of \<^verbatim>\<open>include/msg_format.h\<close> assume the same).
  \<^item> \<^verbatim>\<open>htons\<close>, \<^verbatim>\<open>ntohs\<close>, \<^verbatim>\<open>htonl\<close>, \<^verbatim>\<open>ntohl\<close> are byte reversals.
  \<^item> A read or a write outside an object is the value \<open>None\<close>; code that can
    fault lives in the option monad.
  \<^item> A C string is a HOL \<open>string\<close> (the characters before the terminator); in
    memory it is a zero-padded byte array.
\<close>

unbundle bit_operations_syntax

named_theorems wire "rules that compute wire images and read them back"
named_theorems mem "rules about buffer access"

type_synonym byte = "8 word"
type_synonym bytes = "8 word list"

section \<open>Byte order\<close>

definition le16 :: "16 word \<Rightarrow> bytes" where
  "le16 w = [ucast w, ucast (drop_bit 8 w)]"

definition le32 :: "32 word \<Rightarrow> bytes" where
  "le32 w = [ucast w, ucast (drop_bit 8 w), ucast (drop_bit 16 w), ucast (drop_bit 24 w)]"

definition of_le16 :: "byte \<Rightarrow> byte \<Rightarrow> 16 word" where
  "of_le16 a b = ucast a OR push_bit 8 (ucast b)"

definition of_le32 :: "byte \<Rightarrow> byte \<Rightarrow> byte \<Rightarrow> byte \<Rightarrow> 32 word" where
  "of_le32 a b c d =
     ucast a OR push_bit 8 (ucast b) OR push_bit 16 (ucast c) OR push_bit 24 (ucast d)"

definition htons :: "16 word \<Rightarrow> 16 word" where
  "htons w = of_le16 (ucast (drop_bit 8 w)) (ucast w)"

definition htonl :: "32 word \<Rightarrow> 32 word" where
  "htonl w = of_le32 (ucast (drop_bit 24 w)) (ucast (drop_bit 16 w)) (ucast (drop_bit 8 w)) (ucast w)"

abbreviation (input) ntohs :: "16 word \<Rightarrow> 16 word" where "ntohs \<equiv> htons"
abbreviation (input) ntohl :: "32 word \<Rightarrow> 32 word" where "ntohl \<equiv> htonl"

lemma length_le16 [simp]: "length (le16 w) = 2"
  by (simp add: le16_def)

lemma length_le32 [simp]: "length (le32 w) = 4"
  by (simp add: le32_def)

lemma of_le16_le16 [simp]: "of_le16 (ucast w) (ucast (drop_bit 8 w)) = w"
  unfolding of_le16_def
  by (rule bit_word_eqI) (auto simp: bit_simps)

lemma of_le16_bytes [simp]:
  "ucast (of_le16 a b) = a" "ucast (drop_bit 8 (of_le16 a b)) = b"
  unfolding of_le16_def
  by (rule bit_word_eqI; auto simp: bit_simps dest: bit_imp_le_length)+

lemma of_le32_bytes [simp]:
  "ucast (of_le32 a b c d) = a" "ucast (drop_bit 8 (of_le32 a b c d)) = b"
  "ucast (drop_bit 16 (of_le32 a b c d)) = c" "ucast (drop_bit 24 (of_le32 a b c d)) = d"
  unfolding of_le32_def
  by (rule bit_word_eqI; auto simp: bit_simps dest: bit_imp_le_length)+

lemma of_le32_le32 [simp]:
  "of_le32 (ucast w) (ucast (drop_bit 8 w)) (ucast (drop_bit 16 w)) (ucast (drop_bit 24 w)) = w"
  unfolding of_le32_def
  apply (rule bit_word_eqI)
  subgoal for n by (cases "24 \<le> n"; cases "16 \<le> n") (auto simp: bit_simps)
  done

lemma htons_htons [simp]: "htons (htons w) = w"
  by (simp add: htons_def)

lemma htonl_htonl [simp]: "htonl (htonl w) = w"
  by (simp add: htonl_def)

lemma htons_eq_iff [simp]: "htons a = htons b \<longleftrightarrow> a = b"
  by (metis htons_htons)

lemma htonl_eq_iff [simp]: "htonl a = htonl b \<longleftrightarrow> a = b"
  by (metis htonl_htonl)

section \<open>Reading fields off the front of a buffer\<close>

fun get_u8 :: "bytes \<Rightarrow> (byte \<times> bytes) option" where
  "get_u8 (a # bs) = Some (a, bs)"
| "get_u8 [] = None"

fun get_u16 :: "bytes \<Rightarrow> (16 word \<times> bytes) option" where
  "get_u16 (a # b # bs) = Some (of_le16 a b, bs)"
| "get_u16 _ = None"

fun get_u32 :: "bytes \<Rightarrow> (32 word \<times> bytes) option" where
  "get_u32 (a # b # c # d # bs) = Some (of_le32 a b c d, bs)"
| "get_u32 _ = None"

definition get_arr :: "nat \<Rightarrow> bytes \<Rightarrow> (bytes \<times> bytes) option" where
  "get_arr n bs = (if n \<le> length bs then Some (take n bs, drop n bs) else None)"

lemma get_u8_iff [wire]: "get_u8 bs = Some (x, r) \<longleftrightarrow> bs = x # r"
  by (cases bs) auto

lemma get_u16_iff [wire]: "get_u16 bs = Some (x, r) \<longleftrightarrow> bs = le16 x @ r"
  by (cases bs rule: get_u16.cases) (auto simp: le16_def)

lemma get_u32_iff [wire]: "get_u32 bs = Some (x, r) \<longleftrightarrow> bs = le32 x @ r"
  by (cases bs rule: get_u32.cases) (auto simp: le32_def)

lemma get_arr_iff [wire]: "get_arr n bs = Some (x, r) \<longleftrightarrow> length x = n \<and> bs = x @ r"
  by (auto simp: get_arr_def)

lemma get_u16_le16 [simp]: "get_u16 (le16 x @ r) = Some (x, r)"
  by (simp add: get_u16_iff)

lemma get_u32_le32 [simp]: "get_u32 (le32 x @ r) = Some (x, r)"
  by (simp add: get_u32_iff)

lemma get_le_last [simp]: "get_u16 (le16 x) = Some (x, [])" "get_u32 (le32 y) = Some (y, [])"
  by (simp_all add: get_u16_iff get_u32_iff)

lemma get_arr_append [simp]: "length x = n \<Longrightarrow> get_arr n (x @ r) = Some (x, r)"
  by (simp add: get_arr_def)

lemma get_u8_None [simp]: "get_u8 bs = None \<longleftrightarrow> length bs < 1"
  by (cases bs) auto

lemma get_u16_None [simp]: "get_u16 bs = None \<longleftrightarrow> length bs < 2"
  by (cases bs rule: get_u16.cases) auto

lemma get_u32_None [simp]: "get_u32 bs = None \<longleftrightarrow> length bs < 4"
  by (cases bs rule: get_u32.cases) auto

lemma get_arr_None [simp]: "get_arr n bs = None \<longleftrightarrow> length bs < n"
  by (auto simp: get_arr_def)

section \<open>Writing into a buffer\<close>

text \<open>\<open>poke off bs buf\<close> stores \<open>bs\<close> at offset \<open>off\<close>; a store that crosses the end
  of the buffer is a fault.  \<open>peek\<close> applies a reader at an offset, \<open>memzero\<close> is
  \<^verbatim>\<open>memset(buf, 0, n)\<close> and \<open>swap16\<close> is the in-place conversion
  \<^verbatim>\<open>*(uint16_t*)p = htons(*(uint16_t*)p)\<close>.\<close>

definition poke :: "nat \<Rightarrow> bytes \<Rightarrow> bytes \<Rightarrow> bytes option" where
  "poke off bs buf =
     (if off + length bs \<le> length buf
      then Some (take off buf @ bs @ drop (off + length bs) buf) else None)"

definition peek :: "(bytes \<Rightarrow> ('a \<times> bytes) option) \<Rightarrow> nat \<Rightarrow> bytes \<Rightarrow> 'a option" where
  "peek get off buf =
     (if off \<le> length buf then map_option fst (get (drop off buf)) else None)"

definition memzero :: "nat \<Rightarrow> bytes \<Rightarrow> bytes option" where
  "memzero n buf = poke 0 (replicate n 0) buf"

definition swap16 :: "nat \<Rightarrow> bytes \<Rightarrow> bytes option" where
  "swap16 off buf = do { w \<leftarrow> peek get_u16 off buf; poke off (le16 (htons w)) buf }"

lemma poke_length [mem]: "poke off bs buf = Some buf' \<Longrightarrow> length buf' = length buf"
  by (auto simp: poke_def split: if_splits)

lemma poke_Some: "off + length bs \<le> length buf \<Longrightarrow>
  poke off bs buf = Some (take off buf @ bs @ drop (off + length bs) buf)"
  by (simp add: poke_def)

lemma poke_append [simp]:
  "length bs = length old \<Longrightarrow> length pre = off \<Longrightarrow>
   poke off bs (pre @ old @ post) = Some (pre @ bs @ post)"
  by (simp add: poke_def)

lemma memzero_all: "length buf = n \<Longrightarrow> memzero n buf = Some (replicate n 0)"
  by (simp add: memzero_def poke_def)

lemma peek_append [simp]:
  "length pre = off \<Longrightarrow> peek get off (pre @ r) = map_option fst (get r)"
  by (simp add: peek_def)

lemma le16_htons [wire]: "le16 (htons w) = [ucast (drop_bit 8 w), ucast w]"
  by (simp add: le16_def htons_def)

lemma le32_htonl [wire]:
  "le32 (htonl w) = [ucast (drop_bit 24 w), ucast (drop_bit 16 w), ucast (drop_bit 8 w), ucast w]"
  by (simp add: le32_def htonl_def)

lemma swap16_append [simp]:
  "length pre = off \<Longrightarrow> swap16 off (pre @ a # b # r) = Some (pre @ b # a # r)"
  using poke_append [of "[b, a]" "[a, b]" pre off r]
  by (simp add: swap16_def le16_def htons_def)

text \<open>A buffer of \<open>n\<close> bytes that was cleared and then filled from the front.\<close>

definition zbuf :: "nat \<Rightarrow> bytes \<Rightarrow> bytes" where
  "zbuf n bs = bs @ replicate (n - length bs) 0"

lemma zbuf_length [simp]: "length bs \<le> n \<Longrightarrow> length (zbuf n bs) = n"
  by (simp add: zbuf_def)

lemma take_zbuf [simp]: "length bs = m \<Longrightarrow> take m (zbuf n bs) = bs"
  by (simp add: zbuf_def)

lemma memzero_zbuf [mem]: "length buf = n \<Longrightarrow> memzero n buf = Some (zbuf n [])"
  by (simp add: zbuf_def memzero_all)

lemma poke_zbuf [mem]:
  assumes "off = length bs" "length bs + length xs \<le> n"
  shows "poke off xs (zbuf n bs) = Some (zbuf n (bs @ xs))"
  using assms by (simp add: zbuf_def poke_def)

lemma swap16_zbuf [mem]:
  "off = length bs \<Longrightarrow> swap16 off (zbuf n (bs @ le16 w)) = Some (zbuf n (bs @ le16 (htons w)))"
  unfolding zbuf_def using swap16_append [of bs off] by (simp add: le16_def htons_def)

lemma peek_zbuf [mem]:
  "get bs = Some (x, r) \<Longrightarrow> (\<And>s. get (bs @ s) = Some (x, r @ s)) \<Longrightarrow> peek get 0 (zbuf n bs) = Some x"
  by (simp add: zbuf_def peek_def)

lemma poke_zbuf_mid:
  assumes "length a = off" "length xs = length old"
  shows "poke off xs (zbuf n (a @ old @ b)) = Some (zbuf n (a @ xs @ b))"
  using assms poke_append [of xs old a off "b @ replicate (n - length (a @ old @ b)) 0"]
  by (simp add: zbuf_def)

lemma zbuf_pad: "length bs + k \<le> n \<Longrightarrow> zbuf n (bs @ replicate k 0) = zbuf n bs"
  by (simp add: zbuf_def flip: replicate_add)

lemma poke_zbuf_gap:
  assumes "length bs \<le> off" "off + length xs \<le> n"
  shows "poke off xs (zbuf n bs) = Some (zbuf n (bs @ replicate (off - length bs) 0 @ xs))"
proof -
  have "poke off xs (zbuf n (bs @ replicate (off - length bs) 0)) =
        Some (zbuf n ((bs @ replicate (off - length bs) 0) @ xs))"
    using assms by (intro poke_zbuf) auto
  then show ?thesis using assms by (simp add: zbuf_pad)
qed

text \<open>Symbolic access: an access past the first part of a buffer is an access to the rest.
  With these rules the simplifier runs a handler on a message given by its parts.\<close>

named_theorems access "rules that run buffer accesses on a buffer given by its parts"

lemma peek_skip [access]:
  "length a \<le> off \<Longrightarrow> peek get off (a @ r) = peek get (off - length a) r"
  by (auto simp: peek_def)

lemma peek_skip_Cons [access]: "0 < off \<Longrightarrow> peek get off (x # r) = peek get (off - 1) r"
  using peek_skip [of "[x]" off get r] by simp

lemma peek_here [access]:
  "peek get_u16 0 (le16 w @ r) = Some w" "peek get_u32 0 (le32 v @ r) = Some v"
  "peek get_u16 0 (le16 w) = Some w" "peek get_u32 0 (le32 v) = Some v"
  "peek get_u8 0 (x # r) = Some x"
  using get_u16_le16 [of w "[]"] get_u32_le32 [of v "[]"]
  by (simp_all add: peek_def)

lemma poke_skip:
  "length a \<le> off \<Longrightarrow> poke off xs (a @ r) = map_option ((@) a) (poke (off - length a) xs r)"
  by (auto simp: poke_def)

lemma swap16_skip [access]:
  assumes "length a \<le> off"
  shows "swap16 off (a @ r) = map_option ((@) a) (swap16 (off - length a) r)"
  using assms by (auto simp: swap16_def peek_skip poke_skip split: Option.bind_splits)

lemma swap16_skip_Cons [access]:
  "0 < off \<Longrightarrow> swap16 off (x # r) = map_option ((#) x) (swap16 (off - 1) r)"
  using swap16_skip [of "[x]" off r] by (simp add: option.map_comp comp_def cong: option.map_cong)

lemma swap16_here [access]: "swap16 0 (le16 w @ r) = Some (le16 (htons w) @ r)"
  "swap16 0 (le16 w) = Some (le16 (htons w))"
  using swap16_append [of "[]" 0 "ucast w" "ucast (drop_bit 8 w)" r]
    swap16_append [of "[]" 0 "ucast w" "ucast (drop_bit 8 w)" "[]"]
  by (simp_all add: le16_def htons_def)

lemma swap16_None_iff: "swap16 off buf = None \<longleftrightarrow> length buf < off + 2"
  by (auto simp: swap16_def peek_def poke_def split: Option.bind_splits)

lemma peek_None_iff:
  "peek get_u8 off buf = None \<longleftrightarrow> length buf < off + 1"
  "peek get_u16 off buf = None \<longleftrightarrow> length buf < off + 2"
  "peek get_u32 off buf = None \<longleftrightarrow> length buf < off + 4"
  by (auto simp: peek_def)

lemma peek_beyond [access]:
  "length buf < off + 2 \<Longrightarrow> peek get_u16 off buf = None"
  "length buf < off + 4 \<Longrightarrow> peek get_u32 off buf = None"
  by (simp_all add: peek_None_iff)

lemma swap16_length [mem]: "swap16 off buf = Some buf' \<Longrightarrow> length buf' = length buf"
  by (auto simp: swap16_def split: Option.bind_splits dest: poke_length)

section \<open>C strings\<close>

definition str_bytes :: "string \<Rightarrow> bytes" where
  "str_bytes s = map (\<lambda>c. word_of_nat (of_char c)) s"

definition bytes_str :: "bytes \<Rightarrow> string" where
  "bytes_str bs = map (\<lambda>b. char_of (unat b)) bs"

text \<open>A C string holds no terminator.\<close>

definition c_string :: "string \<Rightarrow> bool" where
  "c_string s \<longleftrightarrow> CHR 0x00 \<notin> set s"

text \<open>\<open>cstr_at\<close> reads the string that starts at the front of an object; the read
  runs off the object when no terminator is found.\<close>

definition cstr_at :: "bytes \<Rightarrow> string option" where
  "cstr_at bs = (if 0 \<in> set bs then Some (bytes_str (takeWhile (\<lambda>b. b \<noteq> 0) bs)) else None)"

text \<open>\<open>char_arr n s\<close> is an array of \<open>n\<close> characters that was cleared and then
  received the first characters of \<open>s\<close> (at most \<open>n\<close>).\<close>

definition char_arr :: "nat \<Rightarrow> string \<Rightarrow> bytes" where
  "char_arr n s = take n (str_bytes s @ replicate n 0)"

lemma length_str_bytes [simp]: "length (str_bytes s) = length s"
  by (simp add: str_bytes_def)

lemma length_char_arr [simp]: "length (char_arr n s) = n"
  by (simp add: char_arr_def)

lemma byte_of_char_inverse [simp]: "char_of (unat (word_of_nat (of_char c) :: byte)) = c"
proof -
  have "of_char c < (256::nat)" by (rule nat_of_char_less_256)
  then show ?thesis by (simp add: unat_of_nat)
qed

lemma bytes_str_bytes [simp]: "bytes_str (str_bytes s) = s"
  by (simp add: bytes_str_def str_bytes_def comp_def)

lemma byte_of_char_zero [simp]: "(word_of_nat (of_char c) :: byte) = 0 \<longleftrightarrow> c = CHR 0x00"
proof
  assume "(word_of_nat (of_char c) :: byte) = 0"
  then have "char_of (0::nat) = c" using byte_of_char_inverse [of c] by (simp only: unat_0)
  then show "c = CHR 0x00" by (simp add: char_of_def)
qed simp

lemma cstr_at_terminated [simp]:
  assumes "c_string s"
  shows "cstr_at (str_bytes s @ 0 # r) = Some s"
proof -
  have "\<forall>b \<in> set (str_bytes s). b \<noteq> 0"
    using assms by (auto simp: str_bytes_def c_string_def)
  then show ?thesis by (simp add: cstr_at_def takeWhile_append)
qed

lemma char_arr_short: "length s < n \<Longrightarrow> char_arr n s = str_bytes s @ 0 # replicate (n - length s - 1) 0"
  unfolding char_arr_def
  by (cases n) (auto simp: Suc_diff_le simp flip: replicate_Suc)

lemma zbuf_char_arr:
  assumes "length s < k" "length pre + k \<le> n"
  shows "zbuf n (pre @ str_bytes s @ [0]) = zbuf n (pre @ char_arr k s)"
proof -
  have "char_arr k s = str_bytes s @ [0] @ replicate (k - length s - 1) 0"
    using assms(1) by (simp add: char_arr_short)
  then show ?thesis
    using zbuf_pad [of "pre @ str_bytes s @ [0]" "k - length s - 1" n] assms by simp
qed

lemma cstr_at_char_arr [simp]:
  "c_string s \<Longrightarrow> length s < n \<Longrightarrow> cstr_at (char_arr n s) = Some s"
  by (simp add: char_arr_short)

text \<open>The conversions \<^verbatim>\<open>%d\<close> (of a value that is not negative) and \<^verbatim>\<open>%02x\<close>.\<close>

fun show_nat :: "nat \<Rightarrow> string" where
  "show_nat n = (if n < 10 then [''0123456789'' ! n] else show_nat (n div 10) @ [''0123456789'' ! (n mod 10)])"

declare show_nat.simps [simp del]

definition show_hex2 :: "byte \<Rightarrow> string" where
  "show_hex2 b = [''0123456789abcdef'' ! (unat b div 16), ''0123456789abcdef'' ! (unat b mod 16)]"

section \<open>Packed structures\<close>

text \<open>
  The interface of a packed C structure: its size, the values that fit its
  arrays, its memory image and the overlay that reads it from the front of a
  buffer.  Every structure of \<^verbatim>\<open>msg_format.h\<close> and \<^verbatim>\<open>mlacp_tlv.h\<close> is shown to provide
  it; the clients use \<open>store\<close> and \<open>load\<close> and the laws proved here.
\<close>

locale packed_layout =
  fixes size_of :: nat
    and fits :: "'a \<Rightarrow> bool"
    and image_of :: "'a \<Rightarrow> bytes"
    and overlay :: "bytes \<Rightarrow> ('a \<times> bytes) option"
  assumes image_length: "fits x \<Longrightarrow> length (image_of x) = size_of"
    and overlay_image: "fits x \<Longrightarrow> overlay (image_of x @ r) = Some (x, r)"
    and overlay_sound: "overlay bs = Some (x, r) \<Longrightarrow> fits x \<and> bs = image_of x @ r"
    and overlay_total: "size_of \<le> length bs \<Longrightarrow> overlay bs \<noteq> None"
begin

lemma overlay_None_iff: "overlay bs = None \<longleftrightarrow> length bs < size_of"
proof
  assume none: "overlay bs = None"
  show "length bs < size_of"
    using overlay_total [of bs] none by (meson not_less)
next
  assume short: "length bs < size_of"
  show "overlay bs = None"
  proof (rule ccontr)
    assume "overlay bs \<noteq> None"
    then obtain x r where xr: "overlay bs = Some (x, r)" by auto
    then have "fits x" "bs = image_of x @ r" using overlay_sound by auto
    then have "size_of \<le> length bs" using image_length by simp
    with short show False by simp
  qed
qed

lemma image_inj: "fits x \<Longrightarrow> fits y \<Longrightarrow> image_of x = image_of y \<Longrightarrow> x = y"
  using overlay_image [of x "[]"] overlay_image [of y "[]"] by simp

lemma peek_overlay_None_iff: "peek overlay off buf = None \<longleftrightarrow> length buf < off + size_of \<or> length buf < off"
  by (auto simp: peek_def overlay_None_iff)

lemma peek_image: "fits x \<Longrightarrow> length pre = off \<Longrightarrow> peek overlay off (pre @ image_of x @ r) = Some x"
  by (simp add: overlay_image)

lemma peek_fits: "peek overlay off buf = Some x \<Longrightarrow> fits x"
  by (auto simp: peek_def split: if_splits dest!: overlay_sound)

lemma poke_then_peek:
  assumes "fits x" "poke off (image_of x) buf = Some buf'"
  shows "peek overlay off buf' = Some x"
proof -
  have fit: "off + size_of \<le> length buf"
    and buf': "buf' = take off buf @ image_of x @ drop (off + size_of) buf"
    using assms image_length by (auto simp: poke_def split: if_splits)
  then have "length (take off buf) = off" by simp
  with peek_image [OF assms(1) this] buf' show ?thesis by simp
qed

lemma poke_defined: "fits x \<Longrightarrow> off + size_of \<le> length buf \<Longrightarrow>
  \<exists>buf'. poke off (image_of x) buf = Some buf' \<and> length buf' = length buf"
  by (simp add: poke_def image_length)

end

end
