(* ===== verification/Msg_Format.thy ===== *)
theory Msg_Format
  imports Prelude
begin

text \<open>
  \<^verbatim>\<open>include/msg_format.h\<close>: the message, TLV and status codes, the packed headers
  and TLVs of the ICCP control channel with their little-endian bit-fields, the
  debug names, and the log of sent messages that identifies what a NAK rejects.
  Every structure interprets \<open>packed_layout\<close>.
\<close>

section \<open>Codes\<close>

abbreviation (input) MAX_MSG_LOG_SIZE :: nat where "MAX_MSG_LOG_SIZE \<equiv> 128"
abbreviation (input) ETHER_ADDR_LEN :: nat where "ETHER_ADDR_LEN \<equiv> 6"
abbreviation (input) MAX_L_ICC_SENDER_NAME :: nat where "MAX_L_ICC_SENDER_NAME \<equiv> 80"
abbreviation (input) MSG_L_INCLUD_U_BIT_MSG_T_L_FIELDS :: nat where
  "MSG_L_INCLUD_U_BIT_MSG_T_L_FIELDS \<equiv> 4"

abbreviation (input) MSG_T_CAPABILITY :: "16 word" where "MSG_T_CAPABILITY \<equiv> 0x0202"
abbreviation (input) MSG_T_RG_CONNECT :: "16 word" where "MSG_T_RG_CONNECT \<equiv> 0x0700"
abbreviation (input) MSG_T_RG_DISCONNECT :: "16 word" where "MSG_T_RG_DISCONNECT \<equiv> 0x0701"
abbreviation (input) MSG_T_NOTIFICATION :: "16 word" where "MSG_T_NOTIFICATION \<equiv> 0x0702"
abbreviation (input) MSG_T_RG_APP_DATA :: "16 word" where "MSG_T_RG_APP_DATA \<equiv> 0x0703"
abbreviation (input) TLV_T_ICCP_CAPABILITY :: "16 word" where "TLV_T_ICCP_CAPABILITY \<equiv> 0x0700"
abbreviation (input) TLV_L_ICCP_CAPABILITY :: "16 word" where "TLV_L_ICCP_CAPABILITY \<equiv> 0x4"
abbreviation (input) TLV_T_ICC_SENDER_NAME :: "16 word" where "TLV_T_ICC_SENDER_NAME \<equiv> 0x0001"
abbreviation (input) TLV_T_NAK :: "16 word" where "TLV_T_NAK \<equiv> 0x0002"
abbreviation (input) TLV_T_REQUESTED_PROTOCOL_VER :: "16 word" where "TLV_T_REQUESTED_PROTOCOL_VER \<equiv> 0x0003"
abbreviation (input) TLV_T_DISCONNECT_CODE :: "16 word" where "TLV_T_DISCONNECT_CODE \<equiv> 0x0004"
abbreviation (input) TLV_L_DISCONNECT_CODE :: "16 word" where "TLV_L_DISCONNECT_CODE \<equiv> 0x4"
abbreviation (input) TLV_T_ICC_RG_ID :: "16 word" where "TLV_T_ICC_RG_ID \<equiv> 0x0005"
abbreviation (input) TLV_L_ICC_RG_ID :: "16 word" where "TLV_L_ICC_RG_ID \<equiv> 0x4"
abbreviation (input) TLV_T_MLACP_CONNECT :: "16 word" where "TLV_T_MLACP_CONNECT \<equiv> 0x0030"
abbreviation (input) TLV_T_MLACP_DISCONNECT :: "16 word" where "TLV_T_MLACP_DISCONNECT \<equiv> 0x0031"
abbreviation (input) TLV_T_MLACP_SYSTEM_CONFIG :: "16 word" where "TLV_T_MLACP_SYSTEM_CONFIG \<equiv> 0x0032"
abbreviation (input) TLV_T_MLACP_PORT_CONFIG :: "16 word" where "TLV_T_MLACP_PORT_CONFIG \<equiv> 0x0033"
abbreviation (input) TLV_T_MLACP_PORT_PRIORITY :: "16 word" where "TLV_T_MLACP_PORT_PRIORITY \<equiv> 0x0034"
abbreviation (input) TLV_T_MLACP_PORT_STATE :: "16 word" where "TLV_T_MLACP_PORT_STATE \<equiv> 0x0035"
abbreviation (input) TLV_T_MLACP_AGGREGATOR_CONFIG :: "16 word" where "TLV_T_MLACP_AGGREGATOR_CONFIG \<equiv> 0x0036"
abbreviation (input) TLV_T_MLACP_AGGREGATOR_STATE :: "16 word" where "TLV_T_MLACP_AGGREGATOR_STATE \<equiv> 0x0037"
abbreviation (input) TLV_T_MLACP_SYNC_REQUEST :: "16 word" where "TLV_T_MLACP_SYNC_REQUEST \<equiv> 0x0038"
abbreviation (input) TLV_T_MLACP_SYNC_DATA :: "16 word" where "TLV_T_MLACP_SYNC_DATA \<equiv> 0x0039"
abbreviation (input) TLV_T_MLACP_HEARTBEAT :: "16 word" where "TLV_T_MLACP_HEARTBEAT \<equiv> 0x003a"
abbreviation (input) TLV_T_MLACP_DISCONNECT_CAUSE :: "16 word" where "TLV_T_MLACP_DISCONNECT_CAUSE \<equiv> 0x003b"
abbreviation (input) TLV_T_MLACP_ORPHAN_PORT :: "16 word" where "TLV_T_MLACP_ORPHAN_PORT \<equiv> 0x1033"
abbreviation (input) TLV_T_MLACP_PORT_CHANNEL_INFO :: "16 word" where "TLV_T_MLACP_PORT_CHANNEL_INFO \<equiv> 0x1034"
abbreviation (input) TLV_T_MLACP_PEERLINK_INFO :: "16 word" where "TLV_T_MLACP_PEERLINK_INFO \<equiv> 0x1035"
abbreviation (input) TLV_T_MLACP_ARP_INFO :: "16 word" where "TLV_T_MLACP_ARP_INFO \<equiv> 0x1036"
abbreviation (input) TLV_T_MLACP_STP_INFO :: "16 word" where "TLV_T_MLACP_STP_INFO \<equiv> 0x1037"
abbreviation (input) TLV_T_MLACP_MAC_INFO :: "16 word" where "TLV_T_MLACP_MAC_INFO \<equiv> 0x1038"
abbreviation (input) TLV_T_MLACP_WARMBOOT_FLAG :: "16 word" where "TLV_T_MLACP_WARMBOOT_FLAG \<equiv> 0x1039"
abbreviation (input) TLV_T_MLACP_NDISC_INFO :: "16 word" where "TLV_T_MLACP_NDISC_INFO \<equiv> 0x103a"
abbreviation (input) TLV_T_MLACP_IF_UP_ACK :: "16 word" where "TLV_T_MLACP_IF_UP_ACK \<equiv> 0x103b"
abbreviation (input) TLV_T_MLACP_LIST_END :: "16 word" where "TLV_T_MLACP_LIST_END \<equiv> 0x104a"
abbreviation (input) STATUS_CODE_U_ICCP_RG :: "32 word" where
  "STATUS_CODE_U_ICCP_RG \<equiv> 0x00010001"
abbreviation (input) STATUS_CODE_ICCP_CONNECTION_COUNT_EXCEEDED :: "32 word" where
  "STATUS_CODE_ICCP_CONNECTION_COUNT_EXCEEDED \<equiv> 0x00010002"
abbreviation (input) STATUS_CODE_ICCP_APP_CONNECTION_COUNT_EXCEEDED :: "32 word" where
  "STATUS_CODE_ICCP_APP_CONNECTION_COUNT_EXCEEDED \<equiv> 0x00010003"
abbreviation (input) STATUS_CODE_ICCP_APP_NOT_IN_RG :: "32 word" where
  "STATUS_CODE_ICCP_APP_NOT_IN_RG \<equiv> 0x00010004"
abbreviation (input) STATUS_CODE_INCOMPATIBLE_ICCP_PROTOCOL_VER :: "32 word" where
  "STATUS_CODE_INCOMPATIBLE_ICCP_PROTOCOL_VER \<equiv> 0x00010005"
abbreviation (input) STATUS_CODE_ICCP_REJECTED_MSG :: "32 word" where
  "STATUS_CODE_ICCP_REJECTED_MSG \<equiv> 0x00010006"
abbreviation (input) STATUS_CODE_ICCP_ADMINISTRATIVELY_DISABLED :: "32 word" where
  "STATUS_CODE_ICCP_ADMINISTRATIVELY_DISABLED \<equiv> 0x00010007"
abbreviation (input) STATUS_CODE_ICCP_RG_REMOVED :: "32 word" where
  "STATUS_CODE_ICCP_RG_REMOVED \<equiv> 0x00010010"
abbreviation (input) STATUS_CODE_ICCP_APP_REMOVED_FROM_RG :: "32 word" where
  "STATUS_CODE_ICCP_APP_REMOVED_FROM_RG \<equiv> 0x00010011"

section \<open>Debug names\<close>

definition get_tlv_type_string :: "16 word \<Rightarrow> string" where
  "get_tlv_type_string t =
  (if t = TLV_T_ICCP_CAPABILITY then ''TLV_T_ICCP_CAPABILITY''
   else if t = TLV_T_ICC_SENDER_NAME then ''TLV_T_ICC_SENDER_NAME''
   else if t = TLV_T_NAK then ''TLV_T_NAK''
   else if t = TLV_T_REQUESTED_PROTOCOL_VER then ''TLV_T_REQUESTED_PROTOCOL_VER''
   else if t = TLV_T_DISCONNECT_CODE then ''TLV_T_DISCONNECT_CODE''
   else if t = TLV_T_ICC_RG_ID then ''TLV_T_ICC_RG_ID''
   else if t = TLV_T_MLACP_CONNECT then ''TLV_T_MLACP_CONNECT''
   else if t = TLV_T_MLACP_DISCONNECT then ''TLV_T_MLACP_DISCONNECT''
   else if t = TLV_T_MLACP_SYSTEM_CONFIG then ''TLV_T_MLACP_SYSTEM_CONFIG''
   else if t = TLV_T_MLACP_PORT_CONFIG then ''TLV_T_MLACP_PORT_CONFIG''
   else if t = TLV_T_MLACP_PORT_PRIORITY then ''TLV_T_MLACP_PORT_PRIORITY''
   else if t = TLV_T_MLACP_PORT_STATE then ''TLV_T_MLACP_PORT_STATE''
   else if t = TLV_T_MLACP_AGGREGATOR_CONFIG then ''TLV_T_MLACP_AGGREGATOR_CONFIG''
   else if t = TLV_T_MLACP_AGGREGATOR_STATE then ''TLV_T_MLACP_AGGREGATOR_STATE''
   else if t = TLV_T_MLACP_SYNC_REQUEST then ''TLV_T_MLACP_SYNC_REQUEST''
   else if t = TLV_T_MLACP_SYNC_DATA then ''TLV_T_MLACP_SYNC_DATA''
   else if t = TLV_T_MLACP_HEARTBEAT then ''TLV_T_MLACP_HEARTBEAT''
   else if t = TLV_T_MLACP_DISCONNECT_CAUSE then ''TLV_T_MLACP_DISCONNECT_CAUSE''
   else if t = TLV_T_MLACP_ORPHAN_PORT then ''TLV_T_MLACP_ORPHAN_PORT''
   else if t = TLV_T_MLACP_PORT_CHANNEL_INFO then ''TLV_T_MLACP_PORT_CHANNEL_INFO''
   else if t = TLV_T_MLACP_PEERLINK_INFO then ''TLV_T_MLACP_PEERLINK_INFO''
   else if t = TLV_T_MLACP_ARP_INFO then ''TLV_T_MLACP_ARP_INFO''
   else if t = TLV_T_MLACP_MAC_INFO then ''TLV_T_MLACP_MAC_INFO''
   else if t = TLV_T_MLACP_STP_INFO then ''TLV_T_MLACP_STP_INFO''
   else if t = TLV_T_MLACP_IF_UP_ACK then ''TLV_T_MLACP_IF_UP_ACK''
   else ''UNKNOWN'')"

definition get_status_string :: "32 word \<Rightarrow> string" where
  "get_status_string t =
  (if t = STATUS_CODE_U_ICCP_RG then ''Unknown ICCP RG''
   else if t = STATUS_CODE_ICCP_CONNECTION_COUNT_EXCEEDED then ''ICCP Connection Count Exceeded''
   else if t = STATUS_CODE_ICCP_APP_CONNECTION_COUNT_EXCEEDED then ''ICCP Application Connection Count Exceede''
   else if t = STATUS_CODE_ICCP_APP_NOT_IN_RG then ''ICCP Application not in RG''
   else if t = STATUS_CODE_INCOMPATIBLE_ICCP_PROTOCOL_VER then ''Incompatible ICCP Protocol Version''
   else if t = STATUS_CODE_ICCP_REJECTED_MSG then ''ICCP Rejected Message''
   else if t = STATUS_CODE_ICCP_ADMINISTRATIVELY_DISABLED then ''ICCP Administratively Disabled''
   else if t = STATUS_CODE_ICCP_RG_REMOVED then ''ICCP RG Removed''
   else if t = STATUS_CODE_ICCP_APP_REMOVED_FROM_RG then ''ICCP Application Removed from RG''
   else ''UNKNOWN'')"

section \<open>Bit-fields\<close>

text \<open>A 16-bit unit split 15/1 (\<^verbatim>\<open>LDPHdr\<close>, \<^verbatim>\<open>LDPICCPCapabilityTLV\<close>) and 14/1/1
  (\<^verbatim>\<open>ICCParameter\<close>), the low-order field first.\<close>

definition unit15 :: "15 word \<Rightarrow> 1 word \<Rightarrow> 16 word" where
  "unit15 t u = ucast t OR push_bit 15 (ucast u)"

definition unit14 :: "14 word \<Rightarrow> 1 word \<Rightarrow> 1 word \<Rightarrow> 16 word" where
  "unit14 t f u = ucast t OR push_bit 14 (ucast f) OR push_bit 15 (ucast u)"

lemma unit15_fields [simp]:
  "ucast (unit15 t u) = t" "ucast (drop_bit 15 (unit15 t u)) = u"
  unfolding unit15_def
  by (rule bit_word_eqI; auto simp: bit_simps dest: bit_imp_le_length)+

lemma unit15_split [simp]: "unit15 (ucast w) (ucast (drop_bit 15 w)) = w"
  unfolding unit15_def
  apply (rule bit_word_eqI)
  subgoal for n by (cases "n = 15") (auto simp: bit_simps)
  done

lemma unit14_fields [simp]:
  "ucast (unit14 t f u) = t" "ucast (drop_bit 14 (unit14 t f u)) = f"
  "ucast (drop_bit 15 (unit14 t f u)) = u"
  unfolding unit14_def
  by (rule bit_word_eqI; auto simp: bit_simps dest: bit_imp_le_length)+

lemma unit14_split [simp]:
  "unit14 (ucast w) (ucast (drop_bit 14 w)) (ucast (drop_bit 15 w)) = w"
  unfolding unit14_def
  apply (rule bit_word_eqI)
  subgoal for n by (cases "n = 14"; cases "n = 15") (auto simp: bit_simps)
  done

section \<open>Headers and TLVs\<close>

record LDPHdr =
  ldp_msg_type :: "15 word"
  ldp_u_bit :: "1 word"
  ldp_msg_len :: "16 word"
  ldp_msg_id :: "32 word"

definition sizeof_LDPHdr :: nat where "sizeof_LDPHdr = 8"

definition LDPHdr_image :: "LDPHdr \<Rightarrow> bytes" where
  "LDPHdr_image h =
     le16 (unit15 (ldp_msg_type h) (ldp_u_bit h)) @ le16 (ldp_msg_len h) @
     le32 (ldp_msg_id h)"

definition LDPHdr_overlay :: "bytes \<Rightarrow> (LDPHdr \<times> bytes) option" where
  "LDPHdr_overlay bs = do {
     (x0, bs) \<leftarrow> get_u16 bs; (x1, bs) \<leftarrow> get_u16 bs;
     (x2, bs) \<leftarrow> get_u32 bs;
     Some (\<lparr>ldp_msg_type = ucast x0, ldp_u_bit = ucast (drop_bit 15 x0),
            ldp_msg_len = x1, ldp_msg_id = x2\<rparr>, bs) }"

lemmas LDPHdr_layout = sizeof_LDPHdr_def LDPHdr_image_def LDPHdr_overlay_def

interpretation ldp: packed_layout sizeof_LDPHdr "\<lambda>_. True" LDPHdr_image LDPHdr_overlay
  by unfold_locales
    (auto simp: LDPHdr_layout wire split: Option.bind_splits)

record ICCRGIDTLV =
  rg_type :: "16 word"
  rg_len :: "16 word"
  icc_rg_id :: "32 word"

definition sizeof_ICCRGIDTLV :: nat where "sizeof_ICCRGIDTLV = 8"

definition ICCRGIDTLV_image :: "ICCRGIDTLV \<Rightarrow> bytes" where
  "ICCRGIDTLV_image h =
     le16 (rg_type h) @ le16 (rg_len h) @ le32 (icc_rg_id h)"

definition ICCRGIDTLV_overlay :: "bytes \<Rightarrow> (ICCRGIDTLV \<times> bytes) option" where
  "ICCRGIDTLV_overlay bs = do {
     (x0, bs) \<leftarrow> get_u16 bs; (x1, bs) \<leftarrow> get_u16 bs;
     (x2, bs) \<leftarrow> get_u32 bs;
     Some (\<lparr>rg_type = x0, rg_len = x1, icc_rg_id = x2\<rparr>, bs) }"

lemmas ICCRGIDTLV_layout = sizeof_ICCRGIDTLV_def ICCRGIDTLV_image_def ICCRGIDTLV_overlay_def

interpretation rgid: packed_layout sizeof_ICCRGIDTLV "\<lambda>_. True" ICCRGIDTLV_image ICCRGIDTLV_overlay
  by unfold_locales
    (auto simp: ICCRGIDTLV_layout wire split: Option.bind_splits)

record ICCHdr =
  ldp_hdr :: LDPHdr
  icc_rg_id_tlv :: ICCRGIDTLV

definition sizeof_ICCHdr :: nat where "sizeof_ICCHdr = 16"

definition ICCHdr_image :: "ICCHdr \<Rightarrow> bytes" where
  "ICCHdr_image h =
     LDPHdr_image (ldp_hdr h) @ ICCRGIDTLV_image (icc_rg_id_tlv h)"

definition ICCHdr_overlay :: "bytes \<Rightarrow> (ICCHdr \<times> bytes) option" where
  "ICCHdr_overlay bs = do {
     (x0, bs) \<leftarrow> LDPHdr_overlay bs;
     (x1, bs) \<leftarrow> ICCRGIDTLV_overlay bs;
     Some (\<lparr>ldp_hdr = x0, icc_rg_id_tlv = x1\<rparr>, bs) }"

lemmas ICCHdr_layout = sizeof_ICCHdr_def ICCHdr_image_def ICCHdr_overlay_def

interpretation icchdr: packed_layout sizeof_ICCHdr "\<lambda>_. True" ICCHdr_image ICCHdr_overlay
  by unfold_locales
    (auto simp: ICCHdr_layout LDPHdr_layout ICCRGIDTLV_layout wire split: Option.bind_splits)

record ICCParameter =
  ip_type :: "14 word"
  ip_f_bit :: "1 word"
  ip_u_bit :: "1 word"
  ip_len :: "16 word"

definition sizeof_ICCParameter :: nat where "sizeof_ICCParameter = 4"

definition ICCParameter_image :: "ICCParameter \<Rightarrow> bytes" where
  "ICCParameter_image h =
     le16 (unit14 (ip_type h) (ip_f_bit h) (ip_u_bit h)) @ le16 (ip_len h)"

definition ICCParameter_overlay :: "bytes \<Rightarrow> (ICCParameter \<times> bytes) option" where
  "ICCParameter_overlay bs = do {
     (x0, bs) \<leftarrow> get_u16 bs; (x1, bs) \<leftarrow> get_u16 bs;
     Some (\<lparr>ip_type = ucast x0, ip_f_bit = ucast (drop_bit 14 x0),
            ip_u_bit = ucast (drop_bit 15 x0), ip_len = x1\<rparr>, bs) }"

lemmas ICCParameter_layout = sizeof_ICCParameter_def ICCParameter_image_def ICCParameter_overlay_def

interpretation iccparam: packed_layout sizeof_ICCParameter "\<lambda>_. True" ICCParameter_image ICCParameter_overlay
  by unfold_locales
    (auto simp: ICCParameter_layout wire split: Option.bind_splits)

record DisconnectCodeTLV =
  dc_icc_parameter :: ICCParameter
  dc_iccp_status_code :: "32 word"

definition sizeof_DisconnectCodeTLV :: nat where "sizeof_DisconnectCodeTLV = 8"

definition DisconnectCodeTLV_image :: "DisconnectCodeTLV \<Rightarrow> bytes" where
  "DisconnectCodeTLV_image h =
     ICCParameter_image (dc_icc_parameter h) @ le32 (dc_iccp_status_code h)"

definition DisconnectCodeTLV_overlay :: "bytes \<Rightarrow> (DisconnectCodeTLV \<times> bytes) option" where
  "DisconnectCodeTLV_overlay bs = do {
     (x0, bs) \<leftarrow> ICCParameter_overlay bs; (x1, bs) \<leftarrow> get_u32 bs;
     Some (\<lparr>dc_icc_parameter = x0, dc_iccp_status_code = x1\<rparr>, bs) }"

lemmas DisconnectCodeTLV_layout = sizeof_DisconnectCodeTLV_def DisconnectCodeTLV_image_def DisconnectCodeTLV_overlay_def

interpretation disconn: packed_layout sizeof_DisconnectCodeTLV "\<lambda>_. True" DisconnectCodeTLV_image DisconnectCodeTLV_overlay
  by unfold_locales
    (auto simp: DisconnectCodeTLV_layout ICCParameter_layout wire split: Option.bind_splits)

record NAKTLV =
  nak_icc_parameter :: ICCParameter
  nak_iccp_status_code :: "32 word"
  nak_rejected_msg_id :: "32 word"

definition sizeof_NAKTLV :: nat where "sizeof_NAKTLV = 12"

definition NAKTLV_image :: "NAKTLV \<Rightarrow> bytes" where
  "NAKTLV_image h =
     ICCParameter_image (nak_icc_parameter h) @ le32 (nak_iccp_status_code h) @
     le32 (nak_rejected_msg_id h)"

definition NAKTLV_overlay :: "bytes \<Rightarrow> (NAKTLV \<times> bytes) option" where
  "NAKTLV_overlay bs = do {
     (x0, bs) \<leftarrow> ICCParameter_overlay bs; (x1, bs) \<leftarrow> get_u32 bs;
     (x2, bs) \<leftarrow> get_u32 bs;
     Some (\<lparr>nak_icc_parameter = x0, nak_iccp_status_code = x1, nak_rejected_msg_id = x2\<rparr>, bs) }"

lemmas NAKTLV_layout = sizeof_NAKTLV_def NAKTLV_image_def NAKTLV_overlay_def

interpretation naktlv: packed_layout sizeof_NAKTLV "\<lambda>_. True" NAKTLV_image NAKTLV_overlay
  by unfold_locales
    (auto simp: NAKTLV_layout ICCParameter_layout wire split: Option.bind_splits)

record LDPICCPCapabilityTLV =
  cap_icc_parameter :: ICCParameter
  cap_reserved :: "15 word"
  cap_s_bit :: "1 word"
  cap_major_ver :: "byte"
  cap_minior_ver :: "byte"

definition sizeof_LDPICCPCapabilityTLV :: nat where "sizeof_LDPICCPCapabilityTLV = 8"

definition LDPICCPCapabilityTLV_image :: "LDPICCPCapabilityTLV \<Rightarrow> bytes" where
  "LDPICCPCapabilityTLV_image h =
     ICCParameter_image (cap_icc_parameter h) @
     le16 (unit15 (cap_reserved h) (cap_s_bit h)) @ [cap_major_ver h] @
     [cap_minior_ver h]"

definition LDPICCPCapabilityTLV_overlay :: "bytes \<Rightarrow> (LDPICCPCapabilityTLV \<times> bytes) option" where
  "LDPICCPCapabilityTLV_overlay bs = do {
     (x0, bs) \<leftarrow> ICCParameter_overlay bs; (x1, bs) \<leftarrow> get_u16 bs;
     (x2, bs) \<leftarrow> get_u8 bs; (x3, bs) \<leftarrow> get_u8 bs;
     Some (\<lparr>cap_icc_parameter = x0, cap_reserved = ucast x1,
            cap_s_bit = ucast (drop_bit 15 x1), cap_major_ver = x2, cap_minior_ver = x3\<rparr>, bs) }"

lemmas LDPICCPCapabilityTLV_layout = sizeof_LDPICCPCapabilityTLV_def LDPICCPCapabilityTLV_image_def LDPICCPCapabilityTLV_overlay_def

interpretation capability: packed_layout sizeof_LDPICCPCapabilityTLV "\<lambda>_. True" LDPICCPCapabilityTLV_image LDPICCPCapabilityTLV_overlay
  by unfold_locales
    (auto simp: LDPICCPCapabilityTLV_layout ICCParameter_layout wire split: Option.bind_splits)

section \<open>Log of sent messages\<close>

record MsgTypeSet =
  log_msg_id :: "32 word"
  log_type :: "16 word"
  log_tlv :: "16 word"

record MsgLog =
  log_msg :: "MsgTypeSet list"
  end_index :: "32 word"

text \<open>The log after \<^verbatim>\<open>memset\<close>, and the shape every operation keeps.\<close>

definition MsgLog_zero :: MsgLog where
  "MsgLog_zero = \<lparr>log_msg = replicate MAX_MSG_LOG_SIZE \<lparr>log_msg_id = 0, log_type = 0, log_tlv = 0\<rparr>,
                  end_index = 0\<rparr>"

definition MsgLog_ok :: "MsgLog \<Rightarrow> bool" where
  "MsgLog_ok l \<longleftrightarrow> length (log_msg l) = MAX_MSG_LOG_SIZE \<and> unat (end_index l) < MAX_MSG_LOG_SIZE"

lemma MsgLog_zero_ok [simp]: "MsgLog_ok MsgLog_zero"
  by (simp add: MsgLog_ok_def MsgLog_zero_def)

end
