(* ===== verification/Mlacp_Tlv.thy ===== *)
theory Mlacp_Tlv
  imports Msg_Format
begin

text \<open>
  \<^verbatim>\<open>include/mlacp_tlv.h\<close>: the TLVs that two MC-LAG peers exchange once the
  ICCP session is up, the MAC table entry, and the codes carried in them.  The
  neighbour entries \<^verbatim>\<open>ARPMsg\<close> and \<^verbatim>\<open>NDISCMsg\<close> are not packed: their padding bytes
  are fields of the model, because they travel on the wire.
\<close>

section \<open>Codes\<close>

abbreviation (input) MAX_L_PORT_NAME :: nat where "MAX_L_PORT_NAME \<equiv> 20"
abbreviation (input) NEIGH_LOCAL :: byte where "NEIGH_LOCAL \<equiv> 1"
abbreviation (input) NEIGH_REMOTE :: byte where "NEIGH_REMOTE \<equiv> 2"
abbreviation (input) PORT_ISOLATION_STATE_DISABLE :: byte where "PORT_ISOLATION_STATE_DISABLE \<equiv> 0"
abbreviation (input) PORT_ISOLATION_STATE_ENABLE :: byte where "PORT_ISOLATION_STATE_ENABLE \<equiv> 1"
abbreviation (input) IF_UP_ACK_TYPE_PHY_PORT :: byte where "IF_UP_ACK_TYPE_PHY_PORT \<equiv> 0"
abbreviation (input) IF_UP_ACK_TYPE_PORT_CHANNEL :: byte where "IF_UP_ACK_TYPE_PORT_CHANNEL \<equiv> 1"
abbreviation (input) NEIGH_SYNC_LIF :: byte where "NEIGH_SYNC_LIF \<equiv> 0"
abbreviation (input) NEIGH_SYNC_ADD :: byte where "NEIGH_SYNC_ADD \<equiv> 1"
abbreviation (input) NEIGH_SYNC_DEL :: byte where "NEIGH_SYNC_DEL \<equiv> 2"
abbreviation (input) NEIGH_SYNC_FLAG_ACK :: byte where "NEIGH_SYNC_FLAG_ACK \<equiv> 1"
abbreviation (input) NEIGH_SYNC_FLAG_SELF_LL :: byte where "NEIGH_SYNC_FLAG_SELF_LL \<equiv> 2"
abbreviation (input) NEIGH_SYNC_FLAG_SELF_IP :: byte where "NEIGH_SYNC_FLAG_SELF_IP \<equiv> 4"
abbreviation (input) NEIGH_SYNC_CLIENT_IP :: byte where "NEIGH_SYNC_CLIENT_IP \<equiv> 1"
abbreviation (input) NEIGH_SYNC_SELF_IP :: byte where "NEIGH_SYNC_SELF_IP \<equiv> 2"
abbreviation (input) MAC_AGE_LOCAL :: byte where "MAC_AGE_LOCAL \<equiv> 1"
abbreviation (input) MAC_AGE_PEER :: byte where "MAC_AGE_PEER \<equiv> 2"
abbreviation (input) MAC_SYNC_ADD :: byte where "MAC_SYNC_ADD \<equiv> 1"
abbreviation (input) MAC_SYNC_DEL :: byte where "MAC_SYNC_DEL \<equiv> 2"
abbreviation (input) MAC_SYNC_ACK :: byte where "MAC_SYNC_ACK \<equiv> 4"
abbreviation (input) MAC_TYPE_STATIC :: byte where "MAC_TYPE_STATIC \<equiv> 1"
abbreviation (input) MAC_TYPE_DYNAMIC :: byte where "MAC_TYPE_DYNAMIC \<equiv> 2"
abbreviation (input) MAC_TYPE_DYNAMIC_LOCAL :: byte where "MAC_TYPE_DYNAMIC_LOCAL \<equiv> 3"

section \<open>TLVs\<close>

record mLACPSysConfigTLV =
  sc_icc_parameter :: ICCParameter
  sc_sys_id :: bytes
  sc_sys_priority :: "16 word"
  sc_node_id :: "byte"

definition sizeof_mLACPSysConfigTLV :: nat where "sizeof_mLACPSysConfigTLV = 13"

definition mLACPSysConfigTLV_fits :: "mLACPSysConfigTLV \<Rightarrow> bool" where
  "mLACPSysConfigTLV_fits h \<longleftrightarrow> length (sc_sys_id h) = 6"

definition mLACPSysConfigTLV_image :: "mLACPSysConfigTLV \<Rightarrow> bytes" where
  "mLACPSysConfigTLV_image h =
     ICCParameter_image (sc_icc_parameter h) @ sc_sys_id h @ le16 (sc_sys_priority h) @
     [sc_node_id h]"

definition mLACPSysConfigTLV_overlay :: "bytes \<Rightarrow> (mLACPSysConfigTLV \<times> bytes) option" where
  "mLACPSysConfigTLV_overlay bs = do {
     (x0, bs) \<leftarrow> ICCParameter_overlay bs; (x1, bs) \<leftarrow> get_arr 6 bs;
     (x2, bs) \<leftarrow> get_u16 bs; (x3, bs) \<leftarrow> get_u8 bs;
     Some (\<lparr>sc_icc_parameter = x0, sc_sys_id = x1, sc_sys_priority = x2,
            sc_node_id = x3\<rparr>, bs) }"

lemmas mLACPSysConfigTLV_layout = sizeof_mLACPSysConfigTLV_def mLACPSysConfigTLV_image_def mLACPSysConfigTLV_overlay_def mLACPSysConfigTLV_fits_def

interpretation sysconfig: packed_layout sizeof_mLACPSysConfigTLV "mLACPSysConfigTLV_fits" mLACPSysConfigTLV_image mLACPSysConfigTLV_overlay
  by unfold_locales
    (auto simp: mLACPSysConfigTLV_layout ICCParameter_layout wire split: Option.bind_splits)

record mLACPAggConfigTLV =
  ac_icc_parameter :: ICCParameter
  ac_ro_id :: bytes
  ac_agg_id :: "16 word"
  ac_mac_addr :: bytes
  ac_actor_key :: "16 word"
  ac_member_ports_priority :: "16 word"
  ac_flags :: "byte"
  ac_agg_name_len :: "byte"
  ac_agg_name :: bytes

definition sizeof_mLACPAggConfigTLV :: nat where "sizeof_mLACPAggConfigTLV = 46"

definition mLACPAggConfigTLV_fits :: "mLACPAggConfigTLV \<Rightarrow> bool" where
  "mLACPAggConfigTLV_fits h \<longleftrightarrow> length (ac_ro_id h) = 8 \<and> length (ac_mac_addr h) = 6 \<and> length (ac_agg_name h) = 20"

definition mLACPAggConfigTLV_image :: "mLACPAggConfigTLV \<Rightarrow> bytes" where
  "mLACPAggConfigTLV_image h =
     ICCParameter_image (ac_icc_parameter h) @ ac_ro_id h @ le16 (ac_agg_id h) @
     ac_mac_addr h @ le16 (ac_actor_key h) @ le16 (ac_member_ports_priority h) @
     [ac_flags h] @ [ac_agg_name_len h] @ ac_agg_name h"

definition mLACPAggConfigTLV_overlay :: "bytes \<Rightarrow> (mLACPAggConfigTLV \<times> bytes) option" where
  "mLACPAggConfigTLV_overlay bs = do {
     (x0, bs) \<leftarrow> ICCParameter_overlay bs; (x1, bs) \<leftarrow> get_arr 8 bs;
     (x2, bs) \<leftarrow> get_u16 bs; (x3, bs) \<leftarrow> get_arr 6 bs;
     (x4, bs) \<leftarrow> get_u16 bs; (x5, bs) \<leftarrow> get_u16 bs;
     (x6, bs) \<leftarrow> get_u8 bs; (x7, bs) \<leftarrow> get_u8 bs;
     (x8, bs) \<leftarrow> get_arr 20 bs;
     Some (\<lparr>ac_icc_parameter = x0, ac_ro_id = x1, ac_agg_id = x2, ac_mac_addr = x3,
            ac_actor_key = x4, ac_member_ports_priority = x5, ac_flags = x6,
            ac_agg_name_len = x7, ac_agg_name = x8\<rparr>, bs) }"

lemmas mLACPAggConfigTLV_layout = sizeof_mLACPAggConfigTLV_def mLACPAggConfigTLV_image_def mLACPAggConfigTLV_overlay_def mLACPAggConfigTLV_fits_def

interpretation aggconfig: packed_layout sizeof_mLACPAggConfigTLV "mLACPAggConfigTLV_fits" mLACPAggConfigTLV_image mLACPAggConfigTLV_overlay
  by unfold_locales
    (auto simp: mLACPAggConfigTLV_layout ICCParameter_layout wire split: Option.bind_splits)

record mLACPAggPortStateTLV =
  as_icc_parameter :: ICCParameter
  as_partner_sys_id :: bytes
  as_partner_sys_priority :: "16 word"
  as_partner_key :: "16 word"
  as_agg_id :: "16 word"
  as_actor_key :: "16 word"
  as_agg_state :: "byte"

definition sizeof_mLACPAggPortStateTLV :: nat where "sizeof_mLACPAggPortStateTLV = 19"

definition mLACPAggPortStateTLV_fits :: "mLACPAggPortStateTLV \<Rightarrow> bool" where
  "mLACPAggPortStateTLV_fits h \<longleftrightarrow> length (as_partner_sys_id h) = 6"

definition mLACPAggPortStateTLV_image :: "mLACPAggPortStateTLV \<Rightarrow> bytes" where
  "mLACPAggPortStateTLV_image h =
     ICCParameter_image (as_icc_parameter h) @ as_partner_sys_id h @
     le16 (as_partner_sys_priority h) @ le16 (as_partner_key h) @ le16 (as_agg_id h) @
     le16 (as_actor_key h) @ [as_agg_state h]"

definition mLACPAggPortStateTLV_overlay :: "bytes \<Rightarrow> (mLACPAggPortStateTLV \<times> bytes) option" where
  "mLACPAggPortStateTLV_overlay bs = do {
     (x0, bs) \<leftarrow> ICCParameter_overlay bs; (x1, bs) \<leftarrow> get_arr 6 bs;
     (x2, bs) \<leftarrow> get_u16 bs; (x3, bs) \<leftarrow> get_u16 bs;
     (x4, bs) \<leftarrow> get_u16 bs; (x5, bs) \<leftarrow> get_u16 bs;
     (x6, bs) \<leftarrow> get_u8 bs;
     Some (\<lparr>as_icc_parameter = x0, as_partner_sys_id = x1,
            as_partner_sys_priority = x2, as_partner_key = x3, as_agg_id = x4,
            as_actor_key = x5, as_agg_state = x6\<rparr>, bs) }"

lemmas mLACPAggPortStateTLV_layout = sizeof_mLACPAggPortStateTLV_def mLACPAggPortStateTLV_image_def mLACPAggPortStateTLV_overlay_def mLACPAggPortStateTLV_fits_def

interpretation aggstate: packed_layout sizeof_mLACPAggPortStateTLV "mLACPAggPortStateTLV_fits" mLACPAggPortStateTLV_image mLACPAggPortStateTLV_overlay
  by unfold_locales
    (auto simp: mLACPAggPortStateTLV_layout ICCParameter_layout wire split: Option.bind_splits)

record mLACPSyncReqTLV =
  sr_icc_parameter :: ICCParameter
  sr_req_num :: "16 word"
  sr_req_type :: "14 word"
  sr_s_bit :: "1 word"
  sr_c_bit :: "1 word"
  sr_port_num_agg_id :: "16 word"
  sr_actor_key :: "16 word"

definition sizeof_mLACPSyncReqTLV :: nat where "sizeof_mLACPSyncReqTLV = 12"

definition mLACPSyncReqTLV_image :: "mLACPSyncReqTLV \<Rightarrow> bytes" where
  "mLACPSyncReqTLV_image h =
     ICCParameter_image (sr_icc_parameter h) @ le16 (sr_req_num h) @
     le16 (unit14 (sr_req_type h) (sr_s_bit h) (sr_c_bit h)) @
     le16 (sr_port_num_agg_id h) @ le16 (sr_actor_key h)"

definition mLACPSyncReqTLV_overlay :: "bytes \<Rightarrow> (mLACPSyncReqTLV \<times> bytes) option" where
  "mLACPSyncReqTLV_overlay bs = do {
     (x0, bs) \<leftarrow> ICCParameter_overlay bs; (x1, bs) \<leftarrow> get_u16 bs;
     (x2, bs) \<leftarrow> get_u16 bs; (x3, bs) \<leftarrow> get_u16 bs;
     (x4, bs) \<leftarrow> get_u16 bs;
     Some (\<lparr>sr_icc_parameter = x0, sr_req_num = x1, sr_req_type = ucast x2,
            sr_s_bit = ucast (drop_bit 14 x2), sr_c_bit = ucast (drop_bit 15 x2),
            sr_port_num_agg_id = x3, sr_actor_key = x4\<rparr>, bs) }"

lemmas mLACPSyncReqTLV_layout = sizeof_mLACPSyncReqTLV_def mLACPSyncReqTLV_image_def mLACPSyncReqTLV_overlay_def

interpretation syncreq: packed_layout sizeof_mLACPSyncReqTLV "\<lambda>_. True" mLACPSyncReqTLV_image mLACPSyncReqTLV_overlay
  by unfold_locales
    (auto simp: mLACPSyncReqTLV_layout ICCParameter_layout wire split: Option.bind_splits)

record mLACPSyncDataTLV =
  sd_icc_parameter :: ICCParameter
  sd_req_num :: "16 word"
  sd_flags :: "16 word"

definition sizeof_mLACPSyncDataTLV :: nat where "sizeof_mLACPSyncDataTLV = 8"

definition mLACPSyncDataTLV_image :: "mLACPSyncDataTLV \<Rightarrow> bytes" where
  "mLACPSyncDataTLV_image h =
     ICCParameter_image (sd_icc_parameter h) @ le16 (sd_req_num h) @ le16 (sd_flags h)"

definition mLACPSyncDataTLV_overlay :: "bytes \<Rightarrow> (mLACPSyncDataTLV \<times> bytes) option" where
  "mLACPSyncDataTLV_overlay bs = do {
     (x0, bs) \<leftarrow> ICCParameter_overlay bs; (x1, bs) \<leftarrow> get_u16 bs;
     (x2, bs) \<leftarrow> get_u16 bs;
     Some (\<lparr>sd_icc_parameter = x0, sd_req_num = x1, sd_flags = x2\<rparr>, bs) }"

lemmas mLACPSyncDataTLV_layout = sizeof_mLACPSyncDataTLV_def mLACPSyncDataTLV_image_def mLACPSyncDataTLV_overlay_def

interpretation syncdata: packed_layout sizeof_mLACPSyncDataTLV "\<lambda>_. True" mLACPSyncDataTLV_image mLACPSyncDataTLV_overlay
  by unfold_locales
    (auto simp: mLACPSyncDataTLV_layout ICCParameter_layout wire split: Option.bind_splits)

record mLACPPortChannelInfoTLV =
  pc_icc_parameter :: ICCParameter
  pc_agg_id :: "16 word"
  pc_if_name :: bytes
  pc_if_name_len :: "byte"
  pc_l3_mode :: "byte"
  pc_ipv4_addr :: "32 word"
  pc_po_id :: "16 word"
  pc_num_of_vlan_id :: "16 word"

definition sizeof_mLACPPortChannelInfoTLV :: nat where "sizeof_mLACPPortChannelInfoTLV = 36"

definition mLACPPortChannelInfoTLV_fits :: "mLACPPortChannelInfoTLV \<Rightarrow> bool" where
  "mLACPPortChannelInfoTLV_fits h \<longleftrightarrow> length (pc_if_name h) = 20"

definition mLACPPortChannelInfoTLV_image :: "mLACPPortChannelInfoTLV \<Rightarrow> bytes" where
  "mLACPPortChannelInfoTLV_image h =
     ICCParameter_image (pc_icc_parameter h) @ le16 (pc_agg_id h) @ pc_if_name h @
     [pc_if_name_len h] @ [pc_l3_mode h] @ le32 (pc_ipv4_addr h) @ le16 (pc_po_id h) @
     le16 (pc_num_of_vlan_id h)"

definition mLACPPortChannelInfoTLV_overlay :: "bytes \<Rightarrow> (mLACPPortChannelInfoTLV \<times> bytes) option" where
  "mLACPPortChannelInfoTLV_overlay bs = do {
     (x0, bs) \<leftarrow> ICCParameter_overlay bs; (x1, bs) \<leftarrow> get_u16 bs;
     (x2, bs) \<leftarrow> get_arr 20 bs; (x3, bs) \<leftarrow> get_u8 bs;
     (x4, bs) \<leftarrow> get_u8 bs; (x5, bs) \<leftarrow> get_u32 bs;
     (x6, bs) \<leftarrow> get_u16 bs; (x7, bs) \<leftarrow> get_u16 bs;
     Some (\<lparr>pc_icc_parameter = x0, pc_agg_id = x1, pc_if_name = x2,
            pc_if_name_len = x3, pc_l3_mode = x4, pc_ipv4_addr = x5, pc_po_id = x6,
            pc_num_of_vlan_id = x7\<rparr>, bs) }"

lemmas mLACPPortChannelInfoTLV_layout = sizeof_mLACPPortChannelInfoTLV_def mLACPPortChannelInfoTLV_image_def mLACPPortChannelInfoTLV_overlay_def mLACPPortChannelInfoTLV_fits_def

interpretation pochinfo: packed_layout sizeof_mLACPPortChannelInfoTLV "mLACPPortChannelInfoTLV_fits" mLACPPortChannelInfoTLV_image mLACPPortChannelInfoTLV_overlay
  by unfold_locales
    (auto simp: mLACPPortChannelInfoTLV_layout ICCParameter_layout wire split: Option.bind_splits)

record mLACPPeerLinkInfoTLV =
  pl_icc_parameter :: ICCParameter
  pl_if_name :: bytes
  pl_port_type :: "byte"

definition sizeof_mLACPPeerLinkInfoTLV :: nat where "sizeof_mLACPPeerLinkInfoTLV = 25"

definition mLACPPeerLinkInfoTLV_fits :: "mLACPPeerLinkInfoTLV \<Rightarrow> bool" where
  "mLACPPeerLinkInfoTLV_fits h \<longleftrightarrow> length (pl_if_name h) = 20"

definition mLACPPeerLinkInfoTLV_image :: "mLACPPeerLinkInfoTLV \<Rightarrow> bytes" where
  "mLACPPeerLinkInfoTLV_image h =
     ICCParameter_image (pl_icc_parameter h) @ pl_if_name h @ [pl_port_type h]"

definition mLACPPeerLinkInfoTLV_overlay :: "bytes \<Rightarrow> (mLACPPeerLinkInfoTLV \<times> bytes) option" where
  "mLACPPeerLinkInfoTLV_overlay bs = do {
     (x0, bs) \<leftarrow> ICCParameter_overlay bs;
     (x1, bs) \<leftarrow> get_arr 20 bs; (x2, bs) \<leftarrow> get_u8 bs;
     Some (\<lparr>pl_icc_parameter = x0, pl_if_name = x1, pl_port_type = x2\<rparr>, bs) }"

lemmas mLACPPeerLinkInfoTLV_layout = sizeof_mLACPPeerLinkInfoTLV_def mLACPPeerLinkInfoTLV_image_def mLACPPeerLinkInfoTLV_overlay_def mLACPPeerLinkInfoTLV_fits_def

interpretation plinkinfo: packed_layout sizeof_mLACPPeerLinkInfoTLV "mLACPPeerLinkInfoTLV_fits" mLACPPeerLinkInfoTLV_image mLACPPeerLinkInfoTLV_overlay
  by unfold_locales
    (auto simp: mLACPPeerLinkInfoTLV_layout ICCParameter_layout wire split: Option.bind_splits)

record mLACPMACData =
  md_type :: "byte"
  md_mac_type :: "byte"
  md_mac_addr :: bytes
  md_vid :: "16 word"
  md_ifname :: bytes

definition sizeof_mLACPMACData :: nat where "sizeof_mLACPMACData = 30"

definition mLACPMACData_fits :: "mLACPMACData \<Rightarrow> bool" where
  "mLACPMACData_fits h \<longleftrightarrow> length (md_mac_addr h) = 6 \<and> length (md_ifname h) = 20"

definition mLACPMACData_image :: "mLACPMACData \<Rightarrow> bytes" where
  "mLACPMACData_image h =
     [md_type h] @ [md_mac_type h] @ md_mac_addr h @ le16 (md_vid h) @ md_ifname h"

definition mLACPMACData_overlay :: "bytes \<Rightarrow> (mLACPMACData \<times> bytes) option" where
  "mLACPMACData_overlay bs = do {
     (x0, bs) \<leftarrow> get_u8 bs; (x1, bs) \<leftarrow> get_u8 bs;
     (x2, bs) \<leftarrow> get_arr 6 bs; (x3, bs) \<leftarrow> get_u16 bs;
     (x4, bs) \<leftarrow> get_arr 20 bs;
     Some (\<lparr>md_type = x0, md_mac_type = x1, md_mac_addr = x2, md_vid = x3,
            md_ifname = x4\<rparr>, bs) }"

lemmas mLACPMACData_layout = sizeof_mLACPMACData_def mLACPMACData_image_def mLACPMACData_overlay_def mLACPMACData_fits_def

interpretation macdata: packed_layout sizeof_mLACPMACData "mLACPMACData_fits" mLACPMACData_image mLACPMACData_overlay
  by unfold_locales
    (auto simp: mLACPMACData_layout wire split: Option.bind_splits)

record mLACPMACInfoTLV =
  mi_icc_parameter :: ICCParameter
  mi_num_of_entry :: "16 word"

definition sizeof_mLACPMACInfoTLV :: nat where "sizeof_mLACPMACInfoTLV = 6"

definition mLACPMACInfoTLV_image :: "mLACPMACInfoTLV \<Rightarrow> bytes" where
  "mLACPMACInfoTLV_image h =
     ICCParameter_image (mi_icc_parameter h) @ le16 (mi_num_of_entry h)"

definition mLACPMACInfoTLV_overlay :: "bytes \<Rightarrow> (mLACPMACInfoTLV \<times> bytes) option" where
  "mLACPMACInfoTLV_overlay bs = do {
     (x0, bs) \<leftarrow> ICCParameter_overlay bs; (x1, bs) \<leftarrow> get_u16 bs;
     Some (\<lparr>mi_icc_parameter = x0, mi_num_of_entry = x1\<rparr>, bs) }"

lemmas mLACPMACInfoTLV_layout = sizeof_mLACPMACInfoTLV_def mLACPMACInfoTLV_image_def mLACPMACInfoTLV_overlay_def

interpretation macinfo: packed_layout sizeof_mLACPMACInfoTLV "\<lambda>_. True" mLACPMACInfoTLV_image mLACPMACInfoTLV_overlay
  by unfold_locales
    (auto simp: mLACPMACInfoTLV_layout ICCParameter_layout wire split: Option.bind_splits)

record ARPMsg =
  arp_op_type :: "byte"
  arp_flag :: "byte"
  arp_learn_flag :: "byte"
  arp_ifname :: bytes
  arp_pad :: "byte"
  arp_ipv4_addr :: "32 word"
  arp_mac_addr :: bytes
  arp_tail_pad :: "16 word"

definition sizeof_ARPMsg :: nat where "sizeof_ARPMsg = 36"

definition ARPMsg_fits :: "ARPMsg \<Rightarrow> bool" where
  "ARPMsg_fits h \<longleftrightarrow> length (arp_ifname h) = 20 \<and> length (arp_mac_addr h) = 6"

definition ARPMsg_image :: "ARPMsg \<Rightarrow> bytes" where
  "ARPMsg_image h =
     [arp_op_type h] @ [arp_flag h] @ [arp_learn_flag h] @ arp_ifname h @ [arp_pad h] @
     le32 (arp_ipv4_addr h) @ arp_mac_addr h @ le16 (arp_tail_pad h)"

definition ARPMsg_overlay :: "bytes \<Rightarrow> (ARPMsg \<times> bytes) option" where
  "ARPMsg_overlay bs = do {
     (x0, bs) \<leftarrow> get_u8 bs; (x1, bs) \<leftarrow> get_u8 bs;
     (x2, bs) \<leftarrow> get_u8 bs; (x3, bs) \<leftarrow> get_arr 20 bs;
     (x4, bs) \<leftarrow> get_u8 bs; (x5, bs) \<leftarrow> get_u32 bs;
     (x6, bs) \<leftarrow> get_arr 6 bs; (x7, bs) \<leftarrow> get_u16 bs;
     Some (\<lparr>arp_op_type = x0, arp_flag = x1, arp_learn_flag = x2, arp_ifname = x3,
            arp_pad = x4, arp_ipv4_addr = x5, arp_mac_addr = x6, arp_tail_pad = x7\<rparr>, bs) }"

lemmas ARPMsg_layout = sizeof_ARPMsg_def ARPMsg_image_def ARPMsg_overlay_def ARPMsg_fits_def

interpretation arpmsg: packed_layout sizeof_ARPMsg "ARPMsg_fits" ARPMsg_image ARPMsg_overlay
  by unfold_locales
    (auto simp: ARPMsg_layout wire split: Option.bind_splits)

record NDISCMsg =
  nd_op_type :: "byte"
  nd_flag :: "byte"
  nd_learn_flag :: "byte"
  nd_ifname :: bytes
  nd_pad :: "byte"
  nd_ipv6_addr :: bytes
  nd_mac_addr :: bytes
  nd_tail_pad :: "16 word"

definition sizeof_NDISCMsg :: nat where "sizeof_NDISCMsg = 48"

definition NDISCMsg_fits :: "NDISCMsg \<Rightarrow> bool" where
  "NDISCMsg_fits h \<longleftrightarrow> length (nd_ifname h) = 20 \<and> length (nd_ipv6_addr h) = 16 \<and> length (nd_mac_addr h) = 6"

definition NDISCMsg_image :: "NDISCMsg \<Rightarrow> bytes" where
  "NDISCMsg_image h =
     [nd_op_type h] @ [nd_flag h] @ [nd_learn_flag h] @ nd_ifname h @ [nd_pad h] @
     nd_ipv6_addr h @ nd_mac_addr h @ le16 (nd_tail_pad h)"

definition NDISCMsg_overlay :: "bytes \<Rightarrow> (NDISCMsg \<times> bytes) option" where
  "NDISCMsg_overlay bs = do {
     (x0, bs) \<leftarrow> get_u8 bs; (x1, bs) \<leftarrow> get_u8 bs;
     (x2, bs) \<leftarrow> get_u8 bs; (x3, bs) \<leftarrow> get_arr 20 bs;
     (x4, bs) \<leftarrow> get_u8 bs; (x5, bs) \<leftarrow> get_arr 16 bs;
     (x6, bs) \<leftarrow> get_arr 6 bs; (x7, bs) \<leftarrow> get_u16 bs;
     Some (\<lparr>nd_op_type = x0, nd_flag = x1, nd_learn_flag = x2, nd_ifname = x3,
            nd_pad = x4, nd_ipv6_addr = x5, nd_mac_addr = x6, nd_tail_pad = x7\<rparr>, bs) }"

lemmas NDISCMsg_layout = sizeof_NDISCMsg_def NDISCMsg_image_def NDISCMsg_overlay_def NDISCMsg_fits_def

interpretation ndiscmsg: packed_layout sizeof_NDISCMsg "NDISCMsg_fits" NDISCMsg_image NDISCMsg_overlay
  by unfold_locales
    (auto simp: NDISCMsg_layout wire split: Option.bind_splits)

record mLACPARPInfoTLV =
  ai_icc_parameter :: ICCParameter
  ai_num_of_entry :: "16 word"

definition sizeof_mLACPARPInfoTLV :: nat where "sizeof_mLACPARPInfoTLV = 6"

definition mLACPARPInfoTLV_image :: "mLACPARPInfoTLV \<Rightarrow> bytes" where
  "mLACPARPInfoTLV_image h =
     ICCParameter_image (ai_icc_parameter h) @ le16 (ai_num_of_entry h)"

definition mLACPARPInfoTLV_overlay :: "bytes \<Rightarrow> (mLACPARPInfoTLV \<times> bytes) option" where
  "mLACPARPInfoTLV_overlay bs = do {
     (x0, bs) \<leftarrow> ICCParameter_overlay bs; (x1, bs) \<leftarrow> get_u16 bs;
     Some (\<lparr>ai_icc_parameter = x0, ai_num_of_entry = x1\<rparr>, bs) }"

lemmas mLACPARPInfoTLV_layout = sizeof_mLACPARPInfoTLV_def mLACPARPInfoTLV_image_def mLACPARPInfoTLV_overlay_def

interpretation arpinfo: packed_layout sizeof_mLACPARPInfoTLV "\<lambda>_. True" mLACPARPInfoTLV_image mLACPARPInfoTLV_overlay
  by unfold_locales
    (auto simp: mLACPARPInfoTLV_layout ICCParameter_layout wire split: Option.bind_splits)

record mLACPNDISCInfoTLV =
  ni_icc_parameter :: ICCParameter
  ni_num_of_entry :: "16 word"

definition sizeof_mLACPNDISCInfoTLV :: nat where "sizeof_mLACPNDISCInfoTLV = 6"

definition mLACPNDISCInfoTLV_image :: "mLACPNDISCInfoTLV \<Rightarrow> bytes" where
  "mLACPNDISCInfoTLV_image h =
     ICCParameter_image (ni_icc_parameter h) @ le16 (ni_num_of_entry h)"

definition mLACPNDISCInfoTLV_overlay :: "bytes \<Rightarrow> (mLACPNDISCInfoTLV \<times> bytes) option" where
  "mLACPNDISCInfoTLV_overlay bs = do {
     (x0, bs) \<leftarrow> ICCParameter_overlay bs; (x1, bs) \<leftarrow> get_u16 bs;
     Some (\<lparr>ni_icc_parameter = x0, ni_num_of_entry = x1\<rparr>, bs) }"

lemmas mLACPNDISCInfoTLV_layout = sizeof_mLACPNDISCInfoTLV_def mLACPNDISCInfoTLV_image_def mLACPNDISCInfoTLV_overlay_def

interpretation ndiscinfo: packed_layout sizeof_mLACPNDISCInfoTLV "\<lambda>_. True" mLACPNDISCInfoTLV_image mLACPNDISCInfoTLV_overlay
  by unfold_locales
    (auto simp: mLACPNDISCInfoTLV_layout ICCParameter_layout wire split: Option.bind_splits)

record mLACPHeartbeatTLV =
  hb_icc_parameter :: ICCParameter
  hb_heartbeat :: "byte"

definition sizeof_mLACPHeartbeatTLV :: nat where "sizeof_mLACPHeartbeatTLV = 5"

definition mLACPHeartbeatTLV_image :: "mLACPHeartbeatTLV \<Rightarrow> bytes" where
  "mLACPHeartbeatTLV_image h =
     ICCParameter_image (hb_icc_parameter h) @ [hb_heartbeat h]"

definition mLACPHeartbeatTLV_overlay :: "bytes \<Rightarrow> (mLACPHeartbeatTLV \<times> bytes) option" where
  "mLACPHeartbeatTLV_overlay bs = do {
     (x0, bs) \<leftarrow> ICCParameter_overlay bs; (x1, bs) \<leftarrow> get_u8 bs;
     Some (\<lparr>hb_icc_parameter = x0, hb_heartbeat = x1\<rparr>, bs) }"

lemmas mLACPHeartbeatTLV_layout = sizeof_mLACPHeartbeatTLV_def mLACPHeartbeatTLV_image_def mLACPHeartbeatTLV_overlay_def

interpretation heartbeat: packed_layout sizeof_mLACPHeartbeatTLV "\<lambda>_. True" mLACPHeartbeatTLV_image mLACPHeartbeatTLV_overlay
  by unfold_locales
    (auto simp: mLACPHeartbeatTLV_layout ICCParameter_layout wire split: Option.bind_splits)

record mLACPWarmbootTLV =
  wb_icc_parameter :: ICCParameter
  wb_warmboot :: "byte"

definition sizeof_mLACPWarmbootTLV :: nat where "sizeof_mLACPWarmbootTLV = 5"

definition mLACPWarmbootTLV_image :: "mLACPWarmbootTLV \<Rightarrow> bytes" where
  "mLACPWarmbootTLV_image h =
     ICCParameter_image (wb_icc_parameter h) @ [wb_warmboot h]"

definition mLACPWarmbootTLV_overlay :: "bytes \<Rightarrow> (mLACPWarmbootTLV \<times> bytes) option" where
  "mLACPWarmbootTLV_overlay bs = do {
     (x0, bs) \<leftarrow> ICCParameter_overlay bs; (x1, bs) \<leftarrow> get_u8 bs;
     Some (\<lparr>wb_icc_parameter = x0, wb_warmboot = x1\<rparr>, bs) }"

lemmas mLACPWarmbootTLV_layout = sizeof_mLACPWarmbootTLV_def mLACPWarmbootTLV_image_def mLACPWarmbootTLV_overlay_def

interpretation warmboot: packed_layout sizeof_mLACPWarmbootTLV "\<lambda>_. True" mLACPWarmbootTLV_image mLACPWarmbootTLV_overlay
  by unfold_locales
    (auto simp: mLACPWarmbootTLV_layout ICCParameter_layout wire split: Option.bind_splits)

record mLACPIfUpAckTLV =
  ua_icc_parameter :: ICCParameter
  ua_if_type :: "byte"
  ua_port_isolation_state :: "byte"
  ua_if_id :: "16 word"

definition sizeof_mLACPIfUpAckTLV :: nat where "sizeof_mLACPIfUpAckTLV = 8"

definition mLACPIfUpAckTLV_image :: "mLACPIfUpAckTLV \<Rightarrow> bytes" where
  "mLACPIfUpAckTLV_image h =
     ICCParameter_image (ua_icc_parameter h) @ [ua_if_type h] @
     [ua_port_isolation_state h] @ le16 (ua_if_id h)"

definition mLACPIfUpAckTLV_overlay :: "bytes \<Rightarrow> (mLACPIfUpAckTLV \<times> bytes) option" where
  "mLACPIfUpAckTLV_overlay bs = do {
     (x0, bs) \<leftarrow> ICCParameter_overlay bs; (x1, bs) \<leftarrow> get_u8 bs;
     (x2, bs) \<leftarrow> get_u8 bs; (x3, bs) \<leftarrow> get_u16 bs;
     Some (\<lparr>ua_icc_parameter = x0, ua_if_type = x1, ua_port_isolation_state = x2,
            ua_if_id = x3\<rparr>, bs) }"

lemmas mLACPIfUpAckTLV_layout = sizeof_mLACPIfUpAckTLV_def mLACPIfUpAckTLV_image_def mLACPIfUpAckTLV_overlay_def

interpretation ifupack: packed_layout sizeof_mLACPIfUpAckTLV "\<lambda>_. True" mLACPIfUpAckTLV_image mLACPIfUpAckTLV_overlay
  by unfold_locales
    (auto simp: mLACPIfUpAckTLV_layout ICCParameter_layout wire split: Option.bind_splits)

section \<open>MAC table entries\<close>

text \<open>The links of the red-black tree and of the send queue are not fields: the
  tree and the queue are lists of entry addresses in the state of the peer
  session.\<close>

record MACMsg =
  mac_vid :: "16 word"
  mac_addr :: bytes
  mac_op_type :: byte
  mac_fdb_type :: byte
  mac_ifname :: string
  mac_origin_ifname :: string
  mac_age_flag :: byte
  mac_pending_local_del :: byte
  mac_add_to_syncd :: byte

end
