(* ===== verification/Rb_Table.thy ===== *)
theory Rb_Table
  imports Prelude
begin

text \<open>
  The ordered trees of the daemon (\<^verbatim>\<open>RB_FIND\<close>, \<^verbatim>\<open>RB_INSERT\<close>, \<^verbatim>\<open>RB_REMOVE\<close>,
  \<^verbatim>\<open>RB_FOREACH\<close> of \<^verbatim>\<open>openbsd_tree.h\<close>) as the sequence of nodes an in-order
  traversal visits, strictly increasing in the key the comparison function
  reads.  The locale states the contract the clients rely on.  That the trees of
  \<^verbatim>\<open>openbsd_tree.c\<close> behave like these sequences is shown in \<open>Rb_Insert\<close>, \<open>Rb_Remove\<close> and \<open>Rb_Walk\<close>.
\<close>

definition rb_find :: "('a \<Rightarrow> 'k::linorder) \<Rightarrow> 'k \<Rightarrow> 'a list \<Rightarrow> 'a option" where
  "rb_find key k t = find (\<lambda>x. key x = k) t"

text \<open>\<^verbatim>\<open>RB_INSERT\<close> leaves the tree alone when the key is present.\<close>

fun rb_insert :: "('a \<Rightarrow> 'k::linorder) \<Rightarrow> 'a \<Rightarrow> 'a list \<Rightarrow> 'a list" where
  "rb_insert key x [] = [x]"
| "rb_insert key x (y # t) =
     (if key x < key y then x # y # t
      else if key x = key y then y # t
      else y # rb_insert key x t)"

definition rb_remove :: "('a \<Rightarrow> 'k::linorder) \<Rightarrow> 'k \<Rightarrow> 'a list \<Rightarrow> 'a list" where
  "rb_remove key k t = filter (\<lambda>x. key x \<noteq> k) t"

definition rb_sorted :: "('a \<Rightarrow> 'k::linorder) \<Rightarrow> 'a list \<Rightarrow> bool" where
  "rb_sorted key t \<longleftrightarrow> sorted_wrt (\<lambda>x y. key x < key y) t"

text \<open>An assignment through the pointer \<^verbatim>\<open>RB_FIND\<close> returned.\<close>

definition rb_modify :: "('a \<Rightarrow> 'k::linorder) \<Rightarrow> 'k \<Rightarrow> ('a \<Rightarrow> 'a) \<Rightarrow> 'a list \<Rightarrow> 'a list" where
  "rb_modify key k f t = map (\<lambda>x. if key x = k then f x else x) t"

locale ordered_table =
  fixes key :: "'a \<Rightarrow> 'k::linorder"
    and lookup :: "'k \<Rightarrow> 't \<Rightarrow> 'a option"
    and insert_new :: "'a \<Rightarrow> 't \<Rightarrow> 't"
    and remove :: "'k \<Rightarrow> 't \<Rightarrow> 't"
    and nodes :: "'t \<Rightarrow> 'a set"
    and ok :: "'t \<Rightarrow> bool"
  assumes ok_insert: "ok t \<Longrightarrow> ok (insert_new x t)"
    and ok_remove: "ok t \<Longrightarrow> ok (remove k t)"
    and nodes_insert: "ok t \<Longrightarrow>
      nodes (insert_new x t) = (if lookup (key x) t = None then insert x (nodes t) else nodes t)"
    and nodes_remove: "nodes (remove k t) = {x \<in> nodes t. key x \<noteq> k}"
    and lookup_Some: "ok t \<Longrightarrow> lookup k t = Some x \<longleftrightarrow> x \<in> nodes t \<and> key x = k"
begin

lemma lookup_None: "ok t \<Longrightarrow> lookup k t = None \<longleftrightarrow> k \<notin> key ` nodes t"
  using lookup_Some by (metis image_iff not_Some_eq)

lemma key_unique: "ok t \<Longrightarrow> x \<in> nodes t \<Longrightarrow> y \<in> nodes t \<Longrightarrow> key x = key y \<Longrightarrow> x = y"
  using lookup_Some by (metis option.inject)

lemma lookup_insert_same:
  "ok t \<Longrightarrow> lookup (key x) t = None \<Longrightarrow> lookup (key x) (insert_new x t) = Some x"
  by (simp add: lookup_Some ok_insert nodes_insert)

lemma lookup_insert_other:
  assumes "ok t" "k \<noteq> key x" shows "lookup k (insert_new x t) = lookup k t"
proof -
  have "lookup k (insert_new x t) = Some y \<longleftrightarrow> lookup k t = Some y" for y
    using assms by (auto simp: lookup_Some ok_insert nodes_insert)
  then show ?thesis by (metis option.exhaust)
qed

lemma lookup_remove_same: "ok t \<Longrightarrow> lookup k (remove k t) = None"
  by (auto simp: lookup_None ok_remove nodes_remove)

lemma lookup_remove_other:
  assumes "ok t" "k \<noteq> k'" shows "lookup k (remove k' t) = lookup k t"
proof -
  have "lookup k (remove k' t) = Some y \<longleftrightarrow> lookup k t = Some y" for y
    using assms by (auto simp: lookup_Some ok_remove nodes_remove)
  then show ?thesis by (metis option.exhaust)
qed

lemma remove_insert_keys:
  "ok t \<Longrightarrow> key ` nodes (insert_new x t) = insert (key x) (key ` nodes t)"
  using lookup_None [of t "key x"] by (auto simp: nodes_insert)

end

lemma rb_insert_set:
  "rb_sorted key t \<Longrightarrow>
   set (rb_insert key x t) = (if rb_find key (key x) t = None then insert x (set t) else set t)"
proof (induction t)
  case (Cons y t)
  have later: "\<forall>z \<in> set t. key y < key z" and sorted: "rb_sorted key t"
    using Cons.prems by (simp_all add: rb_sorted_def)
  show ?case
  proof (cases rule: linorder_cases [of "key x" "key y"])
    case less
    with later have "rb_find key (key x) (y # t) = None"
      by (auto simp: rb_find_def find_None_iff)
    with less show ?thesis by auto
  next
    case equal
    then show ?thesis by (simp add: rb_find_def)
  next
    case greater
    then show ?thesis using Cons.IH [OF sorted] by (auto simp: rb_find_def)
  qed
qed (simp add: rb_find_def)

lemma rb_insert_sorted: "rb_sorted key t \<Longrightarrow> rb_sorted key (rb_insert key x t)"
proof (induction t)
  case (Cons y t)
  then have "set (rb_insert key x t) \<subseteq> insert x (set t)"
    by (subst rb_insert_set) (auto simp: rb_sorted_def)
  with Cons show ?case by (fastforce simp: rb_sorted_def)
qed (simp add: rb_sorted_def)

lemma rb_find_Some_iff:
  "rb_sorted key t \<Longrightarrow> rb_find key k t = Some x \<longleftrightarrow> x \<in> set t \<and> key x = k"
  by (induction t) (auto simp: rb_find_def rb_sorted_def)

lemma rb_remove_sorted: "rb_sorted key t \<Longrightarrow> rb_sorted key (rb_remove key k t)"
  by (simp add: rb_sorted_def rb_remove_def sorted_wrt_filter)

interpretation rb: ordered_table key "rb_find key" "rb_insert key" "rb_remove key" set "rb_sorted key"
  for key :: "'a \<Rightarrow> 'k::linorder"
  by unfold_locales
    (simp_all add: rb_insert_set rb_insert_sorted rb_find_Some_iff rb_remove_sorted,
      auto simp: rb_remove_def)

lemma rb_sorted_keys: "rb_sorted key t \<longleftrightarrow> sorted_wrt (<) (map key t)"
  by (simp add: rb_sorted_def sorted_wrt_map)

lemma rb_modify_keys: "(\<And>x. key (f x) = key x) \<Longrightarrow> map key (rb_modify key k f t) = map key t"
  by (auto simp: rb_modify_def)

lemma rb_modify_sorted: "(\<And>x. key (f x) = key x) \<Longrightarrow> rb_sorted key (rb_modify key k f t) = rb_sorted key t"
  by (simp add: rb_sorted_keys rb_modify_keys)

lemma rb_insert_length:
  "rb_find key (key x) t = None \<Longrightarrow> length (rb_insert key x t) = Suc (length t)"
  by (induction t) (auto simp: rb_find_def split: if_splits)

lemma rb_remove_length:
  "rb_sorted key t \<Longrightarrow> rb_find key k t \<noteq> None \<Longrightarrow> Suc (length (rb_remove key k t)) = length t"
proof (induction t)
  case (Cons y t)
  have "key y = k \<Longrightarrow> filter (\<lambda>x. key x \<noteq> k) t = t"
    using Cons.prems by (auto simp: rb_sorted_def filter_id_conv)
  with Cons show ?case by (auto simp: rb_find_def rb_remove_def rb_sorted_def split: if_splits)
qed (simp add: rb_find_def)

end
