(* ===== verification/Iccp_State.thy ===== *)
theory Iccp_State
  imports Mlacp_Tlv Rb_Table
begin

text \<open>
  The state of the daemon: the structures of \<^verbatim>\<open>port.h\<close>, \<^verbatim>\<open>mlacp_fsm.h\<close>,
  \<^verbatim>\<open>app_csm.h\<close>, \<^verbatim>\<open>iccp_csm.h\<close> and \<^verbatim>\<open>system.h\<close> as records, their enumerations as
  datatypes, and the debug counters.

  Objects that several lists and pointers share live in a heap of the state and
  are named by their address (a \<open>nat\<close>): local interfaces and peer sessions in
  \<open>System\<close>, MAC entries in \<open>mLACP\<close>.  Objects with one owner (messages, VLAN
  nodes, peer interfaces) are stored by value in their list.  Locks, event
  handles and log text are left out.

  \<open>Env\<close> holds what the process shares with its surroundings: the global message
  identifier \<^verbatim>\<open>ICCP_MSG_ID\<close>, the results the kernel will return for the coming
  \<^verbatim>\<open>write\<close> calls, and the bytes handed to it so far.
\<close>

section \<open>Interfaces\<close>

abbreviation (input) PORT_STATE_UP :: byte where "PORT_STATE_UP \<equiv> 0x00"
abbreviation (input) PORT_STATE_DOWN :: byte where "PORT_STATE_DOWN \<equiv> 0x01"
abbreviation (input) PORT_STATE_ADMIN_DOWN :: byte where "PORT_STATE_ADMIN_DOWN \<equiv> 0x02"
abbreviation (input) PORT_STATE_TEST :: byte where "PORT_STATE_TEST \<equiv> 0x03"

abbreviation (input) IF_T_UNKNOW :: int where "IF_T_UNKNOW \<equiv> -1"
abbreviation (input) IF_T_PORT :: int where "IF_T_PORT \<equiv> 0"
abbreviation (input) IF_T_PORT_CHANNEL :: int where "IF_T_PORT_CHANNEL \<equiv> 1"
abbreviation (input) IF_T_VLAN :: int where "IF_T_VLAN \<equiv> 2"
abbreviation (input) IF_T_VXLAN :: int where "IF_T_VXLAN \<equiv> 3"
abbreviation (input) IF_T_BRIDGE :: int where "IF_T_BRIDGE \<equiv> 4"

abbreviation (input) MCLAG_ERROR :: int where "MCLAG_ERROR \<equiv> -1"
abbreviation (input) MCLAG_ERROR_INVALID_TLV :: int where "MCLAG_ERROR_INVALID_TLV \<equiv> -2"

record VLAN_ID =
  vid :: "16 word"
  vlan_removed :: "16 word"
  vlan_itf :: "nat option"

datatype MLACP_APP_STATE =
    MLACP_STATE_INIT
  | MLACP_STATE_STAGE1
  | MLACP_STATE_STAGE2
  | MLACP_STATE_EXCHANGE
  | MLACP_STATE_ERROR

datatype MLACP_SYNC_STATE =
    MLACP_SYNC_SYSCONF
  | MLACP_SYNC_AGGCONF
  | MLACP_SYNC_AGGSTATE
  | MLACP_SYNC_AGGINFO
  | MLACP_SYNC_PEERLINKINFO
  | MLACP_SYNC_ARP_INFO
  | MLACP_SYNC_NDISC_INFO
  | MLACP_SYNC_DONE

record PeerInterface =
  pif_ifindex :: int
  pif_type :: int
  pif_name :: string
  pif_mac_addr :: bytes
  pif_state :: byte
  pif_ipv4_addr :: "32 word"
  pif_l3_mode :: byte
  pif_is_peer_link :: byte
  pif_po_id :: int
  pif_po_active :: byte
  pif_csm :: "nat option"
  pif_vlan_tree :: "VLAN_ID list"

record LocalInterface =
  lif_ifindex :: int
  lif_type :: int
  lif_name :: string
  lif_mac_addr :: bytes
  lif_mac_addr_ori :: bytes
  lif_state :: byte
  lif_ipv4_addr :: "32 word"
  lif_prefixlen :: byte
  lif_ipv6_addr :: "32 word list"
  lif_prefixlen_v6 :: byte
  lif_ipv6_ll_addr :: "32 word list"
  lif_ll_prefixlen_v6 :: byte
  lif_l3_mode :: byte
  lif_l3_mac_addr :: bytes
  lif_is_peer_link :: byte
  lif_portchannel_member_buf :: string
  lif_is_arp_accept :: byte
  lif_po_id :: int
  lif_po_active :: byte
  lif_mlacp_state :: MLACP_APP_STATE
  lif_isolate_to_peer_link :: byte
  lif_po_down_time :: int
  lif_csm :: "nat option"
  lif_changed :: byte
  lif_port_config_sync :: byte
  lif_is_traffic_disable :: bool
  lif_is_l3_proto_enabled :: bool
  lif_vlan_count :: "32 word"
  lif_master_ifindex :: "32 word"
  lif_vlan_tree :: "VLAN_ID list"

section \<open>mLACP application\<close>

record Remote_System =
  rs_system_id :: bytes
  rs_system_priority :: "16 word"
  rs_node_id :: "32 word"

text \<open>Debug counter indices; \<^verbatim>\<open>ICCP_DBG_CNTR_MSG_MAX\<close> stands for "not counted".\<close>

abbreviation (input) ICCP_DBG_CNTR_MSG_SYS_CONFIG :: nat where "ICCP_DBG_CNTR_MSG_SYS_CONFIG \<equiv> 0"
abbreviation (input) ICCP_DBG_CNTR_MSG_AGGR_CONFIG :: nat where "ICCP_DBG_CNTR_MSG_AGGR_CONFIG \<equiv> 1"
abbreviation (input) ICCP_DBG_CNTR_MSG_AGGR_STATE :: nat where "ICCP_DBG_CNTR_MSG_AGGR_STATE \<equiv> 2"
abbreviation (input) ICCP_DBG_CNTR_MSG_MAC_INFO :: nat where "ICCP_DBG_CNTR_MSG_MAC_INFO \<equiv> 3"
abbreviation (input) ICCP_DBG_CNTR_MSG_ARP_INFO :: nat where "ICCP_DBG_CNTR_MSG_ARP_INFO \<equiv> 4"
abbreviation (input) ICCP_DBG_CNTR_MSG_L2MC_INFO :: nat where "ICCP_DBG_CNTR_MSG_L2MC_INFO \<equiv> 5"
abbreviation (input) ICCP_DBG_CNTR_MSG_PORTCHANNEL_INFO :: nat where "ICCP_DBG_CNTR_MSG_PORTCHANNEL_INFO \<equiv> 6"
abbreviation (input) ICCP_DBG_CNTR_MSG_PEER_LINK_INFO :: nat where "ICCP_DBG_CNTR_MSG_PEER_LINK_INFO \<equiv> 7"
abbreviation (input) ICCP_DBG_CNTR_MSG_HEART_BEAT :: nat where "ICCP_DBG_CNTR_MSG_HEART_BEAT \<equiv> 8"
abbreviation (input) ICCP_DBG_CNTR_MSG_NAK :: nat where "ICCP_DBG_CNTR_MSG_NAK \<equiv> 9"
abbreviation (input) ICCP_DBG_CNTR_MSG_SYNC_DATA :: nat where "ICCP_DBG_CNTR_MSG_SYNC_DATA \<equiv> 10"
abbreviation (input) ICCP_DBG_CNTR_MSG_SYNC_REQ :: nat where "ICCP_DBG_CNTR_MSG_SYNC_REQ \<equiv> 11"
abbreviation (input) ICCP_DBG_CNTR_MSG_WARM_BOOT :: nat where "ICCP_DBG_CNTR_MSG_WARM_BOOT \<equiv> 12"
abbreviation (input) ICCP_DBG_CNTR_MSG_IF_UP_ACK :: nat where "ICCP_DBG_CNTR_MSG_IF_UP_ACK \<equiv> 13"
abbreviation (input) ICCP_DBG_CNTR_MSG_MAX :: nat where "ICCP_DBG_CNTR_MSG_MAX \<equiv> 29"
abbreviation (input) ICCP_DBG_CNTR_DIR_TX :: nat where "ICCP_DBG_CNTR_DIR_TX \<equiv> 0"
abbreviation (input) ICCP_DBG_CNTR_DIR_RX :: nat where "ICCP_DBG_CNTR_DIR_RX \<equiv> 1"
abbreviation (input) ICCP_DBG_CNTR_STS_OK :: nat where "ICCP_DBG_CNTR_STS_OK \<equiv> 0"
abbreviation (input) ICCP_DBG_CNTR_STS_ERR :: nat where "ICCP_DBG_CNTR_STS_ERR \<equiv> 1"
abbreviation (input) ICCP_DBG_CNTR_STS_MAX :: nat where "ICCP_DBG_CNTR_STS_MAX \<equiv> 2"

definition mlacp_fsm_iccp_to_dbg_msg_type :: "16 word \<Rightarrow> nat" where
  "mlacp_fsm_iccp_to_dbg_msg_type tlv_type =
     (if tlv_type = TLV_T_MLACP_SYSTEM_CONFIG then ICCP_DBG_CNTR_MSG_SYS_CONFIG
     else if tlv_type = TLV_T_MLACP_AGGREGATOR_CONFIG then ICCP_DBG_CNTR_MSG_AGGR_CONFIG
     else if tlv_type = TLV_T_MLACP_AGGREGATOR_STATE then ICCP_DBG_CNTR_MSG_AGGR_STATE
     else if tlv_type = TLV_T_MLACP_SYNC_REQUEST then ICCP_DBG_CNTR_MSG_SYNC_REQ
     else if tlv_type = TLV_T_MLACP_SYNC_DATA then ICCP_DBG_CNTR_MSG_SYNC_DATA
     else if tlv_type = TLV_T_MLACP_HEARTBEAT then ICCP_DBG_CNTR_MSG_HEART_BEAT
     else if tlv_type = TLV_T_MLACP_PORT_CHANNEL_INFO then ICCP_DBG_CNTR_MSG_PORTCHANNEL_INFO
     else if tlv_type = TLV_T_MLACP_PEERLINK_INFO then ICCP_DBG_CNTR_MSG_PEER_LINK_INFO
     else if tlv_type = TLV_T_MLACP_ARP_INFO then ICCP_DBG_CNTR_MSG_ARP_INFO
     else if tlv_type = TLV_T_MLACP_MAC_INFO then ICCP_DBG_CNTR_MSG_MAC_INFO
     else if tlv_type = TLV_T_MLACP_WARMBOOT_FLAG then ICCP_DBG_CNTR_MSG_WARM_BOOT
     else if tlv_type = TLV_T_MLACP_IF_UP_ACK then ICCP_DBG_CNTR_MSG_IF_UP_ACK
     else ICCP_DBG_CNTR_MSG_MAX)"

type_synonym mlacp_dbg_counter_info = "64 word list list list"

record mLACP =
  mlacp_id :: int
  sync_req_num :: int
  mlacp_current_state :: MLACP_APP_STATE
  sync_state :: MLACP_SYNC_STATE
  wait_for_sync_data :: byte
  need_to_sync :: byte
  node_id :: byte
  system_id :: bytes
  system_priority :: "16 word"
  system_config_changed :: byte
  remote_system :: Remote_System
  error_msg :: "string option"
  mlacp_msg_list :: "bytes list"
  arp_msg_list :: "ARPMsg list"
  arp_list :: "ARPMsg list"
  ndisc_msg_list :: "NDISCMsg list"
  ndisc_list :: "NDISCMsg list"
  mac_msg_list :: "nat list"
  mac_rb :: "nat list"
  mac_heap :: "nat \<Rightarrow> MACMsg option"
  mac_next :: nat
  mlacp_lif_list :: "nat list"
  mlacp_lif_purge_list :: "nat list"
  pif_list :: "PeerInterface list"
  iccp_counters :: mlacp_dbg_counter_info

datatype APP_CONNECTION_STATE =
    APP_NONEXISTENT
  | APP_RESET
  | APP_CONNSENT
  | APP_CONNREC
  | APP_CONNECTING
  | APP_OPERATIONAL

record AppCSM =
  mlacp :: mLACP
  app_current_state :: APP_CONNECTION_STATE
  rx_connect_msg_id :: "32 word"
  tx_connect_msg_id :: "32 word"
  invalid_msg_id :: "32 word"
  app_msg_list :: "bytes list"
  invalid_msg :: "1 word"
  nak_msg :: "1 word"

section \<open>Peer session\<close>

abbreviation (input) CSM_BUFFER_SIZE :: nat where "CSM_BUFFER_SIZE \<equiv> 65536"

record IccpInfo =
  info_icc_rg_id :: "32 word"
  sender_name :: string
  status_code :: "32 word"
  peer_capability_flag :: "1 word"
  peer_rg_connect_flag :: "1 word"
  sender_capability_flag :: "1 word"
  sender_rg_connect_flag :: "1 word"
  rejected_msg_id :: "32 word"

datatype ICCP_CONNECTION_STATE =
    ICCP_NONEXISTENT
  | ICCP_INITIALIZED
  | ICCP_CAPSENT
  | ICCP_CAPREC
  | ICCP_CONNECTING
  | ICCP_OPERATIONAL

datatype stp_role_type =
    STP_ROLE_NONE
  | STP_ROLE_ACTIVE
  | STP_ROLE_STANDBY

record CSM =
  mlag_id :: int
  sock_fd :: int
  connTimePrev :: int
  heartbeat_send_time :: int
  heartbeat_update_time :: int
  peer_warm_reboot_time :: int
  warm_reboot_disconn_time :: int
  peer_itf_name :: string
  peer_link_learning_retry_time :: int
  peer_ip :: string
  sender_ip :: string
  keepalive_time :: int
  session_timeout :: int
  peer_link_learning_enable :: int
  msg_list :: "bytes list"
  role_type :: stp_role_type
  peer_link_if :: "nat option"
  iccp_info :: IccpInfo
  app_csm :: AppCSM
  current_state :: ICCP_CONNECTION_STATE
  icc_msg_in_count :: "64 word"
  icc_msg_out_count :: "64 word"
  u_msg_in_count :: "64 word"
  i_msg_in_count :: "64 word"
  msg_log :: MsgLog
  if_bind_list :: "string list"

text \<open>\<^verbatim>\<open>MLACP(csm)\<close> as an lvalue and \<^verbatim>\<open>csm->iccp_info\<close> as an lvalue.\<close>

abbreviation MLACP :: "CSM \<Rightarrow> mLACP" where
  "MLACP csm \<equiv> mlacp (app_csm csm)"

definition MLACP_update :: "(mLACP \<Rightarrow> mLACP) \<Rightarrow> CSM \<Rightarrow> CSM" where
  "MLACP_update f csm = app_csm_update (mlacp_update f) csm"

lemma MLACP_update_simps [simp]:
  "MLACP (MLACP_update f csm) = f (MLACP csm)"
  "iccp_info (MLACP_update f csm) = iccp_info csm"
  "current_state (MLACP_update f csm) = current_state csm"
  "sock_fd (MLACP_update f csm) = sock_fd csm"
  "msg_list (MLACP_update f csm) = msg_list csm"
  "msg_log (MLACP_update f csm) = msg_log csm"
  "mlag_id (MLACP_update f csm) = mlag_id csm"
  "role_type (MLACP_update f csm) = role_type csm"
  "peer_link_if (MLACP_update f csm) = peer_link_if csm"
  "app_current_state (app_csm (MLACP_update f csm)) = app_current_state (app_csm csm)"
  "app_msg_list (app_csm (MLACP_update f csm)) = app_msg_list (app_csm csm)"
  by (simp_all add: MLACP_update_def)

text \<open>The counter macros: the array is indexed only below its bounds.\<close>

definition bump_counter :: "nat \<Rightarrow> nat \<Rightarrow> nat \<Rightarrow> mlacp_dbg_counter_info \<Rightarrow> mlacp_dbg_counter_info" where
  "bump_counter i d st c = c[i := (c ! i)[d := (c ! i ! d)[st := c ! i ! d ! st + 1]]]"

definition MLACP_SET_ICCP_TX_DBG_COUNTER :: "16 word \<Rightarrow> nat \<Rightarrow> CSM \<Rightarrow> CSM" where
  "MLACP_SET_ICCP_TX_DBG_COUNTER tlv_type status csm =
     (let dbg_type = mlacp_fsm_iccp_to_dbg_msg_type tlv_type in
      if dbg_type < ICCP_DBG_CNTR_MSG_MAX \<and> status < ICCP_DBG_CNTR_STS_MAX
      then MLACP_update (iccp_counters_update (bump_counter dbg_type ICCP_DBG_CNTR_DIR_TX status)) csm
      else csm)"

definition MLACP_SET_ICCP_RX_DBG_COUNTER :: "16 word \<Rightarrow> nat \<Rightarrow> CSM \<Rightarrow> CSM" where
  "MLACP_SET_ICCP_RX_DBG_COUNTER tlv_type status csm =
     (let dbg_type = mlacp_fsm_iccp_to_dbg_msg_type tlv_type in
      if dbg_type < ICCP_DBG_CNTR_MSG_MAX \<and> status < ICCP_DBG_CNTR_STS_MAX
      then MLACP_update (iccp_counters_update (bump_counter dbg_type ICCP_DBG_CNTR_DIR_RX status)) csm
      else csm)"

text \<open>A session of zero bytes, as \<^verbatim>\<open>malloc\<close> and \<^verbatim>\<open>bzero\<close> leave it.\<close>

definition mLACP_zero :: mLACP where
  "mLACP_zero =
     \<lparr>mlacp_id = 0, sync_req_num = 0, mlacp_current_state = MLACP_STATE_INIT, sync_state = MLACP_SYNC_SYSCONF,
      wait_for_sync_data = 0, need_to_sync = 0, node_id = 0, system_id = replicate 6 0, system_priority = 0,
      system_config_changed = 0,
      remote_system = \<lparr>rs_system_id = replicate 6 0, rs_system_priority = 0, rs_node_id = 0\<rparr>,
      error_msg = None, mlacp_msg_list = [], arp_msg_list = [], arp_list = [], ndisc_msg_list = [],
      ndisc_list = [], mac_msg_list = [], mac_rb = [], mac_heap = Map.empty, mac_next = 0,
      mlacp_lif_list = [], mlacp_lif_purge_list = [], pif_list = [],
      iccp_counters = replicate 29 (replicate 2 (replicate 2 0))\<rparr>"

definition AppCSM_zero :: AppCSM where
  "AppCSM_zero =
     \<lparr>mlacp = mLACP_zero, app_current_state = APP_NONEXISTENT, rx_connect_msg_id = 0, tx_connect_msg_id = 0,
      invalid_msg_id = 0, app_msg_list = [], invalid_msg = 0, nak_msg = 0\<rparr>"

definition CSM_zero :: CSM where
  "CSM_zero =
     \<lparr>mlag_id = 0, sock_fd = 0, connTimePrev = 0, heartbeat_send_time = 0, heartbeat_update_time = 0,
      peer_warm_reboot_time = 0, warm_reboot_disconn_time = 0, peer_itf_name = [],
      peer_link_learning_retry_time = 0, peer_ip = [], sender_ip = [], keepalive_time = 0,
      session_timeout = 0, peer_link_learning_enable = 0, msg_list = [], role_type = STP_ROLE_NONE,
      peer_link_if = None,
      iccp_info = \<lparr>info_icc_rg_id = 0, sender_name = [], status_code = 0, peer_capability_flag = 0,
        peer_rg_connect_flag = 0, sender_capability_flag = 0, sender_rg_connect_flag = 0, rejected_msg_id = 0\<rparr>,
      app_csm = AppCSM_zero, current_state = ICCP_NONEXISTENT, icc_msg_in_count = 0, icc_msg_out_count = 0,
      u_msg_in_count = 0, i_msg_in_count = 0, msg_log = MsgLog_zero, if_bind_list = []\<rparr>"

section \<open>Process environment\<close>

text \<open>What a non-blocking \<^verbatim>\<open>send\<close> may report, and the requests sent to the kernel over
  netlink.\<close>

datatype send_result =
    Sent nat
  | Would_block
  | Send_failed
  | Send_closed

text \<open>What \<^verbatim>\<open>recv\<close> may report, and the outcome of one attempt to connect (the failure of
  \<^verbatim>\<open>socket\<close> is told apart from a later one, which closes the descriptor again).\<close>

datatype recv_result =
    Received bytes
  | Recv_again
  | Recv_failed

datatype conn_result =
    No_socket
  | Conn_failed
  | Connected int

text \<open>A neighbour request carries the operation, the address (4 or 16 bytes), the MAC address,
  the interface and whether the entry is permanent.\<close>

datatype addr_family = AF_INET | AF_INET6

datatype kernel_req =
    If_hwaddr_set int bytes
  | If_shutdown_set int
  | If_startup_set int
  | Neigh_request addr_family bool bytes bytes int bool

record Env =
  ICCP_MSG_ID :: "32 word"
  write_results :: "int list"
  peer_out :: "(int \<times> bytes) list"
  send_results :: "send_result list"
  syncd_out :: "bytes list"
  shell_results :: "int list"
  shell_out :: "string list"
  kernel_out :: "kernel_req list"
  recv_results :: "recv_result list"
  conn_results :: "conn_result list"
  close_results :: "int list"
  neigh_results :: "int list"

definition Env_start :: Env where
  "Env_start = \<lparr>ICCP_MSG_ID = 1, write_results = [], peer_out = [], send_results = [], syncd_out = [],
     shell_results = [], shell_out = [], kernel_out = [], recv_results = [], conn_results = [],
     close_results = [], neigh_results = []\<rparr>"

text \<open>\<^verbatim>\<open>write(2)\<close>: the result is the next one the environment has in store, clipped to
  what the call may return (\<open>-1\<close> up to the length); when nothing is in store the
  whole buffer is taken.  The bytes taken are appended to the output.\<close>

definition sys_write :: "int \<Rightarrow> bytes \<Rightarrow> Env \<Rightarrow> int \<times> Env" where
  "sys_write fd bs env =
     (let n = int (length bs);
          rc = (case write_results env of [] \<Rightarrow> n | r # _ \<Rightarrow> max (-1) (min n r))
      in (rc, env\<lparr>write_results := tl (write_results env),
                  peer_out := peer_out env @ [(fd, take (nat rc) bs)]\<rparr>))"

text \<open>\<^verbatim>\<open>system(3)\<close> and a netlink request whose result the callers only log.\<close>

definition sys_shell :: "string \<Rightarrow> Env \<Rightarrow> int \<times> Env" where
  "sys_shell cmd env =
     ((case shell_results env of [] \<Rightarrow> 0 | r # _ \<Rightarrow> r),
      env\<lparr>shell_results := tl (shell_results env), shell_out := shell_out env @ [cmd]\<rparr>)"

definition sys_netlink :: "kernel_req \<Rightarrow> Env \<Rightarrow> Env" where
  "sys_netlink r env = env\<lparr>kernel_out := kernel_out env @ [r]\<rparr>"

end
