(* ===== verification/Iccp_Prepare.thy ===== *)
theory Iccp_Prepare
  imports Iccp_State
begin

text \<open>
  The control messages of \<^verbatim>\<open>src/iccp_csm.c\<close>: capability, RG connect, RG
  disconnect and NAK are laid out in the caller's buffer, and \<^verbatim>\<open>iccp_csm_send\<close>
  logs and writes a prepared message.  A preparing function returns the length
  (or \<^verbatim>\<open>MCLAG_ERROR\<close>), the buffer and the environment whose message identifier
  has advanced; a store outside the buffer is \<open>None\<close>.
\<close>

section \<open>Laying out a message\<close>

text \<open>\<^verbatim>\<open>u_bit = 0; msg_type = htons(t); msg_len = htons(len - 4); msg_id = htonl(ICCP_MSG_ID++)\<close>
  of every message, and the first four bytes of a TLV with both flag bits clear.\<close>

definition ldp_header :: "16 word \<Rightarrow> nat \<Rightarrow> Env \<Rightarrow> LDPHdr" where
  "ldp_header t msg_len env =
     \<lparr>ldp_msg_type = ucast (htons t), ldp_u_bit = 0,
      ldp_msg_len = htons (word_of_nat (msg_len - MSG_L_INCLUD_U_BIT_MSG_T_L_FIELDS)),
      ldp_msg_id = htonl (ICCP_MSG_ID env)\<rparr>"

definition icc_param :: "16 word \<Rightarrow> nat \<Rightarrow> ICCParameter" where
  "icc_param t len =
     \<lparr>ip_type = ucast (htons t), ip_f_bit = 0, ip_u_bit = 0, ip_len = htons (word_of_nat len)\<rparr>"

definition next_msg_id :: "Env \<Rightarrow> Env" where
  "next_msg_id env = env\<lparr>ICCP_MSG_ID := ICCP_MSG_ID env + 1\<rparr>"

lemma next_msg_id_simps [simp]:
  "ICCP_MSG_ID (next_msg_id env) = ICCP_MSG_ID env + 1"
  "write_results (next_msg_id env) = write_results env"
  "peer_out (next_msg_id env) = peer_out env"
  by (simp_all add: next_msg_id_def)

definition rg_id_tlv :: "CSM \<Rightarrow> ICCRGIDTLV" where
  "rg_id_tlv csm =
     \<lparr>rg_type = htons TLV_T_ICC_RG_ID, rg_len = htons TLV_L_ICC_RG_ID,
      icc_rg_id = htonl (info_icc_rg_id (iccp_info csm))\<rparr>"

definition iccp_csm_fill_icc_rg_id_tlv :: "CSM \<Rightarrow> bytes \<Rightarrow> bytes option" where
  "iccp_csm_fill_icc_rg_id_tlv csm buf = poke sizeof_LDPHdr (ICCRGIDTLV_image (rg_id_tlv csm)) buf"

section \<open>Control messages\<close>

definition iccp_csm_prepare_capability_msg ::
  "CSM \<Rightarrow> nat \<Rightarrow> bytes \<Rightarrow> Env \<Rightarrow> (int \<times> bytes \<times> Env) option" where
  "iccp_csm_prepare_capability_msg csm max_buf_size buf env =
     (let msg_len = sizeof_LDPHdr + sizeof_LDPICCPCapabilityTLV;
          cap = sizeof_LDPHdr in do {
      buf \<leftarrow> memzero max_buf_size buf;
      buf \<leftarrow> poke 0 (LDPHdr_image (ldp_header MSG_T_CAPABILITY msg_len env)) buf;
      buf \<leftarrow> poke cap (le16 (unit14 (ucast TLV_T_ICCP_CAPABILITY) 0 1)) buf;
      buf \<leftarrow> swap16 cap buf;
      buf \<leftarrow> poke (cap + 2) (le16 (htons TLV_L_ICCP_CAPABILITY)) buf;
      buf \<leftarrow> poke (cap + sizeof_ICCParameter)
               (le16 (unit15 0 (sender_capability_flag (iccp_info csm)))) buf;
      buf \<leftarrow> swap16 (cap + sizeof_ICCParameter) buf;
      buf \<leftarrow> poke (cap + sizeof_ICCParameter + 2) [0x1, 0x0] buf;
      Some (int msg_len, buf, next_msg_id env) })"

text \<open>Only an unknown RG fills in the code and the rejected identifier; for the other
  status codes both stay zero.\<close>

definition iccp_csm_prepare_nak_msg ::
  "CSM \<Rightarrow> nat \<Rightarrow> bytes \<Rightarrow> Env \<Rightarrow> (int \<times> bytes \<times> Env) option" where
  "iccp_csm_prepare_nak_msg csm max_buf_size buf env =
     (let msg_len = sizeof_ICCHdr + sizeof_NAKTLV;
          info = iccp_info csm in do {
      buf \<leftarrow> memzero max_buf_size buf;
      buf \<leftarrow> poke 0 (LDPHdr_image (ldp_header MSG_T_NOTIFICATION msg_len env)) buf;
      buf \<leftarrow> iccp_csm_fill_icc_rg_id_tlv csm buf;
      buf \<leftarrow> poke sizeof_ICCHdr (NAKTLV_image
               \<lparr>nak_icc_parameter = icc_param TLV_T_NAK (4 + 4),
                nak_iccp_status_code =
                  (if status_code info = STATUS_CODE_U_ICCP_RG then htonl (status_code info) else 0),
                nak_rejected_msg_id =
                  (if status_code info = STATUS_CODE_U_ICCP_RG then htonl (rejected_msg_id info) else 0)\<rparr>) buf;
      Some (int msg_len, buf, next_msg_id env) })"

definition iccp_csm_prepare_rg_connect_msg ::
  "CSM \<Rightarrow> nat \<Rightarrow> bytes \<Rightarrow> Env \<Rightarrow> (int \<times> bytes \<times> Env) option" where
  "iccp_csm_prepare_rg_connect_msg csm max_buf_size buf env =
     (let name = sender_name (iccp_info csm);
          name_len = length name;
          msg_len = sizeof_ICCHdr + sizeof_ICCParameter + name_len in do {
      buf \<leftarrow> memzero max_buf_size buf;
      buf \<leftarrow> poke 0 (LDPHdr_image (ldp_header MSG_T_RG_CONNECT msg_len env)) buf;
      buf \<leftarrow> iccp_csm_fill_icc_rg_id_tlv csm buf;
      buf \<leftarrow> poke sizeof_ICCHdr (ICCParameter_image (icc_param TLV_T_ICC_SENDER_NAME name_len)) buf;
      buf \<leftarrow> poke (sizeof_ICCHdr + sizeof_ICCParameter) (str_bytes name) buf;
      Some (int msg_len, buf, next_msg_id env) })"

definition iccp_csm_prepare_rg_disconnect_msg ::
  "CSM \<Rightarrow> nat \<Rightarrow> bytes \<Rightarrow> Env \<Rightarrow> (int \<times> bytes \<times> Env) option" where
  "iccp_csm_prepare_rg_disconnect_msg csm max_buf_size buf env =
     (let msg_len = sizeof_ICCHdr + sizeof_DisconnectCodeTLV in do {
      buf \<leftarrow> memzero max_buf_size buf;
      buf \<leftarrow> poke 0 (LDPHdr_image (ldp_header MSG_T_RG_DISCONNECT msg_len env)) buf;
      buf \<leftarrow> iccp_csm_fill_icc_rg_id_tlv csm buf;
      buf \<leftarrow> poke sizeof_ICCHdr (DisconnectCodeTLV_image
               \<lparr>dc_icc_parameter = icc_param TLV_T_DISCONNECT_CODE 4,
                dc_iccp_status_code = htonl (status_code (iccp_info csm))\<rparr>) buf;
      Some (int msg_len, buf, next_msg_id env) })"

text \<open>\<open>-1\<close> when the state has nothing to say.\<close>

definition iccp_csm_prepare_iccp_msg ::
  "CSM \<Rightarrow> nat \<Rightarrow> bytes \<Rightarrow> Env \<Rightarrow> (int \<times> bytes \<times> Env) option" where
  "iccp_csm_prepare_iccp_msg csm max_buf_size buf env =
     (case current_state csm of
        ICCP_NONEXISTENT \<Rightarrow> Some (-1, buf, env)
      | ICCP_INITIALIZED \<Rightarrow> iccp_csm_prepare_capability_msg csm max_buf_size buf env
      | ICCP_CAPSENT \<Rightarrow> Some (-1, buf, env)
      | ICCP_CAPREC \<Rightarrow>
          (if status_code (iccp_info csm) > 0
           then iccp_csm_prepare_nak_msg csm max_buf_size buf env
           else iccp_csm_prepare_rg_connect_msg csm max_buf_size buf env)
      | ICCP_CONNECTING \<Rightarrow>
          (if status_code (iccp_info csm) > 0
           then iccp_csm_prepare_nak_msg csm max_buf_size buf env
           else Some (-1, buf, env))
      | ICCP_OPERATIONAL \<Rightarrow>
          (if peer_rg_connect_flag (iccp_info csm) = 0
           then iccp_csm_prepare_rg_disconnect_msg csm max_buf_size buf env
           else Some (-1, buf, env)))"

section \<open>Sending\<close>

definition log_sent :: "MsgTypeSet \<Rightarrow> MsgLog \<Rightarrow> MsgLog option" where
  "log_sent e l =
     (let i = end_index l in
      if unat i < length (log_msg l)
      then Some \<lparr>log_msg = (log_msg l)[unat i := e],
                 end_index = (if i + 1 \<ge> 128 then 0 else i + 1)\<rparr>
      else None)"

definition iccp_csm_send :: "CSM \<Rightarrow> bytes \<Rightarrow> int \<Rightarrow> Env \<Rightarrow> (int \<times> CSM \<times> Env) option" where
  "iccp_csm_send csm buf msg_len env =
     (if sock_fd csm \<le> 0 \<or> msg_len \<le> 0 then Some (MCLAG_ERROR, csm, env)
      else do {
        ldp \<leftarrow> peek LDPHdr_overlay 0 buf;
        param \<leftarrow> peek ICCParameter_overlay
                   (if ntohs (ucast (ldp_msg_type ldp)) = MSG_T_CAPABILITY
                    then sizeof_LDPHdr else sizeof_ICCHdr) buf;
        let tlv_type = ntohs (ucast (ip_type param));
        l \<leftarrow> log_sent \<lparr>log_msg_id = ntohl (ldp_msg_id ldp),
                       log_type = ntohs (ucast (ldp_msg_type ldp)),
                       log_tlv = tlv_type\<rparr> (msg_log csm);
        let csm = csm\<lparr>msg_log := l\<rparr>;
        if nat msg_len \<le> length buf then
          (let (rc, env) = sys_write (sock_fd csm) (take (nat msg_len) buf) env;
               csm = (if rc \<le> 0 \<or> rc \<noteq> msg_len
                      then MLACP_SET_ICCP_TX_DBG_COUNTER tlv_type ICCP_DBG_CNTR_STS_ERR csm
                      else MLACP_SET_ICCP_TX_DBG_COUNTER tlv_type ICCP_DBG_CNTR_STS_OK csm)
           in Some (rc, csm, env))
        else None })"

section \<open>What the messages look like\<close>

lemmas sizeof_defs = sizeof_LDPHdr_def sizeof_ICCRGIDTLV_def sizeof_ICCHdr_def
  sizeof_ICCParameter_def sizeof_NAKTLV_def sizeof_DisconnectCodeTLV_def
  sizeof_LDPICCPCapabilityTLV_def

lemmas image_length [simp] = ldp.image_length [simplified] rgid.image_length [simplified]
  icchdr.image_length [simplified] iccparam.image_length [simplified]
  naktlv.image_length [simplified] disconn.image_length [simplified]
  capability.image_length [simplified]

text \<open>The header of an ICC message: LDP header and RG identifier.\<close>

definition icc_header :: "16 word \<Rightarrow> nat \<Rightarrow> CSM \<Rightarrow> Env \<Rightarrow> ICCHdr" where
  "icc_header t msg_len csm env =
     \<lparr>ldp_hdr = ldp_header t msg_len env, icc_rg_id_tlv = rg_id_tlv csm\<rparr>"

lemma fill_header [mem]:
  assumes "sizeof_ICCHdr \<le> n"
  shows "poke 0 (LDPHdr_image h) (zbuf n []) = Some (zbuf n (LDPHdr_image h))"
    and "iccp_csm_fill_icc_rg_id_tlv csm (zbuf n (LDPHdr_image h)) =
           Some (zbuf n (ICCHdr_image \<lparr>ldp_hdr = h, icc_rg_id_tlv = rg_id_tlv csm\<rparr>))"
  using assms by (simp_all add: poke_zbuf sizeof_defs iccp_csm_fill_icc_rg_id_tlv_def ICCHdr_image_def)

lemma prepare_nak_image:
  assumes "length buf = n" "28 \<le> n"
  shows "iccp_csm_prepare_nak_msg csm n buf env =
    (let info = iccp_info csm; u = status_code info = STATUS_CODE_U_ICCP_RG in
     Some (28, zbuf n (ICCHdr_image (icc_header MSG_T_NOTIFICATION 28 csm env) @ NAKTLV_image
       \<lparr>nak_icc_parameter = icc_param TLV_T_NAK 8,
        nak_iccp_status_code = (if u then htonl (status_code info) else 0),
        nak_rejected_msg_id = (if u then htonl (rejected_msg_id info) else 0)\<rparr>), next_msg_id env))"
  using assms
  by (simp add: iccp_csm_prepare_nak_msg_def Let_def memzero_zbuf fill_header poke_zbuf sizeof_defs
      icc_header_def)

lemma prepare_rg_connect_image:
  assumes "length buf = n" "20 + length (sender_name (iccp_info csm)) \<le> n"
  shows "iccp_csm_prepare_rg_connect_msg csm n buf env =
    (let name = sender_name (iccp_info csm); len = 20 + length name in
     Some (int len, zbuf n (ICCHdr_image (icc_header MSG_T_RG_CONNECT len csm env) @
       ICCParameter_image (icc_param TLV_T_ICC_SENDER_NAME (length name)) @ str_bytes name),
       next_msg_id env))"
  using assms
  by (simp add: iccp_csm_prepare_rg_connect_msg_def Let_def memzero_zbuf fill_header poke_zbuf
      sizeof_defs icc_header_def)

lemma prepare_rg_disconnect_image:
  assumes "length buf = n" "24 \<le> n"
  shows "iccp_csm_prepare_rg_disconnect_msg csm n buf env =
     Some (24, zbuf n (ICCHdr_image (icc_header MSG_T_RG_DISCONNECT 24 csm env) @ DisconnectCodeTLV_image
       \<lparr>dc_icc_parameter = icc_param TLV_T_DISCONNECT_CODE 4,
        dc_iccp_status_code = htonl (status_code (iccp_info csm))\<rparr>), next_msg_id env)"
  using assms
  by (simp add: iccp_csm_prepare_rg_disconnect_msg_def Let_def memzero_zbuf fill_header poke_zbuf
      sizeof_defs icc_header_def)

lemma prepare_capability_image:
  assumes "length buf = n" "16 \<le> n"
  shows "iccp_csm_prepare_capability_msg csm n buf env =
     Some (16, zbuf n (LDPHdr_image (ldp_header MSG_T_CAPABILITY 16 env) @
       [0x87, 0x00, 0x00, 0x04] @
       le16 (htons (unit15 0 (sender_capability_flag (iccp_info csm)))) @ [0x1, 0x0]), next_msg_id env)"
proof -
  have "le16 (htons (unit14 (ucast TLV_T_ICCP_CAPABILITY) 0 1)) = [0x87, 0x00]"
    and "le16 (htons TLV_L_ICCP_CAPABILITY) = [0x00, 0x04]"
    by (simp_all add: unit14_def le16_def htons_def of_le16_def)
  with assms show ?thesis
    using swap16_zbuf [of 12 "LDPHdr_image (ldp_header MSG_T_CAPABILITY 16 env) @ [0x87, 0x00, 0x00, 0x04]"]
    by (simp add: iccp_csm_prepare_capability_msg_def Let_def memzero_zbuf fill_header poke_zbuf
        sizeof_defs swap16_zbuf)
qed

section \<open>What sending does\<close>

lemma log_sent_ok: "log_sent e l = Some l' \<Longrightarrow> MsgLog_ok l \<Longrightarrow> MsgLog_ok l'"
proof -
  assume l': "log_sent e l = Some l'" and ok: "MsgLog_ok l"
  have "unat (if end_index l + 1 \<ge> 128 then 0 else end_index l + 1) < MAX_MSG_LOG_SIZE"
    by (auto simp: word_le_nat_alt)
  with ok l' show ?thesis by (auto simp: log_sent_def MsgLog_ok_def Let_def split: if_splits)
qed

lemma log_sent_defined: "MsgLog_ok l \<Longrightarrow> \<exists>l'. log_sent e l = Some l'"
  by (auto simp: log_sent_def MsgLog_ok_def Let_def)

text \<open>Nothing but the log and the counters of the session changes.\<close>

definition unlogged :: "CSM \<Rightarrow> CSM" where
  "unlogged csm = MLACP_update (iccp_counters_update (\<lambda>_. [])) (csm\<lparr>msg_log := MsgLog_zero\<rparr>)"

lemma unlogged_tx [simp]: "unlogged (MLACP_SET_ICCP_TX_DBG_COUNTER t st csm) = unlogged csm"
  by (simp add: unlogged_def MLACP_SET_ICCP_TX_DBG_COUNTER_def Let_def MLACP_update_def)

lemma unlogged_rx [simp]: "unlogged (MLACP_SET_ICCP_RX_DBG_COUNTER t st csm) = unlogged csm"
  by (simp add: unlogged_def MLACP_SET_ICCP_RX_DBG_COUNTER_def Let_def MLACP_update_def)

lemma unlogged_log [simp]: "unlogged (csm\<lparr>msg_log := l\<rparr>) = unlogged csm"
  by (simp add: unlogged_def)

lemma unlogged_eqD:
  assumes "unlogged csm = unlogged csm'"
  shows "iccp_info csm = iccp_info csm'" "sock_fd csm = sock_fd csm'"
    "current_state csm = current_state csm'" "msg_list csm = msg_list csm'"
    "app_current_state (app_csm csm) = app_current_state (app_csm csm')"
    "mlacp_current_state (MLACP csm) = mlacp_current_state (MLACP csm')"
    "mlag_id csm = mlag_id csm'" "role_type csm = role_type csm'"
  using arg_cong [OF assms, of iccp_info] arg_cong [OF assms, of sock_fd]
    arg_cong [OF assms, of current_state] arg_cong [OF assms, of msg_list]
    arg_cong [OF assms, of "\<lambda>c. app_current_state (app_csm c)"]
    arg_cong [OF assms, of "\<lambda>c. mlacp_current_state (MLACP c)"]
    arg_cong [OF assms, of mlag_id] arg_cong [OF assms, of role_type]
  by (simp_all add: unlogged_def)

lemma MLACP_SET_msg_log [simp]: "msg_log (MLACP_SET_ICCP_TX_DBG_COUNTER t st csm) = msg_log csm"
  by (simp add: MLACP_SET_ICCP_TX_DBG_COUNTER_def Let_def)

lemma iccp_csm_send_frame:
  "iccp_csm_send csm buf n env = Some (rc, csm', env') \<Longrightarrow> unlogged csm' = unlogged csm"
  by (auto simp: iccp_csm_send_def Let_def split: if_splits Option.bind_splits prod.splits)

lemma iccp_csm_send_log:
  "iccp_csm_send csm buf n env = Some (rc, csm', env') \<Longrightarrow> MsgLog_ok (msg_log csm) \<Longrightarrow> MsgLog_ok (msg_log csm')"
  by (auto simp: iccp_csm_send_def Let_def split: if_splits Option.bind_splits prod.splits
      intro: log_sent_ok)

lemma peek_hdr_Some:
  "8 \<le> length buf \<Longrightarrow> \<exists>h. peek LDPHdr_overlay 0 buf = Some h"
  "off + 4 \<le> length buf \<Longrightarrow> \<exists>h. peek ICCParameter_overlay off buf = Some h"
  using ldp.peek_overlay_None_iff [of 0 buf] iccparam.peek_overlay_None_iff [of off buf]
  by (auto simp: sizeof_defs)

lemma iccp_csm_send_defined:
  assumes "20 \<le> length buf" "nat n \<le> length buf" "MsgLog_ok (msg_log csm)"
  shows "\<exists>rc csm' env'. iccp_csm_send csm buf n env = Some (rc, csm', env')"
proof -
  obtain h where h: "peek LDPHdr_overlay 0 buf = Some h"
    using assms peek_hdr_Some(1) [of buf] by auto
  define off where "off = (if ntohs (ucast (ldp_msg_type h)) = MSG_T_CAPABILITY
      then sizeof_LDPHdr else sizeof_ICCHdr)"
  then have "off + 4 \<le> length buf" using assms by (simp add: sizeof_defs)
  then obtain p where p: "peek ICCParameter_overlay off buf = Some p"
    using peek_hdr_Some(2) by blast
  obtain l where "log_sent \<lparr>log_msg_id = ntohl (ldp_msg_id h), log_type = ntohs (ucast (ldp_msg_type h)),
      log_tlv = ntohs (ucast (ip_type p))\<rparr> (msg_log csm) = Some l"
    using log_sent_defined [OF assms(3)] by blast
  then show ?thesis
    using assms(2) h p by (simp add: iccp_csm_send_def Let_def off_def split: prod.splits)
qed

end
