(* ===== verification/Sync_Prepare.thy ===== *)
theory Sync_Prepare
  imports Iccp_Prepare
begin

text \<open>
  \<^verbatim>\<open>src/mlacp_sync_prepare.c\<close>: the application TLVs.  A fixed-size TLV is laid out in
  a cleared buffer, so fields the code does not assign are zero.  The MAC, ARP
  and ND messages grow by one entry per call in a buffer their caller cleared.
  Pointers the functions test against \<^verbatim>\<open>NULL\<close> are options.
\<close>

definition mlacp_fill_icc_header :: "CSM \<Rightarrow> nat \<Rightarrow> bytes \<Rightarrow> Env \<Rightarrow> (bytes \<times> Env) option" where
  "mlacp_fill_icc_header csm msg_len buf env = do {
     buf \<leftarrow> poke 0 (LDPHdr_image (ldp_header MSG_T_RG_APP_DATA msg_len env)) buf;
     buf \<leftarrow> iccp_csm_fill_icc_rg_id_tlv csm buf;
     Some (buf, next_msg_id env) }"

text \<open>The common course of the fixed-size TLVs: size check, \<^verbatim>\<open>memset\<close>, ICC header, and
  the TLV behind it.\<close>

definition prepare_fixed_tlv :: "CSM \<Rightarrow> bytes \<Rightarrow> nat \<Rightarrow> bytes \<Rightarrow> Env \<Rightarrow> (int \<times> bytes \<times> Env) option" where
  "prepare_fixed_tlv csm tlv max_buf_size buf env =
     (let msg_len = sizeof_ICCHdr + length tlv in
      if msg_len > max_buf_size then Some (MCLAG_ERROR, buf, env)
      else do {
        buf \<leftarrow> memzero max_buf_size buf;
        (buf, env) \<leftarrow> mlacp_fill_icc_header csm msg_len buf env;
        buf \<leftarrow> poke sizeof_ICCHdr tlv buf;
        Some (int msg_len, buf, env) })"

text \<open>The request also clears \<^verbatim>\<open>sync_req_num\<close> of the session.  The second half-word is
  built in host order and converted in place.\<close>

definition mlacp_prepare_for_sync_request_tlv ::
  "CSM \<Rightarrow> nat \<Rightarrow> bytes \<Rightarrow> Env \<Rightarrow> (int \<times> CSM \<times> bytes \<times> Env) option" where
  "mlacp_prepare_for_sync_request_tlv csm max_buf_size buf env =
     (if sizeof_ICCHdr + sizeof_mLACPSyncReqTLV > max_buf_size then Some (MCLAG_ERROR, csm, buf, env)
      else do {
        (msg_len, buf, env) \<leftarrow> prepare_fixed_tlv csm (mLACPSyncReqTLV_image
           \<lparr>sr_icc_parameter = icc_param TLV_T_MLACP_SYNC_REQUEST (sizeof_mLACPSyncReqTLV - sizeof_ICCParameter),
            sr_req_num = 0, sr_req_type = 0x3FFF, sr_s_bit = 1, sr_c_bit = 1,
            sr_port_num_agg_id = 0, sr_actor_key = 0\<rparr>) max_buf_size buf env;
        buf \<leftarrow> swap16 (sizeof_ICCHdr + sizeof_ICCParameter + 2) buf;
        Some (msg_len, MLACP_update (sync_req_num_update (\<lambda>_. 0)) csm, buf, env) })"

definition mlacp_prepare_for_sync_data_tlv ::
  "CSM \<Rightarrow> nat \<Rightarrow> bytes \<Rightarrow> int \<Rightarrow> Env \<Rightarrow> (int \<times> bytes \<times> Env) option" where
  "mlacp_prepare_for_sync_data_tlv csm max_buf_size buf end_flag env =
     prepare_fixed_tlv csm (mLACPSyncDataTLV_image
       \<lparr>sd_icc_parameter = icc_param TLV_T_MLACP_SYNC_DATA (sizeof_mLACPSyncDataTLV - sizeof_ICCParameter),
        sd_req_num = htons (word_of_int (sync_req_num (MLACP csm))),
        sd_flags = (if end_flag = 0 then 0x00 else htons 0x01)\<rparr>) max_buf_size buf env"

definition mlacp_prepare_for_sys_config ::
  "CSM \<Rightarrow> nat \<Rightarrow> bytes \<Rightarrow> Env \<Rightarrow> (int \<times> bytes \<times> Env) option" where
  "mlacp_prepare_for_sys_config csm max_buf_size buf env =
     prepare_fixed_tlv csm (mLACPSysConfigTLV_image
       \<lparr>sc_icc_parameter = icc_param TLV_T_MLACP_SYSTEM_CONFIG (sizeof_mLACPSysConfigTLV - sizeof_ICCParameter),
        sc_sys_id = system_id (MLACP csm),
        sc_sys_priority = htons (system_priority (MLACP csm)),
        sc_node_id = node_id (MLACP csm)\<rparr>) max_buf_size buf env"

definition mlacp_prepare_for_Aggport_state ::
  "CSM \<Rightarrow> nat \<Rightarrow> bytes \<Rightarrow> LocalInterface option \<Rightarrow> Env \<Rightarrow> (int \<times> bytes \<times> Env) option" where
  "mlacp_prepare_for_Aggport_state csm max_buf_size buf local_if env =
     (case local_if of None \<Rightarrow> Some (MCLAG_ERROR, buf, env)
      | Some lif \<Rightarrow>
        if lif_type lif \<noteq> IF_T_PORT_CHANNEL then Some (MCLAG_ERROR, buf, env)
        else prepare_fixed_tlv csm (mLACPAggPortStateTLV_image
          \<lparr>as_icc_parameter = icc_param TLV_T_MLACP_AGGREGATOR_STATE
             (sizeof_mLACPAggPortStateTLV - sizeof_ICCParameter),
           as_partner_sys_id = replicate 6 0, as_partner_sys_priority = 0, as_partner_key = 0,
           as_agg_id = htons (word_of_int (lif_po_id lif)), as_actor_key = 0,
           as_agg_state = lif_state lif\<rparr>) max_buf_size buf env)"

definition mlacp_prepare_for_Aggport_config ::
  "CSM \<Rightarrow> nat \<Rightarrow> bytes \<Rightarrow> LocalInterface \<Rightarrow> int \<Rightarrow> Env \<Rightarrow> (int \<times> bytes \<times> Env) option" where
  "mlacp_prepare_for_Aggport_config csm max_buf_size buf lif purge_flag env =
     prepare_fixed_tlv csm (mLACPAggConfigTLV_image
       \<lparr>ac_icc_parameter = icc_param TLV_T_MLACP_AGGREGATOR_CONFIG
          (sizeof_mLACPAggConfigTLV - sizeof_ICCParameter),
        ac_ro_id = replicate 8 0, ac_agg_id = htons (word_of_int (lif_po_id lif)),
        ac_mac_addr = lif_mac_addr lif, ac_actor_key = 0, ac_member_ports_priority = 0,
        ac_flags = (if purge_flag = 1 then 0x02 else 0x1),
        ac_agg_name_len = word_of_nat (length (lif_name lif)),
        ac_agg_name = char_arr MAX_L_PORT_NAME (lif_name lif)\<rparr>) max_buf_size buf env"

definition mlacp_prepare_for_port_peerlink_info ::
  "CSM \<Rightarrow> nat \<Rightarrow> bytes \<Rightarrow> LocalInterface option \<Rightarrow> Env \<Rightarrow> (int \<times> bytes \<times> Env) option" where
  "mlacp_prepare_for_port_peerlink_info csm max_buf_size buf peerlink_port env =
     (case peerlink_port of None \<Rightarrow> Some (MCLAG_ERROR, buf, env)
      | Some port \<Rightarrow> do {
          buf \<leftarrow> memzero max_buf_size buf;
          prepare_fixed_tlv csm (mLACPPeerLinkInfoTLV_image
            \<lparr>pl_icc_parameter = icc_param TLV_T_MLACP_PEERLINK_INFO
               (sizeof_mLACPPeerLinkInfoTLV - sizeof_ICCParameter),
             pl_if_name = char_arr MAX_L_PORT_NAME (lif_name port),
             pl_port_type = word_of_int (lif_type port)\<rparr>) max_buf_size buf env })"

definition mlacp_prepare_for_heartbeat ::
  "CSM \<Rightarrow> nat \<Rightarrow> bytes \<Rightarrow> Env \<Rightarrow> (int \<times> bytes \<times> Env) option" where
  "mlacp_prepare_for_heartbeat csm max_buf_size buf env =
     prepare_fixed_tlv csm (mLACPHeartbeatTLV_image
       \<lparr>hb_icc_parameter = icc_param TLV_T_MLACP_HEARTBEAT (sizeof_mLACPHeartbeatTLV - sizeof_ICCParameter),
        hb_heartbeat = 0xFF\<rparr>) max_buf_size buf env"

definition mlacp_prepare_for_warm_reboot ::
  "CSM \<Rightarrow> nat \<Rightarrow> bytes \<Rightarrow> Env \<Rightarrow> (int \<times> bytes \<times> Env) option" where
  "mlacp_prepare_for_warm_reboot csm max_buf_size buf env =
     prepare_fixed_tlv csm (mLACPWarmbootTLV_image
       \<lparr>wb_icc_parameter = icc_param TLV_T_MLACP_WARMBOOT_FLAG (sizeof_mLACPWarmbootTLV - sizeof_ICCParameter),
        wb_warmboot = 0x1\<rparr>) max_buf_size buf env"

definition mlacp_prepare_for_if_up_ack ::
  "CSM \<Rightarrow> nat \<Rightarrow> bytes \<Rightarrow> byte \<Rightarrow> 16 word \<Rightarrow> byte \<Rightarrow> Env \<Rightarrow> (int \<times> bytes \<times> Env) option" where
  "mlacp_prepare_for_if_up_ack csm max_buf_size buf if_type if_id port_isolation_state env =
     prepare_fixed_tlv csm (mLACPIfUpAckTLV_image
       \<lparr>ua_icc_parameter = icc_param TLV_T_MLACP_IF_UP_ACK (sizeof_mLACPIfUpAckTLV - sizeof_ICCParameter),
        ua_if_type = if_type, ua_port_isolation_state = port_isolation_state,
        ua_if_id = htons if_id\<rparr>) max_buf_size buf env"

section \<open>Port-channel information\<close>

text \<open>\<^verbatim>\<open>vlanData\<close>: one half-word per node of the VLAN tree, in traversal order.  The name is
  copied without its terminator.\<close>

definition vlan_data :: "VLAN_ID list \<Rightarrow> bytes" where
  "vlan_data vlans = concat (map (\<lambda>v. le16 (htons (vid v))) vlans)"

definition mlacp_prepare_for_port_channel_info ::
  "CSM \<Rightarrow> nat \<Rightarrow> bytes \<Rightarrow> LocalInterface option \<Rightarrow> Env \<Rightarrow> (int \<times> bytes \<times> Env) option" where
  "mlacp_prepare_for_port_channel_info csm max_buf_size buf port_channel env =
     (case port_channel of None \<Rightarrow> Some (MCLAG_ERROR, buf, env)
      | Some po \<Rightarrow>
        if lif_type po = IF_T_PORT then Some (MCLAG_ERROR, buf, env)
        else
          (let num_of_vlan_id = length (lif_vlan_tree po);
               name_len = min (length (lif_name po)) MAX_L_PORT_NAME in
           prepare_fixed_tlv csm (mLACPPortChannelInfoTLV_image
             \<lparr>pc_icc_parameter = icc_param TLV_T_MLACP_PORT_CHANNEL_INFO
                (sizeof_mLACPPortChannelInfoTLV - sizeof_ICCParameter + 2 * num_of_vlan_id),
              pc_agg_id = htons (word_of_int (lif_po_id po)),
              pc_if_name = char_arr MAX_L_PORT_NAME (take name_len (lif_name po)),
              pc_if_name_len = word_of_nat name_len,
              pc_l3_mode = lif_l3_mode po,
              pc_ipv4_addr = htonl (lif_ipv4_addr po),
              pc_po_id = htons (word_of_int (lif_po_id po)),
              pc_num_of_vlan_id = htons (word_of_nat num_of_vlan_id)\<rparr>
             @ vlan_data (lif_vlan_tree po)) max_buf_size buf env))"

section \<open>MAC, ARP and ND entries\<close>

text \<open>\<open>entry_head\<close>: header and entry count are rewritten for every entry; the type
  half-word only for the first one.\<close>

definition entry_head ::
  "CSM \<Rightarrow> 16 word \<Rightarrow> nat \<Rightarrow> nat \<Rightarrow> nat \<Rightarrow> bytes \<Rightarrow> Env \<Rightarrow> (bytes \<times> Env) option" where
  "entry_head csm t msg_len tlv_len count buf env = do {
     (buf, env) \<leftarrow> mlacp_fill_icc_header csm msg_len buf env;
     buf \<leftarrow> poke (sizeof_ICCHdr + 2) (le16 (htons (word_of_nat (tlv_len - sizeof_ICCParameter)))) buf;
     buf \<leftarrow> poke (sizeof_ICCHdr + 4) (le16 (htons (word_of_nat (count + 1)))) buf;
     buf \<leftarrow> (if count = 0 then poke sizeof_ICCHdr (le16 (unit14 (ucast (htons t)) 0 0)) buf else Some buf);
     Some (buf, env) }"

definition mlacp_prepare_for_mac_info_to_peer ::
  "CSM \<Rightarrow> nat \<Rightarrow> bytes \<Rightarrow> MACMsg \<Rightarrow> nat \<Rightarrow> Env \<Rightarrow> (int \<times> bytes \<times> Env) option" where
  "mlacp_prepare_for_mac_info_to_peer csm max_buf_size buf mac_msg count env =
     (let tlv_len = sizeof_mLACPMACInfoTLV + sizeof_mLACPMACData * (count + 1);
          msg_len = sizeof_ICCHdr + tlv_len;
          p = sizeof_ICCHdr + sizeof_mLACPMACInfoTLV + sizeof_mLACPMACData * count in
      if msg_len > max_buf_size then Some (MCLAG_ERROR, buf, env)
      else do {
        (buf, env) \<leftarrow> entry_head csm TLV_T_MLACP_MAC_INFO msg_len tlv_len count buf env;
        buf \<leftarrow> poke p [mac_op_type mac_msg, mac_fdb_type mac_msg] buf;
        buf \<leftarrow> poke (p + 2) (mac_addr mac_msg) buf;
        buf \<leftarrow> poke (p + 10) (str_bytes (mac_origin_ifname mac_msg) @ [0]) buf;
        buf \<leftarrow> poke (p + 8) (le16 (htons (mac_vid mac_msg))) buf;
        Some (int msg_len, buf, env) })"

definition mlacp_prepare_for_arp_info ::
  "CSM \<Rightarrow> nat \<Rightarrow> bytes \<Rightarrow> ARPMsg \<Rightarrow> nat \<Rightarrow> Env \<Rightarrow> (int \<times> bytes \<times> Env) option" where
  "mlacp_prepare_for_arp_info csm max_buf_size buf arp_msg count env =
     (let tlv_len = sizeof_mLACPARPInfoTLV + sizeof_ARPMsg * (count + 1);
          msg_len = sizeof_ICCHdr + tlv_len;
          p = sizeof_ICCHdr + sizeof_mLACPARPInfoTLV + sizeof_ARPMsg * count in
      if msg_len > max_buf_size then Some (MCLAG_ERROR, buf, env)
      else do {
        (buf, env) \<leftarrow> entry_head csm TLV_T_MLACP_ARP_INFO msg_len tlv_len count buf env;
        buf \<leftarrow> poke p [arp_op_type arp_msg, arp_flag arp_msg] buf;
        name \<leftarrow> cstr_at (arp_ifname arp_msg);
        buf \<leftarrow> poke (p + 3) (str_bytes name @ [0]) buf;
        buf \<leftarrow> poke (p + 24) (le32 (arp_ipv4_addr arp_msg)) buf;
        buf \<leftarrow> poke (p + 28) (arp_mac_addr arp_msg) buf;
        Some (int msg_len, buf, env) })"

definition mlacp_prepare_for_ndisc_info ::
  "CSM \<Rightarrow> nat \<Rightarrow> bytes \<Rightarrow> NDISCMsg \<Rightarrow> nat \<Rightarrow> Env \<Rightarrow> (int \<times> bytes \<times> Env) option" where
  "mlacp_prepare_for_ndisc_info csm max_buf_size buf ndisc_msg count env =
     (let tlv_len = sizeof_mLACPNDISCInfoTLV + sizeof_NDISCMsg * (count + 1);
          msg_len = sizeof_ICCHdr + tlv_len;
          p = sizeof_ICCHdr + sizeof_mLACPNDISCInfoTLV + sizeof_NDISCMsg * count in
      if msg_len > max_buf_size then Some (MCLAG_ERROR, buf, env)
      else do {
        (buf, env) \<leftarrow> entry_head csm TLV_T_MLACP_NDISC_INFO msg_len tlv_len count buf env;
        buf \<leftarrow> poke p [nd_op_type ndisc_msg, nd_flag ndisc_msg] buf;
        name \<leftarrow> cstr_at (nd_ifname ndisc_msg);
        buf \<leftarrow> poke (p + 3) (str_bytes name @ [0]) buf;
        buf \<leftarrow> poke (p + 24) (nd_ipv6_addr ndisc_msg) buf;
        buf \<leftarrow> poke (p + 40) (nd_mac_addr ndisc_msg) buf;
        Some (int msg_len, buf, env) })"

section \<open>What the messages look like\<close>

lemmas tlv_sizes = sizeof_defs sizeof_mLACPSysConfigTLV_def sizeof_mLACPAggConfigTLV_def
  sizeof_mLACPAggPortStateTLV_def sizeof_mLACPSyncReqTLV_def sizeof_mLACPSyncDataTLV_def
  sizeof_mLACPPortChannelInfoTLV_def sizeof_mLACPPeerLinkInfoTLV_def sizeof_mLACPMACData_def
  sizeof_mLACPMACInfoTLV_def sizeof_ARPMsg_def sizeof_NDISCMsg_def sizeof_mLACPARPInfoTLV_def
  sizeof_mLACPNDISCInfoTLV_def sizeof_mLACPHeartbeatTLV_def sizeof_mLACPWarmbootTLV_def
  sizeof_mLACPIfUpAckTLV_def

text \<open>An application message: ICC header and payload.\<close>

definition app_message :: "CSM \<Rightarrow> Env \<Rightarrow> bytes \<Rightarrow> bytes" where
  "app_message csm env tlv =
     ICCHdr_image (icc_header MSG_T_RG_APP_DATA (sizeof_ICCHdr + length tlv) csm env) @ tlv"

lemma app_message_length [simp]: "length (app_message csm env tlv) = 16 + length tlv"
  by (simp add: app_message_def sizeof_defs)

lemma prepare_fixed_image:
  assumes "length buf = n" "16 + length tlv \<le> n"
  shows "prepare_fixed_tlv csm tlv n buf env =
     Some (int (16 + length tlv), zbuf n (app_message csm env tlv), next_msg_id env)"
  using assms
  by (simp add: prepare_fixed_tlv_def mlacp_fill_icc_header_def Let_def memzero_zbuf fill_header
      poke_zbuf tlv_sizes app_message_def icc_header_def)

lemma prepare_fixed_too_big:
  "n < 16 + length tlv \<Longrightarrow> prepare_fixed_tlv csm tlv n buf env = Some (MCLAG_ERROR, buf, env)"
  by (simp add: prepare_fixed_tlv_def Let_def tlv_sizes)

lemma vlan_data_length [simp]: "length (vlan_data vs) = 2 * length vs"
  by (induction vs) (simp_all add: vlan_data_def)

text \<open>The head of a message with entries; the three structures agree.\<close>

definition entries_head :: "16 word \<Rightarrow> nat \<Rightarrow> nat \<Rightarrow> bytes" where
  "entries_head t tlv_len num =
     ICCParameter_image (icc_param t (tlv_len - 4)) @ le16 (htons (word_of_nat num))"

lemma entries_head_length [simp]: "length (entries_head t l k) = 6"
  by (simp add: entries_head_def tlv_sizes)

lemma entry_head_image:
  assumes h: "length h = 16" and k: "length ty = 2" "length r = 4"
    and ty: "count = 0 \<or> ty = le16 (unit14 (ucast (htons t)) 0 0)"
  shows "entry_head csm t m tlv_len count (zbuf n (h @ ty @ r @ body)) env =
    Some (zbuf n (ICCHdr_image (icc_header MSG_T_RG_APP_DATA m csm env) @
                  entries_head t tlv_len (count + 1) @ body), next_msg_id env)"
proof -
  let ?L = "LDPHdr_image (ldp_header MSG_T_RG_APP_DATA m env)"
  let ?I = "ICCHdr_image (icc_header MSG_T_RG_APP_DATA m csm env)"
  let ?len = "le16 (htons (word_of_nat (tlv_len - 4)))"
  let ?num = "le16 (htons (word_of_nat (count + 1)))"
  let ?ty = "le16 (unit14 (ucast (htons t)) 0 0)"
  define h1 h2 where "h1 = take 8 h" and "h2 = drop 8 h"
  define r1 r2 where "r1 = take 2 r" and "r2 = drop 2 r"
  have hs: "h = h1 @ h2" "length h1 = 8" "length h2 = 8"
    and rs: "r = r1 @ r2" "length r1 = 2" "length r2 = 2"
    using h k by (simp_all add: h1_def h2_def r1_def r2_def)
  have I: "?I = ?L @ ICCRGIDTLV_image (rg_id_tlv csm)"
    by (simp add: icc_header_def ICCHdr_image_def)
  have "mlacp_fill_icc_header csm m (zbuf n (h @ ty @ r @ body)) env =
      Some (zbuf n (?I @ ty @ r @ body), next_msg_id env)"
    using poke_zbuf_mid [of "[]" 0 ?L h1 n "h2 @ ty @ r @ body"]
      poke_zbuf_mid [of ?L 8 "ICCRGIDTLV_image (rg_id_tlv csm)" h2 n "ty @ r @ body"] hs I
    by (simp add: mlacp_fill_icc_header_def iccp_csm_fill_icc_rg_id_tlv_def tlv_sizes)
  moreover have "poke 18 ?len (zbuf n (?I @ ty @ r @ body)) = Some (zbuf n (?I @ ty @ ?len @ r2 @ body))"
    using poke_zbuf_mid [of "?I @ ty" 18 ?len r1 n "r2 @ body"] k rs by (simp add: tlv_sizes)
  moreover have "poke 20 ?num (zbuf n (?I @ ty @ ?len @ r2 @ body)) =
      Some (zbuf n (?I @ ty @ ?len @ ?num @ body))"
    using poke_zbuf_mid [of "?I @ ty @ ?len" 20 ?num r2 n body] k rs by (simp add: tlv_sizes)
  moreover have "poke 16 ?ty (zbuf n (?I @ ty @ ?len @ ?num @ body)) =
      Some (zbuf n (?I @ ?ty @ ?len @ ?num @ body))"
    using poke_zbuf_mid [of ?I 16 ?ty ty n "?len @ ?num @ body"] k by (simp add: tlv_sizes)
  ultimately show ?thesis
    using ty
    by (auto simp: entry_head_def tlv_sizes entries_head_def icc_param_def ICCParameter_image_def)
qed

text \<open>The entries as the peer finds them.\<close>

definition mac_entry_ok :: "MACMsg \<Rightarrow> bool" where
  "mac_entry_ok m \<longleftrightarrow> length (mac_addr m) = 6 \<and> c_string (mac_origin_ifname m) \<and>
     length (mac_origin_ifname m) < MAX_L_PORT_NAME"

definition mac_entry_data :: "MACMsg \<Rightarrow> mLACPMACData" where
  "mac_entry_data m =
     \<lparr>md_type = mac_op_type m, md_mac_type = mac_fdb_type m, md_mac_addr = mac_addr m,
      md_vid = htons (mac_vid m), md_ifname = char_arr MAX_L_PORT_NAME (mac_origin_ifname m)\<rparr>"

definition neigh_name_ok :: "bytes \<Rightarrow> bool" where
  "neigh_name_ok a \<longleftrightarrow> (\<exists>s. a = char_arr MAX_L_PORT_NAME s \<and> c_string s \<and> length s < MAX_L_PORT_NAME)"

definition arp_entry_ok :: "ARPMsg \<Rightarrow> bool" where
  "arp_entry_ok m \<longleftrightarrow> neigh_name_ok (arp_ifname m) \<and> length (arp_mac_addr m) = 6"

definition arp_entry_data :: "ARPMsg \<Rightarrow> ARPMsg" where
  "arp_entry_data m = m\<lparr>arp_learn_flag := 0, arp_pad := 0, arp_tail_pad := 0\<rparr>"

definition ndisc_entry_ok :: "NDISCMsg \<Rightarrow> bool" where
  "ndisc_entry_ok m \<longleftrightarrow> neigh_name_ok (nd_ifname m) \<and> length (nd_ipv6_addr m) = 16 \<and> length (nd_mac_addr m) = 6"

definition ndisc_entry_data :: "NDISCMsg \<Rightarrow> NDISCMsg" where
  "ndisc_entry_data m = m\<lparr>nd_learn_flag := 0, nd_pad := 0, nd_tail_pad := 0\<rparr>"

definition entries_message :: "16 word \<Rightarrow> ('e \<Rightarrow> bytes) \<Rightarrow> CSM \<Rightarrow> Env \<Rightarrow> 'e list \<Rightarrow> bytes" where
  "entries_message t img csm env es =
     app_message csm env
       (entries_head t (6 + length (concat (map img es))) (length es) @ concat (map img es))"

text \<open>A buffer that holds the entries so far: cleared before the first one.\<close>

definition holds_entries :: "16 word \<Rightarrow> ('e \<Rightarrow> bytes) \<Rightarrow> CSM \<Rightarrow> nat \<Rightarrow> 'e list \<Rightarrow> bytes \<Rightarrow> bool" where
  "holds_entries t img csm n es buf \<longleftrightarrow>
     (if es = [] then buf = zbuf n [] else (\<exists>env. buf = zbuf n (entries_message t img csm env es)))"

lemma holds_entries_split:
  assumes "holds_entries t img csm n es buf" "22 \<le> n"
  obtains h ty r where "buf = zbuf n (h @ ty @ r @ concat (map img es))"
    "length h = 16" "length ty = 2" "length r = 4"
    "length es = 0 \<or> ty = le16 (unit14 (ucast (htons t)) 0 0)"
proof (cases "es = []")
  case True
  then have "buf = zbuf n (replicate 16 0 @ replicate 2 0 @ replicate 4 0 @ concat (map img es))"
    using assms zbuf_pad [of "[]" 22 n] by (simp add: holds_entries_def flip: replicate_add)
  with True that show ?thesis by (metis length_replicate list.size(3))
next
  case False
  let ?k = "6 + length (concat (map img es))"
  from False assms(1) obtain env where buf: "buf = zbuf n (entries_message t img csm env es)"
    by (auto simp: holds_entries_def)
  show ?thesis
    by (rule that [of "ICCHdr_image (icc_header MSG_T_RG_APP_DATA (16 + ?k) csm env)"
          "le16 (unit14 (ucast (htons t)) 0 0)"
          "le16 (htons (word_of_nat (?k - 4))) @ le16 (htons (word_of_nat (length es)))"])
      (simp_all add: buf entries_message_def app_message_def entries_head_def tlv_sizes
        ICCParameter_image_def icc_param_def)
qed

text \<open>One more entry: the head is rewritten and the stores of the entry's fields append its
  image.\<close>

lemma append_entry:
  assumes holds: "holds_entries t img csm n es buf"
    and sizes: "\<forall>x \<in> set (es @ [e]). length (img x) = sz" "22 + sz * Suc (length es) \<le> n"
  obtains pre where "length pre = 22 + sz * length es"
    "entry_head csm t (22 + sz * Suc (length es)) (6 + sz * Suc (length es)) (length es) buf env =
       Some (zbuf n pre, next_msg_id env)"
    "pre @ img e = entries_message t img csm env (es @ [e])"
proof -
  have body: "length (concat (map img es)) = sz * length es"
    using sizes(1) by (induction es) auto
  obtain h ty r where "buf = zbuf n (h @ ty @ r @ concat (map img es))"
    "length h = 16" "length ty = 2" "length r = 4"
    "length es = 0 \<or> ty = le16 (unit14 (ucast (htons t)) 0 0)"
    using holds_entries_split [OF holds] sizes(2) by (metis add_leE)
  then show ?thesis
    using sizes(1) body
    by (intro that [of "ICCHdr_image (icc_header MSG_T_RG_APP_DATA (22 + sz * Suc (length es)) csm env) @
          entries_head t (6 + sz * Suc (length es)) (Suc (length es)) @ concat (map img es)"])
      (simp_all add: entry_head_image entries_message_def app_message_def tlv_sizes ac_simps)
qed

lemma mac_entry_length: "mac_entry_ok m \<Longrightarrow> length (mLACPMACData_image (mac_entry_data m)) = 30"
  by (subst macdata.image_length) (simp_all add: mac_entry_ok_def mac_entry_data_def mLACPMACData_layout)

lemma prepare_mac_step:
  assumes ok: "\<forall>x \<in> set (es @ [m]). mac_entry_ok x"
    and fit: "22 + 30 * Suc (length es) \<le> n"
    and holds: "holds_entries TLV_T_MLACP_MAC_INFO (\<lambda>m. mLACPMACData_image (mac_entry_data m)) csm n es buf"
  shows "mlacp_prepare_for_mac_info_to_peer csm n buf m (length es) env =
    Some (int (22 + 30 * Suc (length es)),
      zbuf n (entries_message TLV_T_MLACP_MAC_INFO (\<lambda>m. mLACPMACData_image (mac_entry_data m)) csm env (es @ [m])),
      next_msg_id env)"
proof -
  let ?img = "\<lambda>m. mLACPMACData_image (mac_entry_data m)"
  have len: "\<forall>x \<in> set (es @ [m]). length (?img x) = 30" using ok mac_entry_length by auto
  obtain pre where pre: "length pre = 22 + 30 * length es"
    "entry_head csm TLV_T_MLACP_MAC_INFO (22 + 30 * Suc (length es)) (6 + 30 * Suc (length es)) (length es) buf env =
       Some (zbuf n pre, next_msg_id env)"
    "pre @ ?img m = entries_message TLV_T_MLACP_MAC_INFO ?img csm env (es @ [m])"
    using append_entry [OF holds len fit] by blast
  have m: "length (mac_addr m) = 6" "length (mac_origin_ifname m) < 20"
    using ok by (auto simp: mac_entry_ok_def)
  let ?a = "pre @ [mac_op_type m, mac_fdb_type m]" and ?v = "le16 (htons (mac_vid m))"
  let ?n = "str_bytes (mac_origin_ifname m) @ [0]"
  have "poke (length pre) [mac_op_type m, mac_fdb_type m] (zbuf n pre) = Some (zbuf n ?a)"
    "poke (length pre + 2) (mac_addr m) (zbuf n ?a) = Some (zbuf n (?a @ mac_addr m))"
    "poke (length pre + 10) ?n (zbuf n (?a @ mac_addr m)) = Some (zbuf n (?a @ mac_addr m @ [0, 0] @ ?n))"
    "poke (length pre + 8) ?v (zbuf n (?a @ mac_addr m @ [0, 0] @ ?n)) = Some (zbuf n (?a @ mac_addr m @ ?v @ ?n))"
    using pre(1) fit m poke_zbuf_gap [of "?a @ mac_addr m" "length pre + 10" ?n n]
      poke_zbuf_mid [of "?a @ mac_addr m" "length pre + 8" ?v "[0, 0]" n ?n]
    by (simp_all add: poke_zbuf numeral_2_eq_2)
  moreover have "zbuf n (?a @ mac_addr m @ ?v @ ?n) = zbuf n (pre @ ?img m)"
    using zbuf_char_arr [of "mac_origin_ifname m" 20 "?a @ mac_addr m @ ?v" n] pre(1) fit m
    by (simp add: mLACPMACData_image_def mac_entry_data_def)
  ultimately show ?thesis
    using pre fit by (simp add: mlacp_prepare_for_mac_info_to_peer_def Let_def tlv_sizes)
qed

lemma arp_entry_length: "arp_entry_ok m \<Longrightarrow> length (ARPMsg_image (arp_entry_data m)) = 36"
  by (subst arpmsg.image_length)
    (auto simp: arp_entry_ok_def arp_entry_data_def ARPMsg_layout neigh_name_ok_def)

lemma prepare_arp_step:
  assumes ok: "\<forall>x \<in> set (es @ [m]). arp_entry_ok x"
    and fit: "22 + 36 * Suc (length es) \<le> n"
    and holds: "holds_entries TLV_T_MLACP_ARP_INFO (\<lambda>m. ARPMsg_image (arp_entry_data m)) csm n es buf"
  shows "mlacp_prepare_for_arp_info csm n buf m (length es) env =
    Some (int (22 + 36 * Suc (length es)),
      zbuf n (entries_message TLV_T_MLACP_ARP_INFO (\<lambda>m. ARPMsg_image (arp_entry_data m)) csm env (es @ [m])),
      next_msg_id env)"
proof -
  let ?img = "\<lambda>m. ARPMsg_image (arp_entry_data m)"
  have len: "\<forall>x \<in> set (es @ [m]). length (?img x) = 36" using ok arp_entry_length by auto
  obtain pre where pre: "length pre = 22 + 36 * length es"
    "entry_head csm TLV_T_MLACP_ARP_INFO (22 + 36 * Suc (length es)) (6 + 36 * Suc (length es)) (length es) buf env =
       Some (zbuf n pre, next_msg_id env)"
    "pre @ ?img m = entries_message TLV_T_MLACP_ARP_INFO ?img csm env (es @ [m])"
    using append_entry [OF holds len fit] by blast
  obtain s where s: "arp_ifname m = char_arr 20 s" "c_string s" "length s < 20" "length (arp_mac_addr m) = 6"
    using ok by (auto simp: arp_entry_ok_def neigh_name_ok_def)
  let ?a = "pre @ [arp_op_type m, arp_flag m]" and ?ip = "le32 (arp_ipv4_addr m)"
  let ?n = "str_bytes s @ [0]" and ?c = "?a @ [0] @ char_arr 20 s"
  have "poke (length pre) [arp_op_type m, arp_flag m] (zbuf n pre) = Some (zbuf n ?a)"
    "poke (length pre + 3) ?n (zbuf n ?a) = Some (zbuf n ?c)"
    "poke (length pre + 24) ?ip (zbuf n ?c) = Some (zbuf n (?c @ [0] @ ?ip))"
    "poke (length pre + 28) (arp_mac_addr m) (zbuf n (?c @ [0] @ ?ip)) = Some (zbuf n (?c @ [0] @ ?ip @ arp_mac_addr m))"
    using pre(1) fit s poke_zbuf_gap [of ?a "length pre + 3" ?n n] zbuf_char_arr [of s 20 "?a @ [0]" n]
      poke_zbuf_gap [of ?c "length pre + 24" ?ip n]
    by (simp_all add: poke_zbuf)
  moreover have "zbuf n (?c @ [0] @ ?ip @ arp_mac_addr m) = zbuf n (pre @ ?img m)"
    using zbuf_pad [of "?c @ [0] @ ?ip @ arp_mac_addr m" 2 n] pre(1) fit s
    by (simp add: ARPMsg_image_def arp_entry_data_def le16_def numeral_2_eq_2)
  ultimately show ?thesis
    using pre fit s by (simp add: mlacp_prepare_for_arp_info_def Let_def tlv_sizes)
qed

lemma ndisc_entry_length: "ndisc_entry_ok m \<Longrightarrow> length (NDISCMsg_image (ndisc_entry_data m)) = 48"
  by (subst ndiscmsg.image_length)
    (auto simp: ndisc_entry_ok_def ndisc_entry_data_def NDISCMsg_layout neigh_name_ok_def)

lemma prepare_ndisc_step:
  assumes ok: "\<forall>x \<in> set (es @ [m]). ndisc_entry_ok x"
    and fit: "22 + 48 * Suc (length es) \<le> n"
    and holds: "holds_entries TLV_T_MLACP_NDISC_INFO (\<lambda>m. NDISCMsg_image (ndisc_entry_data m)) csm n es buf"
  shows "mlacp_prepare_for_ndisc_info csm n buf m (length es) env =
    Some (int (22 + 48 * Suc (length es)),
      zbuf n (entries_message TLV_T_MLACP_NDISC_INFO (\<lambda>m. NDISCMsg_image (ndisc_entry_data m)) csm env (es @ [m])),
      next_msg_id env)"
proof -
  let ?img = "\<lambda>m. NDISCMsg_image (ndisc_entry_data m)"
  have len: "\<forall>x \<in> set (es @ [m]). length (?img x) = 48" using ok ndisc_entry_length by auto
  obtain pre where pre: "length pre = 22 + 48 * length es"
    "entry_head csm TLV_T_MLACP_NDISC_INFO (22 + 48 * Suc (length es)) (6 + 48 * Suc (length es)) (length es) buf env =
       Some (zbuf n pre, next_msg_id env)"
    "pre @ ?img m = entries_message TLV_T_MLACP_NDISC_INFO ?img csm env (es @ [m])"
    using append_entry [OF holds len fit] by blast
  obtain s where s: "nd_ifname m = char_arr 20 s" "c_string s" "length s < 20"
    "length (nd_mac_addr m) = 6" "length (nd_ipv6_addr m) = 16"
    using ok by (auto simp: ndisc_entry_ok_def neigh_name_ok_def)
  let ?a = "pre @ [nd_op_type m, nd_flag m]" and ?ip = "nd_ipv6_addr m"
  let ?n = "str_bytes s @ [0]" and ?c = "?a @ [0] @ char_arr 20 s"
  have "poke (length pre) [nd_op_type m, nd_flag m] (zbuf n pre) = Some (zbuf n ?a)"
    "poke (length pre + 3) ?n (zbuf n ?a) = Some (zbuf n ?c)"
    "poke (length pre + 24) ?ip (zbuf n ?c) = Some (zbuf n (?c @ [0] @ ?ip))"
    "poke (length pre + 40) (nd_mac_addr m) (zbuf n (?c @ [0] @ ?ip)) = Some (zbuf n (?c @ [0] @ ?ip @ nd_mac_addr m))"
    using pre(1) fit s poke_zbuf_gap [of ?a "length pre + 3" ?n n] zbuf_char_arr [of s 20 "?a @ [0]" n]
      poke_zbuf_gap [of ?c "length pre + 24" ?ip n]
    by (simp_all add: poke_zbuf)
  moreover have "zbuf n (?c @ [0] @ ?ip @ nd_mac_addr m) = zbuf n (pre @ ?img m)"
    using zbuf_pad [of "?c @ [0] @ ?ip @ nd_mac_addr m" 2 n] pre(1) fit s
    by (simp add: NDISCMsg_image_def ndisc_entry_data_def le16_def numeral_2_eq_2)
  ultimately show ?thesis
    using pre fit s by (simp add: mlacp_prepare_for_ndisc_info_def Let_def tlv_sizes)
qed

end
