(* ===== verification/Iccp_Csm.thy ===== *)
theory Iccp_Csm
  imports Sync_Prepare
begin

text \<open>
  The message side of the connection state machine (\<^verbatim>\<open>src/iccp_csm.c\<close>) and of the
  application state machine (\<^verbatim>\<open>src/app_csm.c\<close>): classifying and queueing received
  messages, answering to capability, RG connect, RG disconnect and notification
  messages, and the application-level NAK.

  A message is the byte list of its heap block.  Every access goes through
  \<open>peek\<close> and \<open>swap16\<close>, so a message too short for what the code reads of it is
  the value \<open>None\<close>.  Allocation is assumed to succeed.
\<close>

section \<open>Fields of a received message\<close>

text \<open>The bit-fields of the first half-word of a message (in host order) and of a TLV.  Only
  the half-word is read.\<close>

definition msg_type_at :: "bytes \<Rightarrow> 16 word option" where
  "msg_type_at msg = map_option (\<lambda>w. ucast (ucast w :: 15 word)) (peek get_u16 0 msg)"

definition par_type :: "16 word \<Rightarrow> 16 word" where "par_type w = ucast (ucast w :: 14 word)"
definition par_f_bit :: "16 word \<Rightarrow> 1 word" where "par_f_bit w = ucast (drop_bit 14 w)"
definition par_u_bit :: "16 word \<Rightarrow> 1 word" where "par_u_bit w = ucast (drop_bit 15 w)"

section \<open>Queues\<close>

definition mlacp_enqueue_msg :: "CSM \<Rightarrow> bytes \<Rightarrow> CSM" where
  "mlacp_enqueue_msg csm msg = MLACP_update (mlacp_msg_list_update (\<lambda>q. q @ [msg])) csm"

definition app_enqueue_tail :: "CSM \<Rightarrow> bytes \<Rightarrow> CSM" where
  "app_enqueue_tail csm msg = app_csm_update (app_msg_list_update (\<lambda>q. q @ [msg])) csm"

text \<open>\<open>log_lookup\<close>: the first entry of the log whose identifier was rejected.\<close>

definition log_lookup :: "32 word \<Rightarrow> MsgLog \<Rightarrow> MsgTypeSet option" where
  "log_lookup i l = find (\<lambda>e. i = log_msg_id e) (log_msg l)"

definition app_csm_enqueue_msg :: "CSM \<Rightarrow> bytes \<Rightarrow> CSM option" where
  "app_csm_enqueue_msg csm msg = do {
     msg \<leftarrow> swap16 sizeof_ICCHdr msg;
     w \<leftarrow> peek get_u16 sizeof_ICCHdr msg;
     mtype \<leftarrow> msg_type_at msg;
     let ptype = par_type w;
     if mtype = MSG_T_RG_APP_DATA then
       (if ptype > TLV_T_MLACP_CONNECT \<and> ptype < TLV_T_MLACP_LIST_END
        then Some (mlacp_enqueue_msg csm msg)
        else Some (app_enqueue_tail csm msg))
     else if mtype = MSG_T_NOTIFICATION then do {
       naktlv \<leftarrow> peek NAKTLV_overlay sizeof_ICCHdr msg;
       Some (case log_lookup (ntohl (nak_rejected_msg_id naktlv)) (msg_log csm) of
               Some e \<Rightarrow>
                 (if log_tlv e > TLV_T_MLACP_CONNECT \<and> log_tlv e \<le> TLV_T_MLACP_MAC_INFO
                  then mlacp_enqueue_msg csm msg else app_enqueue_tail csm msg)
             | None \<Rightarrow> app_enqueue_tail csm msg) }
     else Some csm }"

definition app_csm_dequeue_msg :: "CSM \<Rightarrow> bytes option \<times> CSM" where
  "app_csm_dequeue_msg csm =
     (case app_msg_list (app_csm csm) of [] \<Rightarrow> (None, csm)
      | m # q \<Rightarrow> (Some m, app_csm_update (app_msg_list_update (\<lambda>_. q)) csm))"

definition mlacp_dequeue_msg :: "CSM \<Rightarrow> bytes option \<times> CSM" where
  "mlacp_dequeue_msg csm =
     (case mlacp_msg_list (MLACP csm) of [] \<Rightarrow> (None, csm)
      | m # q \<Rightarrow> (Some m, MLACP_update (mlacp_msg_list_update (\<lambda>_. q)) csm))"

definition iccp_csm_enqueue_msg :: "CSM \<Rightarrow> bytes \<Rightarrow> CSM option" where
  "iccp_csm_enqueue_msg csm msg = do {
     msg \<leftarrow> swap16 0 msg;
     mtype \<leftarrow> msg_type_at msg;
     if mtype = MSG_T_RG_APP_DATA then app_csm_enqueue_msg csm msg
     else if mtype = MSG_T_NOTIFICATION then do {
       naktlv \<leftarrow> peek NAKTLV_overlay sizeof_ICCHdr msg;
       (case log_lookup (ntohl (nak_rejected_msg_id naktlv)) (msg_log csm) of
          Some e \<Rightarrow>
            (if log_type e = MSG_T_RG_APP_DATA then app_csm_enqueue_msg csm msg
             else Some (csm\<lparr>msg_list := msg_list csm @ [msg]\<rparr>))
        | None \<Rightarrow> Some (csm\<lparr>msg_list := msg_list csm @ [msg]\<rparr>)) }
     else Some (csm\<lparr>msg_list := msg_list csm @ [msg]\<rparr>) }"

definition iccp_csm_dequeue_msg :: "CSM \<Rightarrow> bytes option \<times> CSM" where
  "iccp_csm_dequeue_msg csm =
     (case msg_list csm of [] \<Rightarrow> (None, csm) | m # q \<Rightarrow> (Some m, csm\<lparr>msg_list := q\<rparr>))"

definition iccp_csm_init_msg :: "bytes \<Rightarrow> int \<Rightarrow> (int \<times> bytes option) option" where
  "iccp_csm_init_msg data len =
     (if len \<le> 0 then Some (MCLAG_ERROR, None)
      else if nat len \<le> length data then Some (0, Some (take (nat len) data)) else None)"

definition iccp_csm_msg_list_finalize :: "CSM \<Rightarrow> CSM" where
  "iccp_csm_msg_list_finalize csm = csm\<lparr>msg_list := []\<rparr>"

section \<open>Answering received messages\<close>

definition info_update :: "(IccpInfo \<Rightarrow> IccpInfo) \<Rightarrow> CSM \<Rightarrow> CSM" where
  "info_update f csm = csm\<lparr>iccp_info := f (iccp_info csm)\<rparr>"

definition iccp_csm_check_id_from_msg :: "CSM \<Rightarrow> bytes \<Rightarrow> CSM option" where
  "iccp_csm_check_id_from_msg csm msg = do {
     mtype \<leftarrow> msg_type_at msg;
     if mtype = MSG_T_CAPABILITY then Some csm
     else do {
       id \<leftarrow> peek get_u32 (sizeof_LDPHdr + 4) msg;
       let rg = ntohl id;
       Some (if rg = info_icc_rg_id (iccp_info csm)
             then (if status_code (iccp_info csm) = STATUS_CODE_U_ICCP_RG
                   then info_update (\<lambda>i. i\<lparr>status_code := 0, rejected_msg_id := 0\<rparr>) csm
                   else csm)
             else info_update (\<lambda>i. i\<lparr>status_code := STATUS_CODE_U_ICCP_RG, rejected_msg_id := rg\<rparr>) csm) } }"

definition iccp_csm_correspond_from_capability_msg :: "CSM \<Rightarrow> bytes \<Rightarrow> CSM option" where
  "iccp_csm_correspond_from_capability_msg csm msg = do {
     msg \<leftarrow> swap16 sizeof_LDPHdr msg;
     msg \<leftarrow> swap16 (sizeof_LDPHdr + sizeof_ICCParameter) msg;
     w \<leftarrow> peek get_u16 sizeof_LDPHdr msg;
     len \<leftarrow> peek get_u16 (sizeof_LDPHdr + 2) msg;
     s \<leftarrow> peek get_u16 (sizeof_LDPHdr + sizeof_ICCParameter) msg;
     if par_u_bit w = 0x1 \<and> par_f_bit w = 0x0 \<and> par_type w = TLV_T_ICCP_CAPABILITY
        \<and> ntohs len = TLV_L_ICCP_CAPABILITY \<and> (ucast (drop_bit 15 s) :: 1 word) = 1
     then do {
       major_ver \<leftarrow> peek get_u8 (sizeof_LDPHdr + sizeof_ICCParameter + 2) msg;
       if major_ver = 0x1 then do {
         minior_ver \<leftarrow> peek get_u8 (sizeof_LDPHdr + sizeof_ICCParameter + 3) msg;
         Some (if minior_ver = 0x0 then info_update (peer_capability_flag_update (\<lambda>_. 0x1)) csm else csm) }
       else Some csm }
     else Some csm }"

definition iccp_csm_correspond_from_rg_connect_msg :: "CSM \<Rightarrow> bytes \<Rightarrow> CSM option" where
  "iccp_csm_correspond_from_rg_connect_msg csm msg = do {
     msg \<leftarrow> swap16 sizeof_ICCHdr msg;
     w \<leftarrow> peek get_u16 sizeof_ICCHdr msg;
     Some (if par_u_bit w = 0x0 \<and> par_f_bit w = 0x0 \<and> par_type w = TLV_T_ICC_SENDER_NAME
           then info_update (peer_rg_connect_flag_update (\<lambda>_. 0x1)) csm else csm) }"

definition iccp_csm_correspond_from_rg_disconnect_msg :: "CSM \<Rightarrow> bytes \<Rightarrow> CSM option" where
  "iccp_csm_correspond_from_rg_disconnect_msg csm msg = do {
     msg \<leftarrow> swap16 sizeof_ICCHdr msg;
     w \<leftarrow> peek get_u16 sizeof_ICCHdr msg;
     if par_u_bit w = 0x0 \<and> par_f_bit w = 0x0 \<and> par_type w = TLV_T_DISCONNECT_CODE
     then do {
       len \<leftarrow> peek get_u16 (sizeof_ICCHdr + 2) msg;
       if ntohs len = TLV_L_DISCONNECT_CODE then do {
         code \<leftarrow> peek get_u32 (sizeof_ICCHdr + sizeof_ICCParameter) msg;
         Some (if ntohl code = STATUS_CODE_ICCP_RG_REMOVED
               then info_update (\<lambda>i. i\<lparr>sender_rg_connect_flag := 0x0, peer_rg_connect_flag := 0x0\<rparr>) csm
               else csm) }
       else Some csm }
     else Some csm }"

text \<open>A notification only logs its status code.  The code computes the position of the TLV
  as \<^verbatim>\<open>icc_hdr + sizeof(ICCHdr)\<close> on a pointer to \<^verbatim>\<open>ICCHdr\<close>, which is 256 bytes behind
  the message's start.\<close>

definition iccp_csm_correspond_from_msg :: "CSM \<Rightarrow> bytes \<Rightarrow> CSM option" where
  "iccp_csm_correspond_from_msg csm msg = do {
     csm \<leftarrow> iccp_csm_check_id_from_msg csm msg;
     mtype \<leftarrow> msg_type_at msg;
     if mtype = MSG_T_CAPABILITY then iccp_csm_correspond_from_capability_msg csm msg
     else if mtype = MSG_T_RG_CONNECT then iccp_csm_correspond_from_rg_connect_msg csm msg
     else if mtype = MSG_T_RG_DISCONNECT then iccp_csm_correspond_from_rg_disconnect_msg csm msg
     else if mtype = MSG_T_NOTIFICATION then do {
       _ \<leftarrow> peek get_u32 (sizeof_ICCHdr * sizeof_ICCHdr + sizeof_ICCParameter) msg;
       Some csm }
     else if mtype = MSG_T_RG_APP_DATA then Some csm
     else Some (csm\<lparr>u_msg_in_count := u_msg_in_count csm + 1\<rparr>) }"

section \<open>Application state machine\<close>

definition app_csm_transit :: "CSM \<Rightarrow> CSM" where
  "app_csm_transit csm =
     (if app_current_state (app_csm csm) \<noteq> APP_NONEXISTENT \<and> sock_fd csm \<le> 0
      then app_csm_update (app_current_state_update (\<lambda>_. APP_NONEXISTENT)) csm
      else if app_current_state (app_csm csm) \<noteq> APP_OPERATIONAL \<and> current_state csm = ICCP_OPERATIONAL
      then app_csm_update (app_current_state_update (\<lambda>_. APP_OPERATIONAL)) csm
      else csm)"

definition app_csm_prepare_nak_msg ::
  "CSM \<Rightarrow> nat \<Rightarrow> bytes \<Rightarrow> Env \<Rightarrow> (int \<times> bytes \<times> Env) option" where
  "app_csm_prepare_nak_msg csm max_buf_size buf env =
     (let msg_len = sizeof_ICCHdr + sizeof_NAKTLV in do {
      buf \<leftarrow> memzero max_buf_size buf;
      buf \<leftarrow> poke 0 (LDPHdr_image (ldp_header MSG_T_NOTIFICATION msg_len env)) buf;
      buf \<leftarrow> iccp_csm_fill_icc_rg_id_tlv csm buf;
      buf \<leftarrow> poke sizeof_ICCHdr (NAKTLV_image
               \<lparr>nak_icc_parameter = icc_param TLV_T_NAK (sizeof_NAKTLV - 4),
                nak_iccp_status_code = htonl STATUS_CODE_ICCP_REJECTED_MSG,
                nak_rejected_msg_id = htonl (invalid_msg_id (app_csm csm))\<rparr>) buf;
      Some (int msg_len, buf, next_msg_id env) })"

section \<open>What the receiver makes of a message\<close>

lemma type_units [simp]:
  "unit15 (ucast (htons MSG_T_CAPABILITY)) 0 = htons MSG_T_CAPABILITY"
  "unit15 (ucast (htons MSG_T_RG_CONNECT)) 0 = htons MSG_T_RG_CONNECT"
  "unit15 (ucast (htons MSG_T_RG_DISCONNECT)) 0 = htons MSG_T_RG_DISCONNECT"
  "unit15 (ucast (htons MSG_T_NOTIFICATION)) 0 = htons MSG_T_NOTIFICATION"
  "unit15 (ucast (htons MSG_T_RG_APP_DATA)) 0 = htons MSG_T_RG_APP_DATA"
  by (simp_all add: unit15_def htons_def of_le16_def)

lemma tlv_units [simp]:
  "unit14 (ucast (htons TLV_T_ICC_SENDER_NAME)) 0 0 = htons TLV_T_ICC_SENDER_NAME"
  "unit14 (ucast (htons TLV_T_NAK)) 0 0 = htons TLV_T_NAK"
  "unit14 (ucast (htons TLV_T_DISCONNECT_CODE)) 0 0 = htons TLV_T_DISCONNECT_CODE"
  by (simp_all add: unit14_def htons_def of_le16_def)

lemma msg_type_at_le16 [simp]: "msg_type_at (le16 w @ r) = Some (ucast (ucast w :: 15 word))"
  by (simp add: msg_type_at_def access)

lemma par_of_unit14 [simp]:
  "par_type (unit14 t f u) = ucast t" "par_f_bit (unit14 t f u) = f" "par_u_bit (unit14 t f u) = u"
  by (simp_all add: par_type_def par_f_bit_def par_u_bit_def)

lemmas message_parts = ICCHdr_image_def LDPHdr_image_def ICCRGIDTLV_image_def ICCParameter_image_def
  NAKTLV_image_def DisconnectCodeTLV_image_def icc_header_def ldp_header_def rg_id_tlv_def icc_param_def

text \<open>The message as it waits in the queue: the first half-word is in host order.\<close>

definition queued :: "bytes \<Rightarrow> bytes" where
  "queued msg = (case swap16 0 msg of Some m \<Rightarrow> m | None \<Rightarrow> msg)"

lemma queued_le16 [simp]: "queued (le16 w @ r) = le16 (htons w) @ r"
  by (simp add: queued_def access)

lemma enqueue_control:
  assumes "t = MSG_T_CAPABILITY \<or> t = MSG_T_RG_CONNECT \<or> t = MSG_T_RG_DISCONNECT"
  shows "iccp_csm_enqueue_msg csm (le16 (htons t) @ r) = Some (csm\<lparr>msg_list := msg_list csm @ [le16 t @ r]\<rparr>)"
  using assms by (auto simp: iccp_csm_enqueue_msg_def access)

lemma correspond_capability:
  "iccp_csm_correspond_from_msg csm
     (queued (LDPHdr_image (ldp_header MSG_T_CAPABILITY n env) @ [0x87, 0x00, 0x00, 0x04] @
        le16 (htons (unit15 0 1)) @ [0x1, 0x0])) =
   Some (info_update (peer_capability_flag_update (\<lambda>_. 1)) csm)"
proof -
  have param: "[0x87, 0x00, 0x00, 0x04] @ r = le16 (htons (unit14 (ucast TLV_T_ICCP_CAPABILITY) 0 1)) @
      le16 (htons TLV_L_ICCP_CAPABILITY) @ r" for r
    by (simp add: unit14_def le16_def htons_def of_le16_def)
  show ?thesis
    unfolding param
    by (simp add: iccp_csm_correspond_from_msg_def iccp_csm_check_id_from_msg_def
        iccp_csm_correspond_from_capability_msg_def message_parts access sizeof_defs)
qed

lemma correspond_rg_connect:
  "iccp_csm_correspond_from_msg csm
     (queued (ICCHdr_image (icc_header MSG_T_RG_CONNECT n sender env) @
        ICCParameter_image (icc_param TLV_T_ICC_SENDER_NAME k) @ r)) =
   Some (info_update (\<lambda>i.
     (if info_icc_rg_id (iccp_info sender) = info_icc_rg_id i
      then (if status_code i = STATUS_CODE_U_ICCP_RG then i\<lparr>status_code := 0, rejected_msg_id := 0\<rparr> else i)
      else i\<lparr>status_code := STATUS_CODE_U_ICCP_RG, rejected_msg_id := info_icc_rg_id (iccp_info sender)\<rparr>)
     \<lparr>peer_rg_connect_flag := 1\<rparr>) csm)"
  by (simp add: iccp_csm_correspond_from_msg_def iccp_csm_check_id_from_msg_def
      iccp_csm_correspond_from_rg_connect_msg_def message_parts access sizeof_defs info_update_def
      par_type_def par_f_bit_def par_u_bit_def)

lemma correspond_nak_runs_off:
  "iccp_csm_correspond_from_msg csm
     (queued (ICCHdr_image (icc_header MSG_T_NOTIFICATION n sender env) @ NAKTLV_image tlv)) = None"
  by (simp add: iccp_csm_correspond_from_msg_def iccp_csm_check_id_from_msg_def message_parts access
      sizeof_defs Let_def)

lemma correspond_rg_disconnect:
  "iccp_csm_correspond_from_msg csm
     (queued (ICCHdr_image (icc_header MSG_T_RG_DISCONNECT n sender env) @ DisconnectCodeTLV_image
        \<lparr>dc_icc_parameter = icc_param TLV_T_DISCONNECT_CODE 4, dc_iccp_status_code = htonl code\<rparr>)) =
   map_option (\<lambda>csm. if code = STATUS_CODE_ICCP_RG_REMOVED
       then info_update (\<lambda>i. i\<lparr>sender_rg_connect_flag := 0, peer_rg_connect_flag := 0\<rparr>) csm else csm)
     (iccp_csm_check_id_from_msg csm (queued (ICCHdr_image (icc_header MSG_T_RG_DISCONNECT n sender env))))"
  by (simp add: iccp_csm_correspond_from_msg_def iccp_csm_check_id_from_msg_def
      iccp_csm_correspond_from_rg_disconnect_msg_def message_parts access sizeof_defs
      par_type_def par_f_bit_def par_u_bit_def Let_def)

lemma msg_type_at_None [simp]: "msg_type_at buf = None \<longleftrightarrow> length buf < 2"
  by (simp add: msg_type_at_def peek_None_iff numeral_2_eq_2)

lemma app_enqueue_None_iff:
  "app_csm_enqueue_msg csm msg = None \<longleftrightarrow>
     length msg < 18 \<or> (msg_type_at msg = Some MSG_T_NOTIFICATION \<and> length msg < 28)"
proof (cases "swap16 16 msg")
  case None
  then show ?thesis
    using swap16_None_iff [of 16 msg] by (simp add: app_csm_enqueue_msg_def sizeof_defs)
next
  case (Some m)
  then have len: "length m = length msg" "18 \<le> length msg"
    using swap16_None_iff [of 16 msg] by (auto dest: swap16_length)
  obtain a b r where msg: "msg = a # b # r" using len by (cases msg rule: get_u16.cases) auto
  with Some obtain r' where "m = a # b # r'" by (auto simp: access)
  then have mt: "msg_type_at m = msg_type_at msg" by (simp add: msg msg_type_at_def peek_def)
  obtain w t where "peek get_u16 16 m = Some w" "msg_type_at m = Some t"
    using len peek_None_iff(2) [of 16 m] msg_type_at_None [of m] by fastforce
  then show ?thesis
    using Some len mt naktlv.peek_overlay_None_iff [of 16 m]
    by (auto simp: app_csm_enqueue_msg_def sizeof_defs Let_def split: Option.bind_splits option.splits)
qed

lemma enqueue_None_iff:
  assumes "swap16 0 msg = Some m"
  shows "iccp_csm_enqueue_msg csm msg = None \<longleftrightarrow>
    (msg_type_at m = Some MSG_T_RG_APP_DATA \<and> length msg < 18) \<or>
    (msg_type_at m = Some MSG_T_NOTIFICATION \<and> length msg < 28)"
proof -
  have len: "length m = length msg" "2 \<le> length msg"
    using assms swap16_None_iff [of 0 msg] by (auto dest: swap16_length)
  obtain t where t: "msg_type_at m = Some t"
    using len msg_type_at_None [of m] by fastforce
  show ?thesis
    using assms len t naktlv.peek_overlay_None_iff [of 16 m] app_enqueue_None_iff [of csm m]
    by (auto simp: iccp_csm_enqueue_msg_def sizeof_defs split: Option.bind_splits option.splits)
qed

section \<open>Properties\<close>

text \<open>C27: a capability message prepared by a session that has its capability flag set is
  16 bytes long, is queued by the receiver as a control message, and answering
  it sets the receiver's peer capability flag and nothing else.\<close>

theorem capability_accepted:
  assumes "length buf = n" "16 \<le> n" "sender_capability_flag (iccp_info a) = 1"
  shows "\<exists>buf' m. iccp_csm_prepare_capability_msg a n buf env = Some (16, buf', next_msg_id env) \<and>
    iccp_csm_enqueue_msg b (take 16 buf') = Some (b\<lparr>msg_list := msg_list b @ [m]\<rparr>) \<and>
    iccp_csm_correspond_from_msg b m = Some (info_update (peer_capability_flag_update (\<lambda>_. 1)) b)"
proof -
  let ?msg = "LDPHdr_image (ldp_header MSG_T_CAPABILITY 16 env) @ [0x87, 0x00, 0x00, 0x04] @
        le16 (htons (unit15 0 1)) @ [0x1, 0x0]"
  have "length ?msg = 16" by (simp add: sizeof_defs)
  moreover have "iccp_csm_enqueue_msg b ?msg = Some (b\<lparr>msg_list := msg_list b @ [queued ?msg]\<rparr>)"
    by (simp add: message_parts enqueue_control)
  ultimately show ?thesis
    using assms correspond_capability [of b 16 env]
    by (intro exI [of _ "zbuf n ?msg"] exI [of _ "queued ?msg"])
      (simp add: prepare_capability_image del: queued_le16)
qed

text \<open>C28: an RG connect message is queued as a control message; answering it always sets the
  peer's connect flag, and the comparison of the RG identifiers decides the
  status: equal identifiers clear an earlier "unknown RG", different ones record
  it together with the identifier of the other side.\<close>

theorem rg_connect_accepted:
  assumes "length buf = n" "20 + length (sender_name (iccp_info a)) \<le> n"
  shows "\<exists>len buf' m. iccp_csm_prepare_rg_connect_msg a n buf env = Some (int len, buf', next_msg_id env) \<and>
    iccp_csm_enqueue_msg b (take len buf') = Some (b\<lparr>msg_list := msg_list b @ [m]\<rparr>) \<and>
    iccp_csm_correspond_from_msg b m = Some (info_update (\<lambda>i.
     (if info_icc_rg_id (iccp_info a) = info_icc_rg_id i
      then (if status_code i = STATUS_CODE_U_ICCP_RG then i\<lparr>status_code := 0, rejected_msg_id := 0\<rparr> else i)
      else i\<lparr>status_code := STATUS_CODE_U_ICCP_RG, rejected_msg_id := info_icc_rg_id (iccp_info a)\<rparr>)
     \<lparr>peer_rg_connect_flag := 1\<rparr>) b)"
proof -
  let ?name = "sender_name (iccp_info a)"
  let ?len = "20 + length ?name"
  let ?msg = "ICCHdr_image (icc_header MSG_T_RG_CONNECT ?len a env) @
       ICCParameter_image (icc_param TLV_T_ICC_SENDER_NAME (length ?name)) @ str_bytes ?name"
  have "length ?msg = ?len" by (simp add: sizeof_defs)
  moreover have "iccp_csm_enqueue_msg b ?msg = Some (b\<lparr>msg_list := msg_list b @ [queued ?msg]\<rparr>)"
    by (simp add: message_parts enqueue_control)
  ultimately show ?thesis
    using assms correspond_rg_connect [of b ?len a env "length ?name" "str_bytes ?name"]
    by (intro exI [of _ ?len] exI [of _ "zbuf n ?msg"] exI [of _ "queued ?msg"])
      (simp add: prepare_rg_connect_image Let_def del: queued_le16)
qed

text \<open>C29: the NAK the connection state machine sends is 28 bytes long; the receiver that
  answers it reads behind the end of the message.\<close>

theorem received_nak_runs_off:
  assumes "length buf = n" "28 \<le> n"
  shows "\<exists>buf'. iccp_csm_prepare_nak_msg a n buf env = Some (28, buf', next_msg_id env) \<and>
    iccp_csm_correspond_from_msg b (queued (take 28 buf')) = None"
  using assms
  by (auto simp: prepare_nak_image Let_def tlv_sizes correspond_nak_runs_off)

text \<open>C30: queueing a received message stays inside it exactly when it is long enough for
  the fields its type makes the code read: 18 bytes for application data and 28
  for a notification.\<close>

theorem enqueue_in_bounds_iff:
  assumes "8 \<le> length msg"
  shows "\<exists>m. swap16 0 msg = Some m \<and>
    (iccp_csm_enqueue_msg csm msg \<noteq> None \<longleftrightarrow>
      \<not> (msg_type_at m = Some MSG_T_RG_APP_DATA \<and> length msg < 18) \<and>
      \<not> (msg_type_at m = Some MSG_T_NOTIFICATION \<and> length msg < 28))"
proof -
  obtain m where "swap16 0 msg = Some m"
    using assms swap16_None_iff [of 0 msg] by fastforce
  then show ?thesis using enqueue_None_iff [of msg m csm] by auto
qed

text \<open>C31: an RG disconnect message whose status code is not "RG removed" leaves the connect
  flags of the receiver as they are.\<close>

theorem rg_disconnect_ignored:
  assumes "length buf = n" "24 \<le> n" "status_code (iccp_info a) \<noteq> STATUS_CODE_ICCP_RG_REMOVED"
  shows "\<exists>buf' b'. iccp_csm_prepare_rg_disconnect_msg a n buf env = Some (24, buf', next_msg_id env) \<and>
    iccp_csm_correspond_from_msg b (queued (take 24 buf')) = Some b' \<and>
    sender_rg_connect_flag (iccp_info b') = sender_rg_connect_flag (iccp_info b) \<and>
    peer_rg_connect_flag (iccp_info b') = peer_rg_connect_flag (iccp_info b)"
proof -
  let ?hdr = "ICCHdr_image (icc_header MSG_T_RG_DISCONNECT 24 a env)"
  have "\<exists>b'. iccp_csm_check_id_from_msg b (queued ?hdr) = Some b' \<and>
      sender_rg_connect_flag (iccp_info b') = sender_rg_connect_flag (iccp_info b) \<and>
      peer_rg_connect_flag (iccp_info b') = peer_rg_connect_flag (iccp_info b)"
    by (simp add: iccp_csm_check_id_from_msg_def message_parts access sizeof_defs Let_def info_update_def)
  then show ?thesis
    using assms correspond_rg_disconnect [of b 24 a env "status_code (iccp_info a)"]
    by (auto simp: prepare_rg_disconnect_image tlv_sizes)
qed

end
