(* ===== verification/Iccp_System.thy ===== *)
theory Iccp_System
  imports Iccp_Csm
begin

text \<open>
  \<^verbatim>\<open>include/system.h\<close> and \<^verbatim>\<open>src/system.c\<close>: the system instance with its lists of
  sessions and local interfaces, the heaps their addresses point into, the
  lookups, and the debug counters.  The clock (\<^verbatim>\<open>time(NULL)\<close>) and the function-level
  static variables of the daemon are fields.
\<close>

section \<open>Codes of the mclagsyncd channel\<close>

abbreviation (input) MCLAG_SYNCD_MSG_TYPE_NONE :: byte where "MCLAG_SYNCD_MSG_TYPE_NONE \<equiv> 0"
abbreviation (input) MCLAG_SYNCD_MSG_TYPE_FDB_OPERATION :: byte where "MCLAG_SYNCD_MSG_TYPE_FDB_OPERATION \<equiv> 1"
abbreviation (input) MCLAG_SYNCD_MSG_TYPE_CFG_MCLAG_DOMAIN :: byte where "MCLAG_SYNCD_MSG_TYPE_CFG_MCLAG_DOMAIN \<equiv> 2"
abbreviation (input) MCLAG_SYNCD_MSG_TYPE_CFG_MCLAG_IFACE :: byte where "MCLAG_SYNCD_MSG_TYPE_CFG_MCLAG_IFACE \<equiv> 3"
abbreviation (input) MCLAG_SYNCD_MSG_TYPE_VLAN_MBR_UPDATES :: byte where "MCLAG_SYNCD_MSG_TYPE_VLAN_MBR_UPDATES \<equiv> 4"
abbreviation (input) MCLAG_SYNCD_MSG_TYPE_CFG_MCLAG_UNIQUE_IP :: byte where "MCLAG_SYNCD_MSG_TYPE_CFG_MCLAG_UNIQUE_IP \<equiv> 5"
abbreviation (input) MCLAG_MSG_TYPE_NONE :: byte where "MCLAG_MSG_TYPE_NONE \<equiv> 0"
abbreviation (input) MCLAG_MSG_TYPE_PORT_ISOLATE :: byte where "MCLAG_MSG_TYPE_PORT_ISOLATE \<equiv> 1"
abbreviation (input) MCLAG_MSG_TYPE_PORT_MAC_LEARN_MODE :: byte where "MCLAG_MSG_TYPE_PORT_MAC_LEARN_MODE \<equiv> 2"
abbreviation (input) MCLAG_MSG_TYPE_FLUSH_FDB :: byte where "MCLAG_MSG_TYPE_FLUSH_FDB \<equiv> 3"
abbreviation (input) MCLAG_MSG_TYPE_SET_MAC :: byte where "MCLAG_MSG_TYPE_SET_MAC \<equiv> 4"
abbreviation (input) MCLAG_MSG_TYPE_SET_FDB :: byte where "MCLAG_MSG_TYPE_SET_FDB \<equiv> 5"
abbreviation (input) MCLAG_MSG_TYPE_SET_TRAFFIC_DIST_ENABLE :: byte where "MCLAG_MSG_TYPE_SET_TRAFFIC_DIST_ENABLE \<equiv> 6"
abbreviation (input) MCLAG_MSG_TYPE_SET_TRAFFIC_DIST_DISABLE :: byte where "MCLAG_MSG_TYPE_SET_TRAFFIC_DIST_DISABLE \<equiv> 7"
abbreviation (input) MCLAG_MSG_TYPE_SET_ICCP_STATE :: byte where "MCLAG_MSG_TYPE_SET_ICCP_STATE \<equiv> 8"
abbreviation (input) MCLAG_MSG_TYPE_SET_ICCP_ROLE :: byte where "MCLAG_MSG_TYPE_SET_ICCP_ROLE \<equiv> 9"
abbreviation (input) MCLAG_MSG_TYPE_SET_ICCP_SYSTEM_ID :: byte where "MCLAG_MSG_TYPE_SET_ICCP_SYSTEM_ID \<equiv> 10"
abbreviation (input) MCLAG_MSG_TYPE_DEL_ICCP_INFO :: byte where "MCLAG_MSG_TYPE_DEL_ICCP_INFO \<equiv> 11"
abbreviation (input) MCLAG_MSG_TYPE_SET_REMOTE_IF_STATE :: byte where "MCLAG_MSG_TYPE_SET_REMOTE_IF_STATE \<equiv> 12"
abbreviation (input) MCLAG_MSG_TYPE_DEL_REMOTE_IF_INFO :: byte where "MCLAG_MSG_TYPE_DEL_REMOTE_IF_INFO \<equiv> 13"
abbreviation (input) MCLAG_MSG_TYPE_SET_PEER_LINK_ISOLATION :: byte where "MCLAG_MSG_TYPE_SET_PEER_LINK_ISOLATION \<equiv> 14"
abbreviation (input) MCLAG_MSG_TYPE_SET_ICCP_PEER_SYSTEM_ID :: byte where "MCLAG_MSG_TYPE_SET_ICCP_PEER_SYSTEM_ID \<equiv> 15"
abbreviation (input) MCLAG_SUB_OPTION_TYPE_NONE :: byte where "MCLAG_SUB_OPTION_TYPE_NONE \<equiv> 0"
abbreviation (input) MCLAG_SUB_OPTION_TYPE_ISOLATE_SRC :: byte where "MCLAG_SUB_OPTION_TYPE_ISOLATE_SRC \<equiv> 1"
abbreviation (input) MCLAG_SUB_OPTION_TYPE_ISOLATE_DST :: byte where "MCLAG_SUB_OPTION_TYPE_ISOLATE_DST \<equiv> 2"
abbreviation (input) MCLAG_SUB_OPTION_TYPE_MAC_LEARN_ENABLE :: byte where "MCLAG_SUB_OPTION_TYPE_MAC_LEARN_ENABLE \<equiv> 3"
abbreviation (input) MCLAG_SUB_OPTION_TYPE_MAC_LEARN_DISABLE :: byte where "MCLAG_SUB_OPTION_TYPE_MAC_LEARN_DISABLE \<equiv> 4"
abbreviation (input) MCLAG_SUB_OPTION_TYPE_SET_MAC_SRC :: byte where "MCLAG_SUB_OPTION_TYPE_SET_MAC_SRC \<equiv> 5"
abbreviation (input) MCLAG_SUB_OPTION_TYPE_SET_MAC_DST :: byte where "MCLAG_SUB_OPTION_TYPE_SET_MAC_DST \<equiv> 6"
abbreviation (input) MCLAG_SUB_OPTION_TYPE_MCLAG_INTF_NAME :: byte where "MCLAG_SUB_OPTION_TYPE_MCLAG_INTF_NAME \<equiv> 7"
abbreviation (input) MCLAG_SUB_OPTION_TYPE_MCLAG_ID :: byte where "MCLAG_SUB_OPTION_TYPE_MCLAG_ID \<equiv> 8"
abbreviation (input) MCLAG_SUB_OPTION_TYPE_ICCP_ROLE :: byte where "MCLAG_SUB_OPTION_TYPE_ICCP_ROLE \<equiv> 9"
abbreviation (input) MCLAG_SUB_OPTION_TYPE_SYSTEM_ID :: byte where "MCLAG_SUB_OPTION_TYPE_SYSTEM_ID \<equiv> 10"
abbreviation (input) MCLAG_SUB_OPTION_TYPE_OPER_STATUS :: byte where "MCLAG_SUB_OPTION_TYPE_OPER_STATUS \<equiv> 11"
abbreviation (input) MCLAG_SUB_OPTION_TYPE_ISOLATION_STATE :: byte where "MCLAG_SUB_OPTION_TYPE_ISOLATION_STATE \<equiv> 12"
abbreviation (input) MCLAG_SUB_OPTION_TYPE_PEER_SYSTEM_ID :: byte where "MCLAG_SUB_OPTION_TYPE_PEER_SYSTEM_ID \<equiv> 13"

abbreviation (input) SYNCD_TX_DBG_CNTR_MSG_PORT_ISOLATE :: nat where "SYNCD_TX_DBG_CNTR_MSG_PORT_ISOLATE \<equiv> 0"
abbreviation (input) SYNCD_TX_DBG_CNTR_MSG_PORT_MAC_LEARN_MODE :: nat where "SYNCD_TX_DBG_CNTR_MSG_PORT_MAC_LEARN_MODE \<equiv> 1"
abbreviation (input) SYNCD_TX_DBG_CNTR_MSG_FLUSH_FDB :: nat where "SYNCD_TX_DBG_CNTR_MSG_FLUSH_FDB \<equiv> 2"
abbreviation (input) SYNCD_TX_DBG_CNTR_MSG_SET_IF_MAC :: nat where "SYNCD_TX_DBG_CNTR_MSG_SET_IF_MAC \<equiv> 3"
abbreviation (input) SYNCD_TX_DBG_CNTR_MSG_SET_FDB :: nat where "SYNCD_TX_DBG_CNTR_MSG_SET_FDB \<equiv> 4"
abbreviation (input) SYNCD_TX_DBG_CNTR_MSG_SET_TRAFFIC_DIST_ENABLE :: nat where "SYNCD_TX_DBG_CNTR_MSG_SET_TRAFFIC_DIST_ENABLE \<equiv> 5"
abbreviation (input) SYNCD_TX_DBG_CNTR_MSG_SET_TRAFFIC_DIST_DISABLE :: nat where "SYNCD_TX_DBG_CNTR_MSG_SET_TRAFFIC_DIST_DISABLE \<equiv> 6"
abbreviation (input) SYNCD_TX_DBG_CNTR_MSG_SET_ICCP_STATE :: nat where "SYNCD_TX_DBG_CNTR_MSG_SET_ICCP_STATE \<equiv> 7"
abbreviation (input) SYNCD_TX_DBG_CNTR_MSG_SET_ICCP_ROLE :: nat where "SYNCD_TX_DBG_CNTR_MSG_SET_ICCP_ROLE \<equiv> 8"
abbreviation (input) SYNCD_TX_DBG_CNTR_MSG_SET_ICCP_SYSTEM_ID :: nat where "SYNCD_TX_DBG_CNTR_MSG_SET_ICCP_SYSTEM_ID \<equiv> 9"
abbreviation (input) SYNCD_TX_DBG_CNTR_MSG_DEL_ICCP_INFO :: nat where "SYNCD_TX_DBG_CNTR_MSG_DEL_ICCP_INFO \<equiv> 10"
abbreviation (input) SYNCD_TX_DBG_CNTR_MSG_SET_REMOTE_IF_STATE :: nat where "SYNCD_TX_DBG_CNTR_MSG_SET_REMOTE_IF_STATE \<equiv> 11"
abbreviation (input) SYNCD_TX_DBG_CNTR_MSG_DEL_REMOTE_IF_INFO :: nat where "SYNCD_TX_DBG_CNTR_MSG_DEL_REMOTE_IF_INFO \<equiv> 12"
abbreviation (input) SYNCD_TX_DBG_CNTR_MSG_PEER_LINK_ISOLATION :: nat where "SYNCD_TX_DBG_CNTR_MSG_PEER_LINK_ISOLATION \<equiv> 13"
abbreviation (input) SYNCD_TX_DBG_CNTR_MSG_SET_ICCP_PEER_SYSTEM_ID :: nat where "SYNCD_TX_DBG_CNTR_MSG_SET_ICCP_PEER_SYSTEM_ID \<equiv> 14"
abbreviation (input) SYNCD_RX_DBG_CNTR_MSG_MAC :: nat where "SYNCD_RX_DBG_CNTR_MSG_MAC \<equiv> 0"
abbreviation (input) SYNCD_RX_DBG_CNTR_MSG_CFG_MCLAG_DOMAIN :: nat where "SYNCD_RX_DBG_CNTR_MSG_CFG_MCLAG_DOMAIN \<equiv> 1"
abbreviation (input) SYNCD_RX_DBG_CNTR_MSG_CFG_MCLAG_IFACE :: nat where "SYNCD_RX_DBG_CNTR_MSG_CFG_MCLAG_IFACE \<equiv> 2"
abbreviation (input) SYNCD_RX_DBG_CNTR_MSG_CFG_MCLAG_UNIQUE_IP :: nat where "SYNCD_RX_DBG_CNTR_MSG_CFG_MCLAG_UNIQUE_IP \<equiv> 3"
abbreviation (input) SYNCD_RX_DBG_CNTR_MSG_VLAN_MBR_UPDATES :: nat where "SYNCD_RX_DBG_CNTR_MSG_VLAN_MBR_UPDATES \<equiv> 4"
abbreviation (input) SYNCD_TX_DBG_CNTR_MSG_MAX :: nat where "SYNCD_TX_DBG_CNTR_MSG_MAX \<equiv> 15"
abbreviation (input) SYNCD_RX_DBG_CNTR_MSG_MAX :: nat where "SYNCD_RX_DBG_CNTR_MSG_MAX \<equiv> 5"

definition system_syncdtx_to_dbg_msg_type :: "byte \<Rightarrow> nat" where
  "system_syncdtx_to_dbg_msg_type msg_type =
     (if msg_type = MCLAG_MSG_TYPE_PORT_ISOLATE then SYNCD_TX_DBG_CNTR_MSG_PORT_ISOLATE
     else if msg_type = MCLAG_MSG_TYPE_PORT_MAC_LEARN_MODE then SYNCD_TX_DBG_CNTR_MSG_PORT_MAC_LEARN_MODE
     else if msg_type = MCLAG_MSG_TYPE_FLUSH_FDB then SYNCD_TX_DBG_CNTR_MSG_FLUSH_FDB
     else if msg_type = MCLAG_MSG_TYPE_SET_MAC then SYNCD_TX_DBG_CNTR_MSG_SET_IF_MAC
     else if msg_type = MCLAG_MSG_TYPE_SET_FDB then SYNCD_TX_DBG_CNTR_MSG_SET_FDB
     else if msg_type = MCLAG_MSG_TYPE_SET_TRAFFIC_DIST_ENABLE then SYNCD_TX_DBG_CNTR_MSG_SET_TRAFFIC_DIST_ENABLE
     else if msg_type = MCLAG_MSG_TYPE_SET_TRAFFIC_DIST_DISABLE then SYNCD_TX_DBG_CNTR_MSG_SET_TRAFFIC_DIST_DISABLE
     else if msg_type = MCLAG_MSG_TYPE_SET_ICCP_STATE then SYNCD_TX_DBG_CNTR_MSG_SET_ICCP_STATE
     else if msg_type = MCLAG_MSG_TYPE_SET_ICCP_ROLE then SYNCD_TX_DBG_CNTR_MSG_SET_ICCP_ROLE
     else if msg_type = MCLAG_MSG_TYPE_SET_ICCP_SYSTEM_ID then SYNCD_TX_DBG_CNTR_MSG_SET_ICCP_SYSTEM_ID
     else if msg_type = MCLAG_MSG_TYPE_SET_REMOTE_IF_STATE then SYNCD_TX_DBG_CNTR_MSG_SET_REMOTE_IF_STATE
     else if msg_type = MCLAG_MSG_TYPE_DEL_ICCP_INFO then SYNCD_TX_DBG_CNTR_MSG_DEL_ICCP_INFO
     else if msg_type = MCLAG_MSG_TYPE_DEL_REMOTE_IF_INFO then SYNCD_TX_DBG_CNTR_MSG_DEL_REMOTE_IF_INFO
     else if msg_type = MCLAG_MSG_TYPE_SET_PEER_LINK_ISOLATION then SYNCD_TX_DBG_CNTR_MSG_PEER_LINK_ISOLATION
     else if msg_type = MCLAG_MSG_TYPE_SET_ICCP_PEER_SYSTEM_ID then SYNCD_TX_DBG_CNTR_MSG_SET_ICCP_PEER_SYSTEM_ID
     else SYNCD_TX_DBG_CNTR_MSG_MAX)"

definition system_syncdrx_to_dbg_msg_type :: "byte \<Rightarrow> nat" where
  "system_syncdrx_to_dbg_msg_type msg_type =
     (if msg_type = MCLAG_SYNCD_MSG_TYPE_FDB_OPERATION then SYNCD_RX_DBG_CNTR_MSG_MAC
     else if msg_type = MCLAG_SYNCD_MSG_TYPE_CFG_MCLAG_DOMAIN then SYNCD_RX_DBG_CNTR_MSG_CFG_MCLAG_DOMAIN
     else if msg_type = MCLAG_SYNCD_MSG_TYPE_CFG_MCLAG_IFACE then SYNCD_RX_DBG_CNTR_MSG_CFG_MCLAG_IFACE
     else if msg_type = MCLAG_SYNCD_MSG_TYPE_CFG_MCLAG_UNIQUE_IP then SYNCD_RX_DBG_CNTR_MSG_CFG_MCLAG_UNIQUE_IP
     else if msg_type = MCLAG_SYNCD_MSG_TYPE_VLAN_MBR_UPDATES then SYNCD_RX_DBG_CNTR_MSG_VLAN_MBR_UPDATES
     else SYNCD_RX_DBG_CNTR_MSG_MAX)"

section \<open>System instance\<close>

record system_dbg_counter_info =
  newlink_count :: "32 word"
  dellink_count :: "32 word"
  newnbr_count :: "32 word"
  delnbr_count :: "32 word"
  newaddr_count :: "32 word"
  deladdr_count :: "32 word"
  unknown_type_count :: "32 word"
  rx_error_count :: "32 word"
  unknown_if_name_count :: "32 word"
  newmac_count :: "32 word"
  delmac_count :: "32 word"
  session_down_counter :: "32 word"
  peer_link_down_counter :: "32 word"
  warmboot_counter :: "32 word"
  rx_peer_invalid_msg_counter :: "32 word"
  rx_peer_hdr_read_sock_err_counter :: "32 word"
  rx_peer_hdr_read_sock_zero_len_counter :: "32 word"
  rx_peer_tlv_read_sock_err_counter :: "32 word"
  rx_peer_tlv_read_sock_zero_len_counter :: "32 word"
  socket_close_err_counter :: "32 word"
  socket_cleanup_counter :: "32 word"
  rx_retry_max_counter :: "32 word"
  rx_retry_total_counter :: "32 word"
  rx_retry_fail_counter :: "32 word"
  rx_read_sock_zero_len_counter :: "32 word"
  rx_read_sock_err_counter :: "32 word"
  rx_read_stp_sock_zero_len_counter :: "32 word"
  rx_read_stp_sock_err_counter :: "32 word"
  mac_entry_alloc_counter :: "32 word"
  mac_entry_free_counter :: "32 word"
  syncd_tx_counters :: "64 word list list"
  syncd_rx_counters :: "64 word list list"

definition dbg_counters_zero :: system_dbg_counter_info where
  "dbg_counters_zero =
     \<lparr>newlink_count = 0, dellink_count = 0, newnbr_count = 0, delnbr_count = 0, newaddr_count = 0, deladdr_count = 0, unknown_type_count = 0, rx_error_count = 0, unknown_if_name_count = 0, newmac_count = 0, delmac_count = 0, session_down_counter = 0, peer_link_down_counter = 0, warmboot_counter = 0, rx_peer_invalid_msg_counter = 0, rx_peer_hdr_read_sock_err_counter = 0, rx_peer_hdr_read_sock_zero_len_counter = 0, rx_peer_tlv_read_sock_err_counter = 0, rx_peer_tlv_read_sock_zero_len_counter = 0, socket_close_err_counter = 0, socket_cleanup_counter = 0, rx_retry_max_counter = 0, rx_retry_total_counter = 0, rx_retry_fail_counter = 0, rx_read_sock_zero_len_counter = 0, rx_read_sock_err_counter = 0, rx_read_stp_sock_zero_len_counter = 0, rx_read_stp_sock_err_counter = 0, mac_entry_alloc_counter = 0, mac_entry_free_counter = 0,
      syncd_tx_counters = replicate 15 (replicate 2 0), syncd_rx_counters = replicate 5 (replicate 2 0)\<rparr>"

record System =
  server_fd :: int
  sync_fd :: int
  warmboot_start :: int
  warmboot_exit :: int
  csm_list :: "nat list"
  lif_list :: "nat list"
  lif_purge_list :: "nat list"
  unq_ip_if_list :: "string list"
  pending_vlan_mbr_if_list :: "(string \<times> VLAN_ID list) list"
  readfd :: "int list"
  readfd_count :: int
  csm_trans_time :: int
  dbg_counters :: system_dbg_counter_info
  csm_heap :: "nat \<Rightarrow> CSM option"
  lif_heap :: "nat \<Rightarrow> LocalInterface option"
  next_addr :: nat
  s_env :: Env
  clock :: int
  mlacp_prev_state :: MLACP_APP_STATE
  once_connected :: int

abbreviation (input) WARM_REBOOT :: int where "WARM_REBOOT \<equiv> 1"

text \<open>The instance after \<^verbatim>\<open>system_init\<close>: \<open>fd\<close> is the listening socket that
  \<^verbatim>\<open>scheduler_server_sock_init\<close> stored (\<open>-1\<close> when there is none).\<close>

definition system_init :: "int \<Rightarrow> Env \<Rightarrow> int \<Rightarrow> System" where
  "system_init fd e now =
     \<lparr>server_fd = fd, sync_fd = -1, warmboot_start = 0, warmboot_exit = 0, csm_list = [], lif_list = [],
      lif_purge_list = [], unq_ip_if_list = [], pending_vlan_mbr_if_list = [], readfd = [], readfd_count = 0,
      csm_trans_time = 0, dbg_counters = dbg_counters_zero, csm_heap = Map.empty, lif_heap = Map.empty,
      next_addr = 0, s_env = e, clock = now, mlacp_prev_state = MLACP_STATE_INIT, once_connected = 0\<rparr>"

text \<open>Assignments through pointers; a dangling address is a fault.\<close>

definition set_csm :: "nat \<Rightarrow> CSM \<Rightarrow> System \<Rightarrow> System" where
  "set_csm c csm s = s\<lparr>csm_heap := (csm_heap s)(c \<mapsto> csm)\<rparr>"

definition set_lif :: "nat \<Rightarrow> LocalInterface \<Rightarrow> System \<Rightarrow> System" where
  "set_lif l lif s = s\<lparr>lif_heap := (lif_heap s)(l \<mapsto> lif)\<rparr>"

definition on_csm :: "nat \<Rightarrow> (CSM \<Rightarrow> CSM) \<Rightarrow> System \<Rightarrow> System option" where
  "on_csm c f s = do { csm \<leftarrow> csm_heap s c; Some (set_csm c (f csm) s) }"

definition on_lif :: "nat \<Rightarrow> (LocalInterface \<Rightarrow> LocalInterface) \<Rightarrow> System \<Rightarrow> System option" where
  "on_lif l f s = do { lif \<leftarrow> lif_heap s l; Some (set_lif l (f lif) s) }"

text \<open>\<^verbatim>\<open>LIST_FOREACH\<close> over a list of addresses.\<close>

fun foreach :: "('a \<Rightarrow> 's \<Rightarrow> 's option) \<Rightarrow> 'a list \<Rightarrow> 's \<Rightarrow> 's option" where
  "foreach f [] s = Some s"
| "foreach f (x # xs) s = do { s \<leftarrow> f x s; foreach f xs s }"

text \<open>The first element of a list whose object satisfies a test.\<close>

fun find_obj :: "(nat \<Rightarrow> 'o option) \<Rightarrow> ('o \<Rightarrow> bool) \<Rightarrow> nat list \<Rightarrow> nat option option" where
  "find_obj h P [] = Some None"
| "find_obj h P (x # xs) = do { ob \<leftarrow> h x; if P ob then Some (Some x) else find_obj h P xs }"

section \<open>Lookups\<close>

definition system_get_csm_by_peer_ip :: "string \<Rightarrow> System \<Rightarrow> nat option option" where
  "system_get_csm_by_peer_ip ip s = find_obj (csm_heap s) (\<lambda>c. peer_ip c = ip) (csm_list s)"

definition system_get_csm_by_peer_ifname :: "string \<Rightarrow> System \<Rightarrow> nat option option" where
  "system_get_csm_by_peer_ifname ifname s = find_obj (csm_heap s) (\<lambda>c. peer_itf_name c = ifname) (csm_list s)"

definition system_get_csm_by_mlacp_id :: "int \<Rightarrow> System \<Rightarrow> nat option option" where
  "system_get_csm_by_mlacp_id i s = find_obj (csm_heap s) (\<lambda>c. mlacp_id (MLACP c) = i) (csm_list s)"

text \<open>The lookups of \<^verbatim>\<open>src/port.c\<close> in the list of all local interfaces.\<close>

definition local_if_find_by_name :: "string \<Rightarrow> System \<Rightarrow> nat option option" where
  "local_if_find_by_name ifname s = find_obj (lif_heap s) (\<lambda>l. lif_name l = ifname) (lif_list s)"

definition local_if_find_by_ifindex :: "int \<Rightarrow> System \<Rightarrow> nat option option" where
  "local_if_find_by_ifindex ifindex s = find_obj (lif_heap s) (\<lambda>l. lif_ifindex l = ifindex) (lif_list s)"

definition local_if_find_by_po_id :: "int \<Rightarrow> System \<Rightarrow> nat option option" where
  "local_if_find_by_po_id po_id s =
     find_obj (lif_heap s) (\<lambda>l. lif_type l = IF_T_PORT_CHANNEL \<and> lif_po_id l = po_id) (lif_list s)"

section \<open>Counters\<close>

definition bump2 :: "nat \<Rightarrow> nat \<Rightarrow> 64 word list list \<Rightarrow> 64 word list list" where
  "bump2 i st c = c[i := (c ! i)[st := c ! i ! st + 1]]"

definition SYSTEM_SET_SYNCD_TX_DBG_COUNTER :: "byte \<Rightarrow> nat \<Rightarrow> System \<Rightarrow> System" where
  "SYSTEM_SET_SYNCD_TX_DBG_COUNTER msg_type status s =
     (let dbg_type = system_syncdtx_to_dbg_msg_type msg_type in
      if dbg_type < SYNCD_TX_DBG_CNTR_MSG_MAX \<and> status < 2
      then s\<lparr>dbg_counters := syncd_tx_counters_update (bump2 dbg_type status) (dbg_counters s)\<rparr> else s)"

definition SYSTEM_SET_SYNCD_RX_DBG_COUNTER :: "byte \<Rightarrow> nat \<Rightarrow> System \<Rightarrow> System" where
  "SYSTEM_SET_SYNCD_RX_DBG_COUNTER msg_type status s =
     (let dbg_type = system_syncdrx_to_dbg_msg_type msg_type in
      if dbg_type < SYNCD_RX_DBG_CNTR_MSG_MAX \<and> status < 2
      then s\<lparr>dbg_counters := syncd_rx_counters_update (bump2 dbg_type status) (dbg_counters s)\<rparr> else s)"

definition bump_dbg :: "(system_dbg_counter_info \<Rightarrow> system_dbg_counter_info) \<Rightarrow> System \<Rightarrow> System" where
  "bump_dbg f s = s\<lparr>dbg_counters := f (dbg_counters s)\<rparr>"

definition SYSTEM_INCR_SESSION_DOWN_COUNTER :: "System \<Rightarrow> System" where
  "SYSTEM_INCR_SESSION_DOWN_COUNTER = bump_dbg (session_down_counter_update (\<lambda>n. n + 1))"

definition SYSTEM_SET_RETRY_COUNTER :: "32 word \<Rightarrow> System \<Rightarrow> System" where
  "SYSTEM_SET_RETRY_COUNTER num_retry = bump_dbg (\<lambda>d.
     d\<lparr>rx_retry_total_counter := rx_retry_total_counter d + num_retry,
       rx_retry_max_counter := (if num_retry > rx_retry_max_counter d then num_retry else rx_retry_max_counter d)\<rparr>)"

text \<open>Netlink message kinds counted by \<^verbatim>\<open>system_update_netlink_counters\<close>; the flag tells
  whether the neighbour belongs to the bridge family.\<close>

datatype netlink_kind = RTM_NEWLINK | RTM_DELLINK | RTM_NEWNEIGH | RTM_DELNEIGH | RTM_NEWADDR | RTM_DELADDR | RTM_OTHER

definition system_update_netlink_counters :: "netlink_kind \<Rightarrow> bool \<Rightarrow> System \<Rightarrow> System" where
  "system_update_netlink_counters kind af_bridge = bump_dbg (\<lambda>d.
     (case kind of
        RTM_NEWLINK \<Rightarrow> d\<lparr>newlink_count := newlink_count d + 1\<rparr>
      | RTM_DELLINK \<Rightarrow> d\<lparr>dellink_count := dellink_count d + 1\<rparr>
      | RTM_NEWNEIGH \<Rightarrow> d\<lparr>newnbr_count := newnbr_count d + 1,
                          newmac_count := (if af_bridge then newmac_count d + 1 else newmac_count d)\<rparr>
      | RTM_DELNEIGH \<Rightarrow> d\<lparr>delnbr_count := delnbr_count d + 1,
                          delmac_count := (if af_bridge then delmac_count d + 1 else delmac_count d)\<rparr>
      | RTM_NEWADDR \<Rightarrow> d\<lparr>newaddr_count := newaddr_count d + 1\<rparr>
      | RTM_DELADDR \<Rightarrow> d\<lparr>deladdr_count := deladdr_count d + 1\<rparr>
      | RTM_OTHER \<Rightarrow> d\<lparr>unknown_type_count := unknown_type_count d + 1\<rparr>))"

end
