(* ===== verification/Syncd_Out.thy ===== *)
theory Syncd_Out
  imports Iccp_System
begin

text \<open>
  What the daemon tells the rest of the switch (first half of
  \<^verbatim>\<open>src/mlacp_link_handler.c\<close>): the messages to \<^verbatim>\<open>mclagsyncd\<close> with their sub-options,
  the non-blocking send with its bounded retries, port isolation, MAC learning
  and the FDB entries.
\<close>

section \<open>Message format\<close>

text \<open>\<^verbatim>\<open>IccpSyncdHDr\<close> (version, type, length) and \<^verbatim>\<open>mclag_sub_option_hdr_t\<close> (option type, one
  padding byte, length) are in host byte order.\<close>

definition sub_option :: "byte \<Rightarrow> bytes \<Rightarrow> bytes" where
  "sub_option op_type data = [op_type, 0] @ le16 (word_of_nat (length data)) @ data"

definition syncd_msg :: "byte \<Rightarrow> bytes \<Rightarrow> bytes" where
  "syncd_msg t body = [1, t] @ le16 (word_of_nat (4 + length body)) @ body"

definition c_int :: "int \<Rightarrow> bytes" where "c_int i = le32 (word_of_int i)"
definition c_bool :: "bool \<Rightarrow> bytes" where "c_bool b = [if b then 1 else 0]"

definition mac_addr_to_str :: "bytes \<Rightarrow> string" where
  "mac_addr_to_str m =
     show_hex2 (m ! 0) @ '':'' @ show_hex2 (m ! 1) @ '':'' @ show_hex2 (m ! 2) @ '':'' @
     show_hex2 (m ! 3) @ '':'' @ show_hex2 (m ! 4) @ '':'' @ show_hex2 (m ! 5)"

section \<open>Sending\<close>

abbreviation (input) SYNCD_SEND_RETRY_MAX :: nat where "SYNCD_SEND_RETRY_MAX \<equiv> 5"

text \<open>The loop of \<^verbatim>\<open>iccp_send_to_mclagsyncd\<close>: each round asks the environment for the result
  of one \<^verbatim>\<open>send\<close>.  It returns whether the message went out, the bytes that did, and
  the results left.\<close>

fun syncd_send :: "send_result list \<Rightarrow> nat \<Rightarrow> bytes \<Rightarrow> bool \<times> bytes \<times> send_result list" where
  "syncd_send rs num_retry [] = (True, [], rs)"
| "syncd_send [] num_retry bs = (True, bs, [])"
| "syncd_send (Sent k # rs) num_retry bs =
     (let n = max 1 (min k (length bs));
          (ok, out, rs) = syncd_send rs num_retry (drop n bs)
      in (ok, take n bs @ out, rs))"
| "syncd_send (Would_block # rs) num_retry bs =
     (if num_retry + 1 > SYNCD_SEND_RETRY_MAX then (False, [], rs) else syncd_send rs (num_retry + 1) bs)"
| "syncd_send (Send_failed # rs) num_retry bs = (False, [], rs)"
| "syncd_send (Send_closed # rs) num_retry bs = (False, [], rs)"

definition iccp_send_to_mclagsyncd :: "byte \<Rightarrow> bytes \<Rightarrow> System \<Rightarrow> int \<times> System" where
  "iccp_send_to_mclagsyncd msg_type msg s =
     (if sync_fd s \<noteq> 0 then
        (let (ok, out, rs) = syncd_send (send_results (s_env s)) 0 msg;
             s = s\<lparr>s_env := (s_env s)\<lparr>send_results := rs, syncd_out := syncd_out (s_env s) @ [out]\<rparr>\<rparr>
         in if ok then (int (length out), SYSTEM_SET_SYNCD_TX_DBG_COUNTER msg_type ICCP_DBG_CNTR_STS_OK s)
            else (MCLAG_ERROR, SYSTEM_SET_SYNCD_TX_DBG_COUNTER msg_type ICCP_DBG_CNTR_STS_ERR s))
      else (0, s))"

text \<open>The common tail of the senders: send, compare with the length, count (some of them
  count a second time).\<close>

definition syncd_request :: "byte \<Rightarrow> bytes \<Rightarrow> bool \<Rightarrow> System \<Rightarrow> int \<times> System" where
  "syncd_request t body count_ok s =
     (let msg = syncd_msg t body;
          (rc, s) = (if sync_fd s \<noteq> 0 then iccp_send_to_mclagsyncd t msg s else (0, s))
      in if rc \<le> 0 \<or> rc \<noteq> int (length msg) then (MCLAG_ERROR, s)
         else (0, if count_ok then SYSTEM_SET_SYNCD_TX_DBG_COUNTER t ICCP_DBG_CNTR_STS_OK s else s))"

definition syncd_write :: "byte \<Rightarrow> bytes \<Rightarrow> System \<Rightarrow> int \<times> System" where
  "syncd_write t msg s =
     (let (rc, e) = sys_write (sync_fd s) msg (s_env s) in (rc, s\<lparr>s_env := e\<rparr>))"

definition set_peerlink_mlag_port_learn :: "LocalInterface option \<Rightarrow> int \<Rightarrow> System \<Rightarrow> System" where
  "set_peerlink_mlag_port_learn lif enable s =
     (case lif of None \<Rightarrow> s
      | Some lif \<Rightarrow>
        (let t = MCLAG_MSG_TYPE_PORT_MAC_LEARN_MODE;
             msg = syncd_msg t (sub_option
               (if enable \<noteq> 0 then MCLAG_SUB_OPTION_TYPE_MAC_LEARN_ENABLE
                else MCLAG_SUB_OPTION_TYPE_MAC_LEARN_DISABLE) (str_bytes (lif_name lif)))
         in if sync_fd s \<noteq> 0 then
              (let (rc, s) = syncd_write t msg s in
               if rc \<le> 0 \<or> rc \<noteq> int (length msg)
               then SYSTEM_SET_SYNCD_TX_DBG_COUNTER t ICCP_DBG_CNTR_STS_ERR s
               else SYSTEM_SET_SYNCD_TX_DBG_COUNTER t ICCP_DBG_CNTR_STS_OK s)
            else s))"

definition mlacp_link_set_traffic_dist_mode :: "string \<Rightarrow> bool \<Rightarrow> System \<Rightarrow> int \<times> System" where
  "mlacp_link_set_traffic_dist_mode po_name is_enable =
     syncd_request (if is_enable then MCLAG_MSG_TYPE_SET_TRAFFIC_DIST_ENABLE
                    else MCLAG_MSG_TYPE_SET_TRAFFIC_DIST_DISABLE)
       (sub_option MCLAG_SUB_OPTION_TYPE_MCLAG_INTF_NAME (str_bytes po_name)) False"

definition mlacp_link_set_iccp_state :: "int \<Rightarrow> bool \<Rightarrow> System \<Rightarrow> int \<times> System" where
  "mlacp_link_set_iccp_state mid is_oper_up s =
     (if sync_fd s \<le> 0 \<and> \<not> is_oper_up then (MCLAG_ERROR, s)
      else syncd_request MCLAG_MSG_TYPE_SET_ICCP_STATE
        (sub_option MCLAG_SUB_OPTION_TYPE_MCLAG_ID (c_int mid) @
         sub_option MCLAG_SUB_OPTION_TYPE_OPER_STATUS (c_bool is_oper_up)) False s)"

definition mlacp_link_set_iccp_role :: "int \<Rightarrow> bool \<Rightarrow> bytes \<Rightarrow> System \<Rightarrow> int \<times> System" where
  "mlacp_link_set_iccp_role mid is_active_role sysid =
     syncd_request MCLAG_MSG_TYPE_SET_ICCP_ROLE
       (sub_option MCLAG_SUB_OPTION_TYPE_MCLAG_ID (c_int mid) @
        sub_option MCLAG_SUB_OPTION_TYPE_ICCP_ROLE (c_bool is_active_role) @
        (if is_active_role then sub_option MCLAG_SUB_OPTION_TYPE_SYSTEM_ID sysid else [])) False"

definition mlacp_link_set_iccp_system_id :: "int \<Rightarrow> bytes \<Rightarrow> System \<Rightarrow> int \<times> System" where
  "mlacp_link_set_iccp_system_id mid sysid =
     syncd_request MCLAG_MSG_TYPE_SET_ICCP_SYSTEM_ID
       (sub_option MCLAG_SUB_OPTION_TYPE_MCLAG_ID (c_int mid) @
        sub_option MCLAG_SUB_OPTION_TYPE_SYSTEM_ID sysid) False"

definition mlacp_link_set_remote_if_state :: "int \<Rightarrow> string \<Rightarrow> bool \<Rightarrow> System \<Rightarrow> int \<times> System" where
  "mlacp_link_set_remote_if_state mid po_name is_oper_up =
     syncd_request MCLAG_MSG_TYPE_SET_REMOTE_IF_STATE
       (sub_option MCLAG_SUB_OPTION_TYPE_MCLAG_ID (c_int mid) @
        sub_option MCLAG_SUB_OPTION_TYPE_MCLAG_INTF_NAME (str_bytes po_name) @
        sub_option MCLAG_SUB_OPTION_TYPE_OPER_STATUS (c_bool is_oper_up)) True"

definition mlacp_link_del_remote_if_info :: "int \<Rightarrow> string \<Rightarrow> System \<Rightarrow> int \<times> System" where
  "mlacp_link_del_remote_if_info mid po_name =
     syncd_request MCLAG_MSG_TYPE_DEL_REMOTE_IF_INFO
       (sub_option MCLAG_SUB_OPTION_TYPE_MCLAG_ID (c_int mid) @
        sub_option MCLAG_SUB_OPTION_TYPE_MCLAG_INTF_NAME (str_bytes po_name)) True"

definition mlacp_link_set_peerlink_port_isolation :: "int \<Rightarrow> string \<Rightarrow> bool \<Rightarrow> System \<Rightarrow> int \<times> System" where
  "mlacp_link_set_peerlink_port_isolation mid po_name is_isolation_enable =
     syncd_request MCLAG_MSG_TYPE_SET_PEER_LINK_ISOLATION
       (sub_option MCLAG_SUB_OPTION_TYPE_MCLAG_ID (c_int mid) @
        sub_option MCLAG_SUB_OPTION_TYPE_MCLAG_INTF_NAME (str_bytes po_name) @
        sub_option MCLAG_SUB_OPTION_TYPE_ISOLATION_STATE (c_bool is_isolation_enable)) True"

text \<open>The delete request uses one plain \<^verbatim>\<open>send\<close> and counts only its success.\<close>

definition mlacp_link_del_iccp_info :: "int \<Rightarrow> System \<Rightarrow> int \<times> System" where
  "mlacp_link_del_iccp_info mid s =
     (let t = MCLAG_MSG_TYPE_DEL_ICCP_INFO;
          msg = syncd_msg t (sub_option MCLAG_SUB_OPTION_TYPE_MCLAG_ID (c_int mid));
          e = s_env s;
          out = (case send_results e of [] \<Rightarrow> msg | Sent k # _ \<Rightarrow> take k msg | _ # _ \<Rightarrow> []);
          rc = (case send_results e of [] \<Rightarrow> int (length msg) | Sent k # _ \<Rightarrow> int (min k (length msg))
                | Send_closed # _ \<Rightarrow> 0 | _ # _ \<Rightarrow> -1);
          (rc, s) = (if sync_fd s \<noteq> 0
                     then (rc, s\<lparr>s_env := e\<lparr>send_results := tl (send_results e), syncd_out := syncd_out e @ [out]\<rparr>\<rparr>)
                     else (0, s))
      in if rc \<le> 0 \<or> rc \<noteq> int (length msg) then (MCLAG_ERROR, s)
         else (0, SYSTEM_SET_SYNCD_TX_DBG_COUNTER t ICCP_DBG_CNTR_STS_OK s))"

section \<open>FDB entries\<close>

text \<open>\<^verbatim>\<open>mclag_fdb_info\<close>: address, two padding bytes, VLAN, port name, type and operation.\<close>

definition fdb_info :: "MACMsg \<Rightarrow> byte \<Rightarrow> byte \<Rightarrow> bytes" where
  "fdb_info m mac_type oper =
     mac_addr m @ [0, 0] @ le32 (ucast (mac_vid m)) @ char_arr MAX_L_PORT_NAME (mac_ifname m) @
     le16 (ucast mac_type) @ le16 (ucast oper)"

definition iccp_send_fdb_entry_to_syncd :: "MACMsg \<Rightarrow> byte \<Rightarrow> byte \<Rightarrow> System \<Rightarrow> MACMsg \<times> System" where
  "iccp_send_fdb_entry_to_syncd m mac_type oper s =
     (if mac_addr m = replicate 6 0 then (m, s)
      else
        (let t = MCLAG_MSG_TYPE_SET_FDB;
             s = (if sync_fd s > 0 then snd (iccp_send_to_mclagsyncd t (syncd_msg t (fdb_info m mac_type oper)) s)
                  else SYSTEM_SET_SYNCD_TX_DBG_COUNTER t ICCP_DBG_CNTR_STS_ERR s)
         in (m\<lparr>mac_add_to_syncd := (if oper = MAC_SYNC_DEL then 0 else 1)\<rparr>, s)))"

definition add_mac_to_chip :: "MACMsg \<Rightarrow> byte \<Rightarrow> System \<Rightarrow> MACMsg \<times> System" where
  "add_mac_to_chip m mac_type = iccp_send_fdb_entry_to_syncd m mac_type MAC_SYNC_ADD"

definition del_mac_from_chip :: "MACMsg \<Rightarrow> System \<Rightarrow> MACMsg \<times> System" where
  "del_mac_from_chip m = iccp_send_fdb_entry_to_syncd m (mac_fdb_type m) MAC_SYNC_DEL"

end
