(* ===== verification/Link_Handler.thy ===== *)
theory Link_Handler
  imports Syncd_Out
begin

text \<open>
  Interface side effects of the session (\<^verbatim>\<open>src/mlacp_link_handler.c\<close> and the MAC
  address part of \<^verbatim>\<open>src/iccp_netlink.c\<close>): port isolation between the peer link and
  the MLAG ports, traffic distribution, learning on the peer link, and the
  system MAC address that the standby switch borrows from its peer and gives
  back.  Interfaces and sessions are addresses in the heaps of \<open>System\<close>.
\<close>

section \<open>Peer link\<close>

definition shell :: "string \<Rightarrow> System \<Rightarrow> int \<times> System" where
  "shell cmd s = (let (rc, e) = sys_shell cmd (s_env s) in (rc, s\<lparr>s_env := e\<rparr>))"

definition netlink :: "kernel_req \<Rightarrow> System \<Rightarrow> System" where
  "netlink r s = s\<lparr>s_env := sys_netlink r (s_env s)\<rparr>"

definition set_peerlink_learn_kernel :: "nat \<Rightarrow> int \<Rightarrow> System \<Rightarrow> System option" where
  "set_peerlink_learn_kernel c enable s = do {
     csm \<leftarrow> csm_heap s c;
     (case peer_link_if csm of None \<Rightarrow> Some s
      | Some l \<Rightarrow> do {
          lif \<leftarrow> lif_heap s l;
          let (ret, s) = shell (''bridge link set dev '' @ lif_name lif @
                 (if enable = 0 then '' learning off'' else '' learning on'')) s;
          on_csm c (\<lambda>csm.
            if ret \<noteq> 0
            then csm\<lparr>peer_link_learning_enable := enable, peer_link_learning_retry_time := clock s\<rparr>
            else csm\<lparr>peer_link_learning_retry_time := 0\<rparr>) s }) }"

definition mlacp_fix_bridge_mac :: "CSM \<Rightarrow> System \<Rightarrow> System" where
  "mlacp_fix_bridge_mac csm s =
     (if system_id (MLACP csm) \<noteq> replicate 6 0
      then snd (shell (''ip link set dev Bridge address '' @ mac_addr_to_str (system_id (MLACP csm)) @
                       '' > /dev/null 2>&1'') s)
      else s)"

definition set_peerlink_mlag_port_kernel_forward :: "nat \<Rightarrow> nat \<Rightarrow> int \<Rightarrow> System \<Rightarrow> System option" where
  "set_peerlink_mlag_port_kernel_forward c l enable s = do {
     csm \<leftarrow> csm_heap s c;
     (case peer_link_if csm of None \<Rightarrow> Some s
      | Some p \<Rightarrow> do {
          plif \<leftarrow> lif_heap s p; lif \<leftarrow> lif_heap s l;
          let rule = '' FORWARD -i '' @ lif_name plif @ '' -o '' @ lif_name lif @ '' -j DROP'';
          let (_, s) = shell (''ebtables -D'' @ rule) s;
          let (_, s) = shell ((if enable \<noteq> 0 then ''ebtables -I'' else ''ebtables -D'') @ rule) s;
          Some s }) }"

section \<open>Port isolation\<close>

abbreviation (input) MCLAG_MEMBER_NAME_STR_LEN :: nat where "MCLAG_MEMBER_NAME_STR_LEN \<equiv> 2048"

text \<open>The list of isolated ports: names and members, separated by commas; what does not fit
  the buffer is skipped.\<close>

definition isolate_dst_step :: "LocalInterface \<Rightarrow> string \<Rightarrow> string" where
  "isolate_dst_step lif buf =
     (if lif_type lif \<noteq> IF_T_PORT_CHANNEL \<or> lif_isolate_to_peer_link lif \<noteq> 1 then buf
      else if MCLAG_MEMBER_NAME_STR_LEN - length buf >
                length (lif_name lif) + length (lif_portchannel_member_buf lif) + 2
      then buf @ (if buf \<noteq> [] then '','' else []) @ lif_name lif @
           (if lif_portchannel_member_buf lif = [] then [] else '','') @ lif_portchannel_member_buf lif
      else buf)"

fun isolate_dst :: "(nat \<Rightarrow> LocalInterface option) \<Rightarrow> nat list \<Rightarrow> string \<Rightarrow> string option" where
  "isolate_dst h [] buf = Some buf"
| "isolate_dst h (l # ls) buf = do { lif \<leftarrow> h l; isolate_dst h ls (isolate_dst_step lif buf) }"

definition update_peerlink_isolate_from_all_csm_lif :: "nat \<Rightarrow> System \<Rightarrow> System option" where
  "update_peerlink_isolate_from_all_csm_lif c s = do {
     csm \<leftarrow> csm_heap s c;
     (case peer_link_if csm of None \<Rightarrow> Some s
      | Some p \<Rightarrow> do {
          plif \<leftarrow> lif_heap s p;
          if lif_type plif = IF_T_VXLAN then Some s
          else do {
            dst \<leftarrow> isolate_dst (lif_heap s) (mlacp_lif_list (MLACP csm)) [];
            let t = MCLAG_MSG_TYPE_PORT_ISOLATE;
            let msg = syncd_msg t (sub_option MCLAG_SUB_OPTION_TYPE_ISOLATE_SRC (str_bytes (lif_name plif)) @
                                   sub_option MCLAG_SUB_OPTION_TYPE_ISOLATE_DST (str_bytes dst));
            if sync_fd s \<noteq> 0 then
              (let (rc, s) = syncd_write t msg s in
               Some (if rc \<le> 0 \<or> rc \<noteq> int (length msg)
                     then SYSTEM_SET_SYNCD_TX_DBG_COUNTER t ICCP_DBG_CNTR_STS_ERR s
                     else SYSTEM_SET_SYNCD_TX_DBG_COUNTER t ICCP_DBG_CNTR_STS_OK s))
            else Some s } }) }"

definition set_peerlink_mlag_port_isolate :: "nat \<Rightarrow> nat \<Rightarrow> int \<Rightarrow> bool \<Rightarrow> System \<Rightarrow> System option" where
  "set_peerlink_mlag_port_isolate c l enable is_unbind_pending s = do {
     s \<leftarrow> on_lif l (lif_isolate_to_peer_link_update (\<lambda>_. word_of_int enable)) s;
     csm \<leftarrow> csm_heap s c;
     if peer_link_if csm = None \<or> mlacp_current_state (MLACP csm) \<noteq> MLACP_STATE_EXCHANGE then Some s
     else do {
       s \<leftarrow> update_peerlink_isolate_from_all_csm_lif c s;
       s \<leftarrow> set_peerlink_mlag_port_kernel_forward c l enable s;
       lif \<leftarrow> lif_heap s l;
       Some (if is_unbind_pending then s
             else snd (mlacp_link_set_peerlink_port_isolation (mlag_id csm) (lif_name lif) (enable \<noteq> 0) s)) } }"

definition peerlink_port_isolate_cleanup :: "nat \<Rightarrow> System \<Rightarrow> System option" where
  "peerlink_port_isolate_cleanup c s = do {
     csm \<leftarrow> csm_heap s c;
     foreach (\<lambda>l s. do {
       lif \<leftarrow> lif_heap s l;
       if lif_type lif = IF_T_PORT_CHANNEL then set_peerlink_mlag_port_isolate c l 0 False s else Some s })
     (mlacp_lif_list (MLACP csm)) s }"

text \<open>The peer's port-channel changed: isolation follows when the local one is up.\<close>

definition update_peerlink_isolate_from_pif :: "nat \<Rightarrow> PeerInterface \<Rightarrow> int \<Rightarrow> int \<Rightarrow> System \<Rightarrow> System option" where
  "update_peerlink_isolate_from_pif c pif pif_po_state new_create s = do {
     csm \<leftarrow> csm_heap s c;
     if peer_link_if csm = None
        \<or> (new_create = 0 \<and> pif_po_state = uint (pif_po_active pif))
        \<or> mlacp_current_state (MLACP csm) \<noteq> MLACP_STATE_EXCHANGE
     then Some s
     else do {
       found \<leftarrow> find_obj (lif_heap s) (\<lambda>lif. lif_name lif = pif_name pif) (mlacp_lif_list (MLACP csm));
       (case found of None \<Rightarrow> Some s
        | Some l \<Rightarrow> do {
            lif \<leftarrow> lif_heap s l;
            if lif_po_active lif = 1
            then set_peerlink_mlag_port_isolate c l (if pif_po_state = 1 then 1 else 0) False s
            else Some s }) } }"

section \<open>Traffic distribution\<close>

definition mlacp_link_disable_traffic_distribution :: "nat \<Rightarrow> System \<Rightarrow> System option" where
  "mlacp_link_disable_traffic_distribution l s = do {
     lif \<leftarrow> lif_heap s l;
     (case lif_csm lif of None \<Rightarrow> Some s
      | Some c \<Rightarrow> do {
          csm \<leftarrow> csm_heap s c;
          if mlacp_current_state (MLACP csm) \<noteq> MLACP_STATE_EXCHANGE then Some s
          else if lif_type lif = IF_T_PORT_CHANNEL \<and> lif_po_active lif = 0 \<and> \<not> lif_is_traffic_disable lif
          then (let (rc, s) = mlacp_link_set_traffic_dist_mode (lif_name lif) False s in
                if rc = 0 then on_lif l (lif_is_traffic_disable_update (\<lambda>_. True)) s else Some s)
          else Some s }) }"

definition mlacp_link_enable_traffic_distribution :: "nat \<Rightarrow> System \<Rightarrow> System option" where
  "mlacp_link_enable_traffic_distribution l s = do {
     lif \<leftarrow> lif_heap s l;
     (case lif_csm lif of None \<Rightarrow> Some s
      | Some _ \<Rightarrow>
          if lif_type lif = IF_T_PORT_CHANNEL \<and> lif_is_traffic_disable lif
          then (let (rc, s) = mlacp_link_set_traffic_dist_mode (lif_name lif) True s in
                if rc = 0 then on_lif l (lif_is_traffic_disable_update (\<lambda>_. False)) s else Some s)
          else Some s) }"

section \<open>Interface MAC addresses on the standby switch\<close>

definition local_if_is_l3_mode :: "LocalInterface \<Rightarrow> bool" where
  "local_if_is_l3_mode lif \<longleftrightarrow>
     lif_ipv4_addr lif \<noteq> 0 \<or> lif_ipv6_addr lif \<noteq> replicate 4 0 \<or> lif_master_ifindex lif \<noteq> 0"

definition iccp_set_interface_ipadd_mac :: "LocalInterface \<Rightarrow> string \<Rightarrow> System \<Rightarrow> System" where
  "iccp_set_interface_ipadd_mac lif mac_str s =
     (let t = MCLAG_MSG_TYPE_SET_MAC;
          msg = syncd_msg t (sub_option MCLAG_SUB_OPTION_TYPE_SET_MAC_SRC (str_bytes (lif_name lif)) @
                             sub_option MCLAG_SUB_OPTION_TYPE_SET_MAC_DST (str_bytes mac_str))
      in if sync_fd s \<noteq> 0 then
           (let (rc, s) = syncd_write t msg s in
            if rc = -1 then SYSTEM_SET_SYNCD_TX_DBG_COUNTER t ICCP_DBG_CNTR_STS_ERR s
            else SYSTEM_SET_SYNCD_TX_DBG_COUNTER t ICCP_DBG_CNTR_STS_OK s)
         else s)"

text \<open>Set the hardware address and bounce the interface.\<close>

definition iccp_netlink_if_hwaddr_set :: "int \<Rightarrow> bytes \<Rightarrow> System \<Rightarrow> System" where
  "iccp_netlink_if_hwaddr_set ifindex addr = netlink (If_hwaddr_set ifindex addr)"

definition iccp_netlink_if_shutdown_set :: "int \<Rightarrow> System \<Rightarrow> System" where
  "iccp_netlink_if_shutdown_set ifindex = netlink (If_shutdown_set ifindex)"

definition iccp_netlink_if_startup_set :: "int \<Rightarrow> System \<Rightarrow> System" where
  "iccp_netlink_if_startup_set ifindex = netlink (If_startup_set ifindex)"

definition change_hwaddr :: "int \<Rightarrow> bytes \<Rightarrow> System \<Rightarrow> System" where
  "change_hwaddr ifindex addr s =
     iccp_netlink_if_startup_set ifindex
       (iccp_netlink_if_shutdown_set ifindex (iccp_netlink_if_hwaddr_set ifindex addr s))"

text \<open>Hardware address, IP MAC and record of a VLAN interface.\<close>

definition set_vlan_l3_mac :: "nat \<Rightarrow> bytes \<Rightarrow> System \<Rightarrow> System option" where
  "set_vlan_l3_mac v mac s = do {
     vif \<leftarrow> lif_heap s v;
     let s = change_hwaddr (lif_ifindex vif) mac s;
     let s = iccp_set_interface_ipadd_mac vif (mac_addr_to_str mac) s;
     on_lif v (lif_l3_mac_addr_update (\<lambda>_. mac)) s }"

fun foreach_vlan :: "(VLAN_ID \<Rightarrow> nat \<Rightarrow> System \<Rightarrow> System option) \<Rightarrow> VLAN_ID list \<Rightarrow> System \<Rightarrow> System option" where
  "foreach_vlan f [] s = Some s"
| "foreach_vlan f (v # vs) s =
     (case vlan_itf v of None \<Rightarrow> foreach_vlan f vs s
      | Some i \<Rightarrow> do { s \<leftarrow> f v i s; foreach_vlan f vs s })"

definition peer_if_find_by_name :: "CSM \<Rightarrow> string \<Rightarrow> PeerInterface option" where
  "peer_if_find_by_name csm name = find (\<lambda>p. pif_name p = name) (pif_list (MLACP csm))"

definition update_if_ipmac_on_standby :: "nat \<Rightarrow> System \<Rightarrow> System option" where
  "update_if_ipmac_on_standby l s = do {
     lif \<leftarrow> lif_heap s l;
     (case lif_csm lif of None \<Rightarrow> Some s
      | Some c \<Rightarrow> do {
          csm \<leftarrow> csm_heap s c;
          let rmac = rs_system_id (remote_system (MLACP csm));
          if lif_type lif \<noteq> IF_T_PORT_CHANNEL \<or> role_type csm \<noteq> STP_ROLE_STANDBY \<or> rmac = replicate 6 0
          then Some s
          else do {
            s \<leftarrow> (if peer_if_find_by_name csm (lif_name lif) \<noteq> None \<and> lif_mac_addr lif \<noteq> rmac
                  then map_option (change_hwaddr (lif_ifindex lif) rmac)
                         (on_lif l (lif_mac_addr_ori_update (\<lambda>_. lif_mac_addr lif)) s)
                  else Some s);
            if local_if_is_l3_mode lif
            then (if lif_l3_mac_addr lif \<noteq> rmac
                  then on_lif l (lif_l3_mac_addr_update (\<lambda>_. rmac))
                         (iccp_set_interface_ipadd_mac lif (mac_addr_to_str rmac) s)
                  else Some s)
            else foreach_vlan (\<lambda>_ v s. do {
              vif \<leftarrow> lif_heap s v;
              if local_if_is_l3_mode vif \<and> lif_l3_mac_addr vif \<noteq> rmac \<and> \<not> lif_is_l3_proto_enabled vif
              then set_vlan_l3_mac v rmac s else Some s }) (lif_vlan_tree lif) s } }) }"

definition recover_if_ipmac_on_standby :: "nat \<Rightarrow> System \<Rightarrow> System option" where
  "recover_if_ipmac_on_standby l s = do {
     lif \<leftarrow> lif_heap s l;
     (case lif_csm lif of None \<Rightarrow> Some s
      | Some c \<Rightarrow> do {
          csm \<leftarrow> csm_heap s c;
          let own = system_id (MLACP csm);
          if lif_type lif \<noteq> IF_T_PORT_CHANNEL \<or> role_type csm \<noteq> STP_ROLE_STANDBY then Some s
          else do {
            s \<leftarrow> (if lif_mac_addr lif \<noteq> own
                  then on_lif l (lif_mac_addr_update (\<lambda>_. own)) (change_hwaddr (lif_ifindex lif) own s)
                  else Some s);
            if local_if_is_l3_mode lif
            then on_lif l (lif_l3_mac_addr_update (\<lambda>_. own))
                   (iccp_set_interface_ipadd_mac lif (mac_addr_to_str own) s)
            else foreach_vlan (\<lambda>_ v s. do {
              vif \<leftarrow> lif_heap s v;
              if local_if_is_l3_mode vif \<and> \<not> lif_is_l3_proto_enabled vif
              then set_vlan_l3_mac v own s else Some s }) (lif_vlan_tree lif) s } }) }"

section \<open>VLAN interface MAC addresses\<close>

text \<open>\<^verbatim>\<open>sscanf(name, "Vlan%d", &vid)\<close> into a variable that holds 0: white space, an optional
  sign and digits; the variable keeps its value when the pattern does not match.\<close>

definition digit_val :: "char \<Rightarrow> nat" where "digit_val ch = of_char ch - 48"

definition is_digit :: "char \<Rightarrow> bool" where
  "is_digit ch \<longleftrightarrow> 48 \<le> (of_char ch :: nat) \<and> (of_char ch :: nat) \<le> 57"

definition is_space :: "char \<Rightarrow> bool" where
  "is_space ch \<longleftrightarrow> of_char ch = (32::nat) \<or> (9 \<le> (of_char ch :: nat) \<and> (of_char ch :: nat) \<le> 13)"

definition digits_val :: "string \<Rightarrow> int" where
  "digits_val ds = int (foldl (\<lambda>n ch. n * 10 + digit_val ch) 0 ds)"

definition scan_int :: "string \<Rightarrow> int option" where
  "scan_int str =
     (let t = dropWhile is_space str;
          (sg, t) = (case t of CHR ''-'' # r \<Rightarrow> (-1, r) | CHR ''+'' # r \<Rightarrow> (1, r) | _ \<Rightarrow> (1::int, t));
          ds = takeWhile is_digit t
      in if ds = [] then None else Some (sg * digits_val ds))"

definition scan_vlan :: "string \<Rightarrow> int" where
  "scan_vlan name =
     (if take 4 name = ''Vlan'' then (case scan_int (drop 4 name) of Some n \<Rightarrow> n | None \<Rightarrow> 0) else 0)"

definition show_int :: "int \<Rightarrow> string" where
  "show_int i = (if i < 0 then ''-'' @ show_nat (nat (- i)) else show_nat (nat i))"

definition set_peer_mac_in_kernel :: "string \<Rightarrow> int \<Rightarrow> bool \<Rightarrow> System \<Rightarrow> System" where
  "set_peer_mac_in_kernel mac vlan add s =
     snd (shell ((if add then ''bridge fdb replace '' else ''bridge fdb del '') @ mac @
                 '' dev Bridge vlan '' @ show_int vlan @ '' local'') s)"

text \<open>The first session whose peer link or one of whose port-channels is in the VLAN.\<close>

definition csm_has_vlan :: "16 word \<Rightarrow> CSM \<Rightarrow> System \<Rightarrow> bool option" where
  "csm_has_vlan k csm s = do {
     on_peer \<leftarrow> (case peer_link_if csm of None \<Rightarrow> Some False
       | Some p \<Rightarrow> do {
           plif \<leftarrow> lif_heap s p;
           Some (case rb_find vid k (lif_vlan_tree plif) of None \<Rightarrow> False | Some v \<Rightarrow> vlan_itf v \<noteq> None) });
     if on_peer then Some True
     else do {
       po \<leftarrow> find_obj (lif_heap s)
              (\<lambda>lif. lif_type lif = IF_T_PORT_CHANNEL \<and> rb_find vid k (lif_vlan_tree lif) \<noteq> None)
              (mlacp_lif_list (MLACP csm));
       Some (po \<noteq> None) } }"

fun vlan_csm :: "16 word \<Rightarrow> nat list \<Rightarrow> System \<Rightarrow> nat option option" where
  "vlan_csm k [] s = Some None"
| "vlan_csm k (c # cs) s = do {
     csm \<leftarrow> csm_heap s c;
     b \<leftarrow> csm_has_vlan k csm s;
     if b then Some (Some c) else vlan_csm k cs s }"

definition update_vlan_if_mac_on_standby :: "nat \<Rightarrow> System \<Rightarrow> System option" where
  "update_vlan_if_mac_on_standby v s = do {
     vif \<leftarrow> lif_heap s v;
     if lif_type vif \<noteq> IF_T_VLAN then Some s
     else do {
       let vlan = scan_vlan (lif_name vif);
       found \<leftarrow> vlan_csm (word_of_int vlan) (csm_list s) s;
       (case found of None \<Rightarrow> Some s
        | Some c \<Rightarrow> do {
            csm \<leftarrow> csm_heap s c;
            let mac = (if \<not> lif_is_l3_proto_enabled vif then rs_system_id (remote_system (MLACP csm))
                       else system_id (MLACP csm));
            if role_type csm \<noteq> STP_ROLE_STANDBY \<or> mac = replicate 6 0 \<or> \<not> local_if_is_l3_mode vif
               \<or> lif_l3_mac_addr vif = mac
            then Some s
            else do {
              s \<leftarrow> set_vlan_l3_mac v mac s;
              Some (if \<not> lif_is_l3_proto_enabled vif
                    then set_peer_mac_in_kernel (mac_addr_to_str mac) vlan True s else s) } }) } }"

definition recover_vlan_if_mac_on_standby :: "nat \<Rightarrow> int \<Rightarrow> bytes option \<Rightarrow> System \<Rightarrow> System option" where
  "recover_vlan_if_mac_on_standby v dir remote_system_mac s = do {
     vif \<leftarrow> lif_heap s v;
     if lif_type vif \<noteq> IF_T_VLAN then Some s
     else do {
       found \<leftarrow> find_obj (csm_heap s) (\<lambda>csm. peer_link_if csm \<noteq> None) (csm_list s);
       (case found of None \<Rightarrow> Some s
        | Some c \<Rightarrow> do {
            csm \<leftarrow> csm_heap s c;
            let vlan = scan_vlan (lif_name vif);
            let rmac = rs_system_id (remote_system (MLACP csm));
            let mac = (if lif_is_l3_proto_enabled vif then rmac else system_id (MLACP csm));
            if role_type csm \<noteq> STP_ROLE_STANDBY \<or> mac = replicate 6 0 \<or> \<not> local_if_is_l3_mode vif
               \<or> lif_l3_mac_addr vif = mac
            then Some s
            else do {
              s \<leftarrow> set_vlan_l3_mac v mac s;
              Some (if rmac \<noteq> replicate 6 0 then set_peer_mac_in_kernel (mac_addr_to_str rmac) vlan False s
                    else case remote_system_mac of
                      Some m \<Rightarrow> (if dir = 4 \<and> m \<noteq> replicate 6 0
                                 then set_peer_mac_in_kernel (mac_addr_to_str m) vlan False s else s)
                    | None \<Rightarrow> s) } }) } }"

definition update_vlan_if_mac_on_iccp_up :: "nat \<Rightarrow> bool \<Rightarrow> bytes option \<Rightarrow> System \<Rightarrow> System option" where
  "update_vlan_if_mac_on_iccp_up l up remote_system_mac s = do {
     lif \<leftarrow> lif_heap s l;
     foreach_vlan (\<lambda>_ v s.
       if up then update_vlan_if_mac_on_standby v s
       else recover_vlan_if_mac_on_standby v 4 remote_system_mac s) (lif_vlan_tree lif) s }"

end
