(* ===== verification/Session.thy ===== *)
theory Session
  imports Link_Handler
begin

unbundle bit_operations_syntax

text \<open>
  The life of a peer session (\<^verbatim>\<open>src/scheduler.c\<close>, \<^verbatim>\<open>src/iccp_csm.c\<close>, the init
  functions of \<^verbatim>\<open>src/app_csm.c\<close> and \<^verbatim>\<open>src/mlacp_fsm.c\<close>, and the disconnect handlers
  of \<^verbatim>\<open>src/mlacp_link_handler.c\<close>): creating and resetting it, deciding the role,
  connecting and accepting, reading from the socket, the heartbeat, the
  transitions of the connection state machine, and taking the session down.
\<close>

section \<open>Creating and resetting a session\<close>

abbreviation (input) CONNECT_INTERVAL_SEC :: int where "CONNECT_INTERVAL_SEC \<equiv> 1"
abbreviation (input) HEARTBEAT_TIMEOUT_SEC :: int where "HEARTBEAT_TIMEOUT_SEC \<equiv> 15"
abbreviation (input) MLACP_SYSCONF_NODEID_MSB_MASK :: byte where "MLACP_SYSCONF_NODEID_MSB_MASK \<equiv> 0x80"
abbreviation (input) MLACP_SYSCONF_NODEID_NODEID_MASK :: "32 word" where "MLACP_SYSCONF_NODEID_NODEID_MASK \<equiv> 0x70"
abbreviation (input) MLACP_SYSCONF_NODEID_FREE_MASK :: int where "MLACP_SYSCONF_NODEID_FREE_MASK \<equiv> 0x0F"

text \<open>\<^verbatim>\<open>inet_addr\<close> for the dotted-decimal notation the configuration uses: the four numbers in
  network byte order, \<^verbatim>\<open>INADDR_NONE\<close> when the text is none.\<close>

fun split_dots :: "string \<Rightarrow> string list" where
  "split_dots [] = [[]]"
| "split_dots (ch # r) =
     (if ch = CHR ''.'' then [] # split_dots r
      else case split_dots r of [] \<Rightarrow> [[ch]] | p # ps \<Rightarrow> (ch # p) # ps)"

definition octet :: "string \<Rightarrow> bool" where
  "octet p \<longleftrightarrow> p \<noteq> [] \<and> list_all is_digit p \<and> digits_val p \<le> 255"

definition inet_addr :: "string \<Rightarrow> 32 word" where
  "inet_addr ip =
     (case split_dots ip of
        [p, q, r, t] \<Rightarrow>
          (if list_all octet [p, q, r, t]
           then of_le32 (word_of_int (digits_val p)) (word_of_int (digits_val q))
                        (word_of_int (digits_val r)) (word_of_int (digits_val t))
           else 0xFFFFFFFF)
      | _ \<Rightarrow> 0xFFFFFFFF)"

text \<open>Emptying the MAC queue frees the entries that announce a deletion; the walk over the
  tree that follows reads every entry of the tree.\<close>

definition mlacp_mac_msg_queue_reinit :: "CSM \<Rightarrow> CSM option" where
  "mlacp_mac_msg_queue_reinit csm =
     (let M = MLACP csm;
          h = (\<lambda>m. if m \<in> set (mac_msg_list M) \<and> map_option mac_op_type (mac_heap M m) = Some MAC_SYNC_DEL
                   then None else mac_heap M m)
      in if list_all (\<lambda>m. mac_heap M m \<noteq> None) (mac_msg_list M) \<and> list_all (\<lambda>m. h m \<noteq> None) (mac_rb M)
         then Some (MLACP_update (\<lambda>M. M\<lparr>mac_msg_list := [], mac_heap := h\<rparr>) csm) else None)"

text \<open>With \<open>all\<close> the structures have just been zeroed, so that the list of interfaces is empty
  and the node identifier is computed from the empty text.\<close>

definition mlacp_init :: "bool \<Rightarrow> int \<Rightarrow> CSM \<Rightarrow> CSM option" where
  "mlacp_init all rnd csm = do {
     let csm = MLACP_update (\<lambda>M. M\<lparr>sync_req_num := -1, need_to_sync := 0, error_msg := None,
                 mlacp_current_state := MLACP_STATE_INIT,
                 remote_system := (remote_system M)\<lparr>rs_system_id := replicate 6 0\<rparr>,
                 mlacp_msg_list := [], arp_msg_list := [], ndisc_msg_list := []\<rparr>) csm;
     csm \<leftarrow> mlacp_mac_msg_queue_reinit csm;
     let csm = MLACP_update (\<lambda>M. M\<lparr>pif_list := [], mlacp_lif_purge_list := []\<rparr>) csm;
     Some (if all
           then MLACP_update (\<lambda>M. M\<lparr>arp_list := [], ndisc_list := [], mac_rb := [], mlacp_lif_list := [],
                  node_id := MLACP_SYSCONF_NODEID_MSB_MASK
                    OR ucast (push_bit 4 (drop_bit 24 (inet_addr (sender_ip csm))) AND MLACP_SYSCONF_NODEID_NODEID_MASK)
                    OR word_of_int (rnd mod MLACP_SYSCONF_NODEID_FREE_MASK)\<rparr>) csm
           else csm) }"

definition app_csm_init :: "bool \<Rightarrow> int \<Rightarrow> CSM \<Rightarrow> CSM option" where
  "app_csm_init all rnd csm =
     (let csm = csm\<lparr>app_csm := (app_csm csm)\<lparr>app_msg_list := []\<rparr>\<rparr>;
          csm = (if all then csm\<lparr>app_csm := AppCSM_zero\<rparr> else csm);
          csm = csm\<lparr>app_csm := (app_csm csm)\<lparr>app_current_state := APP_NONEXISTENT, rx_connect_msg_id := 0,
                  tx_connect_msg_id := 0, invalid_msg_id := 0, invalid_msg := 0, nak_msg := 0\<rparr>\<rparr>
      in mlacp_init all rnd csm)"

definition iccp_csm_status_reset :: "bool \<Rightarrow> int \<Rightarrow> CSM \<Rightarrow> CSM option" where
  "iccp_csm_status_reset all rnd csm = do {
     let csm = csm\<lparr>msg_list := []\<rparr>;
     let csm = (if all then CSM_zero else csm);
     let csm = csm\<lparr>sock_fd := -1, connTimePrev := 0, heartbeat_send_time := 0, heartbeat_update_time := 0,
           peer_warm_reboot_time := 0, warm_reboot_disconn_time := 0, peer_link_learning_retry_time := 0,
           peer_link_learning_enable := 0, role_type := STP_ROLE_NONE, peer_link_if := None,
           u_msg_in_count := 0, i_msg_in_count := 0, icc_msg_in_count := 0, icc_msg_out_count := 0,
           current_state := ICCP_NONEXISTENT,
           iccp_info := (iccp_info csm)\<lparr>status_code := 0, rejected_msg_id := 0, peer_capability_flag := 0,
             peer_rg_connect_flag := 0, sender_capability_flag := 0, sender_rg_connect_flag := 0\<rparr>\<rparr>;
     csm \<leftarrow> app_csm_init all rnd csm;
     Some (csm\<lparr>msg_log := MsgLog_zero\<rparr>) }"

definition iccp_csm_init :: "int \<Rightarrow> CSM \<Rightarrow> CSM option" where
  "iccp_csm_init rnd csm = do {
     csm \<leftarrow> iccp_csm_status_reset True rnd csm;
     Some (csm\<lparr>sender_ip := [], peer_ip := [],
       iccp_info := (iccp_info csm)\<lparr>sender_name := [], info_icc_rg_id := 0\<rparr>,
       keepalive_time := CONNECT_INTERVAL_SEC, session_timeout := HEARTBEAT_TIMEOUT_SEC\<rparr>) }"

text \<open>\<^verbatim>\<open>system_create_csm\<close>: a new session at the head of the list.\<close>

definition system_create_csm :: "int \<Rightarrow> System \<Rightarrow> (nat \<times> System) option" where
  "system_create_csm rnd s = do {
     csm \<leftarrow> iccp_csm_init rnd CSM_zero;
     let c = next_addr s;
     Some (c, (set_csm c csm s)\<lparr>csm_list := c # csm_list s, next_addr := c + 1\<rparr>) }"

section \<open>Role and configuration\<close>

definition iccp_csm_stp_role_count :: "nat \<Rightarrow> System \<Rightarrow> System option" where
  "iccp_csm_stp_role_count c s = do {
     csm \<leftarrow> csm_heap s c;
     if role_type csm = STP_ROLE_NONE then
       (if inet_addr (sender_ip csm) < inet_addr (peer_ip csm)
        then map_option (\<lambda>s. snd (mlacp_link_set_iccp_role (mlag_id csm) True (system_id (MLACP csm)) s))
               (on_csm c (role_type_update (\<lambda>_. STP_ROLE_ACTIVE)) s)
        else map_option (\<lambda>s. mlacp_fix_bridge_mac csm (snd (mlacp_link_set_iccp_role (mlag_id csm) False [] s)))
               (on_csm c (role_type_update (\<lambda>_. STP_ROLE_STANDBY)) s))
     else Some s }"

definition scheduler_check_csm_config :: "nat \<Rightarrow> System \<Rightarrow> (int \<times> System) option" where
  "scheduler_check_csm_config c s = do {
     csm \<leftarrow> csm_heap s c;
     if mlag_id csm \<le> 0 \<or> peer_ip csm = [] \<or> sender_ip csm = []
     then map_option (Pair MCLAG_ERROR) (iccp_csm_stp_role_count c s)
     else if peer_itf_name csm \<noteq> [] then do {
       found \<leftarrow> local_if_find_by_name (peer_itf_name csm) s;
       (case found of None \<Rightarrow> Some (MCLAG_ERROR, s)
        | Some l \<Rightarrow> do {
            s \<leftarrow> on_lif l (lif_is_peer_link_update (\<lambda>_. 1)) s;
            s \<leftarrow> on_csm c (peer_link_if_update (\<lambda>_. Some l)) s;
            s \<leftarrow> set_peerlink_learn_kernel c 0 s;
            map_option (Pair 1) (iccp_csm_stp_role_count c s) }) }
     else map_option (Pair 1) (iccp_csm_stp_role_count c s) }"

section \<open>Connecting\<close>

definition watch_fd :: "int \<Rightarrow> System \<Rightarrow> System" where
  "watch_fd fd s = s\<lparr>readfd := List.insert fd (readfd s), readfd_count := readfd_count s + 1\<rparr>"

definition session_client_conn_handler :: "nat \<Rightarrow> System \<Rightarrow> System option" where
  "session_client_conn_handler c s = do {
     let e = s_env s;
     let r = (case conn_results e of [] \<Rightarrow> Conn_failed | r # _ \<Rightarrow> r);
     let s = s\<lparr>s_env := e\<lparr>conn_results := tl (conn_results e)\<rparr>\<rparr>;
     s \<leftarrow> (case r of No_socket \<Rightarrow> Some s
           | Conn_failed \<Rightarrow> on_csm c (sock_fd_update (\<lambda>_. -1)) s
           | Connected fd \<Rightarrow> map_option (watch_fd fd) (on_csm c (sock_fd_update (\<lambda>_. fd)) s));
     on_csm c (connTimePrev_update (\<lambda>_. clock s)) s }"

definition scheduler_prepare_session :: "nat \<Rightarrow> System \<Rightarrow> System option" where
  "scheduler_prepare_session c s = do {
     s \<leftarrow> on_csm c (\<lambda>csm. if connTimePrev csm = 0 then csm\<lparr>connTimePrev := clock s\<rparr> else csm) s;
     csm \<leftarrow> csm_heap s c;
     if clock s - connTimePrev csm < CONNECT_INTERVAL_SEC then Some s
     else do {
       s \<leftarrow> (if sock_fd csm > 0 then Some s
             else do {
               (ret, s) \<leftarrow> scheduler_check_csm_config c s;
               if ret < 0 then Some s
               else if inet_addr (sender_ip csm) \<ge> inet_addr (peer_ip csm) then Some s
               else session_client_conn_handler c s });
       on_csm c (connTimePrev_update (\<lambda>_. clock s)) s } }"

text \<open>\<^verbatim>\<open>scheduler_server_accept\<close>: the descriptor that \<^verbatim>\<open>accept\<close> returned, the address it came
  from, and whether it could be added to the event set.\<close>

definition scheduler_server_accept :: "int \<Rightarrow> string \<Rightarrow> bool \<Rightarrow> System \<Rightarrow> (int \<times> System) option" where
  "scheduler_server_accept new_fd client_ip epoll_ok s =
     (if server_fd s \<le> 0 \<or> new_fd = -1 then Some (MCLAG_ERROR, s)
      else do {
        found \<leftarrow> system_get_csm_by_peer_ip client_ip s;
        (case found of None \<Rightarrow> Some (MCLAG_ERROR, s)
         | Some c \<Rightarrow> do {
             csm \<leftarrow> csm_heap s c;
             if sock_fd csm > 0 then Some (MCLAG_ERROR, s)
             else do {
               (ret, s) \<leftarrow> scheduler_check_csm_config c s;
               if ret < 0 \<or> \<not> epoll_ok then Some (MCLAG_ERROR, s)
               else do {
                 s \<leftarrow> on_csm c (\<lambda>csm. csm\<lparr>sock_fd := new_fd, current_state := ICCP_NONEXISTENT\<rparr>) s;
                 Some (0, watch_fd new_fd s) } } }) })"

section \<open>Taking a session down\<close>

definition scheduler_csm_socket_cleanup :: "nat \<Rightarrow> System \<Rightarrow> System option" where
  "scheduler_csm_socket_cleanup c s = do {
     csm \<leftarrow> csm_heap s c;
     if sock_fd csm \<le> 0 then Some s
     else do {
       let e = s_env s;
       let rc = (case close_results e of [] \<Rightarrow> 0 | r # _ \<Rightarrow> r);
       let s = s\<lparr>s_env := e\<lparr>close_results := tl (close_results e)\<rparr>\<rparr>;
       let s = (if rc \<noteq> 0 then bump_dbg (socket_close_err_counter_update (\<lambda>n. n + 1)) s else s);
       on_csm c (sock_fd_update (\<lambda>_. -1)) s } }"

definition scheduler_unregister_sock_read_event_callback :: "nat \<Rightarrow> System \<Rightarrow> System option" where
  "scheduler_unregister_sock_read_event_callback c s = do {
     csm \<leftarrow> csm_heap s c;
     Some (if sock_fd csm > 0 then s\<lparr>readfd := removeAll (sock_fd csm) (readfd s)\<rparr> else s) }"

text \<open>Writing a MAC entry through its pointer, and unlinking it from the tree; it is freed
  unless it still waits to be sent.\<close>

definition write_mac :: "nat \<Rightarrow> MACMsg \<Rightarrow> mLACP \<Rightarrow> mLACP" where
  "write_mac m e M = M\<lparr>mac_heap := (mac_heap M)(m \<mapsto> e)\<rparr>"

definition unlink_mac :: "nat \<Rightarrow> mLACP \<Rightarrow> mLACP" where
  "unlink_mac m M = M\<lparr>mac_rb := remove1 m (mac_rb M),
     mac_heap := (if m \<in> set (mac_msg_list M) then mac_heap M else (mac_heap M)(m := None))\<rparr>"

definition disconn_mac :: "nat \<Rightarrow> nat \<Rightarrow> System \<Rightarrow> System option" where
  "disconn_mac c m s = do {
     csm \<leftarrow> csm_heap s c;
     e \<leftarrow> mac_heap (MLACP csm) m;
     if mac_ifname e = peer_itf_name csm then
       (let e = e\<lparr>mac_age_flag := mac_age_flag e OR MAC_AGE_PEER\<rparr> in
        if mac_age_flag e = MAC_AGE_LOCAL OR MAC_AGE_PEER \<or> mac_pending_local_del e \<noteq> 0
        then (let (e, s) = del_mac_from_chip e s in
              on_csm c (MLACP_update (unlink_mac m \<circ> write_mac m e)) s)
        else on_csm c (MLACP_update (write_mac m e)) s)
     else if mac_age_flag e = 0
     then on_csm c (MLACP_update (write_mac m (e\<lparr>mac_age_flag := MAC_AGE_PEER\<rparr>))) s
     else if mac_age_flag e = MAC_AGE_LOCAL
     then (let (e, s) = add_mac_to_chip e MAC_TYPE_DYNAMIC_LOCAL s in
           on_csm c (MLACP_update (write_mac m (e\<lparr>mac_age_flag := MAC_AGE_PEER\<rparr>))) s)
     else Some s }"

definition mlacp_peer_disconn_fdb_handler :: "nat \<Rightarrow> System \<Rightarrow> System option" where
  "mlacp_peer_disconn_fdb_handler c s = do {
     csm \<leftarrow> csm_heap s c;
     foreach (disconn_mac c) (mac_rb (MLACP csm)) s }"

definition mlacp_peer_disconn_handler :: "nat \<Rightarrow> System \<Rightarrow> System option" where
  "mlacp_peer_disconn_handler c s = do {
     csm \<leftarrow> csm_heap s c;
     if warmboot_exit s = WARM_REBOOT then Some s
     else if peer_warm_reboot_time csm \<noteq> 0
     then on_csm c (\<lambda>csm. csm\<lparr>peer_warm_reboot_time := 0, warm_reboot_disconn_time := clock s\<rparr>) s
     else do {
       s \<leftarrow> mlacp_peer_disconn_fdb_handler c s;
       let (_, s) = mlacp_link_set_iccp_state (mlag_id csm) False s;
       s \<leftarrow> peerlink_port_isolate_cleanup c s;
       let remote_system_mac = rs_system_id (remote_system (MLACP csm));
       s \<leftarrow> on_csm c (MLACP_update (remote_system_update (rs_system_id_update (\<lambda>_. replicate 6 0)))) s;
       s \<leftarrow> foreach (\<lambda>l s. do {
              s \<leftarrow> (if role_type csm = STP_ROLE_STANDBY then recover_if_ipmac_on_standby l s else Some s);
              lif \<leftarrow> lif_heap s l;
              if lif_is_traffic_disable lif then mlacp_link_enable_traffic_distribution l s else Some s })
            (mlacp_lif_list (MLACP csm)) s;
       s \<leftarrow> (case peer_link_if csm of None \<Rightarrow> Some s
             | Some p \<Rightarrow> update_vlan_if_mac_on_iccp_up p False (Some remote_system_mac) s);
       let s = SYSTEM_INCR_SESSION_DOWN_COUNTER s;
       let s = (if role_type csm = STP_ROLE_STANDBY
                then snd (mlacp_link_set_iccp_system_id (mlag_id csm) (system_id (MLACP csm)) s) else s);
       Some (fold (\<lambda>p s. snd (mlacp_link_del_remote_if_info (mlag_id csm) (pif_name p) s))
                  (pif_list (MLACP csm)) s) } }"

definition scheduler_session_disconnect_handler :: "nat \<Rightarrow> System \<Rightarrow> System option" where
  "scheduler_session_disconnect_handler c s = do {
     s \<leftarrow> scheduler_unregister_sock_read_event_callback c s;
     s \<leftarrow> scheduler_csm_socket_cleanup c s;
     s \<leftarrow> mlacp_peer_disconn_handler c s;
     s \<leftarrow> on_csm c (MLACP_update (mlacp_current_state_update (\<lambda>_. MLACP_STATE_INIT))) s;
     csm \<leftarrow> csm_heap s c;
     csm \<leftarrow> iccp_csm_status_reset False 0 csm;
     Some (set_csm c (csm\<lparr>connTimePrev := clock s\<rparr>) s) }"

definition heartbeat_check :: "nat \<Rightarrow> System \<Rightarrow> System option" where
  "heartbeat_check c s = do {
     csm \<leftarrow> csm_heap s c;
     if heartbeat_update_time csm = 0 then on_csm c (heartbeat_update_time_update (\<lambda>_. clock s)) s
     else if clock s - heartbeat_update_time csm > session_timeout csm
     then scheduler_session_disconnect_handler c s
     else Some s }"

definition heartbeat_update :: "nat \<Rightarrow> System \<Rightarrow> System option" where
  "heartbeat_update c s = do {
     csm \<leftarrow> csm_heap s c;
     if sock_fd csm > 0 then heartbeat_check c s else Some s }"

section \<open>Reading from the socket\<close>

abbreviation (input) MSG_L_INCLUD_U_BIT_MSG_T_L_FIELDS :: nat where "MSG_L_INCLUD_U_BIT_MSG_T_L_FIELDS \<equiv> 4"
abbreviation (input) RECV_RETRY_MAX :: nat where "RECV_RETRY_MAX \<equiv> 10"

text \<open>One \<^verbatim>\<open>recv\<close> of at most \<open>n\<close> bytes: what does not fit stays in the stream.  An exhausted
  environment is a closed connection.\<close>

definition sys_recv :: "nat \<Rightarrow> recv_result list \<Rightarrow> recv_result \<times> recv_result list" where
  "sys_recv n rs =
     (case rs of [] \<Rightarrow> (Received [], [])
      | Received bs # rs \<Rightarrow>
          (Received (take n bs), if length bs \<le> n then rs else Received (drop n bs) # rs)
      | r # rs \<Rightarrow> (r, rs))"

lemma received_progress: "\<not> n \<le> length got \<Longrightarrow> bs \<noteq> [] \<Longrightarrow> n - (length got + length bs) < n - length got"
  by (cases bs) auto

datatype read_status =
    Read_done nat
  | Read_error
  | Read_zero
  | Read_retry_failed

text \<open>The loop over the header.  The call blocks, so \<open>Recv_again\<close> is one more failure.\<close>

function recv_header :: "nat \<Rightarrow> bytes \<Rightarrow> recv_result list \<Rightarrow> read_status \<times> bytes \<times> recv_result list" where
  "recv_header n got rs =
     (if n \<le> length got then (Read_done 0, got, rs)
      else case sys_recv (n - length got) rs of
        (Received bs, rs) \<Rightarrow> (if bs = [] then (Read_zero, got, rs) else recv_header n (got @ bs) rs)
      | (_, rs) \<Rightarrow> (Read_error, got, rs))"
  by pat_completeness auto
termination
  by (relation "measure (\<lambda>(n, got, rs). n - length got)") (auto intro!: received_progress)

text \<open>The loop over the data: non-blocking with a bounded number of retries.  \<open>None\<close> is a write
  behind the end of the 64 KiB buffer.\<close>

function recv_data ::
  "nat \<Rightarrow> nat \<Rightarrow> bytes \<Rightarrow> recv_result list \<Rightarrow> (read_status \<times> bytes \<times> recv_result list) option" where
  "recv_data n num_retry got rs =
     (if n \<le> length got then Some (Read_done num_retry, got, rs)
      else case sys_recv (n - length got) rs of
        (Received bs, rs) \<Rightarrow>
          (if bs = [] then Some (Read_zero, got, rs)
           else if length got + length bs > CSM_BUFFER_SIZE then None
           else recv_data n num_retry (got @ bs) rs)
      | (Recv_again, rs) \<Rightarrow>
          (if num_retry + 1 > RECV_RETRY_MAX then Some (Read_retry_failed, got, rs)
           else recv_data n (num_retry + 1) got rs)
      | (Recv_failed, rs) \<Rightarrow> Some (Read_error, got, rs))"
  by pat_completeness auto
termination
  by (relation "measures [\<lambda>(n, k, got, rs). n - length got, \<lambda>(n, k, got, rs). RECV_RETRY_MAX - k]")
    (auto intro!: received_progress)

definition set_stream :: "recv_result list \<Rightarrow> System \<Rightarrow> System" where
  "set_stream rs s = s\<lparr>s_env := (s_env s)\<lparr>recv_results := rs\<rparr>\<rparr>"

definition scheduler_csm_read_callback :: "nat \<Rightarrow> System \<Rightarrow> (int \<times> System) option" where
  "scheduler_csm_read_callback c s = do {
     csm \<leftarrow> csm_heap s c;
     let recv_err = (\<lambda>f s. map_option (Pair MCLAG_ERROR) (scheduler_session_disconnect_handler c (bump_dbg f s)));
     if sock_fd csm \<le> 0 then Some (MCLAG_ERROR, s)
     else
       (case recv_header sizeof_LDPHdr [] (recv_results (s_env s)) of
          (Read_done _, hdr, rs) \<Rightarrow> do {
            let s = set_stream rs s;
            w \<leftarrow> peek get_u16 2 hdr;
            let msg_len = unat (ntohs w);
            if msg_len < MSG_L_INCLUD_U_BIT_MSG_T_L_FIELDS
            then recv_err (rx_peer_invalid_msg_counter_update (\<lambda>n. n + 1)) s
            else do {
              (st, peer_msg, rs) \<leftarrow>
                recv_data (sizeof_LDPHdr + (msg_len - MSG_L_INCLUD_U_BIT_MSG_T_L_FIELDS)) 0 hdr rs;
              let s = set_stream rs s;
              (case st of
                 Read_done num_retry \<Rightarrow> do {
                   let s = (if num_retry > 0 then SYSTEM_SET_RETRY_COUNTER (word_of_nat num_retry) s else s);
                   (retval, msg) \<leftarrow> iccp_csm_init_msg (peer_msg @ replicate (CSM_BUFFER_SIZE - length peer_msg) 0)
                                     (int (msg_len + MSG_L_INCLUD_U_BIT_MSG_T_L_FIELDS));
                   csm \<leftarrow> (case msg of
                       Some m \<Rightarrow> map_option (icc_msg_in_count_update (\<lambda>n. n + 1)) (iccp_csm_enqueue_msg csm m)
                     | None \<Rightarrow> Some (csm\<lparr>i_msg_in_count := i_msg_in_count csm + 1\<rparr>));
                   Some (1, set_csm c csm s) }
               | Read_retry_failed \<Rightarrow> recv_err (rx_retry_fail_counter_update (\<lambda>n. n + 1)) s
               | Read_error \<Rightarrow> recv_err (rx_peer_tlv_read_sock_err_counter_update (\<lambda>n. n + 1)) s
               | Read_zero \<Rightarrow> recv_err (rx_peer_tlv_read_sock_zero_len_counter_update (\<lambda>n. n + 1)) s) } }
        | (Read_error, _, rs) \<Rightarrow>
            recv_err (rx_peer_hdr_read_sock_err_counter_update (\<lambda>n. n + 1)) (set_stream rs s)
        | (_, _, rs) \<Rightarrow>
            recv_err (rx_peer_hdr_read_sock_zero_len_counter_update (\<lambda>n. n + 1)) (set_stream rs s)) }"

section \<open>Transitions of the connection state machine\<close>

definition iccp_csm_enter_state_initialized :: "CSM \<Rightarrow> CSM" where
  "iccp_csm_enter_state_initialized = info_update (sender_capability_flag_update (\<lambda>_. 1))"

definition iccp_csm_enter_state_caprec :: "CSM \<Rightarrow> CSM" where
  "iccp_csm_enter_state_caprec = info_update (\<lambda>i. i\<lparr>sender_capability_flag := 1, peer_capability_flag := 1\<rparr>)"

definition iccp_csm_enter_state_connecting :: "CSM \<Rightarrow> CSM" where
  "iccp_csm_enter_state_connecting = info_update (sender_rg_connect_flag_update (\<lambda>_. 1))"

definition iccp_csm_enter_state_operational :: "CSM \<Rightarrow> CSM" where
  "iccp_csm_enter_state_operational = info_update (\<lambda>i. i\<lparr>sender_rg_connect_flag := 1, peer_rg_connect_flag := 1\<rparr>)"

text \<open>The second \<^verbatim>\<open>switch\<close>; it is never reached in the state \<open>ICCP_NONEXISTENT\<close>, because that
  state is left there only towards \<open>ICCP_INITIALIZED\<close>.\<close>

definition iccp_csm_enter_state :: "CSM \<Rightarrow> CSM" where
  "iccp_csm_enter_state csm =
     (case current_state csm of
        ICCP_NONEXISTENT \<Rightarrow> csm
      | ICCP_INITIALIZED \<Rightarrow> iccp_csm_enter_state_initialized csm
      | ICCP_CAPSENT \<Rightarrow> csm
      | ICCP_CAPREC \<Rightarrow> iccp_csm_enter_state_caprec csm
      | ICCP_CONNECTING \<Rightarrow> iccp_csm_enter_state_connecting csm
      | ICCP_OPERATIONAL \<Rightarrow> iccp_csm_enter_state_operational csm)"

definition answer_msg :: "bytes option \<Rightarrow> CSM \<Rightarrow> CSM option" where
  "answer_msg msg csm =
     (case msg of None \<Rightarrow> Some csm | Some m \<Rightarrow> iccp_csm_correspond_from_msg csm m)"

definition prepare_and_send :: "CSM \<Rightarrow> Env \<Rightarrow> (CSM \<times> Env) option" where
  "prepare_and_send csm e = do {
     (len, buf, e) \<leftarrow> iccp_csm_prepare_iccp_msg csm CSM_BUFFER_SIZE (zbuf CSM_BUFFER_SIZE []) e;
     (rc, csm, e) \<leftarrow> iccp_csm_send csm buf len e;
     Some (csm, e) }"

text \<open>The first \<^verbatim>\<open>switch\<close> for the states with a connection.\<close>

definition next_state :: "CSM \<Rightarrow> ICCP_CONNECTION_STATE" where
  "next_state csm =
     (let i = iccp_info csm in
      case current_state csm of
        ICCP_INITIALIZED \<Rightarrow>
          (if sender_capability_flag i = 1 \<and> peer_capability_flag i = 0 then ICCP_CAPSENT
           else if sender_capability_flag i = 1 \<and> peer_capability_flag i = 1 then ICCP_CAPREC
           else ICCP_INITIALIZED)
      | ICCP_CAPSENT \<Rightarrow>
          (if sender_capability_flag i = 1 \<and> peer_capability_flag i = 1 then ICCP_CAPREC else ICCP_CAPSENT)
      | ICCP_CAPREC \<Rightarrow>
          (if peer_rg_connect_flag i = 0 \<and> status_code i = 0 then ICCP_CONNECTING
           else if peer_rg_connect_flag i = 1 \<and> status_code i = 0 then ICCP_OPERATIONAL
           else ICCP_CAPREC)
      | ICCP_CONNECTING \<Rightarrow>
          (if status_code i > 0 then ICCP_CAPREC
           else if peer_rg_connect_flag i = 1 \<and> status_code i = 0 then ICCP_OPERATIONAL
           else ICCP_CONNECTING)
      | ICCP_OPERATIONAL \<Rightarrow>
          (if sender_rg_connect_flag i = 0 \<or> peer_rg_connect_flag i = 0 then ICCP_CAPREC
           else ICCP_OPERATIONAL)
      | ICCP_NONEXISTENT \<Rightarrow> ICCP_NONEXISTENT)"

definition sends_in_state :: "CSM \<Rightarrow> bool" where
  "sends_in_state csm =
     (case current_state csm of
        ICCP_NONEXISTENT \<Rightarrow> False
      | ICCP_CAPSENT \<Rightarrow> False
      | ICCP_OPERATIONAL \<Rightarrow>
          sender_rg_connect_flag (iccp_info csm) = 0 \<or> peer_rg_connect_flag (iccp_info csm) = 0
      | _ \<Rightarrow> True)"

definition csm_turn :: "bytes option \<Rightarrow> CSM \<Rightarrow> Env \<Rightarrow> (CSM \<times> Env) option" where
  "csm_turn msg csm e = do {
     csm' \<leftarrow> answer_msg msg csm;
     (csm', e) \<leftarrow> (if sends_in_state csm' then prepare_and_send csm' e else Some (csm', e));
     let csm' = csm'\<lparr>current_state := next_state csm'\<rparr>;
     Some (if current_state csm \<noteq> current_state csm' \<or> msg \<noteq> None
           then iccp_csm_enter_state csm' else csm', e) }"

text \<open>\<open>Torn_down\<close> is the branch in which the session is handed to \<^verbatim>\<open>iccp_csm_finalize\<close>.\<close>

datatype transit_result =
    Running System
  | Torn_down System

definition iccp_csm_transit :: "nat \<Rightarrow> System \<Rightarrow> transit_result option" where
  "iccp_csm_transit c s = do {
     csm \<leftarrow> csm_heap s c;
     if current_state csm \<noteq> ICCP_NONEXISTENT \<and> sock_fd csm \<le> 0
     then Some (Torn_down (set_csm c (csm\<lparr>current_state := ICCP_NONEXISTENT\<rparr>) s))
     else do {
       let (msg, csm) = iccp_csm_dequeue_msg csm;
       let s = set_csm c csm s;
       if current_state csm = ICCP_NONEXISTENT then do {
         s \<leftarrow> scheduler_prepare_session c s;
         csm \<leftarrow> csm_heap s c;
         if sock_fd csm > 0 then do {
           (ret, s) \<leftarrow> scheduler_check_csm_config c s;
           if ret > 0
           then map_option Running
                  (on_csm c (\<lambda>csm. iccp_csm_enter_state (csm\<lparr>current_state := ICCP_INITIALIZED\<rparr>)) s)
           else Some (Running s) }
         else Some (Running s) }
       else do {
         (csm, e) \<leftarrow> csm_turn msg csm (s_env s);
         Some (Running ((set_csm c csm s)\<lparr>s_env := e\<rparr>)) } } }"

end
