(* ===== verification/Steady.thy ===== *)
theory Steady
  imports Session
begin

text \<open>
  Side effects that leave the structure of the system alone.  Most operations of
  the link handler only talk to the switch and note what they said: they change
  the environment, the counters and a few fields of interfaces and sessions.
  \<open>base\<close> erases exactly those; an operation that is \<open>steady\<close> returns (it meets no
  dangling pointer) and keeps \<open>base\<close>.  The locale carries the composition rules,
  and the lemmas below it show the operations of \<open>Syncd_Out\<close> and \<open>Link_Handler\<close>
  steady in every system whose pointers are valid.
\<close>

definition steady :: "('s \<Rightarrow> 's \<Rightarrow> bool) \<Rightarrow> ('s \<Rightarrow> 's option) \<Rightarrow> 's \<Rightarrow> bool" where
  "steady eqv f s \<longleftrightarrow> (\<exists>s'. f s = Some s' \<and> eqv s s')"

locale steady_state =
  fixes valid :: "'s \<Rightarrow> bool"
    and eqv :: "'s \<Rightarrow> 's \<Rightarrow> bool"
  assumes eqv_refl: "eqv s s"
    and eqv_trans: "eqv s t \<Longrightarrow> eqv t u \<Longrightarrow> eqv s u"
    and valid_eqv: "valid s \<Longrightarrow> eqv s t \<Longrightarrow> valid t"
begin

lemma steady_Some: "eqv s t \<Longrightarrow> steady eqv (\<lambda>_. Some t) s"
  by (simp add: steady_def)

lemma steady_skip: "steady eqv Some s"
  by (simp add: steady_def eqv_refl)

lemma steady_bind:
  assumes "steady eqv f s" and "\<And>t. f s = Some t \<Longrightarrow> eqv s t \<Longrightarrow> steady eqv g t"
  shows "steady eqv (\<lambda>s. Option.bind (f s) g) s"
  using assms eqv_trans unfolding steady_def by (metis Option.bind.simps(2))

lemma steady_foreach:
  assumes "valid s" and "\<And>x t. x \<in> set xs \<Longrightarrow> valid t \<Longrightarrow> eqv s t \<Longrightarrow> steady eqv (f x) t"
  shows "steady eqv (foreach f xs) s"
  using assms
proof (induction xs arbitrary: s)
  case Nil
  then show ?case by (simp add: steady_def eqv_refl)
next
  case (Cons x xs)
  have "steady eqv (f x) s" by (rule Cons.prems(2) [OF _ Cons.prems(1) eqv_refl]) simp
  then obtain t where t: "f x s = Some t" "eqv s t" unfolding steady_def by blast
  have "steady eqv (foreach f xs) t"
  proof (rule Cons.IH [OF valid_eqv [OF Cons.prems(1) t(2)]])
    fix y u assume "y \<in> set xs" "valid u" "eqv t u"
    then show "steady eqv (f y) u" using Cons.prems(2) [OF _ \<open>valid u\<close> eqv_trans [OF t(2)]] by simp
  qed
  then obtain u where "foreach f xs t = Some u" "eqv t u" unfolding steady_def by blast
  with t show ?case unfolding steady_def using eqv_trans [OF t(2)] by auto
qed

lemma steady_fold:
  assumes "\<And>x t. eqv t (f x t)"
  shows "eqv s (fold f xs s)"
proof (induction xs arbitrary: s)
  case Nil
  show ?case by (simp add: eqv_refl)
next
  case (Cons x xs)
  show ?case using eqv_trans [OF assms Cons.IH] by simp
qed

end

section \<open>What the side effects leave alone\<close>

definition lif_base :: "LocalInterface \<Rightarrow> LocalInterface" where
  "lif_base lif = lif\<lparr>lif_mac_addr := [], lif_mac_addr_ori := [], lif_l3_mac_addr := [],
     lif_isolate_to_peer_link := 0, lif_is_traffic_disable := False, lif_is_peer_link := 0\<rparr>"

definition csm_base :: "CSM \<Rightarrow> CSM" where
  "csm_base csm = csm\<lparr>peer_link_learning_enable := 0, peer_link_learning_retry_time := 0\<rparr>"

definition base :: "System \<Rightarrow> System" where
  "base s = s\<lparr>dbg_counters := dbg_counters_zero, s_env := Env_start,
     csm_heap := map_option csm_base \<circ> csm_heap s, lif_heap := map_option lif_base \<circ> lif_heap s\<rparr>"

abbreviation same_base :: "System \<Rightarrow> System \<Rightarrow> bool" where
  "same_base s t \<equiv> base t = base s"

definition live :: "('a \<Rightarrow> 'b option) \<Rightarrow> 'a \<Rightarrow> bool" where "live h p \<longleftrightarrow> h p \<noteq> None"

definition live_opt :: "('a \<Rightarrow> 'b option) \<Rightarrow> 'a option \<Rightarrow> bool" where
  "live_opt h p = (case p of None \<Rightarrow> True | Some a \<Rightarrow> live h a)"

text \<open>No dangling pointer in the lists, the sessions and the interfaces.\<close>

definition wf_csm :: "System \<Rightarrow> CSM \<Rightarrow> bool" where
  "wf_csm s csm \<longleftrightarrow> live_opt (lif_heap s) (peer_link_if csm) \<and>
     list_all (live (lif_heap s)) (mlacp_lif_list (MLACP csm))"

definition wf_lif :: "System \<Rightarrow> LocalInterface \<Rightarrow> bool" where
  "wf_lif s lif \<longleftrightarrow> live_opt (csm_heap s) (lif_csm lif) \<and>
     list_all (\<lambda>v. live_opt (lif_heap s) (vlan_itf v)) (lif_vlan_tree lif)"

definition wf :: "System \<Rightarrow> bool" where
  "wf s \<longleftrightarrow> list_all (live (csm_heap s)) (csm_list s) \<and> list_all (live (lif_heap s)) (lif_list s) \<and>
     (\<forall>c \<in> dom (csm_heap s). wf_csm s (the (csm_heap s c))) \<and>
     (\<forall>l \<in> dom (lif_heap s). wf_lif s (the (lif_heap s l)))"

lemma base_heaps:
  "csm_heap (base s) = map_option csm_base \<circ> csm_heap s"
  "lif_heap (base s) = map_option lif_base \<circ> lif_heap s"
  by (simp_all add: base_def)

lemma csm_base_fields [simp]:
  "peer_link_if (csm_base csm) = peer_link_if csm"
  "MLACP (csm_base csm) = MLACP csm"
  by (simp_all add: csm_base_def)

lemma lif_base_fields [simp]:
  "lif_csm (lif_base lif) = lif_csm lif" "lif_vlan_tree (lif_base lif) = lif_vlan_tree lif"
  by (simp_all add: lif_base_def)

lemma live_base [simp]:
  "live (csm_heap (base s)) = live (csm_heap s)" "live (lif_heap (base s)) = live (lif_heap s)"
  "live_opt (csm_heap (base s)) = live_opt (csm_heap s)"
  "live_opt (lif_heap (base s)) = live_opt (lif_heap s)"
  by (auto simp: base_heaps live_def live_opt_def fun_eq_iff split: option.splits)

lemma wf_base [simp]: "wf (base s) \<longleftrightarrow> wf s"
proof -
  have "wf_csm (base s) (csm_base csm) \<longleftrightarrow> wf_csm s csm"
    and "wf_lif (base s) (lif_base lif) \<longleftrightarrow> wf_lif s lif" for csm lif
    by (simp_all add: wf_csm_def wf_lif_def)
  moreover have "csm_list (base s) = csm_list s" "lif_list (base s) = lif_list s"
    by (simp_all add: base_def)
  moreover have "dom (csm_heap (base s)) = dom (csm_heap s)" "dom (lif_heap (base s)) = dom (lif_heap s)"
    by (simp_all add: base_heaps)
  moreover have "c \<in> dom (csm_heap s) \<Longrightarrow> the (csm_heap (base s) c) = csm_base (the (csm_heap s c))"
    and "l \<in> dom (lif_heap s) \<Longrightarrow> the (lif_heap (base s) l) = lif_base (the (lif_heap s l))" for c l
    by (auto simp: base_heaps)
  ultimately show ?thesis by (simp add: wf_def)
qed

interpretation sys: steady_state wf same_base
  by unfold_locales (simp, simp, metis wf_base)

section \<open>Elementary steps\<close>

lemma base_updates [simp]:
  "base (s_env_update f s) = base s" "base (dbg_counters_update g s) = base s"
  "base (bump_dbg h s) = base s"
  by (simp_all add: base_def bump_dbg_def)

lemma base_set_lif:
  "lif_heap s l = Some lif \<Longrightarrow> lif_base lif' = lif_base lif \<Longrightarrow> base (set_lif l lif' s) = base s"
  by (auto simp: base_def set_lif_def fun_eq_iff)

lemma base_set_csm:
  "csm_heap s c = Some csm \<Longrightarrow> csm_base csm' = csm_base csm \<Longrightarrow> base (set_csm c csm' s) = base s"
  by (auto simp: base_def set_csm_def fun_eq_iff)

lemma steady_on_lif:
  "live (lif_heap s) l \<Longrightarrow> (\<And>lif. lif_base (f lif) = lif_base lif) \<Longrightarrow> steady same_base (on_lif l f) s"
  by (auto simp: steady_def on_lif_def live_def base_set_lif)

lemma steady_on_csm:
  "live (csm_heap s) c \<Longrightarrow> (\<And>csm. csm_base (f csm) = csm_base csm) \<Longrightarrow> steady same_base (on_csm c f) s"
  by (auto simp: steady_def on_csm_def live_def base_set_csm)

lemma lif_base_updates [simp]:
  "lif_base (lif_mac_addr_update f lif) = lif_base lif"
  "lif_base (lif_mac_addr_ori_update f lif) = lif_base lif"
  "lif_base (lif_l3_mac_addr_update f lif) = lif_base lif"
  "lif_base (lif_isolate_to_peer_link_update g lif) = lif_base lif"
  "lif_base (lif_is_traffic_disable_update h lif) = lif_base lif"
  "lif_base (lif_is_peer_link_update g lif) = lif_base lif"
  by (simp_all add: lif_base_def)

lemma csm_base_updates [simp]:
  "csm_base (peer_link_learning_enable_update f csm) = csm_base csm"
  "csm_base (peer_link_learning_retry_time_update f csm) = csm_base csm"
  by (simp_all add: csm_base_def)

lemma base_counters [simp]:
  "base (SYSTEM_SET_SYNCD_TX_DBG_COUNTER t st s) = base s"
  "base (SYSTEM_SET_SYNCD_RX_DBG_COUNTER t st s) = base s"
  "base (SYSTEM_INCR_SESSION_DOWN_COUNTER s) = base s"
  "base (SYSTEM_SET_RETRY_COUNTER k s) = base s"
  by (simp_all add: SYSTEM_SET_SYNCD_TX_DBG_COUNTER_def SYSTEM_SET_SYNCD_RX_DBG_COUNTER_def Let_def
      SYSTEM_INCR_SESSION_DOWN_COUNTER_def SYSTEM_SET_RETRY_COUNTER_def)

lemma base_output [simp]:
  "base (snd (iccp_send_to_mclagsyncd t msg s)) = base s"
  "base (snd (syncd_write t msg s)) = base s"
  "base (snd (shell cmd s)) = base s"
  "base (netlink r s) = base s"
  by (simp_all add: iccp_send_to_mclagsyncd_def syncd_write_def shell_def netlink_def Let_def split: prod.splits)

lemma base_outD:
  "iccp_send_to_mclagsyncd t msg s = (rc, s') \<Longrightarrow> base s' = base s"
  "syncd_write t msg s = (rc, s') \<Longrightarrow> base s' = base s"
  "shell cmd s = (rc, s') \<Longrightarrow> base s' = base s"
  using base_output(1) [of t msg s] base_output(2) [of t msg s] base_output(3) [of cmd s] by simp_all

lemma base_syncd_request [simp]: "base (snd (syncd_request t body k s)) = base s"
  by (auto simp: syncd_request_def Let_def split: prod.splits dest: base_outD)

lemma base_requests [simp]:
  "base (snd (mlacp_link_set_traffic_dist_mode po en s)) = base s"
  "base (snd (mlacp_link_set_iccp_state i en s)) = base s"
  "base (snd (mlacp_link_set_iccp_role i en sid s)) = base s"
  "base (snd (mlacp_link_set_iccp_system_id i sid s)) = base s"
  "base (snd (mlacp_link_set_remote_if_state i po en s)) = base s"
  "base (snd (mlacp_link_del_remote_if_info i po s)) = base s"
  "base (snd (mlacp_link_set_peerlink_port_isolation i po en s)) = base s"
  by (simp_all add: mlacp_link_set_traffic_dist_mode_def mlacp_link_set_iccp_state_def
      mlacp_link_set_iccp_role_def mlacp_link_set_iccp_system_id_def mlacp_link_set_remote_if_state_def
      mlacp_link_del_remote_if_info_def mlacp_link_set_peerlink_port_isolation_def)

lemma base_mac_chip [simp]:
  "base (snd (add_mac_to_chip m t s)) = base s" "base (snd (del_mac_from_chip m s)) = base s"
  by (simp_all add: add_mac_to_chip_def del_mac_from_chip_def iccp_send_fdb_entry_to_syncd_def Let_def)

lemma base_if_mac [simp]:
  "base (iccp_set_interface_ipadd_mac lif str s) = base s"
  "base (change_hwaddr i addr s) = base s"
  "base (mlacp_fix_bridge_mac csm s) = base s"
  "base (set_peer_mac_in_kernel mac vlan add s) = base s"
  "base (set_peerlink_mlag_port_learn lif' en s) = base s"
proof -
  show "base (iccp_set_interface_ipadd_mac lif str s) = base s"
    "base (set_peerlink_mlag_port_learn lif' en s) = base s"
    by (auto simp: iccp_set_interface_ipadd_mac_def set_peerlink_mlag_port_learn_def Let_def
        dest: base_outD split: prod.splits option.splits)
  show "base (change_hwaddr i addr s) = base s" "base (mlacp_fix_bridge_mac csm s) = base s"
    "base (set_peer_mac_in_kernel mac vlan add s) = base s"
    by (simp_all add: change_hwaddr_def iccp_netlink_if_startup_set_def iccp_netlink_if_shutdown_set_def
        iccp_netlink_if_hwaddr_set_def mlacp_fix_bridge_mac_def set_peer_mac_in_kernel_def)
qed

lemma base_live:
  "base s' = base s \<Longrightarrow> live (csm_heap s') c = live (csm_heap s) c"
  "base s' = base s \<Longrightarrow> live (lif_heap s') l = live (lif_heap s) l"
  by (metis live_base(1), metis live_base(2))

lemma carry:
  assumes "base t = base s"
  shows "wf s \<Longrightarrow> wf t" "live (csm_heap s) c \<Longrightarrow> live (csm_heap t) c"
    "live (lif_heap s) l \<Longrightarrow> live (lif_heap t) l"
  using sys.valid_eqv [OF _ assms] base_live [OF assms] by blast+

section \<open>Operations of the link handler\<close>

lemma wf_csmD: "wf s \<Longrightarrow> csm_heap s c = Some csm \<Longrightarrow> wf_csm s csm"
  and wf_lifD: "wf s \<Longrightarrow> lif_heap s l = Some lif \<Longrightarrow> wf_lif s lif"
  by (force simp: wf_def)+

lemma live_Some: "live h p \<Longrightarrow> \<exists>x. h p = Some x"
  by (simp add: live_def)

lemma live_by: "h p = Some x \<Longrightarrow> live h p"
  by (simp add: live_def)

text \<open>Run the rest from a later state.\<close>

lemma steady_via:
  "f s = g t \<Longrightarrow> base t = base s \<Longrightarrow> steady same_base g t \<Longrightarrow> steady same_base f s"
  by (simp add: steady_def)

lemma steady_same: "f s = Some t \<Longrightarrow> base t = base s \<Longrightarrow> steady same_base f s"
  by (simp add: steady_def)

lemma steady_learn_kernel:
  assumes "wf s" "live (csm_heap s) c"
  shows "steady same_base (set_peerlink_learn_kernel c enable) s"
proof -
  obtain csm where csm: "csm_heap s c = Some csm" using assms live_Some by metis
  show ?thesis
  proof (cases "peer_link_if csm")
    case None
    with csm show ?thesis by (intro steady_same) (auto simp: set_peerlink_learn_kernel_def)
  next
    case (Some l)
    then obtain lif where lif: "lif_heap s l = Some lif"
      using wf_csmD [OF assms(1) csm] by (auto simp: wf_csm_def live_opt_def live_def)
    obtain ret t where t: "shell (''bridge link set dev '' @ lif_name lif @
        (if enable = 0 then '' learning off'' else '' learning on'')) s = (ret, t)" by fastforce
    let ?note = "\<lambda>csm. if ret \<noteq> 0
        then csm\<lparr>peer_link_learning_enable := enable, peer_link_learning_retry_time := clock t\<rparr>
        else csm\<lparr>peer_link_learning_retry_time := 0\<rparr>"
    have "set_peerlink_learn_kernel c enable s = on_csm c ?note t"
      using csm Some lif t by (simp only: set_peerlink_learn_kernel_def Option.bind.simps option.case Let_def prod.case)
    moreover have "live (csm_heap t) c" by (rule carry(2) [OF base_outD(3) [OF t] assms(2)])
    then have "steady same_base (on_csm c ?note) t" by (rule steady_on_csm) simp
    ultimately show ?thesis by (rule steady_via [OF _ base_outD(3) [OF t]])
  qed
qed

lemma steady_kernel_forward:
  assumes "wf s" "live (csm_heap s) c" "live (lif_heap s) l"
  shows "steady same_base (set_peerlink_mlag_port_kernel_forward c l enable) s"
proof -
  obtain csm lif where obj: "csm_heap s c = Some csm" "lif_heap s l = Some lif"
    using assms live_Some by metis
  show ?thesis
  proof (cases "peer_link_if csm")
    case None
    with obj show ?thesis by (intro steady_same) (auto simp: set_peerlink_mlag_port_kernel_forward_def)
  next
    case (Some p)
    then obtain plif where plif: "lif_heap s p = Some plif"
      using wf_csmD [OF assms(1) obj(1)] by (auto simp: wf_csm_def live_opt_def live_def)
    define r where "r = '' FORWARD -i '' @ lif_name plif @ '' -o '' @ lif_name lif @ '' -j DROP''"
    have "set_peerlink_mlag_port_kernel_forward c l enable s =
        Some (snd (shell ((if enable \<noteq> 0 then ''ebtables -I'' else ''ebtables -D'') @ r)
               (snd (shell (''ebtables -D'' @ r) s))))"
      using obj Some plif
      by (simp only: set_peerlink_mlag_port_kernel_forward_def Option.bind.simps option.case Let_def
          case_prod_beta r_def)
    then show ?thesis by (rule steady_same) simp
  qed
qed

lemma isolate_dst_defined:
  "list_all (live h) ls \<Longrightarrow> \<exists>dst. isolate_dst h ls buf = Some dst"
  by (induction ls arbitrary: buf) (auto simp: live_def)

lemma steady_isolate_from_all:
  assumes "wf s" "live (csm_heap s) c"
  shows "steady same_base (update_peerlink_isolate_from_all_csm_lif c) s"
proof -
  obtain csm where csm: "csm_heap s c = Some csm" using assms live_Some by metis
  obtain dst where dst: "isolate_dst (lif_heap s) (mlacp_lif_list (MLACP csm)) [] = Some dst"
    using isolate_dst_defined wf_csmD [OF assms(1) csm] by (metis wf_csm_def)
  with csm show ?thesis using wf_csmD [OF assms(1) csm]
    by (cases "peer_link_if csm")
      (auto simp: update_peerlink_isolate_from_all_csm_lif_def steady_def wf_csm_def live_opt_def
        live_def Let_def dest: base_outD split: prod.splits)
qed

lemma steady_port_isolate:
  assumes "wf s" "live (csm_heap s) c" "live (lif_heap s) l"
  shows "steady same_base (set_peerlink_mlag_port_isolate c l enable pending) s"
proof -
  have "steady same_base (on_lif l (lif_isolate_to_peer_link_update (\<lambda>_. word_of_int enable))) s"
    using assms by (intro steady_on_lif) auto
  then obtain t where t: "on_lif l (lif_isolate_to_peer_link_update (\<lambda>_. word_of_int enable)) s = Some t"
    "base t = base s" by (auto simp: steady_def)
  then have ok: "wf t" "live (csm_heap t) c" "live (lif_heap t) l"
    using assms carry [OF t(2)] by blast+
  then obtain csm where csm: "csm_heap t c = Some csm" using live_Some by metis
  obtain u where u: "update_peerlink_isolate_from_all_csm_lif c t = Some u" "base u = base t"
    using steady_isolate_from_all [OF ok(1,2)] by (auto simp: steady_def)
  then have ok': "wf u" "live (csm_heap u) c" "live (lif_heap u) l"
    using ok carry [OF u(2)] by blast+
  obtain v where v: "set_peerlink_mlag_port_kernel_forward c l enable u = Some v" "base v = base u"
    using steady_kernel_forward [OF ok'] by (auto simp: steady_def)
  obtain lif where "lif_heap v l = Some lif"
    using live_Some [OF carry(3) [OF v(2) ok'(3)]] by blast
  then show ?thesis using t csm u v
    by (auto simp: set_peerlink_mlag_port_isolate_def steady_def)
qed

lemma steady_isolate_cleanup:
  assumes "wf s" "live (csm_heap s) c"
  shows "steady same_base (peerlink_port_isolate_cleanup c) s"
proof -
  obtain csm where csm: "csm_heap s c = Some csm" using assms live_Some by metis
  let ?f = "\<lambda>l s. do { lif \<leftarrow> lif_heap s l;
      if lif_type lif = IF_T_PORT_CHANNEL then set_peerlink_mlag_port_isolate c l 0 False s else Some s }"
  have "steady same_base (?f l) t"
    if "l \<in> set (mlacp_lif_list (MLACP csm))" "wf t" "base t = base s" for l t
  proof -
    have live: "live (lif_heap t) l" "live (csm_heap t) c"
      using that(1) assms wf_csmD [OF assms(1) csm] carry [OF that(3)]
      by (simp_all add: wf_csm_def list_all_iff)
    then obtain lif where "lif_heap t l = Some lif" using live_Some by metis
    then show ?thesis using steady_port_isolate [OF that(2) live(2,1), of 0 False]
      by (auto simp: steady_def)
  qed
  then have "steady same_base (foreach ?f (mlacp_lif_list (MLACP csm))) s"
    by (intro sys.steady_foreach [OF assms(1)]) blast
  then show ?thesis using csm by (simp add: peerlink_port_isolate_cleanup_def steady_def)
qed

lemma steady_enable_traffic:
  assumes "live (lif_heap s) l"
  shows "steady same_base (mlacp_link_enable_traffic_distribution l) s"
proof -
  obtain lif where lif: "lif_heap s l = Some lif" using live_Some [OF assms] by blast
  obtain rc t where t: "mlacp_link_set_traffic_dist_mode (lif_name lif) True s = (rc, t)" by fastforce
  then have b: "base t = base s" using base_requests(1) [of "lif_name lif" True s] by simp
  have "steady same_base (on_lif l (lif_is_traffic_disable_update (\<lambda>_. False))) t"
    by (rule steady_on_lif [OF carry(3) [OF b assms]]) simp
  with lif t b show ?thesis
    by (auto simp: mlacp_link_enable_traffic_distribution_def steady_def split: option.splits)
qed

lemma steady_vlan_l3_mac:
  assumes "live (lif_heap s) v"
  shows "steady same_base (set_vlan_l3_mac v mac) s"
proof -
  obtain vif where vif: "lif_heap s v = Some vif" using live_Some [OF assms] by blast
  let ?t = "iccp_set_interface_ipadd_mac vif (mac_addr_to_str mac) (change_hwaddr (lif_ifindex vif) mac s)"
  have b: "base ?t = base s" by simp
  have "set_vlan_l3_mac v mac s = on_lif v (lif_l3_mac_addr_update (\<lambda>_. mac)) ?t"
    using vif by (simp add: set_vlan_l3_mac_def Let_def)
  then show ?thesis by (rule steady_via [OF _ b]) (rule steady_on_lif [OF carry(3) [OF b assms]], simp)
qed

lemma foreach_vlan_foreach:
  "foreach_vlan (\<lambda>_. f) vs s = foreach f (List.map_filter vlan_itf vs) s"
  by (induction vs arbitrary: s) (auto split: option.splits intro: Option.bind_cong)

lemma steady_foreach_vlan:
  assumes "wf s" "lif_heap s l = Some lif"
    and "\<And>v t. wf t \<Longrightarrow> base t = base s \<Longrightarrow> live (lif_heap t) v \<Longrightarrow> steady same_base (f v) t"
  shows "steady same_base (foreach_vlan (\<lambda>_. f) (lif_vlan_tree lif)) s"
  unfolding foreach_vlan_foreach [abs_def]
proof (rule sys.steady_foreach [OF assms(1)])
  fix v t
  assume v: "v \<in> set (List.map_filter vlan_itf (lif_vlan_tree lif))" and t: "wf t" "base t = base s"
  have "live (lif_heap s) v"
    using v wf_lifD [OF assms(1,2)]
    by (auto simp: wf_lif_def list_all_iff live_opt_def map_filter_def split: option.splits)
  then show "steady same_base (f v) t" by (rule assms(3) [OF t carry(3) [OF t(2)]])
qed

lemma steady_recover_vlan:
  assumes "wf s" "live (lif_heap s) v"
  shows "steady same_base (recover_vlan_if_mac_on_standby v dir rmac) s"
proof -
  obtain vif where vif: "lif_heap s v = Some vif" using live_Some [OF assms(2)] by blast
  have found: "\<exists>r. find_obj (csm_heap s) P cs = Some r \<and> (\<forall>c. r = Some c \<longrightarrow> live (csm_heap s) c)"
    if "list_all (live (csm_heap s)) cs" for P cs
    using that by (induction cs) (auto simp: live_def)
  obtain r where r: "find_obj (csm_heap s) (\<lambda>csm. peer_link_if csm \<noteq> None) (csm_list s) = Some r"
    "\<And>c. r = Some c \<Longrightarrow> live (csm_heap s) c"
    using found assms(1) unfolding wf_def by metis
  show ?thesis
  proof (cases r)
    case None
    with vif r show ?thesis by (auto simp: recover_vlan_if_mac_on_standby_def steady_def)
  next
    case (Some c)
    then obtain csm where csm: "csm_heap s c = Some csm" using live_Some r(2) by metis
    obtain t where "set_vlan_l3_mac v (if lif_is_l3_proto_enabled vif
        then rs_system_id (remote_system (MLACP csm)) else system_id (MLACP csm)) s = Some t" "base t = base s"
      using steady_vlan_l3_mac [OF assms(2)] unfolding steady_def by blast
    with vif r Some csm show ?thesis
      by (auto simp: recover_vlan_if_mac_on_standby_def steady_def Let_def split: option.splits)
  qed
qed

lemma steady_recover_if:
  assumes "wf s" "live (lif_heap s) l"
  shows "steady same_base (recover_if_ipmac_on_standby l) s"
proof -
  obtain lif where lif: "lif_heap s l = Some lif" using live_Some [OF assms(2)] by blast
  show ?thesis
  proof (cases "lif_csm lif")
    case None
    with lif show ?thesis by (intro steady_same) (auto simp: recover_if_ipmac_on_standby_def)
  next
    case (Some c)
    then obtain csm where csm: "csm_heap s c = Some csm"
      using wf_lifD [OF assms(1) lif] by (auto simp: wf_lif_def live_opt_def live_def)
    let ?own = "system_id (MLACP csm)"
    let ?g = "\<lambda>v s. do { vif \<leftarrow> lif_heap s v;
        if local_if_is_l3_mode vif \<and> \<not> lif_is_l3_proto_enabled vif
        then set_vlan_l3_mac v ?own s else Some s }"
    let ?first = "\<lambda>s. if lif_mac_addr lif \<noteq> ?own
        then on_lif l (lif_mac_addr_update (\<lambda>_. ?own)) (change_hwaddr (lif_ifindex lif) ?own s) else Some s"
    have "steady same_base (on_lif l (lif_mac_addr_update (\<lambda>_. ?own))) (change_hwaddr (lif_ifindex lif) ?own s)"
      by (rule steady_on_lif [OF carry(3) [OF _ assms(2)]]) simp_all
    then have "steady same_base ?first s" by (cases "lif_mac_addr lif = ?own") (auto simp: steady_def)
    then obtain t where t: "?first s = Some t" "base t = base s" unfolding steady_def by blast
    have ok: "wf t" "live (lif_heap t) l" using carry [OF t(2)] assms by blast+
    have "steady same_base (on_lif l (lif_l3_mac_addr_update (\<lambda>_. ?own)))
        (iccp_set_interface_ipadd_mac lif (mac_addr_to_str ?own) t)"
      by (rule steady_on_lif [OF carry(3) [OF _ ok(2)]]) simp_all
    moreover have "steady same_base (foreach_vlan (\<lambda>_. ?g) (lif_vlan_tree lif)) t"
    proof -
      obtain lif' where lif': "lif_heap t l = Some lif'" using live_Some [OF ok(2)] by blast
      have "lif_base lif' = lif_base lif"
        using fun_cong [OF arg_cong [OF t(2), of lif_heap], of l] lif lif' by (simp add: base_heaps)
      then have "lif_vlan_tree lif' = lif_vlan_tree lif" by (metis lif_base_fields(2))
      moreover have "steady same_base (?g v) u" if "live (lif_heap u) v" for v u
        using steady_vlan_l3_mac [OF that, of ?own] live_Some [OF that] by (auto simp: steady_def)
      ultimately show ?thesis using steady_foreach_vlan [OF ok(1) lif', of ?g] by simp
    qed
    ultimately show ?thesis using lif Some csm t
      by (auto simp: recover_if_ipmac_on_standby_def steady_def Let_def)
  qed
qed

lemma base_csm:
  assumes "base t = base s" "csm_heap s c = Some csm"
  shows "\<exists>csm'. csm_heap t c = Some csm' \<and> csm_base csm' = csm_base csm"
  using fun_cong [OF arg_cong [OF assms(1), of csm_heap], of c] assms(2)
  by (auto simp: base_heaps)

lemma base_sysD:
  assumes "base t = base s"
  shows "readfd t = readfd s" "clock t = clock s" "csm_list t = csm_list s" "lif_list t = lif_list s"
    "warmboot_exit t = warmboot_exit s" "server_fd t = server_fd s" "sync_fd t = sync_fd s"
  using arg_cong [OF assms, of readfd] arg_cong [OF assms, of clock] arg_cong [OF assms, of csm_list]
    arg_cong [OF assms, of lif_list] arg_cong [OF assms, of warmboot_exit] arg_cong [OF assms, of server_fd]
    arg_cong [OF assms, of sync_fd]
  by (simp_all add: base_def)

end
