(* ===== verification/Disconnect.thy ===== *)
theory Disconnect
  imports Steady
begin

unbundle bit_operations_syntax

text \<open>
  Taking a session down: what \<^verbatim>\<open>mlacp_peer_disconn_fdb_handler\<close> makes of the MAC table,
  and that \<^verbatim>\<open>scheduler_session_disconnect_handler\<close> returns and leaves a session that
  can be established again, whenever no pointer dangles and no queued deletion is
  still in the MAC tree; what happens otherwise is shown as well.
\<close>

section \<open>The MAC table\<close>

text \<open>What a session going down makes of one entry; \<open>None\<close> is its removal.\<close>

definition disconn_entry :: "string \<Rightarrow> MACMsg \<Rightarrow> MACMsg option" where
  "disconn_entry itf e =
     (if mac_ifname e = itf
      then (let a = mac_age_flag e OR MAC_AGE_PEER in
            if a = MAC_AGE_LOCAL OR MAC_AGE_PEER \<or> mac_pending_local_del e \<noteq> 0 then None
            else Some (e\<lparr>mac_age_flag := a\<rparr>))
      else if mac_age_flag e = 0 then Some (e\<lparr>mac_age_flag := MAC_AGE_PEER\<rparr>)
      else if mac_age_flag e = MAC_AGE_LOCAL
      then Some (e\<lparr>mac_add_to_syncd := (if mac_addr e = replicate 6 0 then mac_add_to_syncd e else 1),
                   mac_age_flag := MAC_AGE_PEER\<rparr>)
      else Some e)"

definition mac_ok :: "mLACP \<Rightarrow> bool" where
  "mac_ok M \<longleftrightarrow> distinct (mac_rb M) \<and> list_all (live (mac_heap M)) (mac_rb M) \<and>
     list_all (live (mac_heap M)) (mac_msg_list M)"

text \<open>The entries announced as deleted to the peer are no longer in the tree.\<close>

definition no_queued_delete :: "mLACP \<Rightarrow> bool" where
  "no_queued_delete M \<longleftrightarrow> list_all (\<lambda>m. m \<in> set (mac_msg_list M) \<longrightarrow>
     map_option mac_op_type (mac_heap M m) \<noteq> Some MAC_SYNC_DEL) (mac_rb M)"

lemma csm_heap_output [simp]:
  "csm_heap (snd (add_mac_to_chip e t s)) = csm_heap s"
  "csm_heap (snd (del_mac_from_chip e s)) = csm_heap s"
  by (auto simp: add_mac_to_chip_def del_mac_from_chip_def iccp_send_fdb_entry_to_syncd_def Let_def
      iccp_send_to_mclagsyncd_def SYSTEM_SET_SYNCD_TX_DBG_COUNTER_def split: prod.splits)

lemma fst_add_mac:
  "fst (add_mac_to_chip e t s) =
     e\<lparr>mac_add_to_syncd := (if mac_addr e = replicate 6 0 then mac_add_to_syncd e else 1)\<rparr>"
  by (simp add: add_mac_to_chip_def iccp_send_fdb_entry_to_syncd_def Let_def)

text \<open>The walk changes nothing but the table and the entries.\<close>

definition tableless :: "CSM \<Rightarrow> CSM" where
  "tableless csm = MLACP_update (\<lambda>M. M\<lparr>mac_rb := [], mac_heap := Map.empty\<rparr>) (csm_base csm)"

definition mbase :: "System \<Rightarrow> System" where
  "mbase s = (base s)\<lparr>csm_heap := map_option tableless \<circ> csm_heap s\<rparr>"

abbreviation same_mbase :: "System \<Rightarrow> System \<Rightarrow> bool" where
  "same_mbase s t \<equiv> mbase t = mbase s"

lemma tableless_fields [simp]:
  "peer_link_if (tableless csm) = peer_link_if csm" "peer_itf_name (tableless csm) = peer_itf_name csm"
  "mlacp_lif_list (MLACP (tableless csm)) = mlacp_lif_list (MLACP csm)"
  by (simp_all add: tableless_def MLACP_update_def csm_base_def)

lemma tableless_base [simp]: "csm_base (tableless csm) = tableless csm"
  by (simp add: tableless_def csm_base_def MLACP_update_def)

lemma mbase_base: "base t = base s \<Longrightarrow> mbase t = mbase s"
proof -
  assume b: "base t = base s"
  have "map_option tableless \<circ> csm_heap u =
      map_option (MLACP_update (\<lambda>M. M\<lparr>mac_rb := [], mac_heap := Map.empty\<rparr>)) \<circ> csm_heap (base u)" for u
    by (simp add: base_heaps fun_eq_iff option.map_comp comp_def tableless_def [abs_def])
  then show ?thesis unfolding mbase_def by (simp only: b)
qed

lemma mbase_heaps:
  "csm_heap (mbase s) = map_option tableless \<circ> csm_heap s" "lif_heap (mbase s) = map_option lif_base \<circ> lif_heap s"
  by (simp_all add: mbase_def base_heaps)

lemma live_mbase [simp]:
  "live (csm_heap (mbase s)) = live (csm_heap s)" "live (lif_heap (mbase s)) = live (lif_heap s)"
  "live_opt (csm_heap (mbase s)) = live_opt (csm_heap s)"
  "live_opt (lif_heap (mbase s)) = live_opt (lif_heap s)"
  by (auto simp: mbase_heaps live_def live_opt_def fun_eq_iff split: option.splits)

lemma wf_mbase [simp]: "wf (mbase s) \<longleftrightarrow> wf s"
proof -
  have "wf_csm (mbase s) (tableless csm) \<longleftrightarrow> wf_csm s csm"
    and "wf_lif (mbase s) (lif_base lif) \<longleftrightarrow> wf_lif s lif" for csm lif
    by (simp_all add: wf_csm_def wf_lif_def)
  moreover have "csm_list (mbase s) = csm_list s" "lif_list (mbase s) = lif_list s"
    by (simp_all add: mbase_def base_def)
  moreover have "dom (csm_heap (mbase s)) = dom (csm_heap s)" "dom (lif_heap (mbase s)) = dom (lif_heap s)"
    by (simp_all add: mbase_heaps)
  moreover have "c \<in> dom (csm_heap s) \<Longrightarrow> the (csm_heap (mbase s) c) = tableless (the (csm_heap s c))"
    and "l \<in> dom (lif_heap s) \<Longrightarrow> the (lif_heap (mbase s) l) = lif_base (the (lif_heap s l))" for c l
    by (auto simp: mbase_heaps)
  ultimately show ?thesis by (simp add: wf_def)
qed

interpretation macs: steady_state wf same_mbase
  by unfold_locales (simp, simp, metis wf_mbase)

lemma mbase_csm:
  assumes "mbase t = mbase s" "csm_heap s c = Some csm"
  shows "\<exists>csm'. csm_heap t c = Some csm' \<and> tableless csm' = tableless csm"
  using fun_cong [OF arg_cong [OF assms(1), of csm_heap], of c] assms(2)
  by (auto simp: mbase_heaps)

lemma tablelessD:
  assumes "tableless csm = tableless csm'"
  shows "peer_itf_name csm = peer_itf_name csm'" "peer_link_if csm = peer_link_if csm'"
  using arg_cong [OF assms, of peer_itf_name] arg_cong [OF assms, of peer_link_if] by simp_all

lemma tableless_mac [simp]:
  "tableless (MLACP_update (write_mac m e) csm) = tableless csm"
  "tableless (MLACP_update (unlink_mac m \<circ> write_mac m e) csm) = tableless csm"
  by (simp_all add: tableless_def csm_base_def MLACP_update_def write_mac_def unlink_mac_def)

lemma mbase_chip [simp]:
  "mbase (snd (add_mac_to_chip e t s)) = mbase s" "mbase (snd (del_mac_from_chip e s)) = mbase s"
  by (rule mbase_base, simp)+

text \<open>What one step of the walk does to the table.\<close>

definition removed_or_written :: "string \<Rightarrow> nat \<Rightarrow> MACMsg \<Rightarrow> mLACP \<Rightarrow> mLACP \<Rightarrow> bool" where
  "removed_or_written itf m e M M' \<longleftrightarrow>
     mac_msg_list M' = mac_msg_list M \<and> (\<forall>k. k \<noteq> m \<longrightarrow> mac_heap M' k = mac_heap M k) \<and>
     (case disconn_entry itf e of
        None \<Rightarrow> mac_rb M' = remove1 m (mac_rb M) \<and> (m \<in> set (mac_msg_list M) \<longrightarrow> live (mac_heap M') m)
      | Some e' \<Rightarrow> mac_rb M' = mac_rb M \<and> mac_heap M' m = Some e')"

lemma mbase_set_csm:
  assumes "csm_heap s c = Some csm" "tableless csm' = tableless csm"
  shows "mbase (set_csm c csm' s) = mbase s"
proof -
  have "map_option tableless \<circ> (csm_heap s)(c \<mapsto> csm') = map_option tableless \<circ> csm_heap s"
    using assms by (auto simp: fun_eq_iff)
  then show ?thesis by (simp add: mbase_def base_def set_csm_def)
qed

lemma on_csm_run:
  assumes "csm_heap s c = Some csm" "tableless (f csm) = tableless csm"
  shows "\<exists>s'. on_csm c f s = Some s' \<and> mbase s' = mbase s \<and> csm_heap s' c = Some (f csm)"
  using assms mbase_set_csm [OF assms] by (simp add: on_csm_def) (simp add: set_csm_def)

lemma disconn_mac_run:
  assumes csm: "csm_heap s c = Some csm" and e: "mac_heap (MLACP csm) m = Some e"
  shows "\<exists>s' csm'. disconn_mac c m s = Some s' \<and> mbase s' = mbase s \<and> csm_heap s' c = Some csm' \<and>
    removed_or_written (peer_itf_name csm) m e (MLACP csm) (MLACP csm')"
proof -
  have wr: "\<exists>s' csm'. on_csm c (MLACP_update (write_mac m e')) t = Some s' \<and> mbase s' = mbase s \<and>
      csm_heap s' c = Some csm' \<and> removed_or_written (peer_itf_name csm) m e (MLACP csm) (MLACP csm')"
    if "mbase t = mbase s" "csm_heap t = csm_heap s" "disconn_entry (peer_itf_name csm) e = Some e'" for t e'
    using on_csm_run [of t c csm "MLACP_update (write_mac m e')"] csm that
    by (auto simp: removed_or_written_def write_mac_def)
  have un: "\<exists>s' csm'. on_csm c (MLACP_update (unlink_mac m \<circ> write_mac m e')) t = Some s' \<and> mbase s' = mbase s \<and>
      csm_heap s' c = Some csm' \<and> removed_or_written (peer_itf_name csm) m e (MLACP csm) (MLACP csm')"
    if "mbase t = mbase s" "csm_heap t = csm_heap s" "disconn_entry (peer_itf_name csm) e = None" for t e'
    using on_csm_run [of t c csm "MLACP_update (unlink_mac m \<circ> write_mac m e')"] csm that
    by (auto simp: removed_or_written_def write_mac_def unlink_mac_def live_def)
  show ?thesis
  proof (cases "disconn_entry (peer_itf_name csm) e")
    case None
    then show ?thesis using csm e un [of "snd (del_mac_from_chip (e\<lparr>mac_age_flag := mac_age_flag e OR MAC_AGE_PEER\<rparr>) s)"]
      by (auto simp: disconn_mac_def disconn_entry_def Let_def case_prod_beta split: if_splits)
  next
    case (Some e')
    consider "mac_ifname e \<noteq> peer_itf_name csm" "mac_age_flag e \<noteq> 0" "mac_age_flag e \<noteq> MAC_AGE_LOCAL"
      | "mac_ifname e \<noteq> peer_itf_name csm" "mac_age_flag e = MAC_AGE_LOCAL"
      | "mac_ifname e = peer_itf_name csm \<or> mac_age_flag e = 0" by blast
    then show ?thesis
    proof cases
      case 1
      then show ?thesis using csm e
        by (auto simp: disconn_mac_def disconn_entry_def removed_or_written_def)
    next
      case 2
      then show ?thesis using csm e Some wr [of "snd (add_mac_to_chip e MAC_TYPE_DYNAMIC_LOCAL s)" e']
        by (auto simp: disconn_mac_def disconn_entry_def case_prod_beta fst_add_mac)
    next
      case 3
      then show ?thesis using csm e Some wr [of s e']
        by (auto simp: disconn_mac_def disconn_entry_def Let_def split: if_splits)
    qed
  qed
qed

text \<open>The whole walk: an entry of the list survives exactly when it is not removed, with the new
  contents; the others keep theirs.\<close>

definition walked :: "string \<Rightarrow> nat list \<Rightarrow> mLACP \<Rightarrow> mLACP \<Rightarrow> bool" where
  "walked itf ms M M' \<longleftrightarrow>
     mac_msg_list M' = mac_msg_list M \<and>
     mac_rb M' = filter (\<lambda>m. m \<notin> set ms \<or> disconn_entry itf (the (mac_heap M m)) \<noteq> None) (mac_rb M) \<and>
     (\<forall>k. k \<notin> set ms \<longrightarrow> mac_heap M' k = mac_heap M k) \<and>
     (\<forall>k \<in> set ms. case disconn_entry itf (the (mac_heap M k)) of
        Some e' \<Rightarrow> mac_heap M' k = Some e'
      | None \<Rightarrow> k \<in> set (mac_msg_list M) \<longrightarrow> live (mac_heap M') k)"

lemma walked_Cons:
  assumes rw: "removed_or_written itf m e M M1" and w: "walked itf ms M1 M2"
    and e: "mac_heap M m = Some e" and m: "m \<notin> set ms" and d: "distinct (mac_rb M)"
  shows "walked itf (m # ms) M M2"
proof -
  have same: "mac_heap M1 k = mac_heap M k" if "k \<noteq> m" for k
    using rw that by (simp add: removed_or_written_def)
  let ?Q = "\<lambda>k. k \<notin> set (m # ms) \<or> disconn_entry itf (the (mac_heap M k)) \<noteq> None"
  let ?Q1 = "\<lambda>k. k \<notin> set ms \<or> disconn_entry itf (the (mac_heap M1 k)) \<noteq> None"
  have rb2: "mac_rb M2 = filter ?Q1 (mac_rb M1)" using w unfolding walked_def by blast
  have "mac_rb M2 = filter ?Q (mac_rb M)"
  proof (cases "disconn_entry itf e")
    case None
    then have rb1: "mac_rb M1 = filter (\<lambda>k. k \<noteq> m) (mac_rb M)"
      using rw distinct_remove1_removeAll [OF d, of m] unfolding removed_or_written_def
      by (simp add: removeAll_filter_not_eq eq_commute)
    have "(k \<noteq> m \<and> ?Q1 k) = ?Q k" for k
      using e None same by (cases "k = m") simp_all
    then show ?thesis unfolding rb2 rb1 filter_filter by presburger
  next
    case (Some e')
    then have rb1: "mac_rb M1 = mac_rb M" using rw by (simp add: removed_or_written_def)
    have "?Q1 k = ?Q k" for k
      using e Some same m by (cases "k = m") simp_all
    then show ?thesis unfolding rb2 rb1 by presburger
  qed
  moreover have "mac_msg_list M2 = mac_msg_list M" using rw w by (simp add: removed_or_written_def walked_def)
  moreover have "mac_heap M2 k = mac_heap M k" if "k \<notin> set (m # ms)" for k
    using w same that by (simp add: walked_def)
  moreover have "case disconn_entry itf (the (mac_heap M k)) of Some e' \<Rightarrow> mac_heap M2 k = Some e'
      | None \<Rightarrow> k \<in> set (mac_msg_list M) \<longrightarrow> live (mac_heap M2) k" if "k \<in> set (m # ms)" for k
  proof (cases "k = m")
    case True
    have "mac_heap M2 m = mac_heap M1 m" using w m by (simp add: walked_def)
    then show ?thesis using rw e True by (simp add: removed_or_written_def live_def split: option.splits)
  next
    case False
    then have k: "k \<in> set ms" using that by simp
    have l: "mac_msg_list M1 = mac_msg_list M" using rw by (simp add: removed_or_written_def)
    have "case disconn_entry itf (the (mac_heap M1 k)) of Some e' \<Rightarrow> mac_heap M2 k = Some e'
        | None \<Rightarrow> k \<in> set (mac_msg_list M1) \<longrightarrow> live (mac_heap M2) k"
      using w k unfolding walked_def by blast
    then show ?thesis unfolding same [OF False] l .
  qed
  ultimately show ?thesis unfolding walked_def by blast
qed

lemma disconn_walk:
  assumes "csm_heap s c = Some csm" "distinct ms" "list_all (live (mac_heap (MLACP csm))) ms"
    "distinct (mac_rb (MLACP csm))"
  shows "\<exists>s' csm'. foreach (disconn_mac c) ms s = Some s' \<and> mbase s' = mbase s \<and> csm_heap s' c = Some csm' \<and>
    walked (peer_itf_name csm) ms (MLACP csm) (MLACP csm')"
  using assms
proof (induction ms arbitrary: s csm)
  case Nil
  have "walked (peer_itf_name csm) [] (MLACP csm) (MLACP csm)" by (simp add: walked_def)
  with Nil show ?case by auto
next
  case (Cons m ms)
  obtain e where e: "mac_heap (MLACP csm) m = Some e" using Cons.prems(3) by (auto simp: live_def)
  obtain t csm1 where t: "disconn_mac c m s = Some t" "mbase t = mbase s" "csm_heap t c = Some csm1"
    and rw: "removed_or_written (peer_itf_name csm) m e (MLACP csm) (MLACP csm1)"
    using disconn_mac_run [OF Cons.prems(1) e] by blast
  have itf: "peer_itf_name csm1 = peer_itf_name csm"
  proof -
    obtain csm' where "csm_heap t c = Some csm'" "tableless csm' = tableless csm"
      using mbase_csm [OF t(2) Cons.prems(1)] by blast
    with t(3) show ?thesis using tablelessD(1) [of csm' csm] by simp
  qed
  have dist: "distinct ms" using Cons.prems(2) by simp
  have alive: "list_all (live (mac_heap (MLACP csm1))) ms"
    unfolding list_all_iff live_def
  proof
    fix k assume k: "k \<in> set ms"
    then have "k \<noteq> m" using Cons.prems(2) by auto
    then have "mac_heap (MLACP csm1) k = mac_heap (MLACP csm) k"
      using rw by (simp add: removed_or_written_def)
    then show "mac_heap (MLACP csm1) k \<noteq> None" using Cons.prems(3) k by (simp add: list_all_iff live_def)
  qed
  have "distinct (mac_rb (MLACP csm1))"
    using rw Cons.prems(4) distinct_remove1 [of "mac_rb (MLACP csm)" m]
    by (cases "disconn_entry (peer_itf_name csm) e") (simp_all add: removed_or_written_def)
  then obtain u csm2 where u: "foreach (disconn_mac c) ms t = Some u" "mbase u = mbase t"
    "csm_heap u c = Some csm2" and w: "walked (peer_itf_name csm1) ms (MLACP csm1) (MLACP csm2)"
    using Cons.IH [OF t(3) dist alive] by blast
  have "walked (peer_itf_name csm) (m # ms) (MLACP csm) (MLACP csm2)"
    using walked_Cons [OF rw w [unfolded itf] e _ Cons.prems(4)] Cons.prems(2) by simp
  moreover have "foreach (disconn_mac c) (m # ms) s = Some u" using t(1) u(1) by simp
  moreover have "mbase u = mbase s" using t(2) u(2) by simp
  ultimately show ?case using u(3) by blast
qed

lemma fdb_handler_run:
  assumes "csm_heap s c = Some csm" "mac_ok (MLACP csm)"
  shows "\<exists>s' csm'. mlacp_peer_disconn_fdb_handler c s = Some s' \<and> mbase s' = mbase s \<and>
    csm_heap s' c = Some csm' \<and> walked (peer_itf_name csm) (mac_rb (MLACP csm)) (MLACP csm) (MLACP csm')"
  using disconn_walk [OF assms(1), of "mac_rb (MLACP csm)"] assms
  by (simp add: mlacp_peer_disconn_fdb_handler_def mac_ok_def)

lemma disconn_entry_op: "disconn_entry itf e = Some e' \<Longrightarrow> mac_op_type e' = mac_op_type e"
  by (auto simp: disconn_entry_def Let_def split: if_splits)

lemma walked_tree:
  assumes "walked itf (mac_rb M) M M'" "m \<in> set (mac_rb M')"
  shows "m \<in> set (mac_rb M)" "\<exists>e'. disconn_entry itf (the (mac_heap M m)) = Some e' \<and> mac_heap M' m = Some e'"
proof -
  let ?Q = "\<lambda>m. m \<notin> set (mac_rb M) \<or> disconn_entry itf (the (mac_heap M m)) \<noteq> None"
  have "mac_rb M' = filter ?Q (mac_rb M)" using assms(1) unfolding walked_def by blast
  with assms(2) have m: "m \<in> set (mac_rb M)" "disconn_entry itf (the (mac_heap M m)) \<noteq> None" by auto
  then obtain e' where e': "disconn_entry itf (the (mac_heap M m)) = Some e'" by blast
  have "case disconn_entry itf (the (mac_heap M m)) of Some e' \<Rightarrow> mac_heap M' m = Some e'
        | None \<Rightarrow> m \<in> set (mac_msg_list M) \<longrightarrow> live (mac_heap M') m"
    using assms(1) m(1) unfolding walked_def by blast
  with m(1) e' show "m \<in> set (mac_rb M)"
    "\<exists>e'. disconn_entry itf (the (mac_heap M m)) = Some e' \<and> mac_heap M' m = Some e'" by simp_all
qed

lemma walked_ok:
  assumes w: "walked itf (mac_rb M) M M'" and ok: "mac_ok M"
  shows "mac_ok M'" and "no_queued_delete M \<Longrightarrow> no_queued_delete M'"
proof -
  have l: "mac_msg_list M' = mac_msg_list M" using w unfolding walked_def by blast
  have "mac_rb M' = filter (\<lambda>m. m \<notin> set (mac_rb M) \<or> disconn_entry itf (the (mac_heap M m)) \<noteq> None) (mac_rb M)"
    using w unfolding walked_def by blast
  then have "distinct (mac_rb M')" using ok by (simp add: mac_ok_def)
  moreover have "live (mac_heap M') m" if "m \<in> set (mac_rb M')" for m
    using walked_tree(2) [OF w that] by (auto simp: live_def)
  moreover have "live (mac_heap M') m" if m: "m \<in> set (mac_msg_list M)" for m
  proof (cases "m \<in> set (mac_rb M)")
    case True
    then have "case disconn_entry itf (the (mac_heap M m)) of Some e' \<Rightarrow> mac_heap M' m = Some e'
        | None \<Rightarrow> m \<in> set (mac_msg_list M) \<longrightarrow> live (mac_heap M') m"
      using w unfolding walked_def by blast
    then show ?thesis using m by (auto simp: live_def split: option.splits)
  next
    case False
    then have "mac_heap M' m = mac_heap M m" using w unfolding walked_def by blast
    then show ?thesis using ok m by (simp add: mac_ok_def list_all_iff live_def)
  qed
  ultimately show "mac_ok M'" by (simp add: mac_ok_def list_all_iff l)
  assume nq: "no_queued_delete M"
  have "map_option mac_op_type (mac_heap M' m) \<noteq> Some MAC_SYNC_DEL"
    if m: "m \<in> set (mac_rb M')" and q: "m \<in> set (mac_msg_list M')" for m
  proof -
    obtain e' where e': "disconn_entry itf (the (mac_heap M m)) = Some e'" "mac_heap M' m = Some e'"
      using walked_tree(2) [OF w m] by blast
    have m': "m \<in> set (mac_rb M)" by (rule walked_tree(1) [OF w m])
    then obtain e where e: "mac_heap M m = Some e" using ok by (auto simp: mac_ok_def list_all_iff live_def)
    have "map_option mac_op_type (mac_heap M m) \<noteq> Some MAC_SYNC_DEL"
      using nq m' q l by (simp add: no_queued_delete_def list_all_iff)
    then show ?thesis using e e' disconn_entry_op [OF e'(1)] by simp
  qed
  then show "no_queued_delete M'" by (simp add: no_queued_delete_def list_all_iff)
qed

section \<open>The peer disconnect handler\<close>

lemma steady_iccp_down_vlans:
  assumes "wf s" "live (lif_heap s) l"
  shows "steady same_base (update_vlan_if_mac_on_iccp_up l False rmac) s"
proof -
  obtain lif where lif: "lif_heap s l = Some lif" using live_Some [OF assms(2)] by blast
  have "steady same_base (foreach_vlan (\<lambda>_. \<lambda>v. recover_vlan_if_mac_on_standby v 4 rmac) (lif_vlan_tree lif)) s"
    by (rule steady_foreach_vlan [OF assms(1) lif]) (rule steady_recover_vlan)
  with lif show ?thesis by (simp add: update_vlan_if_mac_on_iccp_up_def steady_def)
qed

lemma steady_recover_enable:
  assumes "wf s" "live (lif_heap s) l"
  shows "steady same_base (\<lambda>s. do {
    s \<leftarrow> (if standby then recover_if_ipmac_on_standby l s else Some s);
    lif \<leftarrow> lif_heap s l;
    if lif_is_traffic_disable lif then mlacp_link_enable_traffic_distribution l s else Some s }) s"
proof -
  have "\<exists>t. (if standby then recover_if_ipmac_on_standby l s else Some s) = Some t \<and> base t = base s"
    using steady_recover_if [OF assms] by (auto simp: steady_def)
  then obtain t where t: "(if standby then recover_if_ipmac_on_standby l s else Some s) = Some t" "base t = base s"
    by blast
  have l: "live (lif_heap t) l" by (rule carry(3) [OF t(2) assms(2)])
  obtain lif where lif: "lif_heap t l = Some lif" using live_Some [OF l] by blast
  obtain u where u: "mlacp_link_enable_traffic_distribution l t = Some u" "base u = base t"
    using steady_enable_traffic [OF l] unfolding steady_def by blast
  show ?thesis unfolding steady_def t(1) Option.bind.simps lif u(1)
    using t(2) u(2) by simp
qed

lemma wf_put_csm:
  assumes "wf s" "csm_heap s c = Some csm" "wf_csm s csm'"
  shows "wf (set_csm c csm' s)"
proof -
  have l: "live (csm_heap (set_csm c csm' s)) = live (csm_heap s)" "lif_heap (set_csm c csm' s) = lif_heap s"
    using assms(2) by (auto simp: live_def set_csm_def fun_eq_iff)
  have lo: "live_opt (csm_heap (set_csm c csm' s)) = live_opt (csm_heap s)"
    unfolding live_opt_def [abs_def] l(1) ..
  have other: "wf_csm (set_csm c csm' s) x = wf_csm s x" "wf_lif (set_csm c csm' s) y = wf_lif s y" for x y
    unfolding wf_csm_def wf_lif_def l(2) lo by simp_all
  have "wf_csm s (the (((csm_heap s)(c \<mapsto> csm')) x))" if "x \<in> dom (csm_heap s)" for x
    using assms(1,3) that by (auto simp: wf_def)
  moreover have "csm_list (set_csm c csm' s) = csm_list s" "lif_list (set_csm c csm' s) = lif_list s"
    "csm_heap (set_csm c csm' s) = (csm_heap s)(c \<mapsto> csm')" "dom ((csm_heap s)(c \<mapsto> csm')) = dom (csm_heap s)"
    using assms(2) by (auto simp: set_csm_def)
  ultimately show ?thesis using assms(1) unfolding wf_def other l by simp
qed

lemma wf_set_csm:
  assumes "wf s" "csm_heap s c = Some csm" "peer_link_if csm' = peer_link_if csm"
    "mlacp_lif_list (MLACP csm') = mlacp_lif_list (MLACP csm)"
  shows "wf (set_csm c csm' s)"
  using wf_put_csm [OF assms(1,2)] wf_csmD [OF assms(1,2)] assms(3,4) by (simp add: wf_csm_def)

text \<open>What the handler leaves of a session: everything but the MAC table, the remote system
  identifier and the bookkeeping of learning and warm reboot.\<close>

definition csm_core :: "CSM \<Rightarrow> CSM" where
  "csm_core csm = MLACP_update (\<lambda>M. M\<lparr>mac_rb := [], mac_heap := Map.empty,
       remote_system := (remote_system M)\<lparr>rs_system_id := []\<rparr>\<rparr>)
     (csm\<lparr>peer_link_learning_enable := 0, peer_link_learning_retry_time := 0, peer_warm_reboot_time := 0,
          warm_reboot_disconn_time := 0\<rparr>)"

lemma csm_core_tableless: "csm_core (tableless csm) = csm_core csm"
  and csm_core_base: "csm_core (csm_base csm) = csm_core csm"
  and csm_core_updates [simp]:
    "csm_core (MLACP_update (remote_system_update (rs_system_id_update f)) csm) = csm_core csm"
    "csm_core (csm\<lparr>peer_warm_reboot_time := x, warm_reboot_disconn_time := y\<rparr>) = csm_core csm"
  by (simp_all add: csm_core_def tableless_def csm_base_def MLACP_update_def)

lemma walked_cong:
  assumes "mac_rb M' = mac_rb M" "mac_heap M' = mac_heap M" "mac_msg_list M' = mac_msg_list M"
    "walked itf ms N M"
  shows "walked itf ms N M'"
  using assms(4) unfolding walked_def assms(1-3) .

text \<open>The system outside a session, up to what the side effects change.\<close>

definition others :: "nat \<Rightarrow> System \<Rightarrow> System" where
  "others c s = (mbase s)\<lparr>csm_heap := (csm_heap (mbase s))(c := None), readfd := []\<rparr>"

lemma others_mbase: "mbase t = mbase s \<Longrightarrow> others c t = others c s"
  by (simp add: others_def)

lemmas others_base = others_mbase [OF mbase_base]

lemma others_set_csm [simp]: "others c (set_csm c csm s) = others c s"
  by (simp add: others_def mbase_def base_def set_csm_def fun_upd_comp)

text \<open>The part of the handler that runs when neither side reboots warmly.\<close>

lemma peer_disconn_cold:
  assumes wf: "wf s" and csm: "csm_heap s c = Some csm" and ok: "mac_ok (MLACP csm)"
    and cold: "warmboot_exit s \<noteq> WARM_REBOOT" "peer_warm_reboot_time csm = 0"
  shows "\<exists>s' csm'. mlacp_peer_disconn_handler c s = Some s' \<and> csm_heap s' c = Some csm' \<and>
    csm_core csm' = csm_core csm \<and> readfd s' = readfd s \<and> clock s' = clock s \<and> others c s' = others c s \<and>
    walked (peer_itf_name csm) (mac_rb (MLACP csm)) (MLACP csm) (MLACP csm')"
proof -
  obtain s1 csm1 where s1: "mlacp_peer_disconn_fdb_handler c s = Some s1" "mbase s1 = mbase s"
      "csm_heap s1 c = Some csm1" "walked (peer_itf_name csm) (mac_rb (MLACP csm)) (MLACP csm) (MLACP csm1)"
    using fdb_handler_run [OF csm ok] by blast
  have t1: "tableless csm1 = tableless csm" using mbase_csm [OF s1(2) csm] s1(3) by auto
  have wf1: "wf s1" by (rule macs.valid_eqv [OF wf s1(2)])
  obtain rc s2 where s2: "mlacp_link_set_iccp_state (mlag_id csm) False s1 = (rc, s2)" by fastforce
  have b2: "base s2 = base s1" using base_requests(2) [of "mlag_id csm" False s1] s2 by simp
  have "wf s2" "live (csm_heap s2) c" using carry [OF b2] wf1 live_by [of "csm_heap s1" c, OF s1(3)] by blast+
  then obtain s3 where s3: "peerlink_port_isolate_cleanup c s2 = Some s3" "base s3 = base s2"
    using steady_isolate_cleanup unfolding steady_def by blast
  have b3: "base s3 = base s1" using s3(2) b2 by simp
  obtain csm3 where csm3: "csm_heap s3 c = Some csm3" "csm_base csm3 = csm_base csm1"
    using base_csm [OF b3 s1(3)] by blast
  let ?upd = "MLACP_update (remote_system_update (rs_system_id_update (\<lambda>_. replicate 6 0)))"
  define s4 where "s4 = set_csm c (?upd csm3) s3"
  have s4: "on_csm c ?upd s3 = Some s4" using csm3 by (simp add: on_csm_def s4_def)
  have wf3: "wf s3" using carry(1) [OF b3] wf1 by blast
  have wf4: "wf s4" unfolding s4_def by (rule wf_set_csm [OF wf3 csm3(1)]) simp_all
  have lif4: "lif_heap s4 = lif_heap s3" by (simp add: s4_def set_csm_def)
  have live4: "live (lif_heap s4) l" if "live (lif_heap s) l" for l
  proof -
    have "live (lif_heap s1) l" using that live_mbase(2) s1(2) by metis
    then show ?thesis unfolding lif4 by (rule carry(3) [OF b3])
  qed
  let ?f = "\<lambda>l s. do {
      s \<leftarrow> (if role_type csm = STP_ROLE_STANDBY then recover_if_ipmac_on_standby l s else Some s);
      lif \<leftarrow> lif_heap s l;
      if lif_is_traffic_disable lif then mlacp_link_enable_traffic_distribution l s else Some s }"
  have "steady same_base (foreach ?f (mlacp_lif_list (MLACP csm))) s4"
  proof (rule sys.steady_foreach [OF wf4])
    fix l t assume l: "l \<in> set (mlacp_lif_list (MLACP csm))" and t: "wf t" "base t = base s4"
    have "live (lif_heap s) l" using wf_csmD [OF wf csm] l by (simp add: wf_csm_def list_all_iff)
    then show "steady same_base (?f l) t"
      by (rule steady_recover_enable [OF t(1) carry(3) [OF t(2) live4]])
  qed
  then obtain s5 where s5: "foreach ?f (mlacp_lif_list (MLACP csm)) s4 = Some s5" "base s5 = base s4"
    unfolding steady_def by blast
  have "\<exists>s6. (case peer_link_if csm of None \<Rightarrow> Some s5
      | Some p \<Rightarrow> update_vlan_if_mac_on_iccp_up p False (Some (rs_system_id (remote_system (MLACP csm)))) s5) = Some s6
      \<and> base s6 = base s5"
  proof (cases "peer_link_if csm")
    case (Some p)
    then have "live (lif_heap s) p" using wf_csmD [OF wf csm] by (simp add: wf_csm_def live_opt_def)
    then have "live (lif_heap s5) p" by (rule carry(3) [OF s5(2) live4])
    from steady_iccp_down_vlans [OF carry(1) [OF s5(2) wf4] this] Some show ?thesis by (simp add: steady_def)
  qed simp
  then obtain s6 where s6: "(case peer_link_if csm of None \<Rightarrow> Some s5
      | Some p \<Rightarrow> update_vlan_if_mac_on_iccp_up p False (Some (rs_system_id (remote_system (MLACP csm)))) s5) = Some s6"
      "base s6 = base s5" by blast
  define s7 where "s7 = (if role_type csm = STP_ROLE_STANDBY
      then snd (mlacp_link_set_iccp_system_id (mlag_id csm) (system_id (MLACP csm)) (SYSTEM_INCR_SESSION_DOWN_COUNTER s6))
      else SYSTEM_INCR_SESSION_DOWN_COUNTER s6)"
  define s8 where "s8 = fold (\<lambda>p s. snd (mlacp_link_del_remote_if_info (mlag_id csm) (pif_name p) s))
      (pif_list (MLACP csm)) s7"
  have "base s8 = base s7" unfolding s8_def by (rule sys.steady_fold) simp
  moreover have "base s7 = base s6" by (simp add: s7_def)
  ultimately have b8: "base s8 = base s4" using s6(2) s5(2) by simp
  have run: "mlacp_peer_disconn_handler c s = Some s8"
    unfolding mlacp_peer_disconn_handler_def csm Option.bind.simps s1(1) s2 Let_def prod.case s3(1) s4 s5(1) s6(1)
    using cold by (simp add: s7_def s8_def)
  have csm4: "csm_heap s4 c = Some (?upd csm3)" by (simp add: s4_def set_csm_def)
  obtain csm8 where csm8: "csm_heap s8 c = Some csm8" "csm_base csm8 = csm_base (?upd csm3)"
    using base_csm [OF b8 csm4] by blast
  have "csm_core csm8 = csm_core (csm_base (?upd csm3))" using csm8(2) csm_core_base by metis
  also have "\<dots> = csm_core csm3" by (simp add: csm_core_base)
  also have "\<dots> = csm_core csm1" using csm3(2) csm_core_base by metis
  also have "\<dots> = csm_core csm" using t1 csm_core_tableless by metis
  finally have core: "csm_core csm8 = csm_core csm" .
  have "MLACP csm8 = MLACP (?upd csm3)" using csm8(2) csm_base_fields(2) by metis
  moreover have "MLACP csm3 = MLACP csm1" using csm3(2) csm_base_fields(2) by metis
  ultimately have "walked (peer_itf_name csm) (mac_rb (MLACP csm)) (MLACP csm) (MLACP csm8)"
    using walked_cong [of "MLACP csm8" "MLACP csm1", OF _ _ _ s1(4)] by simp
  moreover have "readfd s4 = readfd s3" "clock s4 = clock s3" by (simp_all add: s4_def set_csm_def)
  moreover have "readfd s1 = readfd s" "clock s1 = clock s"
    using arg_cong [OF s1(2), of readfd] arg_cong [OF s1(2), of clock] by (simp_all add: mbase_def base_def)
  moreover have "others c s8 = others c s"
    using others_base [OF b8] others_base [OF b3] others_mbase [OF s1(2)] by (simp add: s4_def)
  ultimately show ?thesis
    using run csm8(1) core base_sysD(1,2) [OF b8] base_sysD(1,2) [OF b3] by simp
qed

lemma peer_disconn_run:
  assumes "wf s" "csm_heap s c = Some csm" "mac_ok (MLACP csm)"
  shows "\<exists>s' csm'. mlacp_peer_disconn_handler c s = Some s' \<and> csm_heap s' c = Some csm' \<and>
    csm_core csm' = csm_core csm \<and> readfd s' = readfd s \<and> clock s' = clock s \<and> others c s' = others c s \<and>
    mac_ok (MLACP csm') \<and> (no_queued_delete (MLACP csm) \<longrightarrow> no_queued_delete (MLACP csm'))"
proof -
  consider "warmboot_exit s = WARM_REBOOT" | "warmboot_exit s \<noteq> WARM_REBOOT" "peer_warm_reboot_time csm \<noteq> 0"
    | "warmboot_exit s \<noteq> WARM_REBOOT" "peer_warm_reboot_time csm = 0" by blast
  then show ?thesis
  proof cases
    case 1
    then show ?thesis using assms by (simp add: mlacp_peer_disconn_handler_def)
  next
    case 2
    then show ?thesis using assms by (simp add: mlacp_peer_disconn_handler_def on_csm_def) (simp add: set_csm_def)
  next
    case 3
    obtain s' csm' where r: "mlacp_peer_disconn_handler c s = Some s'" "csm_heap s' c = Some csm'"
      "csm_core csm' = csm_core csm" "readfd s' = readfd s" "clock s' = clock s" "others c s' = others c s"
      "walked (peer_itf_name csm) (mac_rb (MLACP csm)) (MLACP csm) (MLACP csm')"
      using peer_disconn_cold [OF assms 3] by blast
    then show ?thesis using walked_ok [OF r(7) assms(3)] by blast
  qed
qed

section \<open>The session after the disconnect handler\<close>

lemma status_reset_keep:
  assumes "mac_ok (MLACP csm)" "no_queued_delete (MLACP csm)"
  shows "\<exists>csm'. iccp_csm_status_reset False rnd csm = Some csm' \<and> sock_fd csm' = -1 \<and>
    current_state csm' = ICCP_NONEXISTENT \<and> app_current_state (app_csm csm') = APP_NONEXISTENT \<and>
    mlacp_current_state (MLACP csm') = MLACP_STATE_INIT \<and> role_type csm' = STP_ROLE_NONE \<and>
    msg_list csm' = [] \<and> mlacp_msg_list (MLACP csm') = [] \<and> mac_msg_list (MLACP csm') = [] \<and>
    pif_list (MLACP csm') = [] \<and> mlacp_lif_purge_list (MLACP csm') = [] \<and> peer_link_if csm' = None \<and>
    warm_reboot_disconn_time csm' = 0 \<and> msg_log csm' = MsgLog_zero \<and>
    mlag_id csm' = mlag_id csm \<and> peer_ip csm' = peer_ip csm \<and> sender_ip csm' = sender_ip csm \<and>
    peer_itf_name csm' = peer_itf_name csm \<and> session_timeout csm' = session_timeout csm \<and>
    arp_list (MLACP csm') = arp_list (MLACP csm) \<and> ndisc_list (MLACP csm') = ndisc_list (MLACP csm) \<and>
    mac_rb (MLACP csm') = mac_rb (MLACP csm) \<and> mac_ok (MLACP csm') \<and>
    mlacp_lif_list (MLACP csm') = mlacp_lif_list (MLACP csm)"
  using assms
  by (auto simp: iccp_csm_status_reset_def app_csm_init_def mlacp_init_def mlacp_mac_msg_queue_reinit_def
      MLACP_update_def Let_def mac_ok_def no_queued_delete_def list_all_iff live_def)

lemma close_socket:
  assumes "wf s" "csm_heap s c = Some csm"
  shows "\<exists>s1 s2. scheduler_unregister_sock_read_event_callback c s = Some s1 \<and>
    scheduler_csm_socket_cleanup c s1 = Some s2 \<and> wf s2 \<and> clock s2 = clock s \<and>
    warmboot_exit s2 = warmboot_exit s \<and>
    csm_heap s2 c = Some (if sock_fd csm > 0 then csm\<lparr>sock_fd := -1\<rparr> else csm) \<and>
    others c s2 = others c s \<and>
    readfd s2 = (if sock_fd csm > 0 then removeAll (sock_fd csm) (readfd s) else readfd s)"
proof (cases "sock_fd csm > 0")
  case False
  then show ?thesis using assms
    by (simp add: scheduler_unregister_sock_read_event_callback_def scheduler_csm_socket_cleanup_def)
next
  case True
  define s1 where "s1 = s\<lparr>readfd := removeAll (sock_fd csm) (readfd s)\<rparr>"
  define e where "e = s_env s\<lparr>close_results := tl (close_results (s_env s))\<rparr>"
  define s2 where "s2 = (if (case close_results (s_env s) of [] \<Rightarrow> 0 | r # _ \<Rightarrow> r) \<noteq> 0
      then bump_dbg (socket_close_err_counter_update (\<lambda>n. n + 1)) (s1\<lparr>s_env := e\<rparr>) else s1\<lparr>s_env := e\<rparr>)"
  have s2: "base s2 = base s1" "csm_heap s2 = csm_heap s" by (simp_all add: s2_def s1_def bump_dbg_def)
  have "wf s1" using assms(1) by (simp add: s1_def wf_def wf_csm_def wf_lif_def)
  then have "wf s2" using carry(1) [OF s2(1)] by blast
  then have "wf (set_csm c (csm\<lparr>sock_fd := -1\<rparr>) s2)" using assms(2) s2(2) by (intro wf_set_csm) simp_all
  moreover have "scheduler_csm_socket_cleanup c s1 = Some (set_csm c (csm\<lparr>sock_fd := -1\<rparr>) s2)"
    using True assms(2) unfolding scheduler_csm_socket_cleanup_def on_csm_def
    by (simp add: s1_def s2_def e_def Let_def bump_dbg_def)
  moreover have "scheduler_unregister_sock_read_event_callback c s = Some s1"
    using True assms(2) by (simp add: scheduler_unregister_sock_read_event_callback_def s1_def)
  moreover have "others c (set_csm c (csm\<lparr>sock_fd := -1\<rparr>) s2) = others c s"
    unfolding others_set_csm others_base [OF s2(1)] by (simp add: s1_def others_def mbase_def base_def)
  ultimately show ?thesis using True base_sysD [OF s2(1)] by (simp add: s1_def) (simp add: set_csm_def)
qed

lemma core_fields:
  assumes "csm_core csm' = csm_core csm"
  shows "mlag_id csm' = mlag_id csm" "peer_ip csm' = peer_ip csm" "sender_ip csm' = sender_ip csm"
    "peer_itf_name csm' = peer_itf_name csm" "session_timeout csm' = session_timeout csm"
    "arp_list (MLACP csm') = arp_list (MLACP csm)" "ndisc_list (MLACP csm') = ndisc_list (MLACP csm)"
    "mlacp_lif_list (MLACP csm') = mlacp_lif_list (MLACP csm)"
  using arg_cong [OF assms, of mlag_id] arg_cong [OF assms, of peer_ip] arg_cong [OF assms, of sender_ip]
    arg_cong [OF assms, of peer_itf_name] arg_cong [OF assms, of session_timeout]
    arg_cong [OF assms, of "\<lambda>c. arp_list (MLACP c)"] arg_cong [OF assms, of "\<lambda>c. ndisc_list (MLACP c)"]
    arg_cong [OF assms, of "\<lambda>c. mlacp_lif_list (MLACP c)"]
  by (simp_all add: csm_core_def MLACP_update_def)

text \<open>A session that can be established again: reset state machines, no socket, empty queues.\<close>

definition session_reset :: "CSM \<Rightarrow> bool" where
  "session_reset csm \<longleftrightarrow> sock_fd csm = -1 \<and> current_state csm = ICCP_NONEXISTENT \<and>
     app_current_state (app_csm csm) = APP_NONEXISTENT \<and> mlacp_current_state (MLACP csm) = MLACP_STATE_INIT \<and>
     role_type csm = STP_ROLE_NONE \<and> msg_list csm = [] \<and> mlacp_msg_list (MLACP csm) = [] \<and>
     mac_msg_list (MLACP csm) = [] \<and> pif_list (MLACP csm) = [] \<and> peer_link_if csm = None \<and>
     mlacp_lif_purge_list (MLACP csm) = [] \<and> msg_log csm = MsgLog_zero"

text \<open>What a session carries over to its next connection.\<close>

definition carried_over :: "CSM \<Rightarrow> CSM \<Rightarrow> bool" where
  "carried_over csm csm' \<longleftrightarrow> mlag_id csm' = mlag_id csm \<and> peer_ip csm' = peer_ip csm \<and>
     sender_ip csm' = sender_ip csm \<and> peer_itf_name csm' = peer_itf_name csm \<and>
     session_timeout csm' = session_timeout csm \<and> arp_list (MLACP csm') = arp_list (MLACP csm) \<and>
     ndisc_list (MLACP csm') = ndisc_list (MLACP csm) \<and>
     mlacp_lif_list (MLACP csm') = mlacp_lif_list (MLACP csm)"

lemma session_disconnect_run:
  assumes "wf s" "csm_heap s c = Some csm" "mac_ok (MLACP csm)" "no_queued_delete (MLACP csm)"
  shows "\<exists>s' csm'. scheduler_session_disconnect_handler c s = Some s' \<and> csm_heap s' c = Some csm' \<and>
    session_reset csm' \<and> carried_over csm csm' \<and> mac_ok (MLACP csm') \<and>
    warm_reboot_disconn_time csm' = 0 \<and> connTimePrev csm' = clock s \<and> others c s' = others c s \<and>
    readfd s' = (if sock_fd csm > 0 then removeAll (sock_fd csm) (readfd s) else readfd s)"
proof -
  let ?csm2 = "if sock_fd csm > 0 then csm\<lparr>sock_fd := -1\<rparr> else csm"
  obtain s1 s2 where s2: "scheduler_unregister_sock_read_event_callback c s = Some s1"
      "scheduler_csm_socket_cleanup c s1 = Some s2" "wf s2" "clock s2 = clock s"
      "csm_heap s2 c = Some ?csm2" "others c s2 = others c s"
      "readfd s2 = (if sock_fd csm > 0 then removeAll (sock_fd csm) (readfd s) else readfd s)"
    using close_socket [OF assms(1,2)] by blast
  have M2: "MLACP ?csm2 = MLACP csm" by simp
  obtain s3 csm3 where s3: "mlacp_peer_disconn_handler c s2 = Some s3" "csm_heap s3 c = Some csm3"
      "csm_core csm3 = csm_core ?csm2" "readfd s3 = readfd s2" "clock s3 = clock s2" "mac_ok (MLACP csm3)"
      "no_queued_delete (MLACP csm3)" "others c s3 = others c s2"
    using peer_disconn_run [OF s2(3,5)] assms(3,4) unfolding M2 by blast
  let ?csm4 = "MLACP_update (mlacp_current_state_update (\<lambda>_. MLACP_STATE_INIT)) csm3"
  have ok4: "mac_ok (MLACP ?csm4)" "no_queued_delete (MLACP ?csm4)"
    using s3(6,7) by (simp_all add: mac_ok_def no_queued_delete_def)
  obtain csm5 where csm5: "iccp_csm_status_reset False 0 ?csm4 = Some csm5" "session_reset csm5"
      "warm_reboot_disconn_time csm5 = 0" "carried_over ?csm4 csm5" "mac_ok (MLACP csm5)"
    using status_reset_keep [OF ok4, of 0] unfolding session_reset_def carried_over_def by blast
  have "carried_over csm ?csm4"
    using core_fields [OF s3(3)] by (simp add: carried_over_def MLACP_update_def)
  then have "carried_over csm csm5" using csm5(4) by (simp add: carried_over_def)
  moreover have "scheduler_session_disconnect_handler c s =
      Some (set_csm c (csm5\<lparr>connTimePrev := clock s\<rparr>) (set_csm c ?csm4 s3))"
    unfolding scheduler_session_disconnect_handler_def on_csm_def s2(1) s2(2) Option.bind.simps s3(1,2)
    using csm5(1) s3(5) s2(4) by (simp add: set_csm_def)
  moreover have "others c (set_csm c (csm5\<lparr>connTimePrev := clock s\<rparr>) (set_csm c ?csm4 s3)) = others c s"
    using s3(8) s2(6) by simp
  ultimately show ?thesis using csm5 s3(4) s2(7)
    by (intro exI [of _ "set_csm c (csm5\<lparr>connTimePrev := clock s\<rparr>) (set_csm c ?csm4 s3)"]
          exI [of _ "csm5\<lparr>connTimePrev := clock s\<rparr>"] conjI)
       (auto simp: set_csm_def session_reset_def carried_over_def)
qed

lemma status_reset_fault:
  assumes "m \<in> set (mac_rb (MLACP csm))" "m \<in> set (mac_msg_list (MLACP csm))"
    "map_option mac_op_type (mac_heap (MLACP csm) m) = Some MAC_SYNC_DEL"
  shows "iccp_csm_status_reset False rnd csm = None"
  using assms
  by (auto simp: iccp_csm_status_reset_def app_csm_init_def mlacp_init_def mlacp_mac_msg_queue_reinit_def
      MLACP_update_def Let_def list_all_iff)

section \<open>Properties\<close>

text \<open>C1: taking a session down returns, when no pointer dangles and no entry whose deletion is
  queued is still in the MAC tree, and leaves a session that can be established
  again: closed and unwatched socket, reset state machines and role, empty
  queues; the configuration and the ARP, ND, MAC and interface lists stay.\<close>

theorem disconnect_resets_session:
  assumes "wf s" "csm_heap s c = Some csm" "mac_ok (MLACP csm)" "no_queued_delete (MLACP csm)"
  shows "\<exists>s' csm'. scheduler_session_disconnect_handler c s = Some s' \<and> csm_heap s' c = Some csm' \<and>
    session_reset csm' \<and> carried_over csm csm' \<and> mac_ok (MLACP csm') \<and> connTimePrev csm' = clock s \<and>
    (sock_fd csm > 0 \<longrightarrow> sock_fd csm \<notin> set (readfd s'))"
  using session_disconnect_run [OF assms] by auto

text \<open>C4: the deadline for a peer that reboots warmly is lost: the disconnect handler of the
  link handler stores the time of the disconnection, but the reset that follows in
  the session disconnect handler sets it back to 0, which means "no deadline".\<close>

theorem warm_reboot_deadline_lost:
  assumes "wf s" "csm_heap s c = Some csm" "mac_ok (MLACP csm)" "no_queued_delete (MLACP csm)"
    and "peer_warm_reboot_time csm \<noteq> 0" "warmboot_exit s \<noteq> WARM_REBOOT"
  shows "\<exists>t csm1 s' csm'. mlacp_peer_disconn_handler c s = Some t \<and> csm_heap t c = Some csm1 \<and>
    warm_reboot_disconn_time csm1 = clock s \<and>
    scheduler_session_disconnect_handler c s = Some s' \<and> csm_heap s' c = Some csm' \<and>
    warm_reboot_disconn_time csm' = 0"
proof -
  have "\<exists>t csm1. mlacp_peer_disconn_handler c s = Some t \<and> csm_heap t c = Some csm1 \<and>
      warm_reboot_disconn_time csm1 = clock s"
    using assms(2,5,6) by (simp add: mlacp_peer_disconn_handler_def on_csm_def) (simp add: set_csm_def)
  then show ?thesis using session_disconnect_run [OF assms(1-4)] by blast
qed

text \<open>C3: when the peer has announced a warm reboot and the session goes down while the
  deletion of an entry that is still in the MAC tree waits to be sent, emptying the
  queue frees the entry and the walk over the tree that follows reads it.\<close>

theorem queued_delete_use_after_free:
  assumes "wf s" "csm_heap s c = Some csm" "peer_warm_reboot_time csm \<noteq> 0" "warmboot_exit s \<noteq> WARM_REBOOT"
    and "m \<in> set (mac_rb (MLACP csm))" "m \<in> set (mac_msg_list (MLACP csm))"
    and "mac_heap (MLACP csm) m = Some e" "mac_op_type e = MAC_SYNC_DEL"
  shows "scheduler_session_disconnect_handler c s = None"
proof -
  obtain s1 s2 where s2: "scheduler_unregister_sock_read_event_callback c s = Some s1"
      "scheduler_csm_socket_cleanup c s1 = Some s2" "warmboot_exit s2 = warmboot_exit s"
      "csm_heap s2 c = Some (if sock_fd csm > 0 then csm\<lparr>sock_fd := -1\<rparr> else csm)"
    using close_socket [OF assms(1,2)] by blast
  let ?csm2 = "if sock_fd csm > 0 then csm\<lparr>sock_fd := -1\<rparr> else csm"
  let ?csm3 = "?csm2\<lparr>peer_warm_reboot_time := 0, warm_reboot_disconn_time := clock s2\<rparr>"
  have "mlacp_peer_disconn_handler c s2 = Some (set_csm c ?csm3 s2)"
    using assms(3,4) s2(3,4) by (auto simp: mlacp_peer_disconn_handler_def on_csm_def)
  moreover have "iccp_csm_status_reset False 0
      (MLACP_update (mlacp_current_state_update (\<lambda>_. MLACP_STATE_INIT)) ?csm3) = None"
    using assms(5-8) by (intro status_reset_fault [of m]) simp_all
  ultimately show ?thesis using s2(1,2)
    by (simp add: scheduler_session_disconnect_handler_def on_csm_def set_csm_def)
qed

text \<open>C2: after a session went down (and no warm reboot is under way) every entry left in the
  MAC table is marked as aged at the peer, and one that points to the peer link is
  neither aged on both sides nor waiting for its local deletion.\<close>

theorem disconnect_marks_macs:
  assumes "csm_heap s c = Some csm" "mac_ok (MLACP csm)"
    and "list_all (\<lambda>m. mac_age_flag (the (mac_heap (MLACP csm) m)) < 4) (mac_rb (MLACP csm))"
  shows "\<exists>s' csm'. mlacp_peer_disconn_fdb_handler c s = Some s' \<and> csm_heap s' c = Some csm' \<and>
    mac_ok (MLACP csm') \<and> set (mac_rb (MLACP csm')) \<subseteq> set (mac_rb (MLACP csm)) \<and>
    list_all (\<lambda>m. \<exists>e. mac_heap (MLACP csm') m = Some e \<and> mac_age_flag e AND MAC_AGE_PEER = MAC_AGE_PEER \<and>
        (mac_ifname e = peer_itf_name csm \<longrightarrow> mac_age_flag e = MAC_AGE_PEER \<and> mac_pending_local_del e = 0))
      (mac_rb (MLACP csm'))"
proof -
  let ?M = "MLACP csm" and ?itf = "peer_itf_name csm"
  obtain s' csm' where r: "mlacp_peer_disconn_fdb_handler c s = Some s'" "csm_heap s' c = Some csm'"
      "walked ?itf (mac_rb ?M) ?M (MLACP csm')"
    using fdb_handler_run [OF assms(1,2)] by blast
  have small: "a = 0 \<or> a = 1 \<or> a = 2 \<or> a = 3" if "a < 4" for a :: byte
  proof -
    have "unat a < 4" using that by (simp add: word_less_nat_alt)
    then have "unat a = unat (0::byte) \<or> unat a = unat (1::byte) \<or> unat a = unat (2::byte) \<or> unat a = unat (3::byte)"
      by auto
    then show ?thesis using word_unat_eq_iff by blast
  qed
  have "mac_age_flag e' AND MAC_AGE_PEER = MAC_AGE_PEER \<and>
      (mac_ifname e' = ?itf \<longrightarrow> mac_age_flag e' = MAC_AGE_PEER \<and> mac_pending_local_del e' = 0)"
    if "disconn_entry ?itf e = Some e'" "mac_age_flag e < 4" for e e'
    using small [OF that(2)] that(1) by (auto simp: disconn_entry_def Let_def split: if_splits)
  then have "list_all (\<lambda>m. \<exists>e. mac_heap (MLACP csm') m = Some e \<and> mac_age_flag e AND MAC_AGE_PEER = MAC_AGE_PEER \<and>
        (mac_ifname e = ?itf \<longrightarrow> mac_age_flag e = MAC_AGE_PEER \<and> mac_pending_local_del e = 0))
      (mac_rb (MLACP csm'))"
    using walked_tree [OF r(3)] assms(3) by (fastforce simp: list_all_iff)
  moreover have "set (mac_rb (MLACP csm')) \<subseteq> set (mac_rb ?M)" using walked_tree(1) [OF r(3)] by blast
  ultimately show ?thesis using r walked_ok(1) [OF r(3) assms(2)] by blast
qed


end
