(* ===== verification/Handshake.thy ===== *)
theory Handshake
  imports Disconnect
begin

text \<open>
  The connection state machine at work: which transitions it takes, the flags and
  sockets that go with its states, and how two sessions reach the operational
  state together.
\<close>

section \<open>One turn\<close>

lemma bit_word1: "(x :: 1 word) = 0 \<or> x = 1"
proof (cases "bit x 0")
  case True
  then have "x = 1" by (intro bit_word_eqI) (auto simp: bit_1_iff)
  then show ?thesis ..
next
  case False
  then have "x = 0" by (intro bit_word_eqI) auto
  then show ?thesis ..
qed

lemma flag_neq [simp]: "(x :: 1 word) \<noteq> 0 \<longleftrightarrow> x = 1"
  using bit_word1 [of x] by auto

text \<open>What answering a message may change.\<close>

definition answered :: "CSM \<Rightarrow> CSM \<Rightarrow> bool" where
  "answered csm csm' \<longleftrightarrow>
     sock_fd csm' = sock_fd csm \<and> current_state csm' = current_state csm \<and> msg_list csm' = msg_list csm \<and>
     app_csm csm' = app_csm csm \<and> msg_log csm' = msg_log csm \<and> role_type csm' = role_type csm \<and>
     sender_capability_flag (iccp_info csm') = sender_capability_flag (iccp_info csm) \<and>
     (peer_capability_flag (iccp_info csm) = 1 \<longrightarrow> peer_capability_flag (iccp_info csm') = 1) \<and>
     info_icc_rg_id (iccp_info csm') = info_icc_rg_id (iccp_info csm) \<and>
     sender_name (iccp_info csm') = sender_name (iccp_info csm)"

lemma answered_refl [simp]: "answered csm csm"
  by (simp add: answered_def)

lemma check_id_answered: "iccp_csm_check_id_from_msg csm m = Some csm' \<Longrightarrow> answered csm csm'"
  by (auto simp: iccp_csm_check_id_from_msg_def answered_def info_update_def Let_def
      split: Option.bind_splits if_splits)

lemma control_answered:
  "iccp_csm_correspond_from_capability_msg csm m = Some csm' \<Longrightarrow> answered csm csm'"
  "iccp_csm_correspond_from_rg_connect_msg csm m = Some csm' \<Longrightarrow> answered csm csm'"
  "iccp_csm_correspond_from_rg_disconnect_msg csm m = Some csm' \<Longrightarrow> answered csm csm'"
  by (auto simp: iccp_csm_correspond_from_capability_msg_def iccp_csm_correspond_from_rg_connect_msg_def
      iccp_csm_correspond_from_rg_disconnect_msg_def answered_def info_update_def
      split: Option.bind_splits if_splits)

lemma answered_trans: "answered a b \<Longrightarrow> answered b c \<Longrightarrow> answered a c"
  by (simp add: answered_def)

lemma correspond_answered: "iccp_csm_correspond_from_msg csm m = Some csm' \<Longrightarrow> answered csm csm'"
  unfolding iccp_csm_correspond_from_msg_def
  by (auto dest!: check_id_answered control_answered split: Option.bind_splits if_splits
      elim: answered_trans) (simp_all add: answered_def)

lemma answer_answered: "answer_msg msg csm = Some csm' \<Longrightarrow> answered csm csm'"
  by (auto simp: answer_msg_def split: option.splits dest: correspond_answered)

lemma prepare_and_send_frame: "prepare_and_send csm e = Some (csm', e') \<Longrightarrow> unlogged csm' = unlogged csm"
  by (auto simp: prepare_and_send_def split: Option.bind_splits dest: iccp_csm_send_frame)

section \<open>Transitions\<close>

text \<open>The transitions the state machine is meant to have.\<close>

inductive iccp_arrow :: "ICCP_CONNECTION_STATE \<Rightarrow> ICCP_CONNECTION_STATE \<Rightarrow> bool" where
  arrow_stay: "iccp_arrow st st"
| arrow_start: "iccp_arrow ICCP_NONEXISTENT ICCP_INITIALIZED"
| arrow_capsent: "iccp_arrow ICCP_INITIALIZED ICCP_CAPSENT"
| arrow_caprec: "iccp_arrow ICCP_INITIALIZED ICCP_CAPREC"
| arrow_answered: "iccp_arrow ICCP_CAPSENT ICCP_CAPREC"
| arrow_connect: "iccp_arrow ICCP_CAPREC ICCP_CONNECTING"
| arrow_connected: "iccp_arrow ICCP_CAPREC ICCP_OPERATIONAL"
| arrow_up: "iccp_arrow ICCP_CONNECTING ICCP_OPERATIONAL"
| arrow_rejected: "iccp_arrow ICCP_CONNECTING ICCP_CAPREC"
| arrow_down: "iccp_arrow ICCP_OPERATIONAL ICCP_CAPREC"

inductive_cases iccp_arrow_from_operational: "iccp_arrow ICCP_OPERATIONAL st"
inductive_simps iccp_arrow_to_operational: "iccp_arrow st ICCP_OPERATIONAL"

lemma next_state_arrow: "iccp_arrow (current_state csm) (next_state csm)"
  by (cases "current_state csm") (auto simp: next_state_def Let_def intro: iccp_arrow.intros)

lemma enter_state_state [simp]: "current_state (iccp_csm_enter_state csm) = current_state csm"
  by (cases "current_state csm") (simp_all add: iccp_csm_enter_state_def iccp_csm_enter_state_initialized_def
      iccp_csm_enter_state_caprec_def iccp_csm_enter_state_connecting_def
      iccp_csm_enter_state_operational_def info_update_def)

text \<open>The flags that go with a state.\<close>

definition flags_ok :: "CSM \<Rightarrow> bool" where
  "flags_ok csm \<longleftrightarrow>
     (let i = iccp_info csm in
      case current_state csm of
        ICCP_NONEXISTENT \<Rightarrow> True
      | ICCP_INITIALIZED \<Rightarrow> sender_capability_flag i = 1
      | ICCP_CAPSENT \<Rightarrow> sender_capability_flag i = 1
      | ICCP_CAPREC \<Rightarrow> sender_capability_flag i = 1 \<and> peer_capability_flag i = 1
      | ICCP_CONNECTING \<Rightarrow> sender_capability_flag i = 1 \<and> peer_capability_flag i = 1 \<and>
          sender_rg_connect_flag i = 1
      | ICCP_OPERATIONAL \<Rightarrow> sender_capability_flag i = 1 \<and> peer_capability_flag i = 1 \<and>
          sender_rg_connect_flag i = 1 \<and> peer_rg_connect_flag i = 1)"

lemma answered_flags:
  assumes "answered csm csm'" "flags_ok csm"
  shows "current_state csm' = current_state csm"
    "current_state csm \<noteq> ICCP_NONEXISTENT \<Longrightarrow> sender_capability_flag (iccp_info csm') = 1"
    "current_state csm \<in> {ICCP_CAPREC, ICCP_CONNECTING, ICCP_OPERATIONAL} \<Longrightarrow>
       peer_capability_flag (iccp_info csm') = 1"
proof -
  show "current_state csm' = current_state csm" using assms(1) by (simp add: answered_def)
  show "current_state csm \<noteq> ICCP_NONEXISTENT \<Longrightarrow> sender_capability_flag (iccp_info csm') = 1"
    using assms by (cases "current_state csm") (simp_all add: answered_def flags_ok_def Let_def)
  show "current_state csm \<in> {ICCP_CAPREC, ICCP_CONNECTING, ICCP_OPERATIONAL} \<Longrightarrow>
      peer_capability_flag (iccp_info csm') = 1"
    using assms by (cases "current_state csm") (simp_all add: answered_def flags_ok_def Let_def)
qed

text \<open>Entering the next state restores the flags; the state is entered unless nothing happened.\<close>

lemma enter_flags:
  assumes "current_state csm \<noteq> ICCP_NONEXISTENT" "sender_capability_flag (iccp_info csm) = 1"
    "current_state csm \<in> {ICCP_CAPREC, ICCP_CONNECTING, ICCP_OPERATIONAL} \<longrightarrow>
       peer_capability_flag (iccp_info csm) = 1"
  shows "flags_ok (iccp_csm_enter_state (csm\<lparr>current_state := next_state csm\<rparr>))"
  using assms
  by (cases "current_state csm") (auto simp: flags_ok_def next_state_def iccp_csm_enter_state_def
      iccp_csm_enter_state_initialized_def iccp_csm_enter_state_caprec_def iccp_csm_enter_state_connecting_def
      iccp_csm_enter_state_operational_def info_update_def Let_def)

lemma stay_flags:
  assumes "flags_ok csm" "iccp_info csm' = iccp_info csm" "current_state csm' = current_state csm"
  shows "flags_ok csm'"
  using assms by (simp add: flags_ok_def Let_def)

lemma csm_turn_cases:
  assumes "csm_turn msg csm e = Some (csm', e')"
  obtains csm1 csm2 where "answer_msg msg csm = Some csm1" "unlogged csm2 = unlogged csm1"
    "csm' = (if current_state csm \<noteq> next_state csm2 \<or> msg \<noteq> None
       then iccp_csm_enter_state (csm2\<lparr>current_state := next_state csm2\<rparr>)
       else csm2\<lparr>current_state := next_state csm2\<rparr>)"
  using assms
  by (auto simp: csm_turn_def Let_def split: Option.bind_splits if_splits dest: prepare_and_send_frame)

lemma csm_turn_ok:
  assumes "csm_turn msg csm e = Some (csm', e')" "flags_ok csm" "current_state csm \<noteq> ICCP_NONEXISTENT"
  shows "flags_ok csm'" "iccp_arrow (current_state csm) (current_state csm')"
proof -
  obtain csm1 csm2 where t: "answer_msg msg csm = Some csm1" "unlogged csm2 = unlogged csm1"
    "csm' = (if current_state csm \<noteq> next_state csm2 \<or> msg \<noteq> None
       then iccp_csm_enter_state (csm2\<lparr>current_state := next_state csm2\<rparr>)
       else csm2\<lparr>current_state := next_state csm2\<rparr>)"
    using csm_turn_cases [OF assms(1)] by blast
  have a: "answered csm csm1" by (rule answer_answered [OF t(1)])
  have i: "iccp_info csm2 = iccp_info csm1" "current_state csm2 = current_state csm"
    using unlogged_eqD [OF t(2)] answered_flags(1) [OF a assms(2)] by simp_all
  have e: "flags_ok (iccp_csm_enter_state (csm2\<lparr>current_state := next_state csm2\<rparr>))"
    using answered_flags [OF a assms(2)] assms(3) i by (intro enter_flags) simp_all
  show "flags_ok csm'"
  proof (cases "current_state csm \<noteq> next_state csm2 \<or> msg \<noteq> None")
    case True
    with e t(3) show ?thesis by simp
  next
    case False
    then have "csm1 = csm" using t(1) by (simp add: answer_msg_def)
    with False t(3) i assms(2) show ?thesis by (intro stay_flags [OF assms(2)]) simp_all
  qed
  show "iccp_arrow (current_state csm) (current_state csm')"
    using next_state_arrow [of csm2] t(3) i(2) by (cases "current_state csm \<noteq> next_state csm2 \<or> msg \<noteq> None") simp_all
qed

section \<open>Two sessions\<close>

lemma iccp_csm_send_out:
  assumes "iccp_csm_send csm buf n env = Some (rc, csm', env')" "sock_fd csm > 0" "n > 0" "write_results env = []"
  shows "peer_out env' = peer_out env @ [(sock_fd csm, take (nat n) buf)]" "write_results env' = []" "rc = n"
    "ICCP_MSG_ID env' = ICCP_MSG_ID env"
  using assms
  by (auto simp: iccp_csm_send_def Let_def sys_write_def split: Option.bind_splits if_splits)

text \<open>The log of sent messages holds only handshake messages until application data is sent.\<close>

definition control_type :: "16 word \<Rightarrow> bool" where
  "control_type t \<longleftrightarrow> t \<in> {MSG_T_CAPABILITY, MSG_T_RG_CONNECT, MSG_T_NOTIFICATION}"

definition no_data_logged :: "CSM \<Rightarrow> bool" where
  "no_data_logged csm \<longleftrightarrow> (\<forall>e \<in> set (log_msg (msg_log csm)). log_type e \<noteq> MSG_T_RG_APP_DATA)"

lemma log_sent_set: "log_sent e l = Some l' \<Longrightarrow> set (log_msg l') \<subseteq> insert e (set (log_msg l))"
  by (auto simp: log_sent_def Let_def split: if_splits dest!: set_update_subset_insert [THEN subsetD])

lemma send_control_log:
  assumes "iccp_csm_send csm (zbuf m (LDPHdr_image (ldp_header t k e) @ r)) n env = Some (rc, csm', env')"
    "control_type t" "no_data_logged csm"
  shows "no_data_logged csm'"
proof -
  have hdr: "peek LDPHdr_overlay 0 (zbuf m (LDPHdr_image (ldp_header t k e) @ r)) = Some (ldp_header t k e)"
    by (simp add: zbuf_def peek_def ldp.overlay_image)
  have t: "ntohs (ucast (ldp_msg_type (ldp_header t k e))) = t"
    using assms(2) by (auto simp: control_type_def ldp_header_def htons_def of_le16_def)
  have "t \<noteq> MSG_T_RG_APP_DATA" using assms(2) by (auto simp: control_type_def)
  then show ?thesis
    using assms(1,3) unfolding iccp_csm_send_def hdr
    by (auto simp: t no_data_logged_def Let_def dest!: log_sent_set split: if_splits Option.bind_splits prod.splits)

qed

text \<open>A prepared message goes out as it is.\<close>

lemma send_prepared:
  assumes prep: "iccp_csm_prepare_iccp_msg csm CSM_BUFFER_SIZE (zbuf CSM_BUFFER_SIZE []) e =
      Some (int (length img), zbuf CSM_BUFFER_SIZE img, next_msg_id e)"
    and len: "0 < length img" "length img \<le> CSM_BUFFER_SIZE"
    and img: "img = LDPHdr_image (ldp_header t k e0) @ r" "control_type t"
    and ok: "sock_fd csm > 0" "MsgLog_ok (msg_log csm)" "write_results e = []" "no_data_logged csm"
  shows "\<exists>csm' e'. prepare_and_send csm e = Some (csm', e') \<and> unlogged csm' = unlogged csm \<and>
    MsgLog_ok (msg_log csm') \<and> no_data_logged csm' \<and> peer_out e' = peer_out e @ [(sock_fd csm, img)] \<and> write_results e' = []"
proof -
  have zl: "length (zbuf CSM_BUFFER_SIZE img) = CSM_BUFFER_SIZE" using len(2) by simp
  then have "20 \<le> length (zbuf CSM_BUFFER_SIZE img)" "nat (int (length img)) \<le> length (zbuf CSM_BUFFER_SIZE img)"
    using len(2) by simp_all
  then obtain rc csm' e' where s: "iccp_csm_send csm (zbuf CSM_BUFFER_SIZE img) (int (length img)) (next_msg_id e)
      = Some (rc, csm', e')"
    using iccp_csm_send_defined [OF _ _ ok(2)] by blast
  have "take (length img) (zbuf CSM_BUFFER_SIZE img) = img" using len(2) by (simp add: take_zbuf)
  then show ?thesis
    using prep s iccp_csm_send_frame [OF s] iccp_csm_send_log [OF s ok(2)]
      iccp_csm_send_out [OF s ok(1)] send_control_log [OF s [unfolded img(1)] img(2) ok(4)] len(1) ok(3)
    by (auto simp: prepare_and_send_def)
qed

text \<open>The messages of the handshake.\<close>

definition capability_msg :: "Env \<Rightarrow> bytes" where
  "capability_msg e = LDPHdr_image (ldp_header MSG_T_CAPABILITY 16 e) @ [0x87, 0x00, 0x00, 0x04] @
     le16 (htons (unit15 0 1)) @ [0x1, 0x0]"

definition connect_msg :: "CSM \<Rightarrow> Env \<Rightarrow> bytes" where
  "connect_msg csm e = (let name = sender_name (iccp_info csm); len = 20 + length name in
     ICCHdr_image (icc_header MSG_T_RG_CONNECT len csm e) @
     ICCParameter_image (icc_param TLV_T_ICC_SENDER_NAME (length name)) @ str_bytes name)"

lemma handshake_msg_length:
  "length (capability_msg e) = 16" "length (connect_msg csm e) = 20 + length (sender_name (iccp_info csm))"
  by (simp_all add: capability_msg_def connect_msg_def Let_def sizeof_defs)

lemma connect_msg_header:
  "connect_msg csm e = LDPHdr_image (ldp_header MSG_T_RG_CONNECT (20 + length (sender_name (iccp_info csm))) e) @
     ICCRGIDTLV_image (rg_id_tlv csm) @
     ICCParameter_image (icc_param TLV_T_ICC_SENDER_NAME (length (sender_name (iccp_info csm)))) @
     str_bytes (sender_name (iccp_info csm))"
  by (simp add: connect_msg_def ICCHdr_image_def icc_header_def Let_def)

definition connected_ok :: "CSM \<Rightarrow> Env \<Rightarrow> bool" where
  "connected_ok csm e \<longleftrightarrow> sock_fd csm > 0 \<and> MsgLog_ok (msg_log csm) \<and> no_data_logged csm \<and> write_results e = [] \<and>
     length (sender_name (iccp_info csm)) \<le> MAX_L_ICC_SENDER_NAME"

lemma no_data_logged_simps [simp]:
  "no_data_logged (csm\<lparr>msg_list := q\<rparr>) = no_data_logged csm"
  "no_data_logged (csm\<lparr>current_state := st\<rparr>) = no_data_logged csm"
  "no_data_logged (csm\<lparr>iccp_info := i\<rparr>) = no_data_logged csm"
  by (simp_all add: no_data_logged_def)

text \<open>One side's turn together with what it sends, and the rounds of two sides whose
  messages reach each other between the turns.\<close>

definition half_round :: "CSM \<times> Env \<Rightarrow> (bytes list \<times> CSM \<times> Env) option" where
  "half_round p = (case p of (csm, e) \<Rightarrow> do {
     let (msg, csm) = iccp_csm_dequeue_msg csm;
     (csm', e') \<leftarrow> csm_turn msg csm e;
     Some (map snd (drop (length (peer_out e)) (peer_out e')), csm', e') })"

fun receive_all :: "bytes list \<Rightarrow> CSM \<Rightarrow> CSM option" where
  "receive_all [] csm = Some csm"
| "receive_all (m # ms) csm = Option.bind (iccp_csm_enqueue_msg csm m) (receive_all ms)"

fun peer_rounds :: "nat \<Rightarrow> CSM \<times> Env \<Rightarrow> CSM \<times> Env \<Rightarrow> ((CSM \<times> Env) \<times> (CSM \<times> Env)) option" where
  "peer_rounds 0 a b = Some (a, b)"
| "peer_rounds (Suc n) a b = do {
     (out_a, csm_a, e_a) \<leftarrow> half_round a;
     (out_b, csm_b, e_b) \<leftarrow> half_round b;
     csm_a \<leftarrow> receive_all out_b csm_a;
     csm_b \<leftarrow> receive_all out_a csm_b;
     peer_rounds n (csm_a, e_a) (csm_b, e_b) }"

text \<open>A side on its way to the operational state.\<close>

definition stage :: "ICCP_CONNECTION_STATE \<Rightarrow> 1 word \<Rightarrow> 32 word \<Rightarrow> bytes list \<Rightarrow> CSM \<Rightarrow> Env \<Rightarrow> bool" where
  "stage st cap rg q csm e \<longleftrightarrow> current_state csm = st \<and> connected_ok csm e \<and> msg_list csm = q \<and>
     (let i = iccp_info csm in info_icc_rg_id i = rg \<and> sender_capability_flag i = 1 \<and>
        peer_capability_flag i = cap \<and> peer_rg_connect_flag i = 0 \<and> status_code i = 0)"

lemma stage_receive: "stage st cap rg q csm e \<Longrightarrow> stage st cap rg q' (csm\<lparr>msg_list := q'\<rparr>) e"
  by (simp add: stage_def connected_ok_def)

lemma unlogged_msg_list: "unlogged a = unlogged b \<Longrightarrow> msg_list a = msg_list b"
  by (drule arg_cong [where f = msg_list]) (simp add: unlogged_def MLACP_update_def)

lemmas enter_defs = iccp_csm_enter_state_def iccp_csm_enter_state_initialized_def iccp_csm_enter_state_caprec_def
  iccp_csm_enter_state_connecting_def iccp_csm_enter_state_operational_def info_update_def

lemmas turn_defs = half_round_def iccp_csm_dequeue_msg_def csm_turn_def sends_in_state_def next_state_def
  answer_msg_def Let_def

lemma stage_sends:
  assumes "stage st cap rg q csm e"
    "iccp_csm_prepare_iccp_msg csm CSM_BUFFER_SIZE (zbuf CSM_BUFFER_SIZE []) e =
       Some (int (length img), zbuf CSM_BUFFER_SIZE img, next_msg_id e)"
    "0 < length img" "length img \<le> CSM_BUFFER_SIZE"
    "img = LDPHdr_image (ldp_header t k e0) @ r" "control_type t"
  shows "\<exists>csm' e'. prepare_and_send csm e = Some (csm', e') \<and> stage st cap rg q csm' e' \<and>
    peer_out e' = peer_out e @ [(sock_fd csm, img)]"
proof -
  obtain csm' e' where s: "prepare_and_send csm e = Some (csm', e')" "unlogged csm' = unlogged csm"
      "MsgLog_ok (msg_log csm')" "no_data_logged csm'" "peer_out e' = peer_out e @ [(sock_fd csm, img)]" "write_results e' = []"
    using send_prepared [OF assms(2-6)] assms(1) by (auto simp: stage_def connected_ok_def)
  have "iccp_info csm' = iccp_info csm" "current_state csm' = current_state csm" "sock_fd csm' = sock_fd csm"
    using unlogged_eqD [OF s(2)] by simp_all
  then have "stage st cap rg q csm' e'"
    using assms(1) s(3,4,6) unlogged_msg_list [OF s(2)] by (simp add: stage_def connected_ok_def)
  with s show ?thesis by blast
qed

lemma half_initialized:
  assumes "stage ICCP_INITIALIZED 0 rg [] csm e"
  shows "\<exists>csm' e'. half_round (csm, e) = Some ([capability_msg e], csm', e') \<and> stage ICCP_CAPSENT 0 rg [] csm' e'"
proof -
  have "iccp_csm_prepare_iccp_msg csm CSM_BUFFER_SIZE (zbuf CSM_BUFFER_SIZE []) e =
      Some (int (length (capability_msg e)), zbuf CSM_BUFFER_SIZE (capability_msg e), next_msg_id e)"
    using assms prepare_capability_image [of "zbuf CSM_BUFFER_SIZE []" CSM_BUFFER_SIZE csm e]
    by (simp add: stage_def Let_def iccp_csm_prepare_iccp_msg_def handshake_msg_length)
      (simp add: capability_msg_def)
  from stage_sends [OF assms this _ _ capability_msg_def] obtain csm1 e' where
    s: "prepare_and_send csm e = Some (csm1, e')" "stage ICCP_INITIALIZED 0 rg [] csm1 e'"
      "peer_out e' = peer_out e @ [(sock_fd csm, capability_msg e)]"
    by (auto simp: handshake_msg_length control_type_def)
  then have "half_round (csm, e) = Some ([capability_msg e], csm1\<lparr>current_state := ICCP_CAPSENT\<rparr>, e')"
    using assms by (simp add: stage_def turn_defs iccp_csm_enter_state_def)
  moreover have "stage ICCP_CAPSENT 0 rg [] (csm1\<lparr>current_state := ICCP_CAPSENT\<rparr>) e'"
    using s(2) by (simp add: stage_def connected_ok_def)
  ultimately show ?thesis by blast
qed

lemma half_capsent:
  assumes "stage ICCP_CAPSENT 0 rg [queued (capability_msg f)] csm e"
  shows "\<exists>csm'. half_round (csm, e) = Some ([], csm', e) \<and> stage ICCP_CAPREC 1 rg [] csm' e"
  using assms correspond_capability [where n = 16 and env = f, folded capability_msg_def]
  by (auto simp: stage_def turn_defs enter_defs connected_ok_def)

lemma half_caprec:
  assumes "stage ICCP_CAPREC 1 rg [] csm e"
  shows "\<exists>csm' e'. half_round (csm, e) = Some ([connect_msg csm e], csm', e') \<and> stage ICCP_CONNECTING 1 rg [] csm' e'"
proof -
  have len: "length (sender_name (iccp_info csm)) \<le> MAX_L_ICC_SENDER_NAME"
    using assms by (simp add: stage_def connected_ok_def)
  then have "iccp_csm_prepare_iccp_msg csm CSM_BUFFER_SIZE (zbuf CSM_BUFFER_SIZE []) e =
      Some (int (length (connect_msg csm e)), zbuf CSM_BUFFER_SIZE (connect_msg csm e), next_msg_id e)"
    using assms prepare_rg_connect_image [of "zbuf CSM_BUFFER_SIZE []" CSM_BUFFER_SIZE csm e]
    by (simp add: stage_def Let_def iccp_csm_prepare_iccp_msg_def handshake_msg_length)
      (simp add: connect_msg_def Let_def)
  from stage_sends [OF assms this _ _ connect_msg_header] obtain csm1 e' where
    s: "prepare_and_send csm e = Some (csm1, e')" "stage ICCP_CAPREC 1 rg [] csm1 e'"
      "peer_out e' = peer_out e @ [(sock_fd csm, connect_msg csm e)]"
    using len by (auto simp: handshake_msg_length control_type_def)
  then have "half_round (csm, e) = Some ([connect_msg csm e],
      iccp_csm_enter_state_connecting (csm1\<lparr>current_state := ICCP_CONNECTING\<rparr>), e')"
    using assms by (simp add: stage_def turn_defs iccp_csm_enter_state_def)
  moreover have "stage ICCP_CONNECTING 1 rg [] (iccp_csm_enter_state_connecting (csm1\<lparr>current_state := ICCP_CONNECTING\<rparr>)) e'"
    using s(2) by (simp add: stage_def connected_ok_def enter_defs Let_def)
  ultimately show ?thesis by blast
qed

definition operational :: "CSM \<Rightarrow> bool" where
  "operational csm \<longleftrightarrow> current_state csm = ICCP_OPERATIONAL \<and> msg_list csm = [] \<and>
     sender_rg_connect_flag (iccp_info csm) = 1 \<and> peer_rg_connect_flag (iccp_info csm) = 1"

lemma half_connecting:
  assumes "stage ICCP_CONNECTING 1 rg [queued (connect_msg p f)] csm e" "info_icc_rg_id (iccp_info p) = rg"
  shows "\<exists>csm'. half_round (csm, e) = Some ([], csm', e) \<and> operational csm'"
  using assms
  by (auto simp: stage_def operational_def turn_defs enter_defs connect_msg_def correspond_rg_connect
      prepare_and_send_def iccp_csm_prepare_iccp_msg_def iccp_csm_send_def)

lemma half_operational: "operational csm \<Longrightarrow> half_round (csm, e) = Some ([], csm, e)"
  by (cases csm) (simp add: operational_def turn_defs)

lemma rounds_operational: "operational a \<Longrightarrow> operational b \<Longrightarrow> peer_rounds n (a, ea) (b, eb) = Some ((a, ea), (b, eb))"
  by (induction n) (simp_all add: half_operational)

text \<open>A connect request for another redundancy group is answered with a notification.\<close>

lemma half_rejecting:
  assumes "stage ICCP_CONNECTING 1 rg [queued (connect_msg p f)] csm e" "info_icc_rg_id (iccp_info p) \<noteq> rg"
  shows "\<exists>csm' e' n snd env tlv. half_round (csm, e) =
    Some ([ICCHdr_image (icc_header MSG_T_NOTIFICATION n snd env) @ NAKTLV_image tlv], csm', e') \<and>
    msg_list csm' = [] \<and> no_data_logged csm'"
proof -
  let ?r = "info_icc_rg_id (iccp_info p)"
  let ?csm1 = "info_update (\<lambda>i. i\<lparr>status_code := STATUS_CODE_U_ICCP_RG, rejected_msg_id := ?r,
    peer_rg_connect_flag := 1\<rparr>) (csm\<lparr>msg_list := []\<rparr>)"
  define tlv where "tlv = \<lparr>nak_icc_parameter = icc_param TLV_T_NAK 8,
    nak_iccp_status_code = htonl STATUS_CODE_U_ICCP_RG, nak_rejected_msg_id = htonl ?r\<rparr>"
  let ?img = "ICCHdr_image (icc_header MSG_T_NOTIFICATION 28 ?csm1 e) @ NAKTLV_image tlv"
  have hdr: "?img = LDPHdr_image (ldp_header MSG_T_NOTIFICATION 28 e) @ ICCRGIDTLV_image (rg_id_tlv ?csm1) @ NAKTLV_image tlv"
    by (simp add: ICCHdr_image_def icc_header_def)
  have len: "length ?img = 28" by (simp add: sizeof_defs)
  have ok: "sock_fd ?csm1 > 0" "MsgLog_ok (msg_log ?csm1)" "write_results e = []" "no_data_logged ?csm1"
    "current_state ?csm1 = ICCP_CONNECTING"
    using assms(1) by (simp_all add: stage_def connected_ok_def info_update_def)
  have len': "0 < length ?img" "length ?img \<le> CSM_BUFFER_SIZE" unfolding len by simp_all
  have "iccp_csm_prepare_iccp_msg ?csm1 CSM_BUFFER_SIZE (zbuf CSM_BUFFER_SIZE []) e =
      Some (int (length ?img), zbuf CSM_BUFFER_SIZE ?img, next_msg_id e)"
    using ok(5) prepare_nak_image [of "zbuf CSM_BUFFER_SIZE []" CSM_BUFFER_SIZE ?csm1 e]
    unfolding len by (simp add: iccp_csm_prepare_iccp_msg_def tlv_def info_update_def Let_def)
  from send_prepared [OF this len' hdr _ ok(1-4)] obtain csm2 e' where
    s: "prepare_and_send ?csm1 e = Some (csm2, e')" "unlogged csm2 = unlogged ?csm1"
      "peer_out e' = peer_out e @ [(sock_fd ?csm1, ?img)]" "no_data_logged csm2"
    by (auto simp: control_type_def)
  have i: "iccp_info csm2 = iccp_info ?csm1" "current_state csm2 = ICCP_CONNECTING" "msg_list csm2 = []"
    using unlogged_eqD [OF s(2)] unlogged_msg_list [OF s(2)] ok(5) by (simp_all add: info_update_def)
  have "answer_msg (Some (queued (connect_msg p f))) (csm\<lparr>msg_list := []\<rparr>) = Some ?csm1"
    using assms by (simp add: answer_msg_def connect_msg_def correspond_rg_connect Let_def stage_def info_update_def)
  then have "half_round (csm, e) = Some ([?img], iccp_csm_enter_state_caprec (csm2\<lparr>current_state := ICCP_CAPREC\<rparr>), e')"
    using assms(1) s(1,3) i
    by (simp add: stage_def half_round_def iccp_csm_dequeue_msg_def csm_turn_def sends_in_state_def next_state_def
        iccp_csm_enter_state_def ok(5) info_update_def Let_def)
  then show ?thesis using i(3) s(4) by (auto simp: enter_defs)
qed

lemma enqueue_notification:
  assumes "no_data_logged csm"
  shows "iccp_csm_enqueue_msg csm (ICCHdr_image (icc_header MSG_T_NOTIFICATION n p e) @ NAKTLV_image tlv) =
    Some (csm\<lparr>msg_list := msg_list csm @ [queued (ICCHdr_image (icc_header MSG_T_NOTIFICATION n p e) @ NAKTLV_image tlv)]\<rparr>)"
proof -
  let ?h = "icc_header MSG_T_NOTIFICATION n p e"
  define rest where "rest = le16 (ldp_msg_len (ldp_hdr ?h)) @ le32 (ldp_msg_id (ldp_hdr ?h)) @
    ICCRGIDTLV_image (icc_rg_id_tlv ?h)"
  have msg: "ICCHdr_image ?h @ NAKTLV_image tlv = le16 (htons MSG_T_NOTIFICATION) @ rest @ NAKTLV_image tlv"
    by (simp add: ICCHdr_image_def LDPHdr_image_def icc_header_def ldp_header_def rest_def)
  have len: "length (le16 MSG_T_NOTIFICATION @ rest) = 16" by (simp add: rest_def sizeof_defs)
  have tlv: "peek NAKTLV_overlay 16 (le16 MSG_T_NOTIFICATION @ rest @ NAKTLV_image tlv) = Some tlv"
    using naktlv.peek_image [OF TrueI len, of tlv "[]"] by simp
  have "log_type x \<noteq> MSG_T_RG_APP_DATA" if "log_lookup i (msg_log csm) = Some x" for i x
    using assms that nth_mem by (fastforce simp: no_data_logged_def log_lookup_def find_Some_iff)
  then show ?thesis
    unfolding msg by (simp add: iccp_csm_enqueue_msg_def access sizeof_ICCHdr_def tlv split: option.splits)
qed

lemma receive_control:
  "receive_all [capability_msg e] csm = Some (csm\<lparr>msg_list := msg_list csm @ [queued (capability_msg e)]\<rparr>)"
  "receive_all [connect_msg p e] csm = Some (csm\<lparr>msg_list := msg_list csm @ [queued (connect_msg p e)]\<rparr>)"
  by (simp_all add: capability_msg_def connect_msg_def message_parts enqueue_control Let_def)

lemma round_step:
  assumes "half_round a = Some (out_a, csm_a, e_a)" "half_round b = Some (out_b, csm_b, e_b)"
    "receive_all out_b csm_a = Some csm_a'" "receive_all out_a csm_b = Some csm_b'"
  shows "peer_rounds (Suc n) a b = peer_rounds n (csm_a', e_a) (csm_b', e_b)"
  using assms by simp

lemma stage_msg_list: "stage st cap rg q csm e \<Longrightarrow> msg_list csm = q"
  and stage_rg: "stage st cap rg q csm e \<Longrightarrow> info_icc_rg_id (iccp_info csm) = rg"
  by (simp_all add: stage_def Let_def)

lemma stage_receives:
  assumes "stage st cap rg [] csm e"
  shows "\<exists>csm'. receive_all [capability_msg f] csm = Some csm' \<and> stage st cap rg [queued (capability_msg f)] csm' e"
    "\<exists>csm'. receive_all [connect_msg p f] csm = Some csm' \<and> stage st cap rg [queued (connect_msg p f)] csm' e"
  unfolding receive_control using stage_receive [OF assms] stage_msg_list [OF assms] by auto

text \<open>Up to the connect requests both cases are the same.\<close>

lemma three_rounds:
  assumes "stage ICCP_INITIALIZED 0 rg [] a ea" "stage ICCP_INITIALIZED 0 rg' [] b eb"
  obtains a' ea' b' eb' p q f g where
    "\<And>n. peer_rounds (Suc (Suc (Suc n))) (a, ea) (b, eb) = peer_rounds n (a', ea') (b', eb')"
    "stage ICCP_CONNECTING 1 rg [queued (connect_msg q g)] a' ea'" "info_icc_rg_id (iccp_info q) = rg'"
    "stage ICCP_CONNECTING 1 rg' [queued (connect_msg p f)] b' eb'" "info_icc_rg_id (iccp_info p) = rg"
proof -
  obtain a1 ea1 b1 eb1 where 1: "half_round (a, ea) = Some ([capability_msg ea], a1, ea1)" "stage ICCP_CAPSENT 0 rg [] a1 ea1"
      "half_round (b, eb) = Some ([capability_msg eb], b1, eb1)" "stage ICCP_CAPSENT 0 rg' [] b1 eb1"
    using half_initialized [OF assms(1)] half_initialized [OF assms(2)] by blast
  obtain a2 b2 where 2: "receive_all [capability_msg eb] a1 = Some a2" "stage ICCP_CAPSENT 0 rg [queued (capability_msg eb)] a2 ea1"
      "receive_all [capability_msg ea] b1 = Some b2" "stage ICCP_CAPSENT 0 rg' [queued (capability_msg ea)] b2 eb1"
    using stage_receives(1) [OF 1(2)] stage_receives(1) [OF 1(4)] by blast
  obtain a3 b3 where 3: "half_round (a2, ea1) = Some ([], a3, ea1)" "stage ICCP_CAPREC 1 rg [] a3 ea1"
      "half_round (b2, eb1) = Some ([], b3, eb1)" "stage ICCP_CAPREC 1 rg' [] b3 eb1"
    using half_capsent [OF 2(2)] half_capsent [OF 2(4)] by blast
  obtain a4 ea4 b4 eb4 where 4: "half_round (a3, ea1) = Some ([connect_msg a3 ea1], a4, ea4)"
      "stage ICCP_CONNECTING 1 rg [] a4 ea4"
      "half_round (b3, eb1) = Some ([connect_msg b3 eb1], b4, eb4)" "stage ICCP_CONNECTING 1 rg' [] b4 eb4"
    using half_caprec [OF 3(2)] half_caprec [OF 3(4)] by blast
  obtain a5 b5 where 5: "receive_all [connect_msg b3 eb1] a4 = Some a5"
      "stage ICCP_CONNECTING 1 rg [queued (connect_msg b3 eb1)] a5 ea4"
      "receive_all [connect_msg a3 ea1] b4 = Some b5" "stage ICCP_CONNECTING 1 rg' [queued (connect_msg a3 ea1)] b5 eb4"
    using stage_receives(2) [OF 4(2)] stage_receives(2) [OF 4(4)] by blast
  have "peer_rounds (Suc (Suc (Suc n))) (a, ea) (b, eb) = peer_rounds n (a5, ea4) (b5, eb4)" for n
    unfolding round_step [OF 1(1,3) 2(1,3)]
      round_step [OF 3(1,3) receive_all.simps(1) receive_all.simps(1)] round_step [OF 4(1,3) 5(1,3)] ..
  then show thesis using that 5(2,4) stage_rg [OF 3(2)] stage_rg [OF 3(4)] by blast
qed

section \<open>Properties\<close>

text \<open>C32: two freshly connected sessions of the same redundancy group whose messages reach
  each other are both operational after four rounds, with nothing left to read, and
  stay so in every further round.\<close>

theorem handshake_completes:
  assumes "stage ICCP_INITIALIZED 0 rg [] a ea" "stage ICCP_INITIALIZED 0 rg [] b eb"
  shows "\<exists>a' ea' b' eb'. operational a' \<and> operational b' \<and>
    (\<forall>n. peer_rounds (4 + n) (a, ea) (b, eb) = Some ((a', ea'), (b', eb')))"
proof (rule three_rounds [OF assms])
  fix a1 ea1 b1 eb1 p q f g
  assume r: "\<And>n. peer_rounds (Suc (Suc (Suc n))) (a, ea) (b, eb) = peer_rounds n (a1, ea1) (b1, eb1)"
    and s: "stage ICCP_CONNECTING 1 rg [queued (connect_msg q g)] a1 ea1" "info_icc_rg_id (iccp_info q) = rg"
    "stage ICCP_CONNECTING 1 rg [queued (connect_msg p f)] b1 eb1" "info_icc_rg_id (iccp_info p) = rg"
  obtain a2 b2 where 2: "half_round (a1, ea1) = Some ([], a2, ea1)" "operational a2"
      "half_round (b1, eb1) = Some ([], b2, eb1)" "operational b2"
    using half_connecting [OF s(1,2)] half_connecting [OF s(3,4)] by blast
  have "peer_rounds (4 + n) (a, ea) (b, eb) = Some ((a2, ea1), (b2, eb1))" for n
  proof -
    have four: "4 + n = Suc (Suc (Suc (Suc n)))" by simp
    show ?thesis
      unfolding four r round_step [OF 2(1,3) receive_all.simps(1) receive_all.simps(1)]
      by (rule rounds_operational [OF 2(2,4)])
  qed
  with 2 show ?thesis by blast
qed

text \<open>C37: when the two sessions are configured for different redundancy groups, each side
  rejects the other's connect request with a notification, and receiving that
  notification reads behind the end of the received message, so no fifth round
  completes on either side.\<close>

theorem different_groups_fault:
  assumes "stage ICCP_INITIALIZED 0 rg [] a ea" "stage ICCP_INITIALIZED 0 rg' [] b eb" "rg \<noteq> rg'"
  shows "peer_rounds 5 (a, ea) (b, eb) = None"
proof (rule three_rounds [OF assms(1,2)])
  fix a1 ea1 b1 eb1 p q f g
  assume r: "\<And>n. peer_rounds (Suc (Suc (Suc n))) (a, ea) (b, eb) = peer_rounds n (a1, ea1) (b1, eb1)"
    and s: "stage ICCP_CONNECTING 1 rg [queued (connect_msg q g)] a1 ea1" "info_icc_rg_id (iccp_info q) = rg'"
    "stage ICCP_CONNECTING 1 rg' [queued (connect_msg p f)] b1 eb1" "info_icc_rg_id (iccp_info p) = rg"
  have d: "info_icc_rg_id (iccp_info q) \<noteq> rg" "info_icc_rg_id (iccp_info p) \<noteq> rg'"
    using s(2,4) assms(3) by simp_all
  obtain na a2 ea2 where 2: "half_round (a1, ea1) = Some ([na], a2, ea2)" "msg_list a2 = []" "no_data_logged a2"
    using half_rejecting [OF s(1) d(1)] by blast
  obtain b2 eb2 n p' e tlv where 3: "half_round (b1, eb1) =
      Some ([ICCHdr_image (icc_header MSG_T_NOTIFICATION n p' e) @ NAKTLV_image tlv], b2, eb2)"
    using half_rejecting [OF s(3) d(2)] by blast
  let ?nb = "ICCHdr_image (icc_header MSG_T_NOTIFICATION n p' e) @ NAKTLV_image tlv"
  have "half_round (a3, ea2) = None" if "receive_all [?nb] a2 = Some a3" for a3
    using that 2(2) correspond_nak_runs_off
    by (auto simp: enqueue_notification [OF 2(3)] half_round_def iccp_csm_dequeue_msg_def csm_turn_def answer_msg_def)
  then have "peer_rounds 2 (a1, ea1) (b1, eb1) = None"
    using 2(1) 3 by (auto simp: numeral_2_eq_2 simp del: receive_all.simps split: Option.bind_splits)
  moreover have "5 = Suc (Suc (Suc 2))" by simp
  ultimately show ?thesis using r [of 2] by (simp only:)
qed

end
