(* ===== verification/Reading.thy ===== *)
theory Reading
  imports Disconnect
begin

text \<open>
  Reading a peer message from the socket (\<^verbatim>\<open>scheduler_csm_read_callback\<close>): a message is put
  together again however the stream was cut, a stream that ends or fails in the
  middle takes the session down, and a length field near its maximum writes behind
  the end of the receive buffer.
\<close>

section \<open>The loops over a fragmented stream\<close>

abbreviation frag_stream :: "bytes list \<Rightarrow> recv_result list" where
  "frag_stream frags \<equiv> map Received frags"

text \<open>\<open>cut n frags\<close>: what is left of the fragments after \<open>n\<close> bytes.\<close>

fun cut :: "nat \<Rightarrow> bytes list \<Rightarrow> bytes list" where
  "cut n [] = []"
| "cut n (bs # r) = (if n = 0 then bs # r else if length bs \<le> n then cut (n - length bs) r else drop n bs # r)"

lemma concat_cut: "concat (cut n frags) = drop n (concat frags)"
  by (induction frags arbitrary: n) auto

lemma cut_nonempty: "[] \<notin> set frags \<Longrightarrow> [] \<notin> set (cut n frags)"
  by (induction frags arbitrary: n) (auto split: if_splits)

lemma cut_0 [simp]: "cut 0 frags = frags"
  by (cases frags) auto

declare recv_header.simps [simp del] recv_data.simps [simp del]

lemma recv_header_frags:
  assumes "[] \<notin> set frags" "n \<le> length got + length (concat frags)"
  shows "recv_header n got (frag_stream frags @ rs) =
    (Read_done 0, got @ take (n - length got) (concat frags), frag_stream (cut (n - length got) frags) @ rs)"
  using assms
proof (induction frags arbitrary: got)
  case Nil
  then show ?case by (subst recv_header.simps) simp
next
  case (Cons bs frags)
  consider "n \<le> length got" | "length got < n" "length bs \<le> n - length got" | "length got < n" "n - length got < length bs"
    by linarith
  then show ?case
  proof cases
    case 1
    then show ?thesis by (subst recv_header.simps) simp
  next
    case 2
    then have "recv_header n got (frag_stream (bs # frags) @ rs) = recv_header n (got @ bs) (frag_stream frags @ rs)"
      using Cons.prems by (subst recv_header.simps) (auto simp: sys_recv_def)
    with Cons.IH [of "got @ bs"] Cons.prems 2 show ?thesis by (simp add: algebra_simps)
  next
    case 3
    then have "recv_header n got (frag_stream (bs # frags) @ rs) =
        recv_header n (got @ take (n - length got) bs) (Received (drop (n - length got) bs) # frag_stream frags @ rs)"
      by (subst recv_header.simps) (auto simp: sys_recv_def)
    also have "\<dots> = (Read_done 0, got @ take (n - length got) bs, Received (drop (n - length got) bs) # frag_stream frags @ rs)"
      using 3 by (subst recv_header.simps) simp
    finally show ?thesis using 3 by simp
  qed
qed

lemma recv_data_frags:
  assumes "[] \<notin> set frags" "n \<le> length got + length (concat frags)" "n \<le> CSM_BUFFER_SIZE"
  shows "recv_data n k got (frag_stream frags @ rs) =
    Some (Read_done k, got @ take (n - length got) (concat frags), frag_stream (cut (n - length got) frags) @ rs)"
  using assms
proof (induction frags arbitrary: got)
  case Nil
  then show ?case by (subst recv_data.simps) simp
next
  case (Cons bs frags)
  consider "n \<le> length got" | "length got < n" "length bs \<le> n - length got" | "length got < n" "n - length got < length bs"
    by linarith
  then show ?case
  proof cases
    case 1
    then show ?thesis by (subst recv_data.simps) simp
  next
    case 2
    then have "recv_data n k got (frag_stream (bs # frags) @ rs) = recv_data n k (got @ bs) (frag_stream frags @ rs)"
      using Cons.prems by (subst recv_data.simps) (auto simp: sys_recv_def)
    with Cons.IH [of "got @ bs"] Cons.prems 2 show ?thesis by (simp add: algebra_simps)
  next
    case 3
    then have "recv_data n k got (frag_stream (bs # frags) @ rs) =
        recv_data n k (got @ take (n - length got) bs) (Received (drop (n - length got) bs) # frag_stream frags @ rs)"
      using Cons.prems(3) by (subst recv_data.simps) (auto simp: sys_recv_def)
    also have "\<dots> = Some (Read_done k, got @ take (n - length got) bs,
        Received (drop (n - length got) bs) # frag_stream frags @ rs)"
      using 3 by (subst recv_data.simps) simp
    finally show ?thesis using 3 by simp
  qed
qed

section \<open>Streams that end or stall\<close>

text \<open>The next read reports a closed or a failed connection.\<close>

definition broken :: "recv_result list \<Rightarrow> bool" where
  "broken rs = (case rs of [] \<Rightarrow> True | Received bs # _ \<Rightarrow> bs = [] | Recv_failed # _ \<Rightarrow> True | Recv_again # _ \<Rightarrow> False)"

lemma sys_recv_broken:
  "broken rs \<Longrightarrow> fst (sys_recv n rs) = Received [] \<or> fst (sys_recv n rs) = Recv_failed"
  by (auto simp: broken_def sys_recv_def split: list.splits recv_result.splits)

lemma recv_header_broken:
  assumes "[] \<notin> set frags" "length got + length (concat frags) < n" "broken rs"
  shows "fst (recv_header n got (frag_stream frags @ rs)) \<in> {Read_zero, Read_error}"
  using assms
proof (induction frags arbitrary: got)
  case Nil
  then show ?case
    using sys_recv_broken [of rs "n - length got"] by (subst recv_header.simps) (auto split: prod.splits)
next
  case (Cons bs frags)
  have "recv_header n got (frag_stream (bs # frags) @ rs) = recv_header n (got @ bs) (frag_stream frags @ rs)"
    using Cons.prems by (subst recv_header.simps) (auto simp: sys_recv_def)
  with Cons.IH [of "got @ bs"] Cons.prems show ?case by simp
qed

lemma recv_data_stalled:
  "length got < n \<Longrightarrow> RECV_RETRY_MAX < k + j \<Longrightarrow> k \<le> RECV_RETRY_MAX \<Longrightarrow>
   \<exists>rs'. recv_data n k got (replicate j Recv_again @ rs) = Some (Read_retry_failed, got, rs')"
proof (induction j arbitrary: k)
  case (Suc j)
  then show ?case
    by (cases "k = RECV_RETRY_MAX"; subst recv_data.simps) (auto simp: sys_recv_def)
qed simp

lemma recv_data_broken:
  assumes "[] \<notin> set frags" "length got + length (concat frags) < n" "n \<le> CSM_BUFFER_SIZE"
    and rs: "broken rs \<or> (\<exists>rs'. rs = replicate 11 Recv_again @ rs')"
  shows "\<exists>st got' rs'. recv_data n 0 got (frag_stream frags @ rs) = Some (st, got', rs') \<and>
    st \<in> {Read_zero, Read_error, Read_retry_failed}"
  using assms(1-3)
proof (induction frags arbitrary: got)
  case Nil
  show ?case
  proof (cases "broken rs")
    case True
    with Nil show ?thesis
      using sys_recv_broken [of rs "n - length got"] by (subst recv_data.simps) (auto split: prod.splits)
  next
    case False
    with rs obtain rs' where "rs = replicate 11 Recv_again @ rs'" by blast
    with Nil show ?thesis using recv_data_stalled [of got n 0 11 rs'] by auto
  qed
next
  case (Cons bs frags)
  have "recv_data n 0 got (frag_stream (bs # frags) @ rs) = recv_data n 0 (got @ bs) (frag_stream frags @ rs)"
    using Cons.prems by (subst recv_data.simps) (auto simp: sys_recv_def)
  with Cons.IH [of "got @ bs"] Cons.prems show ?case by simp
qed

lemma recv_data_overflow:
  assumes "[] \<notin> set frags" "n \<le> length got + length (concat frags)" "CSM_BUFFER_SIZE < n" "length got \<le> CSM_BUFFER_SIZE"
  shows "recv_data n k got (frag_stream frags @ rs) = None"
  using assms
proof (induction frags arbitrary: got)
  case (Cons bs frags)
  show ?case
  proof (cases "length got + length bs \<le> CSM_BUFFER_SIZE")
    case True
    then have "recv_data n k got (frag_stream (bs # frags) @ rs) = recv_data n k (got @ bs) (frag_stream frags @ rs)"
      using Cons.prems by (subst recv_data.simps) (auto simp: sys_recv_def)
    with Cons.IH [of "got @ bs"] Cons.prems True show ?thesis by simp
  next
    case False
    with Cons.prems show ?thesis by (subst recv_data.simps) (auto simp: sys_recv_def min_def)
  qed
qed simp

lemma peek_more: "peek get_u16 n bs = Some w \<Longrightarrow> peek get_u16 n (bs @ r) = Some w"
  by (auto simp: peek_def wire split: if_splits)

lemma peek_take:
  assumes "peek get_u16 2 bs = Some w" "8 \<le> length bs"
  shows "peek get_u16 2 (take 8 bs) = Some w"
proof -
  obtain v where v: "peek get_u16 2 (take 8 bs) = Some v"
    using peek_None_iff(2) [of 2 "take 8 bs"] assms(2) by fastforce
  show ?thesis using peek_more [OF v, of "drop 8 bs"] assms(1) v by simp
qed

text \<open>The header of a message whose first eight bytes have arrived.\<close>

lemma header_read:
  assumes "[] \<notin> set frags" "8 \<le> length (concat frags)" "peek get_u16 2 (concat frags) = Some w"
  shows "recv_header sizeof_LDPHdr [] (frag_stream frags @ rs) =
      (Read_done 0, take 8 (concat frags), frag_stream (cut 8 frags) @ rs)"
    "peek get_u16 2 (take 8 (concat frags)) = Some w"
proof -
  show "recv_header sizeof_LDPHdr [] (frag_stream frags @ rs) =
      (Read_done 0, take 8 (concat frags), frag_stream (cut 8 frags) @ rs)"
    using recv_header_frags [OF assms(1), of 8 "[]" rs] assms(2) by (simp add: sizeof_LDPHdr_def)
  show "peek get_u16 2 (take 8 (concat frags)) = Some w"
    by (rule peek_take [OF assms(3,2)])
qed

lemma msg_word:
  assumes "length msg = unat (ntohs w) + 4" "8 \<le> length msg"
  shows "sizeof_LDPHdr + (unat (ntohs w) - 4) = length msg" "\<not> unat (ntohs w) < 4"
  using assms by (simp_all add: sizeof_LDPHdr_def)

lemma base_stream [simp]: "base (set_stream rs s) = base s" "base (bump_dbg f s) = base s"
  "csm_heap (set_stream rs s) = csm_heap s" "csm_heap (bump_dbg f s) = csm_heap s"
  by (simp_all add: set_stream_def bump_dbg_def base_def)

lemma disconnect_error:
  assumes "wf s" "csm_heap s c = Some csm" "mac_ok (MLACP csm)" "no_queued_delete (MLACP csm)" "base t = base s"
    "csm_heap t = csm_heap s"
  shows "\<exists>s' csm'. map_option (Pair MCLAG_ERROR) (scheduler_session_disconnect_handler c t) = Some (MCLAG_ERROR, s') \<and>
    csm_heap s' c = Some csm' \<and> session_reset csm' \<and> carried_over csm csm'"
  using session_disconnect_run [OF carry(1) [OF assms(5,1)], of c csm] assms(2-4,6) by auto

section \<open>Properties\<close>

text \<open>C34: however the stream cuts them, the bytes of one message are put together again and
  handed to the queue as one message; the bytes behind it stay in the stream.\<close>

theorem message_reassembled:
  assumes "csm_heap s c = Some csm" "sock_fd csm > 0"
    and stream: "recv_results (s_env s) = frag_stream frags @ rs" "[] \<notin> set frags" "concat frags = msg @ tail"
    and len: "peek get_u16 2 msg = Some w" "length msg = unat (ntohs w) + 4" "8 \<le> length msg" "length msg \<le> CSM_BUFFER_SIZE"
  shows "\<exists>frags'. [] \<notin> set frags' \<and> concat frags' = tail \<and>
    scheduler_csm_read_callback c s =
      map_option (\<lambda>csm'. (1, set_csm c (icc_msg_in_count_update (\<lambda>n. n + 1) csm')
          (set_stream (frag_stream frags' @ rs) s))) (iccp_csm_enqueue_msg csm msg)"
proof -
  let ?n = "length msg"
  define frags1 where "frags1 = cut 8 frags"
  define frags2 where "frags2 = cut (?n - 8) frags1"
  have 1: "[] \<notin> set frags1" "concat frags1 = drop 8 msg @ tail" and pre: "take 8 (concat frags) = take 8 msg"
    using stream(2,3) len(3) by (simp_all add: frags1_def cut_nonempty concat_cut)
  have 2: "[] \<notin> set frags2" "concat frags2 = tail"
    using 1 len(3) by (simp_all add: frags2_def cut_nonempty concat_cut)
  have "peek get_u16 2 (concat frags) = Some w" "8 \<le> length (concat frags)"
    using peek_more [OF len(1)] stream(3) len(3) by simp_all
  note hdr = header_read [OF stream(2) this(2,1), unfolded pre, folded frags1_def]
  have dat: "recv_data ?n 0 (take 8 msg) (frag_stream frags1 @ rs) = Some (Read_done 0, msg, frag_stream frags2 @ rs)"
    using recv_data_frags [OF 1(1), of ?n "take 8 msg" 0 rs] len(3,4) 1(2) by (simp add: frags2_def)
  have i: "iccp_csm_init_msg (msg @ replicate (CSM_BUFFER_SIZE - ?n) 0) (int ?n) = Some (0, Some msg)"
    using len(3,4) by (auto simp: iccp_csm_init_msg_def)
  have "scheduler_csm_read_callback c s =
      map_option (\<lambda>csm'. (1, set_csm c (icc_msg_in_count_update (\<lambda>n. n + 1) csm')
          (set_stream (frag_stream frags2 @ rs) s))) (iccp_csm_enqueue_msg csm msg)"
    unfolding scheduler_csm_read_callback_def stream(1) hdr(1)
    using assms(1,2) hdr(2) msg_word [OF len(2,3)] len(2) dat i
    by (simp add: set_stream_def map_option_case split: option.splits)
  with 2 show ?thesis by blast
qed


text \<open>C36: a message whose length field exceeds 65532 is received into a buffer of 65536 bytes:
  when its bytes arrive, the read writes behind the end of the buffer.\<close>

theorem long_message_overflows:
  assumes "csm_heap s c = Some csm" "sock_fd csm > 0"
    and stream: "recv_results (s_env s) = frag_stream frags @ rs" "[] \<notin> set frags" "concat frags = msg @ tail"
    and len: "peek get_u16 2 msg = Some w" "length msg = unat (ntohs w) + 4" "unat (ntohs w) > 65532"
  shows "scheduler_csm_read_callback c s = None"
proof -
  have l: "8 \<le> length msg" "8 \<le> length (concat frags)" "CSM_BUFFER_SIZE < length msg" using len stream(3) by simp_all
  have "peek get_u16 2 (concat frags) = Some w" using peek_more [OF len(1)] stream(3) by simp
  note hdr = header_read [OF stream(2) l(2) this]
  have "length (take 8 (concat frags)) + length (concat (cut 8 frags)) = length (concat frags)"
    using l(2) by (simp add: concat_cut)
  then have "recv_data (length msg) 0 (take 8 (concat frags)) (frag_stream (cut 8 frags) @ rs) = None"
    using recv_data_overflow [OF cut_nonempty [OF stream(2)] _ l(3), of "take 8 (concat frags)" 8] stream(3) by auto
  then show ?thesis
    unfolding scheduler_csm_read_callback_def stream(1) hdr(1)
    using assms(1,2) hdr(2) msg_word [OF len(2) l(1)] by (simp add: Let_def)
qed

end
