(* ===== verification/Connection.thy ===== *)
theory Connection
  imports Handshake Reading
begin

text \<open>
  Setting up a connection: the check of the configuration, the choice of the role,
  connecting and accepting, and the invariant that ties a session's socket and
  flags to the state of its state machine.
\<close>

section \<open>What setting up leaves alone\<close>

text \<open>The fields of a session that choosing a role and checking the configuration do not touch.\<close>

definition link_core :: "CSM \<Rightarrow> CSM" where
  "link_core csm = csm\<lparr>role_type := STP_ROLE_NONE, peer_link_if := None, connTimePrev := 0,
     peer_link_learning_enable := 0, peer_link_learning_retry_time := 0\<rparr>"

lemma link_core_updates [simp]:
  "link_core (csm\<lparr>role_type := r\<rparr>) = link_core csm" "link_core (csm\<lparr>peer_link_if := p\<rparr>) = link_core csm"
  "link_core (csm\<lparr>connTimePrev := t\<rparr>) = link_core csm" "link_core (csm_base csm) = link_core csm"
  by (simp_all add: link_core_def csm_base_def)

lemma link_coreD:
  assumes "link_core csm' = link_core csm"
  shows "sock_fd csm' = sock_fd csm" "current_state csm' = current_state csm" "iccp_info csm' = iccp_info csm"
    "sender_ip csm' = sender_ip csm" "peer_ip csm' = peer_ip csm"
  using arg_cong [OF assms, of sock_fd] arg_cong [OF assms, of current_state] arg_cong [OF assms, of iccp_info]
    arg_cong [OF assms, of sender_ip] arg_cong [OF assms, of peer_ip]
  by (simp_all add: link_core_def)

lemma base_link_core:
  assumes "base t = base s" "csm_heap s c = Some csm"
  shows "\<exists>csm'. csm_heap t c = Some csm' \<and> link_core csm' = link_core csm \<and> role_type csm' = role_type csm"
proof -
  obtain csm' where h: "csm_heap t c = Some csm'" "csm_base csm' = csm_base csm" using base_csm [OF assms] by blast
  have "role_type csm' = role_type csm" using arg_cong [OF h(2), of role_type] by (simp add: csm_base_def)
  moreover have "link_core csm' = link_core csm"
    using arg_cong [OF h(2), of link_core] by (simp only: link_core_updates)
  ultimately show ?thesis using h(1) by blast
qed

lemma role_count_run:
  assumes "wf s" "csm_heap s c = Some csm"
  shows "\<exists>s' csm'. iccp_csm_stp_role_count c s = Some s' \<and> csm_heap s' c = Some csm' \<and> wf s' \<and> clock s' = clock s \<and>
    link_core csm' = link_core csm \<and>
    role_type csm' = (if role_type csm \<noteq> STP_ROLE_NONE then role_type csm
      else if inet_addr (sender_ip csm) < inet_addr (peer_ip csm) then STP_ROLE_ACTIVE else STP_ROLE_STANDBY)"
proof (cases "role_type csm = STP_ROLE_NONE")
  case False
  then show ?thesis using assms by (simp add: iccp_csm_stp_role_count_def)
next
  case True
  let ?act = "inet_addr (sender_ip csm) < inet_addr (peer_ip csm)"
  let ?r = "if ?act then STP_ROLE_ACTIVE else STP_ROLE_STANDBY"
  let ?csm1 = "csm\<lparr>role_type := ?r\<rparr>"
  define s1 where "s1 = set_csm c ?csm1 s"
  have wf1: "wf s1" unfolding s1_def by (rule wf_set_csm [OF assms]) simp_all
  have csm1: "csm_heap s1 c = Some ?csm1" "clock s1 = clock s" by (simp_all add: s1_def set_csm_def)
  have on: "on_csm c (role_type_update (\<lambda>_. ?r)) s = Some s1" using assms(2) by (simp add: on_csm_def s1_def)
  have "\<exists>s'. iccp_csm_stp_role_count c s = Some s' \<and> base s' = base s1"
    using True assms(2) on by (cases ?act) (simp_all add: iccp_csm_stp_role_count_def)
  then obtain s' where s': "iccp_csm_stp_role_count c s = Some s'" "base s' = base s1" by blast
  obtain csm' where "csm_heap s' c = Some csm'" "link_core csm' = link_core ?csm1" "role_type csm' = role_type ?csm1"
    using base_link_core [OF s'(2) csm1(1)] by blast
  then show ?thesis using s' carry(1) [OF s'(2) wf1] base_sysD(2) [OF s'(2)] csm1(2) True by auto
qed

lemma find_obj_live:
  assumes "list_all (live h) xs"
  shows "\<exists>r. find_obj h P xs = Some r \<and> (\<forall>x. r = Some x \<longrightarrow> live h x \<and> P (the (h x)))"
  using assms by (induction xs) (auto simp: live_def)

lemma check_config_run:
  assumes "wf s" "csm_heap s c = Some csm"
  shows "\<exists>ret s' csm'. scheduler_check_csm_config c s = Some (ret, s') \<and> csm_heap s' c = Some csm' \<and> wf s' \<and>
    clock s' = clock s \<and> link_core csm' = link_core csm"
proof -
  have direct: "\<exists>s' csm'. iccp_csm_stp_role_count c s = Some s' \<and> csm_heap s' c = Some csm' \<and> wf s' \<and>
      clock s' = clock s \<and> link_core csm' = link_core csm"
    using role_count_run [OF assms] by blast
  consider "mlag_id csm \<le> 0 \<or> peer_ip csm = [] \<or> sender_ip csm = []"
    | "\<not> (mlag_id csm \<le> 0 \<or> peer_ip csm = [] \<or> sender_ip csm = [])" "peer_itf_name csm = []"
    | "\<not> (mlag_id csm \<le> 0 \<or> peer_ip csm = [] \<or> sender_ip csm = [])" "peer_itf_name csm \<noteq> []" by blast
  then show ?thesis
  proof cases
    case 1
    with direct assms(2) show ?thesis by (auto simp: scheduler_check_csm_config_def)
  next
    case 2
    with direct assms(2) show ?thesis by (auto simp: scheduler_check_csm_config_def)
  next
    case 3
    obtain r where r: "local_if_find_by_name (peer_itf_name csm) s = Some r" "\<forall>l. r = Some l \<longrightarrow> live (lif_heap s) l"
      using find_obj_live [of "lif_heap s" "lif_list s"] assms(1) unfolding wf_def local_if_find_by_name_def by blast
    show ?thesis
    proof (cases r)
      case None
      with 3 r assms show ?thesis by (auto simp: scheduler_check_csm_config_def)
    next
      case (Some l)
      have "steady same_base (on_lif l (lif_is_peer_link_update (\<lambda>_. 1))) s"
        using r(2) Some by (intro steady_on_lif) simp_all
      then obtain s1 where s1: "on_lif l (lif_is_peer_link_update (\<lambda>_. 1)) s = Some s1" "base s1 = base s"
        unfolding steady_def by blast
      obtain csm1 where csm1: "csm_heap s1 c = Some csm1" "link_core csm1 = link_core csm"
        using base_link_core [OF s1(2) assms(2)] by blast
      let ?csm2 = "csm1\<lparr>peer_link_if := Some l\<rparr>"
      have wf1: "wf s1" and l1: "live (lif_heap s1) l" using carry [OF s1(2)] assms(1) r(2) Some by blast+
      have "wf_csm s1 ?csm2" using wf_csmD [OF wf1 csm1(1)] l1 by (simp add: wf_csm_def live_opt_def)
      then have wf2: "wf (set_csm c ?csm2 s1)" by (rule wf_put_csm [OF wf1 csm1(1)])
      have on: "on_csm c (peer_link_if_update (\<lambda>_. Some l)) s1 = Some (set_csm c ?csm2 s1)"
        using csm1(1) by (simp add: on_csm_def)
      have csm2: "csm_heap (set_csm c ?csm2 s1) c = Some ?csm2" "clock (set_csm c ?csm2 s1) = clock s1"
        by (simp_all add: set_csm_def)
      obtain s3 where s3: "set_peerlink_learn_kernel c 0 (set_csm c ?csm2 s1) = Some s3" "base s3 = base (set_csm c ?csm2 s1)"
        using steady_learn_kernel [OF wf2 live_by [of "csm_heap (set_csm c ?csm2 s1)" c, OF csm2(1)], of 0] unfolding steady_def by blast
      obtain csm3 where csm3: "csm_heap s3 c = Some csm3" "link_core csm3 = link_core ?csm2"
        using base_link_core [OF s3(2) csm2(1)] by blast
      obtain s4 csm4 where s4: "iccp_csm_stp_role_count c s3 = Some s4" "csm_heap s4 c = Some csm4" "wf s4"
          "clock s4 = clock s3" "link_core csm4 = link_core csm3"
        using role_count_run [OF carry(1) [OF s3(2) wf2] csm3(1)] by blast
      have "scheduler_check_csm_config c s = Some (1, s4)"
        using 3 assms(2) r(1) Some s1(1) on s3(1) s4(1) by (simp add: scheduler_check_csm_config_def)
      moreover have "clock s4 = clock s"
        using s4(4) base_sysD(2) [OF s3(2)] csm2(2) base_sysD(2) [OF s1(2)] by simp
      ultimately show ?thesis using s4 csm3(2) csm1(2) by simp
    qed
  qed
qed

text \<open>Connecting may change the socket as well.\<close>

definition link_state :: "CSM \<Rightarrow> CSM" where
  "link_state csm = (link_core csm)\<lparr>sock_fd := 0\<rparr>"

lemma link_state_core: "link_core csm' = link_core csm \<Longrightarrow> link_state csm' = link_state csm"
  by (simp add: link_state_def)

lemma link_state_sock [simp]:
  "link_state (csm\<lparr>sock_fd := fd\<rparr>) = link_state csm" "link_state (csm\<lparr>connTimePrev := t\<rparr>) = link_state csm"
  by (simp_all add: link_state_def link_core_def)

lemma link_stateD:
  assumes "link_state csm' = link_state csm"
  shows "current_state csm' = current_state csm" "iccp_info csm' = iccp_info csm" "msg_list csm' = msg_list csm"
  using arg_cong [OF assms, of current_state] arg_cong [OF assms, of iccp_info] arg_cong [OF assms, of msg_list]
  by (simp_all add: link_state_def link_core_def)

lemma on_csm_keeps:
  assumes "wf s" "csm_heap s c = Some csm" "peer_link_if (f csm) = peer_link_if csm" "MLACP (f csm) = MLACP csm"
  shows "on_csm c f s = Some (set_csm c (f csm) s)" "wf (set_csm c (f csm) s)"
    "csm_heap (set_csm c (f csm) s) c = Some (f csm)"
  using wf_set_csm [OF assms(1,2), of "f csm"] assms(2-4) by (simp_all add: on_csm_def set_csm_def)

lemma wf_watch [simp]: "wf (watch_fd fd s) = wf s" "csm_heap (watch_fd fd s) = csm_heap s"
  by (simp_all add: watch_fd_def wf_def wf_csm_def wf_lif_def)

lemma client_conn_run:
  assumes "wf s" "csm_heap s c = Some csm"
  shows "\<exists>s' csm'. session_client_conn_handler c s = Some s' \<and> csm_heap s' c = Some csm' \<and> wf s' \<and>
    link_state csm' = link_state csm"
proof -
  let ?e = "(s_env s)\<lparr>conn_results := tl (conn_results (s_env s))\<rparr>"
  let ?s0 = "s\<lparr>s_env := ?e\<rparr>"
  have s0: "wf ?s0" "csm_heap ?s0 c = Some csm" using assms carry(1) [of ?s0 s] by simp_all
  have step: "\<exists>s' csm'. on_csm c (connTimePrev_update (\<lambda>_. clock t)) t = Some s' \<and> csm_heap s' c = Some csm' \<and> wf s' \<and>
      link_state csm' = link_state csm" if "wf t" "csm_heap t c = Some csm1" "link_state csm1 = link_state csm" for t csm1
    using on_csm_keeps [OF that(1,2), of "connTimePrev_update (\<lambda>_. clock t)"] that(3) by auto
  have sock: "on_csm c (sock_fd_update (\<lambda>_. fd)) ?s0 = Some (set_csm c (csm\<lparr>sock_fd := fd\<rparr>) ?s0)"
    "wf (set_csm c (csm\<lparr>sock_fd := fd\<rparr>) ?s0)" "csm_heap (set_csm c (csm\<lparr>sock_fd := fd\<rparr>) ?s0) c = Some (csm\<lparr>sock_fd := fd\<rparr>)" for fd
    using on_csm_keeps [OF s0, of "sock_fd_update (\<lambda>_. fd)"] by simp_all
  show ?thesis
  proof (cases "case conn_results (s_env s) of [] \<Rightarrow> Conn_failed | r # _ \<Rightarrow> r")
    case No_socket
    with step [OF s0] show ?thesis by (simp add: session_client_conn_handler_def Let_def)
  next
    case Conn_failed
    with step [OF sock(2,3)] sock(1) show ?thesis by (simp add: session_client_conn_handler_def Let_def)
  next
    case (Connected fd)
    with step [of "watch_fd fd (set_csm c (csm\<lparr>sock_fd := fd\<rparr>) ?s0)" "csm\<lparr>sock_fd := fd\<rparr>"] sock
    show ?thesis by (simp add: session_client_conn_handler_def Let_def)
  qed
qed

lemma prepare_session_run:
  assumes "wf s" "csm_heap s c = Some csm"
  shows "\<exists>s' csm'. scheduler_prepare_session c s = Some s' \<and> csm_heap s' c = Some csm' \<and> wf s' \<and>
    link_state csm' = link_state csm"
proof -
  let ?f = "\<lambda>csm. if connTimePrev csm = 0 then csm\<lparr>connTimePrev := clock s\<rparr> else csm"
  define s1 where "s1 = set_csm c (?f csm) s"
  have s1: "on_csm c ?f s = Some s1" "wf s1" "csm_heap s1 c = Some (?f csm)"
    using on_csm_keeps [OF assms, of ?f] by (simp_all add: s1_def)
  have k: "link_state (?f csm) = link_state csm" by simp
  obtain ret s2 csm2 where s2: "scheduler_check_csm_config c s1 = Some (ret, s2)" "csm_heap s2 c = Some csm2" "wf s2"
      "link_state csm2 = link_state csm"
    using check_config_run [OF s1(2,3)] link_state_core k by metis
  obtain s3 csm3 where s3: "session_client_conn_handler c s2 = Some s3" "csm_heap s3 c = Some csm3" "wf s3"
      "link_state csm3 = link_state csm"
    using client_conn_run [OF s2(3,2)] s2(4) by metis
  have "\<exists>t csmt. (if sock_fd (?f csm) > 0 then Some s1
      else do {
        (ret, s) \<leftarrow> scheduler_check_csm_config c s1;
        if ret < 0 then Some s
        else if inet_addr (sender_ip (?f csm)) \<ge> inet_addr (peer_ip (?f csm)) then Some s
        else session_client_conn_handler c s }) = Some t \<and> csm_heap t c = Some csmt \<and> wf t \<and> link_state csmt = link_state csm"
    using s1(2,3) k s2 s3 by simp
  then obtain t csmt where t: "(if sock_fd (?f csm) > 0 then Some s1
      else do {
        (ret, s) \<leftarrow> scheduler_check_csm_config c s1;
        if ret < 0 then Some s
        else if inet_addr (sender_ip (?f csm)) \<ge> inet_addr (peer_ip (?f csm)) then Some s
        else session_client_conn_handler c s }) = Some t" "csm_heap t c = Some csmt" "wf t" "link_state csmt = link_state csm"
    by blast
  note last = on_csm_keeps [OF t(3,2), of "connTimePrev_update (\<lambda>_. clock t)"]
  show ?thesis
    unfolding scheduler_prepare_session_def s1(1) Option.bind.simps s1(3) t(1)
    using s1(2,3) k last t(4) by simp
qed

section \<open>The session invariant\<close>

text \<open>A session without a socket is in its first state, and the flags fit the state.\<close>

definition session_ok :: "CSM \<Rightarrow> bool" where
  "session_ok csm \<longleftrightarrow> flags_ok csm \<and> (sock_fd csm \<le> 0 \<longrightarrow> current_state csm = ICCP_NONEXISTENT)"

lemma session_ok_reset: "session_reset csm \<Longrightarrow> session_ok csm"
  by (simp add: session_ok_def session_reset_def flags_ok_def)

lemma enter_state_sock: "sock_fd (iccp_csm_enter_state csm) = sock_fd csm"
  by (cases "current_state csm") (simp_all add: enter_defs)

lemma csm_turn_sock: "csm_turn msg csm e = Some (csm', e') \<Longrightarrow> sock_fd csm' = sock_fd csm"
proof -
  assume "csm_turn msg csm e = Some (csm', e')"
  then obtain csm1 csm2 where t: "answer_msg msg csm = Some csm1" "unlogged csm2 = unlogged csm1"
    "csm' = (if current_state csm \<noteq> next_state csm2 \<or> msg \<noteq> None
       then iccp_csm_enter_state (csm2\<lparr>current_state := next_state csm2\<rparr>)
       else csm2\<lparr>current_state := next_state csm2\<rparr>)"
    using csm_turn_cases by blast
  have "sock_fd csm' = sock_fd csm2" by (simp add: t(3) enter_state_sock)
  then show ?thesis using unlogged_eqD(2) [OF t(2)] answer_answered [OF t(1)] by (simp add: answered_def)
qed

lemma transit_first_state:
  assumes "wf s" "csm_heap s c = Some csm" "current_state csm = ICCP_NONEXISTENT"
  shows "\<exists>s' csm'. iccp_csm_transit c s = Some (Running s') \<and> csm_heap s' c = Some csm' \<and> session_ok csm' \<and>
    current_state csm' \<in> {ICCP_NONEXISTENT, ICCP_INITIALIZED}"
proof -
  obtain msg csm1 where d: "iccp_csm_dequeue_msg csm = (msg, csm1)" by fastforce
  then have csm1: "peer_link_if csm1 = peer_link_if csm" "MLACP csm1 = MLACP csm" "current_state csm1 = ICCP_NONEXISTENT"
    using assms(3) by (auto simp: iccp_csm_dequeue_msg_def split: list.splits)
  have s1: "wf (set_csm c csm1 s)" "csm_heap (set_csm c csm1 s) c = Some csm1"
    using wf_set_csm [OF assms(1,2)] csm1 by (simp_all add: set_csm_def)
  obtain s2 csm2 where s2: "scheduler_prepare_session c (set_csm c csm1 s) = Some s2" "csm_heap s2 c = Some csm2" "wf s2"
      "link_state csm2 = link_state csm1"
    using prepare_session_run [OF s1] by blast
  have st2: "current_state csm2 = ICCP_NONEXISTENT" using link_stateD(1) [OF s2(4)] csm1(3) by simp
  obtain ret s3 csm3 where s3: "scheduler_check_csm_config c s2 = Some (ret, s3)" "csm_heap s3 c = Some csm3"
      "link_core csm3 = link_core csm2"
    using check_config_run [OF s2(3,2)] by blast
  have st3: "sock_fd csm3 = sock_fd csm2" "current_state csm3 = ICCP_NONEXISTENT"
    using link_coreD(1,2) [OF s3(3)] st2 by simp_all
  let ?csm4 = "iccp_csm_enter_state (csm3\<lparr>current_state := ICCP_INITIALIZED\<rparr>)"
  have r: "iccp_csm_transit c s = (if sock_fd csm2 > 0
      then (if ret > 0 then Some (Running (set_csm c ?csm4 s3)) else Some (Running s3)) else Some (Running s2))"
    using assms(2,3) d s2 s3 csm1(3) by (simp add: iccp_csm_transit_def on_csm_def)
  have ok: "session_ok csm2" "session_ok csm3" using st2 st3 by (simp_all add: session_ok_def flags_ok_def)
  have ok4: "session_ok ?csm4" "current_state ?csm4 = ICCP_INITIALIZED" if "sock_fd csm2 > 0"
    using that st3 by (simp_all add: session_ok_def flags_ok_def enter_defs)
  consider "sock_fd csm2 \<le> 0" | "sock_fd csm2 > 0" "ret \<le> 0" | "sock_fd csm2 > 0" "ret > 0" by linarith
  then show ?thesis
  proof cases
    case 1
    then show ?thesis using r s2(2) ok st2 by simp
  next
    case 2
    then show ?thesis using r s3(2) ok st3 by simp
  next
    case 3
    then show ?thesis using r ok4 by (simp add: set_csm_def)
  qed
qed

section \<open>Properties\<close>

text \<open>C33: a transition of the connection state machine keeps the session invariant, follows
  one of the intended arrows, and never reaches the branch that finalizes the
  session.\<close>

theorem transit_keeps_session:
  assumes "wf s" "csm_heap s c = Some csm" "session_ok csm" "iccp_csm_transit c s = Some r"
  shows "\<exists>s' csm'. r = Running s' \<and> csm_heap s' c = Some csm' \<and> session_ok csm' \<and>
    iccp_arrow (current_state csm) (current_state csm')"
proof (cases "current_state csm = ICCP_NONEXISTENT")
  case True
  then show ?thesis
    using transit_first_state [OF assms(1,2)] assms(4) arrow_start arrow_stay by auto
next
  case False
  obtain msg csm1 where d: "iccp_csm_dequeue_msg csm = (msg, csm1)" by fastforce
  then have csm1: "iccp_info csm1 = iccp_info csm" "current_state csm1 = current_state csm" "sock_fd csm1 = sock_fd csm"
    by (auto simp: iccp_csm_dequeue_msg_def split: list.splits)
  have sock: "sock_fd csm > 0" using False assms(3) by (auto simp: session_ok_def)
  obtain csm2 e where t: "csm_turn msg csm1 (s_env s) = Some (csm2, e)"
      "r = Running ((set_csm c csm2 (set_csm c csm1 s))\<lparr>s_env := e\<rparr>)"
    using assms(2,4) False sock d csm1(2)
    by (auto simp: iccp_csm_transit_def set_csm_def split: Option.bind_splits)
  have "flags_ok csm1" by (rule stay_flags [OF _ csm1(1,2)]) (use assms(3) in \<open>simp add: session_ok_def\<close>)
  then have "flags_ok csm2" "iccp_arrow (current_state csm) (current_state csm2)"
    using csm_turn_ok [OF t(1)] csm1(2) False by auto
  then show ?thesis using csm_turn_sock [OF t(1)] csm1(3) sock t(2) by (simp add: session_ok_def set_csm_def)
qed

text \<open>C38: two peers that are configured with each other's addresses choose opposite roles: the
  one whose address is smaller as the code compares it becomes active, the other
  one standby.\<close>

theorem roles_opposite:
  assumes "wf s" "csm_heap s c = Some a" "wf t" "csm_heap t d = Some b"
    and "role_type a = STP_ROLE_NONE" "role_type b = STP_ROLE_NONE"
    and "peer_ip a = sender_ip b" "peer_ip b = sender_ip a" "inet_addr (sender_ip a) \<noteq> inet_addr (sender_ip b)"
  shows "\<exists>s' a' t' b'. iccp_csm_stp_role_count c s = Some s' \<and> csm_heap s' c = Some a' \<and>
    iccp_csm_stp_role_count d t = Some t' \<and> csm_heap t' d = Some b' \<and>
    {role_type a', role_type b'} = {STP_ROLE_ACTIVE, STP_ROLE_STANDBY}"
proof -
  obtain s' a' where "iccp_csm_stp_role_count c s = Some s'" "csm_heap s' c = Some a'"
    "role_type a' = (if inet_addr (sender_ip a) < inet_addr (sender_ip b) then STP_ROLE_ACTIVE else STP_ROLE_STANDBY)"
    using role_count_run [OF assms(1,2)] assms(5,7) by auto
  moreover obtain t' b' where "iccp_csm_stp_role_count d t = Some t'" "csm_heap t' d = Some b'"
    "role_type b' = (if inet_addr (sender_ip b) < inet_addr (sender_ip a) then STP_ROLE_ACTIVE else STP_ROLE_STANDBY)"
    using role_count_run [OF assms(3,4)] assms(6,8) by auto
  ultimately show ?thesis using assms(9) by (auto simp: insert_commute)
qed


end
