(* ===== verification/Mac_Table.thy ===== *)
theory Mac_Table
  imports Disconnect "HOL-Library.Product_Lexorder" "HOL-Library.List_Lexorder"
begin

unbundle bit_operations_syntax

text \<open>
  The MAC table of a session (\<^verbatim>\<open>src/mlacp_link_handler.c\<close>, \<^verbatim>\<open>src/mlacp_fsm.c\<close>,
  \<^verbatim>\<open>src/mlacp_sync_update.c\<close>): addresses learned by the local switch, addresses the
  peer announces, what happens to them when a port channel goes down or up, and the
  queue of changes for the peer.  An entry lives in \<open>mac_heap\<close>; the tree and the queue
  hold its address.
\<close>

section \<open>Tree and queue\<close>

text \<open>\<^verbatim>\<open>MACMsg_compare\<close> orders by VLAN and then by the bytes of the address.\<close>

definition MACMsg_compare :: "MACMsg \<Rightarrow> 16 word \<times> bytes" where
  "MACMsg_compare e = (mac_vid e, mac_addr e)"

text \<open>A walk over the tree reads its entries: a freed one is a fault.\<close>

definition mac_rb_find :: "16 word \<Rightarrow> bytes \<Rightarrow> mLACP \<Rightarrow> nat option option" where
  "mac_rb_find v a M =
     (if list_all (\<lambda>m. mac_heap M m \<noteq> None) (mac_rb M)
      then Some (find (\<lambda>m. map_option MACMsg_compare (mac_heap M m) = Some (v, a)) (mac_rb M)) else None)"

definition mac_rb_insert :: "nat \<Rightarrow> mLACP \<Rightarrow> mLACP" where
  "mac_rb_insert m M = M\<lparr>mac_rb := rb_insert (\<lambda>m. MACMsg_compare (the (mac_heap M m))) m (mac_rb M)\<rparr>"

definition iccp_csm_init_mac_msg :: "MACMsg \<Rightarrow> mLACP \<Rightarrow> nat \<times> mLACP" where
  "iccp_csm_init_mac_msg e M = (mac_next M, M\<lparr>mac_heap := (mac_heap M)(mac_next M \<mapsto> e), mac_next := mac_next M + 1\<rparr>)"

definition enqueue_mac :: "nat \<Rightarrow> mLACP \<Rightarrow> mLACP" where
  "enqueue_mac m M = (if m \<in> set (mac_msg_list M) then M else M\<lparr>mac_msg_list := mac_msg_list M @ [m]\<rparr>)"

text \<open>Access to an entry through its pointer.\<close>

definition mac_at :: "nat \<Rightarrow> nat \<Rightarrow> System \<Rightarrow> MACMsg option" where
  "mac_at c m s = do { csm \<leftarrow> csm_heap s c; mac_heap (MLACP csm) m }"

definition on_mac :: "nat \<Rightarrow> nat \<Rightarrow> (MACMsg \<Rightarrow> MACMsg) \<Rightarrow> System \<Rightarrow> System option" where
  "on_mac c m f s = do { e \<leftarrow> mac_at c m s; on_csm c (MLACP_update (write_mac m (f e))) s }"

definition chip_add :: "nat \<Rightarrow> nat \<Rightarrow> byte \<Rightarrow> System \<Rightarrow> System option" where
  "chip_add c m mac_type s = do {
     e \<leftarrow> mac_at c m s;
     let (e, s) = add_mac_to_chip e mac_type s;
     on_csm c (MLACP_update (write_mac m e)) s }"

definition chip_del :: "nat \<Rightarrow> nat \<Rightarrow> System \<Rightarrow> System option" where
  "chip_del c m s = do {
     e \<leftarrow> mac_at c m s;
     let (e, s) = del_mac_from_chip e s;
     on_csm c (MLACP_update (write_mac m e)) s }"

text \<open>\<^verbatim>\<open>MAC_RB_REMOVE\<close> followed by \<^verbatim>\<open>free\<close> unless the entry still waits to be sent.\<close>

definition mac_unlink :: "nat \<Rightarrow> nat \<Rightarrow> System \<Rightarrow> System option" where
  "mac_unlink c m s = do { e \<leftarrow> mac_at c m s; on_csm c (MLACP_update (unlink_mac m)) s }"

text \<open>The state of the peer-link interface, if there is one.\<close>

definition peer_link_state :: "nat \<Rightarrow> System \<Rightarrow> byte option option" where
  "peer_link_state c s = do {
     csm \<leftarrow> csm_heap s c;
     (case peer_link_if csm of None \<Rightarrow> Some None
      | Some p \<Rightarrow> do { lif \<leftarrow> lif_heap s p; Some (Some (lif_state lif)) }) }"

section \<open>Aging on the local switch\<close>

text \<open>The flag the function returns, and what it does to the entry and the queue.\<close>

definition local_age_flag :: "bool \<Rightarrow> byte \<Rightarrow> byte" where
  "local_age_flag set_flag f = (if set_flag then f OR MAC_AGE_LOCAL else f AND NOT MAC_AGE_LOCAL)"

definition set_mac_local_age_flag :: "bool \<Rightarrow> bool \<Rightarrow> nat \<Rightarrow> mLACP \<Rightarrow> (byte \<times> mLACP) option" where
  "set_mac_local_age_flag set_flag update_peer m M = do {
     e \<leftarrow> mac_heap M m;
     Some (let f = mac_age_flag e;
               aged = f AND MAC_AGE_LOCAL \<noteq> 0 in
       if set_flag = aged then (f, M)
       else (local_age_flag set_flag f,
             if mlacp_current_state M = MLACP_STATE_EXCHANGE \<and> update_peer
             then enqueue_mac m (write_mac m (e\<lparr>mac_op_type := (if set_flag then MAC_SYNC_DEL else MAC_SYNC_ADD)\<rparr>) M)
             else M)) }"

text \<open>Every caller stores the result in the entry.\<close>

definition age_mac :: "nat \<Rightarrow> bool \<Rightarrow> nat \<Rightarrow> System \<Rightarrow> System option" where
  "age_mac c set_flag m s = do {
     csm \<leftarrow> csm_heap s c;
     (f, M) \<leftarrow> set_mac_local_age_flag set_flag True m (MLACP csm);
     on_mac c m (mac_age_flag_update (\<lambda>_. f)) (set_csm c (MLACP_update (\<lambda>_. M) csm) s) }"

section \<open>A port channel goes down or up\<close>

text \<open>One entry of the walk; \<open>pif_up\<close> tells whether the peer has the interface and it is up.\<close>

definition l2_detach :: "nat \<Rightarrow> nat \<Rightarrow> System \<Rightarrow> System option" where
  "l2_detach c m s = do {
     csm \<leftarrow> csm_heap s c;
     s \<leftarrow> chip_del c m s;
     on_mac c m (mac_ifname_update (\<lambda>_. peer_itf_name csm)) s }"

definition l2_redirect :: "nat \<Rightarrow> nat \<Rightarrow> System \<Rightarrow> System option" where
  "l2_redirect c m s = do {
     csm \<leftarrow> csm_heap s c;
     e \<leftarrow> mac_at c m s;
     st \<leftarrow> peer_link_state c s;
     if st = Some PORT_STATE_UP then do {
       s \<leftarrow> on_mac c m (mac_ifname_update (\<lambda>_. peer_itf_name csm)) s;
       chip_add c m (mac_fdb_type e) s }
     else l2_detach c m s }"

definition l2_mac_down :: "nat \<Rightarrow> bool \<Rightarrow> nat \<Rightarrow> System \<Rightarrow> System option" where
  "l2_mac_down c pif_up m s = do {
     csm \<leftarrow> csm_heap s c;
     e \<leftarrow> mac_at c m s;
     let itf = peer_itf_name csm;
     if mac_age_flag e = MAC_AGE_PEER \<and> pif_up then do {
       s \<leftarrow> (if itf \<noteq> [] then l2_redirect c m s else l2_detach c m s);
       on_mac c m (mac_pending_local_del_update (\<lambda>_. 1)) s }
     else do {
       s \<leftarrow> age_mac c True m s;
       e \<leftarrow> mac_at c m s;
       if mac_age_flag e = MAC_AGE_LOCAL OR MAC_AGE_PEER then do {
         s \<leftarrow> (if mac_fdb_type e \<noteq> MAC_TYPE_STATIC then chip_del c m s else Some s);
         mac_unlink c m s }
       else if itf \<noteq> [] then l2_redirect c m s
       else chip_del c m s } }"

definition l2_mac_up :: "nat \<Rightarrow> nat \<Rightarrow> System \<Rightarrow> System option" where
  "l2_mac_up c m s = do {
     csm \<leftarrow> csm_heap s c;
     e \<leftarrow> mac_at c m s;
     if mac_ifname e = peer_itf_name csm then do {
       s \<leftarrow> on_mac c m (\<lambda>e. e\<lparr>mac_pending_local_del := 0, mac_ifname := mac_origin_ifname e\<rparr>) s;
       chip_add c m (if mac_age_flag e = MAC_AGE_LOCAL then mac_fdb_type e else MAC_TYPE_DYNAMIC_LOCAL) s }
     else if mac_pending_local_del e \<noteq> 0 then do {
       s \<leftarrow> chip_del c m s;
       if mac_fdb_type e \<noteq> MAC_TYPE_STATIC
       then do { s \<leftarrow> on_mac c m (mac_op_type_update (\<lambda>_. MAC_SYNC_DEL)) s; mac_unlink c m s }
       else on_mac c m (mac_pending_local_del_update (\<lambda>_. 0)) s }
     else Some s }"

definition update_l2_mac_state :: "nat \<Rightarrow> nat \<Rightarrow> int \<Rightarrow> System \<Rightarrow> System option" where
  "update_l2_mac_state c l po_state s = do {
     csm \<leftarrow> csm_heap s c;
     lif \<leftarrow> lif_heap s l;
     let pif = peer_if_find_by_name csm (lif_name lif);
     let pif_up = (case pif of None \<Rightarrow> False | Some p \<Rightarrow> pif_state p = PORT_STATE_UP);
     s \<leftarrow> on_lif l (lif_po_down_time_update (\<lambda>_. if po_state = 0 then clock s else 0)) s;
     foreach (\<lambda>m s. do {
       e \<leftarrow> mac_at c m s;
       if mac_origin_ifname e \<noteq> lif_name lif then Some s
       else if po_state = 0 then l2_mac_down c pif_up m s
       else l2_mac_up c m s }) (mac_rb (MLACP csm)) s }"

text \<open>\<^verbatim>\<open>mlacp_sync_mac\<close>: everything that is alive locally is announced again.\<close>

definition mlacp_sync_mac :: "nat \<Rightarrow> System \<Rightarrow> System option" where
  "mlacp_sync_mac c s = do {
     csm \<leftarrow> csm_heap s c;
     foreach (\<lambda>m s. do {
       e \<leftarrow> mac_at c m s;
       if mac_age_flag e AND MAC_AGE_LOCAL = 0
       then do {
         s \<leftarrow> on_mac c m (mac_op_type_update (\<lambda>_. MAC_SYNC_ADD)) s;
         on_csm c (MLACP_update (enqueue_mac m)) s }
       else Some s }) (mac_rb (MLACP csm)) s }"

definition mlacp_local_lif_clear_pending_mac :: "nat \<Rightarrow> string \<Rightarrow> System \<Rightarrow> System option" where
  "mlacp_local_lif_clear_pending_mac c ifname s = do {
     csm \<leftarrow> csm_heap s c;
     foreach (\<lambda>m s. do {
       e \<leftarrow> mac_at c m s;
       if mac_pending_local_del e \<noteq> 0 \<and> mac_origin_ifname e = ifname then do {
         s \<leftarrow> chip_del c m s;
         if mac_fdb_type e \<noteq> MAC_TYPE_STATIC
         then do { s \<leftarrow> on_mac c m (mac_op_type_update (\<lambda>_. MAC_SYNC_DEL)) s; mac_unlink c m s }
         else on_mac c m (mac_pending_local_del_update (\<lambda>_. 0)) s }
       else Some s }) (mac_rb (MLACP csm)) s }"

section \<open>Addresses learned by the local switch\<close>

text \<open>The walk over the sessions for the port channel: it stops at a session whose peer link
  is the interface.\<close>

fun find_mclag_po :: "string \<Rightarrow> System \<Rightarrow> nat list \<Rightarrow> nat option option" where
  "find_mclag_po ifname s [] = Some None"
| "find_mclag_po ifname s (c # cs) = do {
     csm \<leftarrow> csm_heap s c;
     if ifname = peer_itf_name csm then Some None
     else do {
       po \<leftarrow> find_obj (lif_heap s) (\<lambda>l. lif_type l = IF_T_PORT_CHANNEL \<and> lif_name l = ifname)
               (mlacp_lif_list (MLACP csm));
       (case po of Some l \<Rightarrow> Some (Some l) | None \<Rightarrow> find_mclag_po ifname s cs) } }"

definition lif_state_at :: "nat \<Rightarrow> System \<Rightarrow> byte option" where
  "lif_state_at l s = map_option lif_state (lif_heap s l)"

text \<open>The address is known already.  The message built on the stack has no flag set, so that
  the test of its age flag always succeeds.\<close>

definition syncd_mac_known :: "nat \<Rightarrow> nat \<Rightarrow> MACMsg \<Rightarrow> bool \<Rightarrow> System \<Rightarrow> System option" where
  "syncd_mac_known c m msg redirect s = do {
     csm \<leftarrow> csm_heap s c;
     e \<leftarrow> mac_at c m s;
     if redirect then do {
       s \<leftarrow> on_mac c m (\<lambda>e. e\<lparr>mac_fdb_type := mac_fdb_type msg, mac_ifname := peer_itf_name csm,
                             mac_origin_ifname := mac_ifname msg, mac_pending_local_del := 1\<rparr>) s;
       chip_add c m (mac_fdb_type msg) s }
     else if mac_fdb_type e \<noteq> mac_fdb_type msg \<or> mac_ifname e \<noteq> mac_ifname msg \<or>
             mac_origin_ifname e \<noteq> mac_ifname msg
     then do {
       s \<leftarrow> on_mac c m (\<lambda>e. e\<lparr>mac_fdb_type := mac_fdb_type msg, mac_ifname := mac_ifname msg,
                             mac_origin_ifname := mac_ifname msg\<rparr>) s;
       s \<leftarrow> age_mac c False m s;
       if mac_age_flag msg AND MAC_AGE_PEER = 0
       then do {
         s \<leftarrow> on_mac c m (mac_age_flag_update (\<lambda>_. MAC_AGE_PEER)) s;
         Some (snd (del_mac_from_chip msg s)) }
       else Some s }
     else do {
       s \<leftarrow> age_mac c False m s;
       Some (if mac_age_flag msg AND MAC_AGE_PEER = 0 then snd (del_mac_from_chip msg s) else s) } }"

text \<open>The address is new.  What happens to the message on the stack after it was copied into
  the table does not reach the table.\<close>

definition syncd_mac_new :: "nat \<Rightarrow> MACMsg \<Rightarrow> bool \<Rightarrow> byte \<Rightarrow> byte option \<Rightarrow> System \<Rightarrow> System option" where
  "syncd_mac_new c msg from_mclag_intf st pif_st s = do {
     csm \<leftarrow> csm_heap s c;
     if from_mclag_intf \<and> st = PORT_STATE_DOWN \<and> pif_st = Some PORT_STATE_DOWN
     then Some (snd (del_mac_from_chip msg s))
     else do {
       let msg = msg\<lparr>mac_age_flag := mac_age_flag msg OR MAC_AGE_PEER, mac_op_type := MAC_SYNC_ADD\<rparr>;
       let (m, M) = iccp_csm_init_mac_msg msg (MLACP csm);
       let M = mac_rb_insert m M;
       if st = PORT_STATE_DOWN
       then (let s = set_csm c (MLACP_update (\<lambda>_. M) csm) s in
             Some (if from_mclag_intf \<and> pif_st = Some PORT_STATE_UP
                   then snd (add_mac_to_chip (msg\<lparr>mac_pending_local_del := 1, mac_ifname := peer_itf_name csm\<rparr>)
                               (mac_fdb_type msg) s)
                   else s))
       else (let M = (if mlacp_current_state M = MLACP_STATE_EXCHANGE
                      then M\<lparr>mac_msg_list := mac_msg_list M @ [m]\<rparr> else M)
             in Some (set_csm c (MLACP_update (\<lambda>_. M) csm) s)) } }"

text \<open>Both sides have aged the entry.\<close>

definition syncd_mac_drop :: "nat \<Rightarrow> nat \<Rightarrow> System \<Rightarrow> System option" where
  "syncd_mac_drop c m s = do {
     e \<leftarrow> mac_at c m s;
     s \<leftarrow> (if mac_add_to_syncd e \<noteq> 0 then chip_del c m s else Some s);
     mac_unlink c m s }"

definition syncd_mac_del :: "nat \<Rightarrow> nat \<Rightarrow> nat option \<Rightarrow> System \<Rightarrow> System option" where
  "syncd_mac_del c m lif_po s = do {
     csm \<leftarrow> csm_heap s c;
     e \<leftarrow> mac_at c m s;
     if mac_ifname e = peer_itf_name csm then
       (if mac_pending_local_del e \<noteq> 0 then Some s
        else do {
          s \<leftarrow> age_mac c True m s;
          e \<leftarrow> mac_at c m s;
          if mac_age_flag e = MAC_AGE_LOCAL OR MAC_AGE_PEER then syncd_mac_drop c m s
          else do {
            st \<leftarrow> peer_link_state c s;
            if st \<noteq> None \<and> st \<noteq> Some PORT_STATE_DOWN then chip_add c m (mac_fdb_type e) s else Some s } })
     else do {
       s \<leftarrow> age_mac c True m s;
       e \<leftarrow> mac_at c m s;
       if mac_age_flag e = MAC_AGE_LOCAL OR MAC_AGE_PEER then syncd_mac_drop c m s
       else do {
         po_st \<leftarrow> (case lif_po of None \<Rightarrow> Some None | Some l \<Rightarrow> map_option Some (lif_state_at l s));
         if po_st = Some PORT_STATE_DOWN then
           (if peer_itf_name csm \<noteq> [] then do {
              s \<leftarrow> on_mac c m (mac_ifname_update (\<lambda>_. peer_itf_name csm)) s;
              st \<leftarrow> peer_link_state c s;
              if st = Some PORT_STATE_UP then chip_add c m (mac_fdb_type e) s else Some s }
            else Some s)
         else do {
           mac_lif \<leftarrow> local_if_find_by_name (mac_ifname e) s;
           (case mac_lif of None \<Rightarrow> Some s
            | Some l \<Rightarrow> do {
                st \<leftarrow> lif_state_at l s;
                if st = PORT_STATE_UP then chip_add c m (mac_fdb_type e) s else Some s }) } } } }"

definition do_mac_update_from_syncd :: "bytes \<Rightarrow> 16 word \<Rightarrow> string \<Rightarrow> byte \<Rightarrow> byte \<Rightarrow> System \<Rightarrow> System option" where
  "do_mac_update_from_syncd addr v ifname fdb_type op_type s =
     (if addr = replicate 6 0 then Some s
      else do {
        let msg = \<lparr>mac_vid = v, mac_addr = addr, mac_op_type = op_type, mac_fdb_type = fdb_type,
                   mac_ifname = [], mac_origin_ifname = [], mac_age_flag = 0, mac_pending_local_del = 0,
                   mac_add_to_syncd = 0\<rparr>;
        lif_po \<leftarrow> find_mclag_po ifname s (csm_list s);
        let from_mclag_intf = (lif_po \<noteq> None);
        (case csm_list s of [] \<Rightarrow> Some s
         | c # _ \<Rightarrow> do {
             csm \<leftarrow> csm_heap s c;
             let pif = peer_if_find_by_name csm ifname;
             let pif_st = map_option pif_state pif;
             mac_info \<leftarrow> mac_rb_find v addr (MLACP csm);
             if op_type = MAC_SYNC_ADD then do {
               mac_lif \<leftarrow> local_if_find_by_name ifname s;
               (case mac_lif of None \<Rightarrow> Some s
                | Some l \<Rightarrow> do {
                    st \<leftarrow> lif_state_at l s;
                    let msg = msg\<lparr>mac_ifname := ifname, mac_origin_ifname := ifname\<rparr>;
                    if peer_itf_name csm = ifname then Some s
                    else (case mac_info of
                        Some m \<Rightarrow> syncd_mac_known c m msg
                                    (st = PORT_STATE_DOWN \<and> from_mclag_intf \<and> pif_st = Some PORT_STATE_UP) s
                      | None \<Rightarrow> syncd_mac_new c msg from_mclag_intf st pif_st s) }) }
             else (case mac_info of None \<Rightarrow> Some s | Some m \<Rightarrow> syncd_mac_del c m lif_po s) }) })"

section \<open>Addresses announced by the peer\<close>

text \<open>Point an entry to the peer link.  Whether the peer link is up does not change what is
  done.\<close>

definition mac_to_peer_link :: "nat \<Rightarrow> nat \<Rightarrow> System \<Rightarrow> System option" where
  "mac_to_peer_link c m s = do {
     csm \<leftarrow> csm_heap s c;
     e \<leftarrow> mac_at c m s;
     if mac_ifname e = peer_itf_name csm then Some s
     else do {
       st \<leftarrow> peer_link_state c s;
       s \<leftarrow> on_mac c m (mac_ifname_update (\<lambda>_. peer_itf_name csm)) s;
       chip_add c m (mac_fdb_type e) s } }"

text \<open>The address is known.  \<open>down\<close>: the address comes from an orphan port, or the local port
  channel is down.  Without a peer link an orphan address is dropped, and the log line
  behind the \<^verbatim>\<open>free\<close> reads the entry once more.\<close>

definition peer_mac_add :: "nat \<Rightarrow> nat \<Rightarrow> string \<Rightarrow> bool \<Rightarrow> bool \<Rightarrow> System \<Rightarrow> System option" where
  "peer_mac_add c m ifname from_mclag_intf down s = do {
     csm \<leftarrow> csm_heap s c;
     s \<leftarrow> on_mac c m (mac_age_flag_update (\<lambda>f. f AND NOT MAC_AGE_PEER)) s;
     e \<leftarrow> mac_at c m s;
     s \<leftarrow> (if from_mclag_intf \<and> mac_pending_local_del e \<noteq> 0
           then do {
             s \<leftarrow> on_mac c m (\<lambda>e. e\<lparr>mac_op_type := MAC_SYNC_DEL, mac_age_flag := MAC_AGE_LOCAL,
                                   mac_pending_local_del := 0\<rparr>) s;
             on_csm c (MLACP_update (enqueue_mac m)) s }
           else Some s);
     if mac_ifname e \<noteq> ifname \<or> mac_origin_ifname e \<noteq> ifname then
       (if mac_fdb_type e = MAC_TYPE_STATIC then on_mac c m (mac_age_flag_update (\<lambda>f. f OR MAC_AGE_PEER)) s
        else do {
          s \<leftarrow> on_mac c m (mac_origin_ifname_update (\<lambda>_. ifname)) s;
          if down then do {
            s \<leftarrow> age_mac c True m s;
            if peer_itf_name csm \<noteq> [] then mac_to_peer_link c m s
            else do {
              s \<leftarrow> chip_del c m s;
              s \<leftarrow> on_mac c m (mac_ifname_update (\<lambda>_. ifname)) s;
              if \<not> from_mclag_intf then do {
                s \<leftarrow> mac_unlink c m s;
                _ \<leftarrow> mac_at c m s;
                Some s }
              else Some s } }
          else do {
            s \<leftarrow> on_mac c m (mac_ifname_update (\<lambda>_. ifname)) s;
            chip_add c m (mac_fdb_type e) s } })
     else if \<not> from_mclag_intf \<and> peer_itf_name csm \<noteq> [] then mac_to_peer_link c m s
     else Some s }"

definition peer_mac_del :: "nat \<Rightarrow> nat \<Rightarrow> System \<Rightarrow> System option" where
  "peer_mac_del c m s = do {
     s \<leftarrow> on_mac c m (mac_age_flag_update (\<lambda>f. f OR MAC_AGE_PEER)) s;
     e \<leftarrow> mac_at c m s;
     if mac_age_flag e = MAC_AGE_LOCAL OR MAC_AGE_PEER
     then do { s \<leftarrow> chip_del c m s; mac_unlink c m s }
     else Some s }"

definition peer_mac_new :: "nat \<Rightarrow> mLACPMACData \<Rightarrow> string \<Rightarrow> nat option \<Rightarrow> bool \<Rightarrow> System \<Rightarrow> System option" where
  "peer_mac_new c d ifname local_if down s = do {
     csm \<leftarrow> csm_heap s c;
     let itf = peer_itf_name csm;
     let msg = \<lparr>mac_vid = ntohs (md_vid d), mac_addr = md_mac_addr d, mac_op_type = 0, mac_fdb_type = md_mac_type d,
                mac_ifname = ifname, mac_origin_ifname = ifname, mac_age_flag = local_age_flag True 0,
                mac_pending_local_del = 0, mac_add_to_syncd = 0\<rparr>;
     if down \<and> itf = [] \<and> local_if = None then Some s
     else do {
       let msg = (if down \<and> itf \<noteq> [] then msg\<lparr>mac_ifname := itf\<rparr> else msg);
       let (m, M) = iccp_csm_init_mac_msg msg (MLACP csm);
       let s = set_csm c (MLACP_update (\<lambda>_. mac_rb_insert m M) csm) s;
       if mac_ifname msg = itf then do {
         st \<leftarrow> peer_link_state c s;
         Some (if st = Some PORT_STATE_UP then snd (add_mac_to_chip msg (mac_fdb_type msg) s) else s) }
       else do {
         l \<leftarrow> local_if;
         st \<leftarrow> lif_state_at l s;
         Some (if st \<noteq> PORT_STATE_DOWN then snd (add_mac_to_chip msg (mac_fdb_type msg) s) else s) } } }"

definition mlacp_fsm_update_mac_entry_from_peer :: "nat \<Rightarrow> mLACPMACData \<Rightarrow> System \<Rightarrow> System option" where
  "mlacp_fsm_update_mac_entry_from_peer c d s = do {
     ifname \<leftarrow> cstr_at (md_ifname d);
     if md_mac_addr d = replicate 6 0 then Some s
     else do {
       csm \<leftarrow> csm_heap s c;
       local_if \<leftarrow> find_obj (lif_heap s) (\<lambda>l. lif_type l = IF_T_PORT_CHANNEL \<and> lif_name l = ifname)
                    (mlacp_lif_list (MLACP csm));
       mac_msg \<leftarrow> mac_rb_find (ntohs (md_vid d)) (md_mac_addr d) (MLACP csm);
       down \<leftarrow> (case local_if of None \<Rightarrow> Some True
                | Some l \<Rightarrow> map_option (\<lambda>st. st = PORT_STATE_DOWN) (lif_state_at l s));
       (case mac_msg of
          Some m \<Rightarrow> (if md_type d = MAC_SYNC_ADD then peer_mac_add c m ifname (local_if \<noteq> None) down s
                     else if md_type d = MAC_SYNC_DEL then peer_mac_del c m s
                     else Some s)
        | None \<Rightarrow> (if md_type d = MAC_SYNC_ADD then peer_mac_new c d ifname local_if down s else Some s)) } }"

text \<open>The entries behind the head of the TLV, each read where the count says it is.\<close>

definition mlacp_fsm_update_mac_info_from_peer :: "nat \<Rightarrow> bytes \<Rightarrow> System \<Rightarrow> System option" where
  "mlacp_fsm_update_mac_info_from_peer c tlv s = do {
     count \<leftarrow> peek get_u16 4 tlv;
     foreach (\<lambda>i s. do {
       d \<leftarrow> peek mLACPMACData_overlay (sizeof_mLACPMACInfoTLV + sizeof_mLACPMACData * i) tlv;
       mlacp_fsm_update_mac_entry_from_peer c d s }) [0..<unat (ntohs count)] s }"

end
