(* ===== verification/Mac_Invariant.thy ===== *)
theory Mac_Invariant
  imports Mac_Table
begin

unbundle bit_operations_syntax

text \<open>
  The invariant of the MAC table and its preservation: the tree holds live entries
  in the order of their keys, the queue holds live entries, and identifiers of new
  entries are fresh.  The lemmas are organised with the locale \<open>steady_state\<close>: an
  operation on one entry \<open>keeps\<close> the table when it returns and leaves everything
  but the contents of the entry and the queue alone.
\<close>

section \<open>Invariant\<close>

definition mac_key :: "mLACP \<Rightarrow> nat \<Rightarrow> 16 word \<times> bytes" where
  "mac_key M m = MACMsg_compare (the (mac_heap M m))"

definition mac_inv :: "mLACP \<Rightarrow> bool" where
  "mac_inv M \<longleftrightarrow> list_all (live (mac_heap M)) (mac_rb M) \<and> rb_sorted (mac_key M) (mac_rb M) \<and>
     list_all (live (mac_heap M)) (mac_msg_list M) \<and> distinct (mac_msg_list M) \<and>
     (\<forall>m \<in> dom (mac_heap M). m < mac_next M)"

lemma rb_sorted_distinct: "rb_sorted key t \<Longrightarrow> distinct t"
  unfolding rb_sorted_def by (induction t) auto

lemma mac_inv_ok: "mac_inv M \<Longrightarrow> mac_ok M"
  by (auto simp: mac_inv_def mac_ok_def dest: rb_sorted_distinct)

lemma rb_sorted_cong: "(\<And>m. m \<in> set t \<Longrightarrow> key m = key' m) \<Longrightarrow> rb_sorted key t = rb_sorted key' t"
  by (induction t) (auto simp: rb_sorted_def)

text \<open>The rest of a session and of the system.\<close>

definition qless :: "CSM \<Rightarrow> CSM" where
  "qless csm = MLACP_update (\<lambda>M. M\<lparr>mac_rb := [], mac_heap := Map.empty, mac_msg_list := [], mac_next := 0\<rparr>) csm"

definition mac_frame :: "nat \<Rightarrow> System \<Rightarrow> System \<Rightarrow> bool" where
  "mac_frame c s t \<longleftrightarrow> lif_heap t = lif_heap s \<and> csm_list t = csm_list s \<and> lif_list t = lif_list s \<and>
     clock t = clock s \<and> (\<forall>d. d \<noteq> c \<longrightarrow> csm_heap t d = csm_heap s d) \<and>
     map_option qless (csm_heap t c) = map_option qless (csm_heap s c)"

lemma mac_frame_refl [simp]: "mac_frame c s s"
  and mac_frame_trans: "mac_frame c s t \<Longrightarrow> mac_frame c t u \<Longrightarrow> mac_frame c s u"
  by (simp_all add: mac_frame_def)

definition table :: "nat \<Rightarrow> System \<Rightarrow> mLACP" where
  "table c s = MLACP (the (csm_heap s c))"

text \<open>No pointer dangles, the session exists and its table satisfies the invariant.\<close>

definition mac_ready :: "nat \<Rightarrow> System \<Rightarrow> bool" where
  "mac_ready c s \<longleftrightarrow> wf s \<and> csm_heap s c \<noteq> None \<and> mac_inv (table c s)"

definition has_mac :: "nat \<Rightarrow> nat \<Rightarrow> System \<Rightarrow> bool" where
  "has_mac c m s \<longleftrightarrow> mac_ready c s \<and> m \<in> set (mac_rb (table c s))"

definition keeps :: "nat \<Rightarrow> nat \<Rightarrow> System \<Rightarrow> System \<Rightarrow> bool" where
  "keeps c m s t \<longleftrightarrow> (has_mac c m s \<longrightarrow> has_mac c m t) \<and> mac_frame c s t \<and> mac_rb (table c t) = mac_rb (table c s) \<and>
     (\<forall>k. map_option MACMsg_compare (mac_heap (table c t) k) = map_option MACMsg_compare (mac_heap (table c s) k))"

interpretation tab: steady_state "has_mac c m" "keeps c m" for c m
  by unfold_locales (auto simp: keeps_def intro: mac_frame_trans)

lemma qlessD:
  assumes "qless csm' = qless csm"
  shows "peer_itf_name csm' = peer_itf_name csm" "peer_link_if csm' = peer_link_if csm"
    "mlacp_lif_list (MLACP csm') = mlacp_lif_list (MLACP csm)" "pif_list (MLACP csm') = pif_list (MLACP csm)"
    "mlacp_current_state (MLACP csm') = mlacp_current_state (MLACP csm)"
  using arg_cong [OF assms, of peer_itf_name] arg_cong [OF assms, of peer_link_if]
    arg_cong [OF assms, of "\<lambda>c. mlacp_lif_list (MLACP c)"] arg_cong [OF assms, of "\<lambda>c. pif_list (MLACP c)"]
    arg_cong [OF assms, of "\<lambda>c. mlacp_current_state (MLACP c)"]
  by (simp_all add: qless_def MLACP_update_def)

lemma frame_csm:
  assumes "mac_frame c s t" "csm_heap s c = Some csm"
  shows "\<exists>csm'. csm_heap t c = Some csm' \<and> qless csm' = qless csm"
  using assms by (auto simp: mac_frame_def)

lemma frame_peer_link:
  assumes "mac_frame c s t"
  shows "peer_link_state c t = peer_link_state c s" "lif_state_at l t = lif_state_at l s"
    "local_if_find_by_name nm t = local_if_find_by_name nm s"
proof -
  show "lif_state_at l t = lif_state_at l s" "local_if_find_by_name nm t = local_if_find_by_name nm s"
    using assms by (simp_all add: mac_frame_def lif_state_at_def local_if_find_by_name_def)
  show "peer_link_state c t = peer_link_state c s"
  proof (cases "csm_heap s c")
    case None
    then have "csm_heap t c = None" using assms by (simp add: mac_frame_def)
    with None show ?thesis by (simp add: peer_link_state_def)
  next
    case (Some csm)
    obtain csm' where csm': "csm_heap t c = Some csm'" "qless csm' = qless csm" using frame_csm [OF assms Some] by blast
    with Some show ?thesis using qlessD(2) [OF csm'(2)] assms
      by (cases "peer_link_if csm") (simp_all add: peer_link_state_def mac_frame_def)
  qed
qed

lemma frame_wf:
  assumes "mac_frame c s t" "wf s"
  shows "wf t"
proof -
  have l: "live (csm_heap t) = live (csm_heap s)" "live_opt (csm_heap t) = live_opt (csm_heap s)" "lif_heap t = lif_heap s"
    and d: "dom (csm_heap t) = dom (csm_heap s)"
  proof -
    have "csm_heap t d = None \<longleftrightarrow> csm_heap s d = None" for d
      using assms(1) unfolding mac_frame_def by (metis option.map_disc_iff)
    then show "live (csm_heap t) = live (csm_heap s)" "dom (csm_heap t) = dom (csm_heap s)"
      by (simp_all add: live_def fun_eq_iff dom_def del: not_None_eq)
    then show "live_opt (csm_heap t) = live_opt (csm_heap s)" by (simp add: live_opt_def [abs_def])
    show "lif_heap t = lif_heap s" using assms(1) by (simp add: mac_frame_def)
  qed
  have "wf_csm t (the (csm_heap t x))" if x: "x \<in> dom (csm_heap s)" for x
  proof (cases "x = c")
    case True
    then obtain csm where csm: "csm_heap s c = Some csm" using x by auto
    obtain csm' where csm': "csm_heap t c = Some csm'" "qless csm' = qless csm" using frame_csm [OF assms(1) csm] by blast
    show ?thesis
      using wf_csmD [OF assms(2) csm] qlessD(2,3) [OF csm'(2)] csm'(1) True by (simp add: wf_csm_def l(3))
  next
    case False
    then have "csm_heap t x = csm_heap s x" using assms(1) by (simp add: mac_frame_def)
    then show ?thesis using assms(2) x by (auto simp: wf_def wf_csm_def l(3))
  qed
  moreover have "wf_lif t y = wf_lif s y" for y by (simp add: wf_lif_def l)
  ultimately show ?thesis using assms by (simp add: wf_def l d mac_frame_def)
qed

lemma wf_peer_link: "wf s \<Longrightarrow> csm_heap s c \<noteq> None \<Longrightarrow> peer_link_state c s \<noteq> None"
  by (auto simp: peer_link_state_def wf_csm_def live_opt_def live_def dest!: wf_csmD split: option.splits)

section \<open>Operations on one entry\<close>

lemma chip_output [simp]:
  "lif_heap (snd (add_mac_to_chip e t s)) = lif_heap s" "lif_heap (snd (del_mac_from_chip e s)) = lif_heap s"
  "csm_list (snd (add_mac_to_chip e t s)) = csm_list s" "csm_list (snd (del_mac_from_chip e s)) = csm_list s"
  "lif_list (snd (add_mac_to_chip e t s)) = lif_list s" "lif_list (snd (del_mac_from_chip e s)) = lif_list s"
  "clock (snd (add_mac_to_chip e t s)) = clock s" "clock (snd (del_mac_from_chip e s)) = clock s"
  by (auto simp: add_mac_to_chip_def del_mac_from_chip_def iccp_send_fdb_entry_to_syncd_def Let_def
      iccp_send_to_mclagsyncd_def SYSTEM_SET_SYNCD_TX_DBG_COUNTER_def split: prod.splits)

lemma frame_chip [simp]:
  "mac_frame c s (snd (add_mac_to_chip e t s))" "mac_frame c s (snd (del_mac_from_chip e s))"
  by (simp_all add: mac_frame_def)

lemma table_chip [simp]:
  "table c (snd (add_mac_to_chip e t s)) = table c s" "table c (snd (del_mac_from_chip e s)) = table c s"
  by (simp_all add: table_def)

lemma has_mac_entry: "has_mac c m s \<Longrightarrow> \<exists>csm e. csm_heap s c = Some csm \<and> mac_heap (MLACP csm) m = Some e \<and> mac_at c m s = Some e"
  by (auto simp: has_mac_def mac_ready_def mac_inv_def list_all_iff live_def table_def mac_at_def)

text \<open>Writing an entry without touching its key.\<close>

lemma write_mac_inv:
  assumes "mac_inv M" "mac_heap M m = Some e" "MACMsg_compare e' = MACMsg_compare e"
  shows "mac_inv (write_mac m e' M)"
proof -
  have "rb_sorted (mac_key (write_mac m e' M)) (mac_rb M) = rb_sorted (mac_key M) (mac_rb M)"
    by (rule rb_sorted_cong) (use assms(2,3) in \<open>simp add: mac_key_def write_mac_def\<close>)
  then show ?thesis using assms(1,2) by (auto simp: mac_inv_def write_mac_def list_all_iff live_def)
qed

lemma qless_write [simp]:
  "qless (MLACP_update (write_mac m e) csm) = qless csm" "qless (MLACP_update (enqueue_mac m) csm) = qless csm"
  "qless (MLACP_update (unlink_mac m) csm) = qless csm"
  by (simp_all add: qless_def MLACP_update_def write_mac_def enqueue_mac_def unlink_mac_def)

lemma frame_set_csm:
  assumes "csm_heap s c = Some csm" "qless csm' = qless csm"
  shows "mac_frame c s (set_csm c csm' s)"
  using assms by (simp add: mac_frame_def set_csm_def)

lemma table_set_csm [simp]: "table c (set_csm c csm s) = MLACP csm" "csm_heap (set_csm c csm s) c = Some csm"
  by (simp_all add: table_def set_csm_def)

lemma keeps_write:
  assumes "mac_frame c s t" "csm_heap t = csm_heap s" "mac_at c m s = Some e" "MACMsg_compare e' = MACMsg_compare e"
  shows "\<exists>u. on_csm c (MLACP_update (write_mac m e')) t = Some u \<and> keeps c m s u \<and> mac_at c m u = Some e'"
proof -
  obtain csm where csm: "csm_heap s c = Some csm" "mac_heap (MLACP csm) m = Some e"
    using assms(3) by (auto simp: mac_at_def split: Option.bind_splits)
  let ?u = "set_csm c (MLACP_update (write_mac m e') csm) t"
  have u: "mac_frame c s ?u"
    using mac_frame_trans [OF assms(1) frame_set_csm [of t c csm]] csm(1) assms(2) by simp
  have "has_mac c m s \<longrightarrow> has_mac c m ?u"
    using write_mac_inv [OF _ csm(2) assms(4)] csm(1) frame_wf [OF u]
    by (auto simp: has_mac_def mac_ready_def table_def write_mac_def)
  then have "keeps c m s ?u"
    using u csm assms(4) by (auto simp: keeps_def) (auto simp: table_def write_mac_def)
  then show ?thesis using csm(1) assms(2) by (auto simp: on_csm_def mac_at_def write_mac_def)
qed

lemma steady_on_mac:
  assumes "has_mac c m s" "\<And>e. MACMsg_compare (f e) = MACMsg_compare e"
  shows "steady (keeps c m) (on_mac c m f) s"
proof -
  obtain csm e where e: "csm_heap s c = Some csm" "mac_at c m s = Some e" using has_mac_entry [OF assms(1)] by blast
  then show ?thesis
    using keeps_write [OF mac_frame_refl refl e(2) assms(2)] by (auto simp: steady_def on_mac_def)
qed

lemma chip_key [simp]:
  "MACMsg_compare (fst (add_mac_to_chip e t s)) = MACMsg_compare e"
  "MACMsg_compare (fst (del_mac_from_chip e s)) = MACMsg_compare e"
  by (simp_all add: MACMsg_compare_def add_mac_to_chip_def del_mac_from_chip_def iccp_send_fdb_entry_to_syncd_def Let_def)

lemma steady_chip:
  assumes "has_mac c m s"
  shows "steady (keeps c m) (chip_add c m t) s" "steady (keeps c m) (chip_del c m) s"
proof -
  obtain csm e where e: "csm_heap s c = Some csm" "mac_at c m s = Some e" using has_mac_entry [OF assms] by blast
  have "\<exists>u. on_csm c (MLACP_update (write_mac m (fst (add_mac_to_chip e t s)))) (snd (add_mac_to_chip e t s)) = Some u \<and>
      keeps c m s u"
    using keeps_write [OF frame_chip(1) csm_heap_output(1) e(2) chip_key(1)] by blast
  then show "steady (keeps c m) (chip_add c m t) s"
    using e by (simp add: steady_def chip_add_def case_prod_beta)
  have "\<exists>u. on_csm c (MLACP_update (write_mac m (fst (del_mac_from_chip e s)))) (snd (del_mac_from_chip e s)) = Some u \<and>
      keeps c m s u"
    using keeps_write [OF frame_chip(2) csm_heap_output(2) e(2) chip_key(2)] by blast
  then show "steady (keeps c m) (chip_del c m) s"
    using e by (simp add: steady_def chip_del_def case_prod_beta)
qed

lemma steady_enqueue:
  assumes "has_mac c m s"
  shows "steady (keeps c m) (on_csm c (MLACP_update (enqueue_mac m))) s"
proof -
  obtain csm e where e: "csm_heap s c = Some csm" "mac_heap (MLACP csm) m = Some e" using has_mac_entry [OF assms] by blast
  let ?u = "set_csm c (MLACP_update (enqueue_mac m) csm) s"
  have "mac_inv (MLACP csm) \<Longrightarrow> mac_inv (enqueue_mac m (MLACP csm))"
    using e(2) by (auto simp: mac_inv_def enqueue_mac_def list_all_iff live_def mac_key_def [abs_def])
  then have "keeps c m s ?u"
    using frame_set_csm [OF e(1), of "MLACP_update (enqueue_mac m) csm"] e
      frame_wf [OF frame_set_csm [OF e(1), of "MLACP_update (enqueue_mac m) csm"]]
    by (auto simp: keeps_def has_mac_def mac_ready_def) (auto simp: table_def enqueue_mac_def)
  then show ?thesis using e(1) by (simp add: steady_def on_csm_def)
qed

lemma MLACP_update_const: "MLACP_update (\<lambda>_. f (MLACP csm)) csm = MLACP_update f csm"
  by (cases csm; cases "app_csm csm") (simp add: MLACP_update_def)

lemma MLACP_update_comp: "MLACP_update f (MLACP_update g csm) = MLACP_update (\<lambda>M. f (g M)) csm"
  and set_csm_twice: "set_csm c x (set_csm c y s) = set_csm c x s"
  by (simp_all add: MLACP_update_def set_csm_def comp_def)

lemma keeps_trans: "keeps c m s t \<Longrightarrow> keeps c m t u \<Longrightarrow> keeps c m s u"
  by (rule tab.eqv_trans)

lemma steady_age:
  assumes "has_mac c m s"
  shows "steady (keeps c m) (age_mac c flag m) s"
proof -
  obtain csm e where e: "csm_heap s c = Some csm" "mac_heap (MLACP csm) m = Some e" "mac_at c m s = Some e"
    using has_mac_entry [OF assms] by blast
  obtain f M where r: "set_mac_local_age_flag flag True m (MLACP csm) = Some (f, M)"
    using e(2) that by (cases "set_mac_local_age_flag flag True m (MLACP csm)") (auto simp: set_mac_local_age_flag_def)
  let ?op = "e\<lparr>mac_op_type := (if flag then MAC_SYNC_DEL else MAC_SYNC_ADD)\<rparr>"
  have "M = MLACP csm \<or> M = enqueue_mac m (write_mac m ?op (MLACP csm))"
    using r e(2) by (auto simp: set_mac_local_age_flag_def Let_def split: if_splits)
  then have k: "keeps c m s (set_csm c (MLACP_update (\<lambda>_. M) csm) s)"
  proof
    assume "M = MLACP csm"
    then have "set_csm c (MLACP_update (\<lambda>_. M) csm) s = s"
      using e(1) MLACP_update_const [of "\<lambda>M. M" csm] by (simp add: set_csm_def MLACP_update_def map_upd_triv)
    then show ?thesis by (simp add: tab.eqv_refl)
  next
    assume M: "M = enqueue_mac m (write_mac m ?op (MLACP csm))"
    obtain t where t: "on_csm c (MLACP_update (write_mac m ?op)) s = Some t" "keeps c m s t"
      using keeps_write [OF mac_frame_refl refl e(3), of ?op] by (auto simp: MACMsg_compare_def)
    have t': "t = set_csm c (MLACP_update (write_mac m ?op) csm) s" using t(1) e(1) by (simp add: on_csm_def)
    obtain u where u: "on_csm c (MLACP_update (enqueue_mac m)) t = Some u" "keeps c m t u"
      using steady_enqueue [OF tab.valid_eqv [OF assms t(2)]] by (auto simp: steady_def)
    have "u = set_csm c (MLACP_update (\<lambda>_. M) csm) s"
      using u(1) MLACP_update_const [of "\<lambda>M. enqueue_mac m (write_mac m ?op M)" csm]
      unfolding t' M on_csm_def by (simp add: set_csm_twice MLACP_update_comp)
    then show ?thesis using keeps_trans [OF t(2) u(2)] by simp
  qed
  have "steady (keeps c m) (on_mac c m (mac_age_flag_update (\<lambda>_. f))) (set_csm c (MLACP_update (\<lambda>_. M) csm) s)"
    by (rule steady_on_mac [OF tab.valid_eqv [OF assms k]]) (simp add: MACMsg_compare_def)
  then show ?thesis using keeps_trans [OF k] e(1) r by (auto simp: steady_def age_mac_def)
qed

text \<open>An entry may also leave the tree.\<close>

definition touched :: "nat \<Rightarrow> nat \<Rightarrow> System \<Rightarrow> System \<Rightarrow> bool" where
  "touched c m s t \<longleftrightarrow> mac_ready c t \<and> mac_frame c s t \<and>
     mac_rb (table c t) \<in> {mac_rb (table c s), remove1 m (mac_rb (table c s))} \<and>
     (\<forall>k \<in> set (mac_rb (table c t)). mac_key (table c t) k = mac_key (table c s) k)"

lemma keeps_touched: "has_mac c m s \<Longrightarrow> keeps c m s t \<Longrightarrow> touched c m s t"
  by (auto simp: keeps_def touched_def has_mac_def mac_ready_def mac_key_def mac_inv_def list_all_iff live_def)
    (metis option.sel option.simps(9))

lemma keeps_touched_trans:
  assumes "has_mac c m s" "keeps c m s t" "touched c m t u"
  shows "touched c m s u"
proof -
  have "mac_frame c s u" using assms(2,3) by (auto simp: keeps_def touched_def intro: mac_frame_trans)
  moreover have "mac_key (table c u) k = mac_key (table c s) k" if "k \<in> set (mac_rb (table c u))" for k
  proof -
    have "k \<in> set (mac_rb (table c t))" using that assms(3) by (auto simp: touched_def dest: set_remove1_subset [THEN subsetD])
    then have "mac_key (table c t) k = mac_key (table c s) k"
      using keeps_touched [OF assms(1,2)] by (simp add: touched_def)
    then show ?thesis using that assms(3) by (simp add: touched_def)
  qed
  ultimately show ?thesis using assms(2,3) by (simp add: touched_def keeps_def)
qed

lemma rb_sorted_remove1: "rb_sorted key t \<Longrightarrow> rb_sorted key (remove1 m t)"
  unfolding rb_sorted_def by (induction t) (auto dest: notin_set_remove1)

lemma unlink_touched:
  assumes "has_mac c m s"
  shows "steady (touched c m) (mac_unlink c m) s"
proof -
  obtain csm e where e: "csm_heap s c = Some csm" "mac_heap (MLACP csm) m = Some e" "mac_at c m s = Some e"
    using has_mac_entry [OF assms] by blast
  let ?M = "MLACP csm" and ?u = "set_csm c (MLACP_update (unlink_mac m) csm) s"
  have inv: "mac_inv ?M" "wf s"
    using assms e(1) by (simp_all add: has_mac_def mac_ready_def table_def)
  then have d: "distinct (mac_rb ?M)" by (auto simp: mac_inv_def dest: rb_sorted_distinct)
  have key: "k \<in> set (remove1 m (mac_rb ?M)) \<Longrightarrow> mac_key (unlink_mac m ?M) k = mac_key ?M k" for k
    using d by (auto simp: mac_key_def unlink_mac_def)
  have "rb_sorted (mac_key (unlink_mac m ?M)) (remove1 m (mac_rb ?M))"
    using rb_sorted_remove1 [of "mac_key ?M" "mac_rb ?M" m] inv
      rb_sorted_cong [of "remove1 m (mac_rb ?M)" "mac_key (unlink_mac m ?M)" "mac_key ?M", OF key] by (simp add: mac_inv_def)
  then have "mac_inv (unlink_mac m ?M)"
    using inv d by (auto simp: mac_inv_def unlink_mac_def list_all_iff live_def split: if_splits)
  then have "touched c m s ?u"
    using frame_set_csm [OF e(1), of "MLACP_update (unlink_mac m) csm"] e(1) key inv(2)
      frame_wf [OF frame_set_csm [OF e(1), of "MLACP_update (unlink_mac m) csm"]]
    by (simp add: touched_def mac_ready_def) (simp add: table_def unlink_mac_def)
  then show ?thesis using e by (simp add: steady_def mac_unlink_def on_csm_def)
qed

text \<open>The walk over the tree.\<close>

definition table_kept :: "nat \<Rightarrow> System \<Rightarrow> System \<Rightarrow> bool" where
  "table_kept c s t \<longleftrightarrow> mac_ready c t \<and> mac_frame c s t \<and>
     set (mac_rb (table c t)) \<subseteq> set (mac_rb (table c s)) \<and>
     (\<forall>k \<in> set (mac_rb (table c t)). mac_key (table c t) k = mac_key (table c s) k)"

lemma touched_kept: "touched c m s t \<Longrightarrow> table_kept c s t"
  by (auto simp: touched_def table_kept_def dest: set_remove1_subset [THEN subsetD])

lemma table_kept_trans: "table_kept c s t \<Longrightarrow> table_kept c t u \<Longrightarrow> table_kept c s u"
  by (auto simp: table_kept_def intro: mac_frame_trans)

lemma foreach_touched:
  assumes "mac_ready c s" "distinct xs" "set xs \<subseteq> set (mac_rb (table c s))"
    and step: "\<And>x t. x \<in> set xs \<Longrightarrow> has_mac c x t \<Longrightarrow> mac_frame c s t \<Longrightarrow> steady (touched c x) (f x) t"
  shows "\<exists>t. foreach f xs s = Some t \<and> table_kept c s t"
  using assms
proof (induction xs arbitrary: s)
  case Nil
  then show ?case by (simp add: table_kept_def)
next
  case (Cons x xs)
  have "has_mac c x s" using Cons.prems(1,3) by (simp add: has_mac_def)
  then obtain t where t: "f x s = Some t" "touched c x s t" using Cons.prems(4) by (fastforce simp: steady_def)
  have "distinct (mac_rb (table c s))" using Cons.prems(1) by (auto simp: mac_ready_def mac_inv_def dest: rb_sorted_distinct)
  then have "set xs \<subseteq> set (mac_rb (table c t))" using t(2) Cons.prems(2,3) by (auto simp: touched_def)
  moreover have "steady (touched c y) (f y) u" if "y \<in> set xs" "has_mac c y u" "mac_frame c t u" for y u
  proof -
    have "mac_frame c s u" using t(2) that(3) by (auto simp: touched_def intro: mac_frame_trans)
    then show ?thesis using Cons.prems(4) that(1,2) by simp
  qed
  ultimately obtain u where u: "foreach f xs t = Some u" "table_kept c t u"
    using Cons.IH [of t] t(2) Cons.prems(2) unfolding touched_def by auto
  then show ?case using t table_kept_trans [OF touched_kept [OF t(2)] u(2)] by simp
qed

section \<open>Sequences of operations\<close>

definition yields :: "(System \<Rightarrow> System \<Rightarrow> bool) \<Rightarrow> System \<Rightarrow> System option \<Rightarrow> bool" where
  "yields R s r \<longleftrightarrow> (\<exists>t. r = Some t \<and> R s t)"

lemma yields_steady: "yields R s (f s) = steady R f s"
  by (simp add: yields_def steady_def)

lemmas yields_ops = steady_on_mac [folded yields_steady] steady_chip [folded yields_steady]
  steady_enqueue [folded yields_steady] steady_age [folded yields_steady]

lemma yields_skip: "yields (keeps c m) s (Some s)"
  by (simp add: yields_def tab.eqv_refl)

lemma yields_bind:
  assumes "has_mac c m s" "yields (keeps c m) s r"
    "\<And>t. keeps c m s t \<Longrightarrow> has_mac c m t \<Longrightarrow> yields (keeps c m) t (g t)"
  shows "yields (keeps c m) s (Option.bind r g)"
  using assms tab.valid_eqv keeps_trans unfolding yields_def by (metis Option.bind.simps(2))

lemma yields_touched: "has_mac c m s \<Longrightarrow> yields (keeps c m) s r \<Longrightarrow> yields (touched c m) s r"
  unfolding yields_def using keeps_touched by blast

lemma yields_touched_bind:
  assumes "has_mac c m s" "yields (keeps c m) s r"
    "\<And>t. keeps c m s t \<Longrightarrow> has_mac c m t \<Longrightarrow> yields (touched c m) t (g t)"
  shows "yields (touched c m) s (Option.bind r g)"
  using assms tab.valid_eqv keeps_touched_trans unfolding yields_def by (metis Option.bind.simps(2))

lemma yields_unlink: "has_mac c m s \<Longrightarrow> yields (touched c m) s (mac_unlink c m s)"
  unfolding yields_steady by (rule unlink_touched)

text \<open>Reading the entry, the session or the state of the peer link on the way.\<close>

lemma yields_mac_at:
  assumes "has_mac c m s" "\<And>e. mac_at c m s = Some e \<Longrightarrow> yields R s (g e)"
  shows "yields R s (Option.bind (mac_at c m s) g)"
  using has_mac_entry [OF assms(1)] assms(2) by auto

lemma yields_csm:
  assumes "has_mac c m s" "\<And>csm. csm_heap s c = Some csm \<Longrightarrow> yields R s (g csm)"
  shows "yields R s (Option.bind (csm_heap s c) g)"
  using has_mac_entry [OF assms(1)] assms(2) by auto

lemma yields_peer_link:
  assumes "has_mac c m s" "\<And>st. yields R s (g st)"
  shows "yields R s (Option.bind (peer_link_state c s) g)"
  using assms wf_peer_link [of s c] by (auto simp: has_mac_def mac_ready_def)

lemma yields_if: "(P \<Longrightarrow> yields R s a) \<Longrightarrow> (\<not> P \<Longrightarrow> yields R s b) \<Longrightarrow> yields R s (if P then a else b)"
  by simp

lemma key_updates [simp]:
  "MACMsg_compare (e\<lparr>mac_ifname := x\<rparr>) = MACMsg_compare e"
  "MACMsg_compare (e\<lparr>mac_origin_ifname := x\<rparr>) = MACMsg_compare e"
  "MACMsg_compare (e\<lparr>mac_fdb_type := f\<rparr>) = MACMsg_compare e"
  "MACMsg_compare (e\<lparr>mac_op_type := f\<rparr>) = MACMsg_compare e"
  "MACMsg_compare (mac_age_flag_update g e) = MACMsg_compare e"
  "MACMsg_compare (e\<lparr>mac_pending_local_del := f\<rparr>) = MACMsg_compare e"
  by (simp_all add: MACMsg_compare_def)

lemmas yields_reads = yields_if yields_csm yields_mac_at yields_peer_link
lemmas yields_keeps = yields_skip yields_ops yields_bind

lemma l2_detach_keeps: "has_mac c m s \<Longrightarrow> yields (keeps c m) s (l2_detach c m s)"
  unfolding l2_detach_def by (rule yields_reads yields_keeps | assumption | simp)+

lemma l2_redirect_keeps: "has_mac c m s \<Longrightarrow> yields (keeps c m) s (l2_redirect c m s)"
  unfolding l2_redirect_def by (rule yields_reads l2_detach_keeps yields_keeps | assumption | simp)+

lemma l2_mac_down_touched: "has_mac c m s \<Longrightarrow> yields (touched c m) s (l2_mac_down c pif_up m s)"
  unfolding l2_mac_down_def Let_def
  by (rule yields_reads yields_unlink yields_touched_bind l2_detach_keeps l2_redirect_keeps yields_keeps yields_touched
      | assumption | simp)+

lemma l2_mac_up_touched: "has_mac c m s \<Longrightarrow> yields (touched c m) s (l2_mac_up c m s)"
  unfolding l2_mac_up_def Let_def
  by (rule yields_reads yields_unlink yields_touched_bind yields_keeps yields_touched | assumption | simp)+

lemma yields_chip_msg:
  "yields (keeps c m) s (Some (snd (del_mac_from_chip msg s)))" "yields (keeps c m) s (Some (snd (add_mac_to_chip msg t s)))"
  using frame_wf [OF frame_chip(1)] frame_wf [OF frame_chip(2)]
  by (auto simp: yields_def keeps_def has_mac_def mac_ready_def)

lemma yields_chip_if:
  "yields (keeps c m) s (Some (if P then snd (del_mac_from_chip msg s) else s))"
  using yields_chip_msg(1) yields_skip by simp

lemma syncd_mac_known_keeps: "has_mac c m s \<Longrightarrow> yields (keeps c m) s (syncd_mac_known c m msg redirect s)"
  unfolding syncd_mac_known_def Let_def
  by (rule yields_reads yields_chip_msg yields_chip_if yields_keeps | assumption | simp)+

lemma syncd_mac_drop_touched: "has_mac c m s \<Longrightarrow> yields (touched c m) s (syncd_mac_drop c m s)"
  unfolding syncd_mac_drop_def
  by (rule yields_reads yields_unlink yields_touched_bind yields_keeps | assumption | simp)+

lemma find_obj_wf:
  assumes "list_all (live h) xs"
  shows "\<exists>r. find_obj h P xs = Some r \<and> (\<forall>x. r = Some x \<longrightarrow> live h x)"
  using assms by (induction xs) (auto simp: live_def)

lemma yields_lif_name:
  assumes "has_mac c m s" "\<And>r. (\<forall>l. r = Some l \<longrightarrow> live (lif_heap s) l) \<Longrightarrow> yields R s (g r)"
  shows "yields R s (Option.bind (local_if_find_by_name nm s) g)"
proof -
  have "list_all (live (lif_heap s)) (lif_list s)" using assms(1) by (simp add: has_mac_def mac_ready_def wf_def)
  from find_obj_wf [OF this] obtain r where "local_if_find_by_name nm s = Some r" "\<forall>l. r = Some l \<longrightarrow> live (lif_heap s) l"
    unfolding local_if_find_by_name_def by blast
  then show ?thesis using assms(2) by simp
qed

lemma yields_lif_state:
  assumes "live (lif_heap s) l" "\<And>st. yields R s (g st)"
  shows "yields R s (Option.bind (lif_state_at l s) g)"
  using assms by (auto simp: lif_state_at_def live_def)

lemma yields_po_state:
  assumes "\<And>l. po = Some l \<Longrightarrow> live (lif_heap s) l" "\<And>st. yields R s (g st)"
  shows "yields R s (Option.bind (case po of None \<Rightarrow> Some None | Some l \<Rightarrow> map_option Some (lif_state_at l s)) g)"
  using assms by (cases po) (auto simp: lif_state_at_def live_def)

lemma yields_option:
  "(x = None \<Longrightarrow> yields R s a) \<Longrightarrow> (\<And>y. x = Some y \<Longrightarrow> yields R s (b y)) \<Longrightarrow>
   yields R s (case x of None \<Rightarrow> a | Some y \<Rightarrow> b y)"
  by (cases x) simp_all

lemma keeps_lif_live: "keeps c m s t \<Longrightarrow> live (lif_heap t) l = live (lif_heap s) l"
  by (simp add: keeps_def mac_frame_def)

lemma syncd_mac_del_touched:
  assumes "has_mac c m s" "\<And>l. po = Some l \<Longrightarrow> live (lif_heap s) l"
  shows "yields (touched c m) s (syncd_mac_del c m po s)"
  unfolding syncd_mac_del_def
  by (insert assms, (rule yields_reads yields_po_state yields_lif_name yields_lif_state syncd_mac_drop_touched yields_option
      yields_touched_bind yields_keeps yields_touched | assumption | simp add: keeps_lif_live)+)

end
