(* ===== verification/Mac_Ops.thy ===== *)
theory Mac_Ops
  imports Mac_Invariant
begin

unbundle bit_operations_syntax

text \<open>
  The operations on the MAC table: each returns and keeps the invariant, an address the
  peer announces is found in the table afterwards, and an entry leaves the table exactly
  when both switches have aged it.
\<close>

section \<open>Looking up and inserting\<close>

lemma mac_rb_find_sorted:
  assumes "mac_inv M"
  shows "mac_rb_find v a M = Some (rb_find (mac_key M) (v, a) (mac_rb M))"
proof -
  have "list_all (\<lambda>m. mac_heap M m \<noteq> None) (mac_rb M)" using assms by (simp add: mac_inv_def list_all_iff live_def)
  moreover have "map_option MACMsg_compare (mac_heap M m) = Some (v, a) \<longleftrightarrow> mac_key M m = (v, a)" if "m \<in> set (mac_rb M)" for m
    using calculation that by (auto simp: list_all_iff mac_key_def)
  then have "find (\<lambda>m. map_option MACMsg_compare (mac_heap M m) = Some (v, a)) (mac_rb M) = find (\<lambda>m. mac_key M m = (v, a)) (mac_rb M)"
    by (rule find_cong [OF refl])
  ultimately show ?thesis by (simp add: mac_rb_find_def rb_find_def)
qed

lemma mac_rb_find_Some:
  assumes "mac_inv M" "mac_rb_find v a M = Some (Some m)"
  shows "m \<in> set (mac_rb M)" "\<exists>e. mac_heap M m = Some e \<and> mac_vid e = v \<and> mac_addr e = a"
proof -
  have s: "rb_sorted (mac_key M) (mac_rb M)" using assms(1) by (simp add: mac_inv_def)
  then have "m \<in> set (mac_rb M)" "mac_key M m = (v, a)"
    using assms by (simp_all add: mac_rb_find_sorted rb.lookup_Some)
  then show "m \<in> set (mac_rb M)" "\<exists>e. mac_heap M m = Some e \<and> mac_vid e = v \<and> mac_addr e = a"
    using assms(1) by (auto simp: mac_inv_def list_all_iff live_def mac_key_def MACMsg_compare_def)
qed

definition mac_insert :: "MACMsg \<Rightarrow> mLACP \<Rightarrow> mLACP" where
  "mac_insert e M = mac_rb_insert (mac_next M) (snd (iccp_csm_init_mac_msg e M))"

lemma mac_insert_fields [simp]:
  "mac_heap (mac_insert e M) = (mac_heap M)(mac_next M \<mapsto> e)" "mac_next (mac_insert e M) = mac_next M + 1"
  "mac_msg_list (mac_insert e M) = mac_msg_list M" "mlacp_current_state (mac_insert e M) = mlacp_current_state M"
  by (simp_all add: mac_insert_def mac_rb_insert_def iccp_csm_init_mac_msg_def)

lemma mac_inv_fresh: "mac_inv M \<Longrightarrow> mac_heap M (mac_next M) = None"
  by (auto simp: mac_inv_def dom_def)

lemma mac_insert_rb:
  assumes "mac_inv M" "mac_rb_find (mac_vid e) (mac_addr e) M = Some None"
  shows "set (mac_rb (mac_insert e M)) = insert (mac_next M) (set (mac_rb M))"
    "rb_sorted (mac_key (mac_insert e M)) (mac_rb (mac_insert e M))"
proof -
  let ?key = "mac_key (mac_insert e M)" and ?m = "mac_next M"
  have rb: "mac_rb (mac_insert e M) = rb_insert ?key ?m (mac_rb M)"
    by (simp add: mac_insert_def mac_rb_insert_def iccp_csm_init_mac_msg_def mac_key_def [abs_def])
  have "m \<noteq> ?m" if "m \<in> set (mac_rb M)" for m
    using that assms(1) mac_inv_fresh [OF assms(1)] by (auto simp: mac_inv_def list_all_iff live_def)
  then have same: "?key m = mac_key M m" if "m \<in> set (mac_rb M)" for m using that by (auto simp: mac_key_def)
  have sorted: "rb_sorted ?key (mac_rb M)"
    using assms(1) rb_sorted_cong [of "mac_rb M" ?key "mac_key M", OF same] by (simp add: mac_inv_def)
  have "?key ?m = (mac_vid e, mac_addr e)" by (simp add: mac_key_def MACMsg_compare_def)
  moreover have "(mac_vid e, mac_addr e) \<notin> mac_key M ` set (mac_rb M)"
    using assms rb.lookup_None [of "mac_key M" "mac_rb M"] by (simp add: mac_rb_find_sorted mac_inv_def)
  ultimately have "rb_find ?key (?key ?m) (mac_rb M) = None"
    using rb.lookup_None [OF sorted] same by (auto simp: image_iff)
  then show "set (mac_rb (mac_insert e M)) = insert ?m (set (mac_rb M))"
    "rb_sorted ?key (mac_rb (mac_insert e M))"
    unfolding rb using rb.nodes_insert [OF sorted, of ?m] rb.ok_insert [OF sorted] by simp_all
qed

lemma mac_insert_inv:
  assumes "mac_inv M" "mac_rb_find (mac_vid e) (mac_addr e) M = Some None"
  shows "mac_inv (mac_insert e M)"
  using assms mac_insert_rb [OF assms]
  by (auto simp: mac_inv_def list_all_iff live_def less_Suc_eq)

lemma mac_insert_queued:
  assumes "mac_inv (mac_insert e M)" "mac_inv M"
  shows "mac_inv (mac_insert e M\<lparr>mac_msg_list := mac_msg_list M @ [mac_next M]\<rparr>)"
  using assms mac_inv_fresh [OF assms(2)]
  by (auto simp: mac_inv_def list_all_iff live_def mac_key_def [abs_def])

lemma mac_insert_find:
  assumes "mac_inv M" "mac_rb_find (mac_vid e) (mac_addr e) M = Some None"
  shows "mac_rb_find (mac_vid e) (mac_addr e) (mac_insert e M) = Some (Some (mac_next M))"
proof -
  have "rb_sorted (mac_key (mac_insert e M)) (mac_rb (mac_insert e M))" "mac_next M \<in> set (mac_rb (mac_insert e M))"
    using mac_insert_rb [OF assms] by simp_all
  then show ?thesis
    unfolding mac_rb_find_sorted [OF mac_insert_inv [OF assms]]
    by (simp add: rb.lookup_Some mac_key_def MACMsg_compare_def)
qed

lemma mac_insert_other:
  assumes "mac_inv M" "mac_rb_find (mac_vid e) (mac_addr e) M = Some None" "(v, a) \<noteq> (mac_vid e, mac_addr e)"
  shows "mac_rb_find v a (mac_insert e M) = mac_rb_find v a M"
proof -
  have rb: "set (mac_rb (mac_insert e M)) = insert (mac_next M) (set (mac_rb M))"
      "rb_sorted (mac_key (mac_insert e M)) (mac_rb (mac_insert e M))" "rb_sorted (mac_key M) (mac_rb M)"
    using mac_insert_rb [OF assms(1,2)] assms(1) by (simp_all add: mac_inv_def)
  have "mac_next M \<notin> set (mac_rb M)"
    using mac_inv_fresh [OF assms(1)] assms(1) by (auto simp: mac_inv_def list_all_iff live_def)
  then have "rb_find (mac_key (mac_insert e M)) (v, a) (mac_rb (mac_insert e M)) = Some m \<longleftrightarrow>
      rb_find (mac_key M) (v, a) (mac_rb M) = Some m" for m
    unfolding rb.lookup_Some [OF rb(2)] rb.lookup_Some [OF rb(3)] rb(1)
    using assms(3) by (auto simp: mac_key_def MACMsg_compare_def)
  then have "rb_find (mac_key (mac_insert e M)) (v, a) (mac_rb (mac_insert e M)) = rb_find (mac_key M) (v, a) (mac_rb M)"
    by (metis option.exhaust)
  then show ?thesis using mac_rb_find_sorted [OF mac_insert_inv [OF assms(1,2)]] mac_rb_find_sorted [OF assms(1)] by simp
qed

section \<open>Every operation returns and keeps the table in order\<close>

text \<open>What the operations leave alone; the time a port channel went down is the only field of
  an interface they write.\<close>

definition stays :: "nat \<Rightarrow> System \<Rightarrow> System \<Rightarrow> bool" where
  "stays c s t \<longleftrightarrow> mac_ready c t \<and> csm_list t = csm_list s \<and> dom (lif_heap t) = dom (lif_heap s) \<and>
     map_option qless (csm_heap t c) = map_option qless (csm_heap s c)"

lemma stays_refl: "mac_ready c s \<Longrightarrow> stays c s s"
  and stays_trans: "stays c s t \<Longrightarrow> stays c t u \<Longrightarrow> stays c s u"
  and stays_frame: "mac_ready c t \<Longrightarrow> mac_frame c s t \<Longrightarrow> stays c s t"
  by (simp_all add: stays_def mac_frame_def)

lemma kept_stays: "table_kept c s t \<Longrightarrow> stays c s t"
  and touched_stays: "touched c m s t \<Longrightarrow> stays c s t"
  and keeps_stays: "has_mac c m s \<Longrightarrow> keeps c m s t \<Longrightarrow> stays c s t"
  using stays_frame by (auto simp: table_kept_def touched_def keeps_def has_mac_def)

lemma yields_stays:
  "yields (table_kept c) s r \<Longrightarrow> yields (stays c) s r" "yields (touched c m) s r \<Longrightarrow> yields (stays c) s r"
  "has_mac c m s \<Longrightarrow> yields (keeps c m) s r \<Longrightarrow> yields (stays c) s r"
  unfolding yields_def using kept_stays touched_stays keeps_stays by blast+

lemma mac_walk:
  assumes "mac_ready c s" "csm_heap s c = Some csm"
    "\<And>m t. has_mac c m t \<Longrightarrow> yields (touched c m) t (f m t)"
  shows "yields (table_kept c) s (foreach f (mac_rb (MLACP csm)) s)"
proof -
  have t: "table c s = MLACP csm" using assms(2) by (simp add: table_def)
  have "distinct (mac_rb (table c s))" using assms(1) by (auto simp: mac_ready_def mac_inv_def dest: rb_sorted_distinct)
  from foreach_touched [OF assms(1) this subset_refl, of f] assms(3)
  have "\<exists>u. foreach f (mac_rb (table c s)) s = Some u \<and> table_kept c s u" unfolding yields_steady by blast
  then show ?thesis unfolding yields_def t .
qed

lemma mlacp_sync_mac_stays:
  assumes "mac_ready c s"
  shows "yields (stays c) s (mlacp_sync_mac c s)"
proof -
  obtain csm where csm: "csm_heap s c = Some csm" using assms by (auto simp: mac_ready_def)
  have "yields (table_kept c) s (mlacp_sync_mac c s)"
    unfolding mlacp_sync_mac_def csm Option.bind.simps
    by (rule mac_walk [OF assms csm])
      (rule yields_reads yields_touched yields_touched_bind yields_keeps | assumption | simp)+
  then show ?thesis by (rule yields_stays)
qed

lemma mlacp_local_lif_clear_pending_mac_stays:
  assumes "mac_ready c s"
  shows "yields (stays c) s (mlacp_local_lif_clear_pending_mac c ifname s)"
proof -
  obtain csm where csm: "csm_heap s c = Some csm" using assms by (auto simp: mac_ready_def)
  have "yields (table_kept c) s (mlacp_local_lif_clear_pending_mac c ifname s)"
    unfolding mlacp_local_lif_clear_pending_mac_def csm Option.bind.simps
    by (rule mac_walk [OF assms csm])
      (rule yields_reads yields_unlink yields_touched_bind yields_keeps yields_touched | assumption | simp)+
  then show ?thesis by (rule yields_stays)
qed

lemma wf_set_lif:
  assumes "wf s" "lif_heap s l = Some lif" "lif_csm lif' = lif_csm lif" "lif_vlan_tree lif' = lif_vlan_tree lif"
  shows "wf (set_lif l lif' s)"
proof -
  let ?t = "set_lif l lif' s"
  have l: "live (lif_heap ?t) = live (lif_heap s)" using assms(2) by (auto simp: set_lif_def live_def fun_eq_iff)
  then have lo: "live_opt (lif_heap ?t) = live_opt (lif_heap s)" by (simp add: live_opt_def [abs_def])
  have same: "csm_heap ?t = csm_heap s" "csm_list ?t = csm_list s" "lif_list ?t = lif_list s" by (simp_all add: set_lif_def)
  have "wf_csm ?t = wf_csm s" by (simp add: fun_eq_iff wf_csm_def l lo)
  moreover have "wf_lif ?t y = wf_lif s y" for y by (simp add: wf_lif_def lo same)
  moreover have "wf_lif s (the (lif_heap ?t x))" if "x \<in> dom (lif_heap ?t)" for x
    using that assms(2-4) wf_lifD [OF assms(1)] by (cases "x = l") (auto simp: wf_lif_def set_lif_def)
  ultimately show ?thesis using assms(1) by (simp add: wf_def l same)
qed

lemma update_l2_mac_state_stays:
  assumes "mac_ready c s" "live (lif_heap s) l"
  shows "yields (stays c) s (update_l2_mac_state c l po_state s)"
proof -
  obtain csm lif where csm: "csm_heap s c = Some csm" "lif_heap s l = Some lif"
    using assms by (auto simp: mac_ready_def live_def)
  let ?f = "lif_po_down_time_update (\<lambda>_. if po_state = 0 then clock s else 0)"
  obtain t where t: "on_lif l ?f s = Some t" "t = set_lif l (?f lif) s" using csm(2) by (simp add: on_lif_def)
  have "csm_heap t = csm_heap s" "csm_list t = csm_list s" "dom (lif_heap t) = dom (lif_heap s)"
    using t(2) csm(2) by (auto simp: set_lif_def)
  moreover have "wf t" unfolding t(2) using wf_set_lif [OF _ csm(2)] assms(1) by (simp add: mac_ready_def)
  ultimately have st: "stays c s t" "mac_ready c t" "csm_heap t c = Some csm"
    using assms(1) csm(1) by (simp_all add: stays_def mac_ready_def table_def)
  have "yields (table_kept c) t (foreach (\<lambda>m s. do {
       e \<leftarrow> mac_at c m s;
       if mac_origin_ifname e \<noteq> lif_name lif then Some s
       else if po_state = 0 then l2_mac_down c p m s
       else l2_mac_up c m s }) (mac_rb (MLACP csm)) t)" for p
    by (rule mac_walk [OF st(2,3)])
      (rule yields_reads l2_mac_down_touched l2_mac_up_touched yields_touched yields_keeps | assumption | simp)+
  from yields_stays(1) [OF this] show ?thesis
    unfolding update_l2_mac_state_def using csm t(1) stays_trans [OF st(1)] by (auto simp: Let_def yields_def)
qed

text \<open>A new entry.\<close>

lemma insert_frame:
  assumes "mac_ready c s" "csm_heap s c = Some csm" "mac_inv M" "qless (MLACP_update (\<lambda>_. M) csm) = qless csm"
  shows "mac_frame c s (set_csm c (MLACP_update (\<lambda>_. M) csm) s)" "mac_ready c (set_csm c (MLACP_update (\<lambda>_. M) csm) s)"
proof -
  show f: "mac_frame c s (set_csm c (MLACP_update (\<lambda>_. M) csm) s)" by (rule frame_set_csm [OF assms(2,4)])
  have "MLACP (MLACP_update (\<lambda>_. M) csm) = M" by (simp add: MLACP_update_def)
  then show "mac_ready c (set_csm c (MLACP_update (\<lambda>_. M) csm) s)"
    using frame_wf [OF f] assms(1,3) by (simp add: mac_ready_def)
qed

lemma qless_insert:
  "qless (MLACP_update (\<lambda>_. mac_insert e (MLACP csm)) csm) = qless csm"
  "qless (MLACP_update (\<lambda>_. mac_insert e (MLACP csm)\<lparr>mac_msg_list := q\<rparr>) csm) = qless csm"
  by (cases csm; cases "app_csm csm"; simp add: qless_def MLACP_update_def mac_insert_def mac_rb_insert_def iccp_csm_init_mac_msg_def)+

lemma chip_stays: "stays c s t \<Longrightarrow> stays c s (snd (add_mac_to_chip e ty t))" "stays c s t \<Longrightarrow> stays c s (snd (del_mac_from_chip e t))"
  using frame_wf [OF frame_chip(1)] frame_wf [OF frame_chip(2)] by (simp_all add: stays_def mac_ready_def)

lemma init_mac_insert:
  "(case iccp_csm_init_mac_msg e M of (m, M') \<Rightarrow> g (m::nat) (mac_rb_insert m M')) = g (mac_next M) (mac_insert e M)"
  by (simp add: iccp_csm_init_mac_msg_def mac_insert_def)

lemma syncd_mac_new_stays:
  assumes "mac_ready c s" "csm_heap s c = Some csm" "mac_rb_find (mac_vid msg) (mac_addr msg) (MLACP csm) = Some None"
  shows "yields (stays c) s (syncd_mac_new c msg from_mclag_intf st pif_st s)"
proof -
  let ?e = "msg\<lparr>mac_age_flag := mac_age_flag msg OR MAC_AGE_PEER, mac_op_type := MAC_SYNC_ADD\<rparr>"
  let ?I = "mac_insert ?e (MLACP csm)"
  have inv: "mac_inv (MLACP csm)" using assms(1,2) by (simp add: mac_ready_def table_def)
  have I: "mac_inv ?I" using mac_insert_inv [OF inv, of ?e] assms(3) by simp
  have a: "stays c s (set_csm c (MLACP_update (\<lambda>_. ?I) csm) s)"
    using insert_frame [OF assms(1,2) I qless_insert(1)] by (simp add: stays_frame)
  have b: "stays c s (set_csm c (MLACP_update (\<lambda>_. ?I\<lparr>mac_msg_list := mac_msg_list (MLACP csm) @ [mac_next (MLACP csm)]\<rparr>) csm) s)"
    using insert_frame [OF assms(1,2) mac_insert_queued [OF I inv] qless_insert(2)] by (simp add: stays_frame)
  show ?thesis
    using a b chip_stays(1) [OF a] chip_stays(2) [OF stays_refl [OF assms(1)]]
    by (simp add: syncd_mac_new_def assms(2) yields_def Let_def iccp_csm_init_mac_msg_def mac_insert_def mac_rb_insert_def)
qed

lemma find_mclag_po_live:
  assumes "wf s" "list_all (live (csm_heap s)) cs"
  shows "\<exists>r. find_mclag_po nm s cs = Some r \<and> (\<forall>l. r = Some l \<longrightarrow> live (lif_heap s) l)"
  using assms(2)
proof (induction cs)
  case (Cons c cs)
  then obtain csm where csm: "csm_heap s c = Some csm" by (auto simp: live_def)
  then have "list_all (live (lif_heap s)) (mlacp_lif_list (MLACP csm))" using wf_csmD [OF assms(1)] by (simp add: wf_csm_def)
  from find_obj_wf [OF this] obtain r
    where "find_obj (lif_heap s) (\<lambda>l. lif_type l = IF_T_PORT_CHANNEL \<and> lif_name l = nm) (mlacp_lif_list (MLACP csm)) = Some r"
      "\<forall>l. r = Some l \<longrightarrow> live (lif_heap s) l" by blast
  with Cons csm show ?case by (cases r) simp_all
qed simp

lemma mac_ready_lif_name:
  assumes "mac_ready c s"
  shows "\<exists>r. local_if_find_by_name nm s = Some r \<and> (\<forall>l. r = Some l \<longrightarrow> live (lif_heap s) l)"
  using assms find_obj_wf unfolding local_if_find_by_name_def mac_ready_def wf_def by blast

lemma do_mac_update_from_syncd_stays:
  assumes "mac_ready c s" "csm_list s = c # cs"
  shows "yields (stays c) s (do_mac_update_from_syncd addr v ifname fdb_type op_type s)"
proof -
  obtain csm where csm: "csm_heap s c = Some csm" using assms(1) by (auto simp: mac_ready_def)
  then have inv: "mac_inv (MLACP csm)" using assms(1) by (simp add: mac_ready_def table_def)
  obtain po where po: "find_mclag_po ifname s (c # cs) = Some po" "\<And>l. po = Some l \<Longrightarrow> live (lif_heap s) l"
    using find_mclag_po_live [of s "c # cs" ifname] assms by (auto simp: mac_ready_def wf_def)
  obtain lif where lif: "local_if_find_by_name ifname s = Some lif" "\<And>l. lif = Some l \<Longrightarrow> live (lif_heap s) l"
    using mac_ready_lif_name [OF assms(1)] by blast
  obtain r where r: "mac_rb_find v addr (MLACP csm) = Some r" using mac_rb_find_sorted [OF inv] by simp
  have skip: "yields (stays c) s (Some s)" using stays_refl [OF assms(1)] by (simp add: yields_def)
  have has: "has_mac c m s" if "r = Some m" for m
    using mac_rb_find_Some(1) [OF inv] r that assms(1) csm by (simp add: has_mac_def table_def)
  have known: "yields (stays c) s (syncd_mac_known c m msg b s)" if "r = Some m" for m msg b
    using yields_stays(3) [OF has [OF that] syncd_mac_known_keeps [OF has [OF that]]] .
  have del: "yields (stays c) s (syncd_mac_del c m po s)" if "r = Some m" for m
    using yields_stays(2) [OF syncd_mac_del_touched [OF has [OF that]]] po(2) by blast
  have new: "yields (stays c) s (syncd_mac_new c msg b st p s)" if "r = None" "mac_vid msg = v" "mac_addr msg = addr" for msg b st p
    using syncd_mac_new_stays [OF assms(1) csm] r that by simp
  show ?thesis
    unfolding do_mac_update_from_syncd_def Let_def assms(2) po(1) list.case csm lif(1) r Option.bind.simps
    by (rule yields_if yields_option skip known del new yields_lif_state lif(2) | assumption | simp)+
qed

section \<open>Addresses from the peer\<close>

lemma mac_to_peer_link_keeps: "has_mac c m s \<Longrightarrow> yields (keeps c m) s (mac_to_peer_link c m s)"
  unfolding mac_to_peer_link_def by (rule yields_reads yields_keeps | assumption | simp)+

lemma stays_itf:
  assumes "stays c s t" "csm_heap s c = Some csm"
  shows "\<exists>csm'. csm_heap t c = Some csm' \<and> peer_itf_name csm' = peer_itf_name csm"
proof -
  obtain csm' where "csm_heap t c = Some csm'" "qless csm' = qless csm" using assms by (auto simp: stays_def)
  then show ?thesis using qlessD(1) [of csm' csm] by blast
qed

lemma peer_mac_add_keeps:
  assumes "has_mac c m s" "csm_heap s c = Some csm" "peer_itf_name csm \<noteq> []"
  shows "yields (keeps c m) s (peer_mac_add c m ifname from_mclag_intf down s)"
  unfolding peer_mac_add_def assms(2) Option.bind.simps eqTrueI [OF assms(3)] if_True
  by (insert assms(1), (rule yields_reads mac_to_peer_link_keeps yields_keeps | assumption | simp)+)

lemma peer_mac_del_touched: "has_mac c m s \<Longrightarrow> yields (touched c m) s (peer_mac_del c m s)"
  unfolding peer_mac_del_def
  by (rule yields_reads yields_unlink yields_touched_bind yields_keeps yields_touched | assumption | simp)+

text \<open>The entry made of an announced address, and the interface it points to.\<close>

definition announced_entry :: "mLACPMACData \<Rightarrow> string \<Rightarrow> string \<Rightarrow> MACMsg" where
  "announced_entry d origin port = \<lparr>mac_vid = ntohs (md_vid d), mac_addr = md_mac_addr d, mac_op_type = 0,
     mac_fdb_type = md_mac_type d, mac_ifname = port, mac_origin_ifname = origin, mac_age_flag = MAC_AGE_LOCAL,
     mac_pending_local_del = 0, mac_add_to_syncd = 0\<rparr>"

lemma local_age_flag_simps [simp]: "local_age_flag True 0 = MAC_AGE_LOCAL"
  by (simp add: local_age_flag_def)

lemma peer_mac_new_run:
  fixes nm :: string
  assumes "mac_ready c s" "csm_heap s c = Some csm"
    "mac_rb_find (ntohs (md_vid d)) (md_mac_addr d) (MLACP csm) = Some None"
    "\<And>l. local_if = Some l \<Longrightarrow> live (lif_heap s) l" "local_if = None \<Longrightarrow> down"
    "local_if = None \<Longrightarrow> peer_itf_name csm \<noteq> []"
  defines "e \<equiv> announced_entry d nm (if down \<and> peer_itf_name csm \<noteq> [] then peer_itf_name csm else nm)"
  shows "\<exists>t. peer_mac_new c d nm local_if down s = Some t \<and> stays c s t \<and> table c t = mac_insert e (MLACP csm)"
proof -
  have inv: "mac_inv (MLACP csm)" using assms(1,2) by (simp add: mac_ready_def table_def)
  have I: "mac_inv (mac_insert e (MLACP csm))"
    using mac_insert_inv [OF inv, of e] assms(3) by (simp add: e_def announced_entry_def)
  let ?t = "set_csm c (MLACP_update (\<lambda>_. mac_insert e (MLACP csm)) csm) s"
  note f = insert_frame [OF assms(1,2) I qless_insert(1)]
  have t: "stays c s ?t" "table c ?t = mac_insert e (MLACP csm)"
    using f by (simp add: stays_frame) (simp add: MLACP_update_def)
  obtain p where p: "peer_link_state c ?t = Some p"
    using wf_peer_link [of ?t c] f(2) by (auto simp: mac_ready_def)
  have u: "stays c s (snd (add_mac_to_chip e y ?t))" "table c (snd (add_mac_to_chip e y ?t)) = mac_insert e (MLACP csm)" for y
    using t chip_stays(1) by simp_all
  have l: "\<exists>l st. local_if = Some l \<and> lif_state_at l ?t = Some st" if "local_if \<noteq> None"
    using that assms(4) by (auto simp: lif_state_at_def live_def set_csm_def)
  let ?msg = "\<lparr>mac_vid = ntohs (md_vid d), mac_addr = md_mac_addr d, mac_op_type = 0, mac_fdb_type = md_mac_type d,
     mac_ifname = nm, mac_origin_ifname = nm, mac_age_flag = local_age_flag True 0,
     mac_pending_local_del = 0, mac_add_to_syncd = 0\<rparr>"
  have msg: "(if down \<and> peer_itf_name csm \<noteq> [] then ?msg\<lparr>mac_ifname := peer_itf_name csm\<rparr> else ?msg) = e"
    by (simp add: e_def announced_entry_def)
  have go: "(down \<and> peer_itf_name csm = [] \<and> local_if = None) = False" using assms(6) by blast
  have run: "peer_mac_new c d nm local_if down s =
      (if mac_ifname e = peer_itf_name csm
       then do { st \<leftarrow> peer_link_state c ?t; Some (if st = Some PORT_STATE_UP then snd (add_mac_to_chip e (mac_fdb_type e) ?t) else ?t) }
       else do { l \<leftarrow> local_if; st \<leftarrow> lif_state_at l ?t;
                 Some (if st \<noteq> PORT_STATE_DOWN then snd (add_mac_to_chip e (mac_fdb_type e) ?t) else ?t) })"
    by (simp only: peer_mac_new_def assms(2) Option.bind.simps Let_def go if_False msg iccp_csm_init_mac_msg_def prod.case
        mac_insert_def snd_conv)
  show ?thesis
  proof (cases "mac_ifname e = peer_itf_name csm")
    case True
    then show ?thesis unfolding run using t u p by simp
  next
    case False
    then have "local_if \<noteq> None" using assms(5,6) by (cases local_if) (simp_all add: e_def announced_entry_def)
    then obtain l st where "local_if = Some l" "lif_state_at l ?t = Some st" using l by blast
    then show ?thesis unfolding run using False t u by simp
  qed
qed

text \<open>The whole operation on one announced address, for a session with a peer link.\<close>

definition announced_port :: "CSM \<Rightarrow> string \<Rightarrow> System \<Rightarrow> nat option option" where
  "announced_port csm nm s = find_obj (lif_heap s) (\<lambda>l. lif_type l = IF_T_PORT_CHANNEL \<and> lif_name l = nm) (mlacp_lif_list (MLACP csm))"

definition port_down :: "nat option \<Rightarrow> System \<Rightarrow> bool option" where
  "port_down local_if s = (case local_if of None \<Rightarrow> Some True
     | Some l \<Rightarrow> map_option (\<lambda>st. st = PORT_STATE_DOWN) (lif_state_at l s))"

lemma announced_port_live:
  assumes "mac_ready c s" "csm_heap s c = Some csm"
  shows "\<exists>r d. announced_port csm nm s = Some r \<and> port_down r s = Some d \<and> (\<forall>l. r = Some l \<longrightarrow> live (lif_heap s) l) \<and> (r = None \<longrightarrow> d)"
proof -
  have "list_all (live (lif_heap s)) (mlacp_lif_list (MLACP csm))"
    using wf_csmD [of s c csm] assms by (simp add: mac_ready_def wf_csm_def)
  from find_obj_wf [OF this] obtain r where r: "announced_port csm nm s = Some r" "\<forall>l. r = Some l \<longrightarrow> live (lif_heap s) l"
    unfolding announced_port_def by blast
  then have "\<exists>d. port_down r s = Some d \<and> (r = None \<longrightarrow> d)"
    by (cases r) (auto simp: port_down_def lif_state_at_def live_def)
  then show ?thesis using r by blast
qed

lemma update_mac_entry_stays:
  assumes "mac_ready c s" "csm_heap s c = Some csm" "peer_itf_name csm \<noteq> []" "cstr_at (md_ifname d) = Some nm"
  shows "yields (stays c) s (mlacp_fsm_update_mac_entry_from_peer c d s)"
proof -
  have inv: "mac_inv (MLACP csm)" using assms(1,2) by (simp add: mac_ready_def table_def)
  obtain p dn where p: "announced_port csm nm s = Some p" "port_down p s = Some dn"
      "\<And>l. p = Some l \<Longrightarrow> live (lif_heap s) l" "p = None \<Longrightarrow> dn"
    using announced_port_live [OF assms(1,2)] by blast
  obtain r where r: "mac_rb_find (ntohs (md_vid d)) (md_mac_addr d) (MLACP csm) = Some r"
    using mac_rb_find_sorted [OF inv] by simp
  have skip: "yields (stays c) s (Some s)" using stays_refl [OF assms(1)] by (simp add: yields_def)
  have has: "has_mac c m s" if "r = Some m" for m
    using mac_rb_find_Some(1) [OF inv] r that assms(1,2) by (simp add: has_mac_def table_def)
  have add: "yields (stays c) s (peer_mac_add c m nm b dn s)" if "r = Some m" for m b
    by (rule yields_stays(3) [OF has [OF that] peer_mac_add_keeps [OF has [OF that] assms(2,3)]])
  have del: "yields (stays c) s (peer_mac_del c m s)" if "r = Some m" for m
    by (rule yields_stays(2) [OF peer_mac_del_touched [OF has [OF that]]])
  have new: "yields (stays c) s (peer_mac_new c d nm p dn s)" if "r = None"
    using peer_mac_new_run [of c s csm d p dn nm, OF assms(1,2) _ p(3,4) assms(3)] r that by (auto simp: yields_def)
  show ?thesis
    unfolding mlacp_fsm_update_mac_entry_from_peer_def assms(2,4) Option.bind.simps announced_port_def [symmetric] p(1) r
      port_down_def [symmetric] p(2)
    by (rule yields_if yields_option skip add del new | assumption)+
qed

text \<open>An entry that left the tree is not found any more.\<close>

lemma unlink_rb:
  assumes "mac_unlink c m s = Some t"
  shows "mac_rb (table c t) = remove1 m (mac_rb (table c s))"
  using assms by (auto simp: mac_unlink_def mac_at_def on_csm_def table_def set_csm_def unlink_mac_def MLACP_update_def
      split: Option.bind_splits)

lemma removed_not_found:
  assumes "mac_ready c s" "mac_ready c t" "mac_frame c s t" "mac_rb_find v a (table c s) = Some (Some m)"
    "mac_rb (table c t) = remove1 m (mac_rb (table c s))" "\<forall>k \<in> set (mac_rb (table c t)). mac_key (table c t) k = mac_key (table c s) k"
  shows "mac_rb_find v a (table c t) = Some None"
proof -
  have inv: "mac_inv (table c s)" "mac_inv (table c t)" using assms(1,2) by (simp_all add: mac_ready_def)
  then have s: "rb_sorted (mac_key (table c s)) (mac_rb (table c s))" "rb_sorted (mac_key (table c t)) (mac_rb (table c t))"
    by (simp_all add: mac_inv_def)
  have m: "m \<in> set (mac_rb (table c s))" "mac_key (table c s) m = (v, a)"
    using assms(4) mac_rb_find_sorted [OF inv(1)] by (simp_all add: rb.lookup_Some [OF s(1)])
  have uniq: "k = m" if "k \<in> set (mac_rb (table c s))" "mac_key (table c s) k = (v, a)" for k
    using rb.key_unique [OF s(1) that(1) m(1)] m(2) that(2) by simp
  have "mac_key (table c t) k \<noteq> (v, a)" if k: "k \<in> set (mac_rb (table c t))" for k
  proof
    assume "mac_key (table c t) k = (v, a)"
    moreover have "k \<in> set (mac_rb (table c s))" using k unfolding assms(5) by (rule set_remove1_subset [THEN subsetD])
    ultimately have "k = m" using assms(6) k by (intro uniq) simp_all
    then show False using k assms(5) rb_sorted_distinct [OF s(1)] by simp
  qed
  then have "(v, a) \<notin> mac_key (table c t) ` set (mac_rb (table c t))" by (simp add: image_iff) metis
  then show ?thesis using mac_rb_find_sorted [OF inv(2)] rb.lookup_None [OF s(2)] by simp
qed

lemma keeps_found:
  assumes "has_mac c m s" "keeps c m s t"
  shows "mac_rb_find v a (table c t) = mac_rb_find v a (table c s)"
proof -
  have inv: "mac_inv (table c s)" "mac_inv (table c t)" "mac_rb (table c t) = mac_rb (table c s)"
    using assms by (auto simp: keeps_def has_mac_def mac_ready_def)
  have "mac_key (table c t) k = mac_key (table c s) k" if "k \<in> set (mac_rb (table c s))" for k
    using keeps_touched [OF assms] inv(3) that by (auto simp: touched_def)
  then have "find (\<lambda>x. mac_key (table c t) x = (v, a)) (mac_rb (table c s)) = find (\<lambda>x. mac_key (table c s) x = (v, a)) (mac_rb (table c s))"
    by (intro find_cong) simp_all
  then show ?thesis using mac_rb_find_sorted inv by (simp add: rb_find_def)
qed

lemma on_mac_run:
  assumes "has_mac c m s" "mac_at c m s = Some e" "\<And>e. MACMsg_compare (f e) = MACMsg_compare e"
  shows "\<exists>t. on_mac c m f s = Some t \<and> keeps c m s t \<and> has_mac c m t \<and> mac_at c m t = Some (f e)"
  using keeps_write [OF mac_frame_refl refl assms(2,3)] tab.valid_eqv [OF assms(1)] assms(2) by (auto simp: on_mac_def)

text \<open>Writes to the entry and messages to the chip leave the queue alone.\<close>

definition queue_of :: "nat \<Rightarrow> System \<Rightarrow> nat list" where
  "queue_of c s = mac_msg_list (table c s)"

lemma queue_write: "on_csm c (MLACP_update (write_mac m e)) s = Some t \<Longrightarrow> queue_of c t = queue_of c s"
  by (auto simp: queue_of_def on_csm_def table_def set_csm_def MLACP_update_def write_mac_def split: Option.bind_splits)

lemma queue_chip: "queue_of c (snd (del_mac_from_chip e s)) = queue_of c s"
  by (simp add: queue_of_def)

lemma queue_steps:
  "on_mac c m f s = Some t \<Longrightarrow> queue_of c t = queue_of c s"
  "chip_del c m s = Some t \<Longrightarrow> queue_of c t = queue_of c s"
  using queue_write queue_chip by (auto simp: on_mac_def chip_del_def case_prod_beta split: Option.bind_splits)

lemma chip_del_run:
  assumes "has_mac c m s"
  shows "\<exists>t. chip_del c m s = Some t \<and> keeps c m s t \<and> has_mac c m t"
  using steady_chip(2) [OF assms] tab.valid_eqv [OF assms] by (auto simp: steady_def)

lemma unlink_frees:
  assumes "mac_unlink c m s = Some t" "m \<notin> set (queue_of c s)"
  shows "mac_at c m t = None"
  using assms by (auto simp: mac_unlink_def on_csm_def mac_at_def table_def queue_of_def set_csm_def MLACP_update_def
      unlink_mac_def split: Option.bind_splits)

lemma age_again:
  assumes "has_mac c m s" "mac_at c m s = Some e" "mac_age_flag e AND MAC_AGE_LOCAL \<noteq> 0"
  shows "\<exists>t. age_mac c True m s = Some t \<and> has_mac c m t \<and> mac_at c m t = Some e \<and> queue_of c t = queue_of c s"
proof -
  obtain csm where csm: "csm_heap s c = Some csm" "mac_heap (MLACP csm) m = Some e"
    using assms(2) by (auto simp: mac_at_def split: Option.bind_splits)
  have "set_csm c (MLACP_update (\<lambda>_. MLACP csm) csm) s = s"
    using csm(1) MLACP_update_const [of "\<lambda>M. M" csm] by (simp add: set_csm_def MLACP_update_def map_upd_triv)
  moreover obtain t where t: "on_mac c m (mac_age_flag_update (\<lambda>_. mac_age_flag e)) s = Some t" "has_mac c m t" "mac_at c m t = Some e"
    using on_mac_run [OF assms(1,2), of "mac_age_flag_update (\<lambda>_. mac_age_flag e)"] by auto
  ultimately show ?thesis
    using csm assms(3) queue_steps(1) [OF t(1)] by (simp add: age_mac_def set_mac_local_age_flag_def Let_def)
qed

lemma peer_mac_add_fault:
  assumes "has_mac c m s" "csm_heap s c = Some csm" "peer_itf_name csm = []" "mac_at c m s = Some e"
    "mac_ifname e \<noteq> nm" "mac_fdb_type e \<noteq> MAC_TYPE_STATIC" "mac_age_flag e AND MAC_AGE_LOCAL \<noteq> 0" "m \<notin> set (queue_of c s)"
  shows "peer_mac_add c m nm False True s = None"
proof -
  let ?f = "mac_age_flag_update (\<lambda>f. f AND NOT MAC_AGE_PEER)" and ?g = "mac_origin_ifname_update (\<lambda>_. nm)"
    and ?h = "mac_ifname_update (\<lambda>_. nm)"
  obtain s1 where s1: "on_mac c m ?f s = Some s1" "has_mac c m s1" "mac_at c m s1 = Some (?f e)"
    using on_mac_run [OF assms(1,4), of ?f] by auto
  obtain s2 where s2: "on_mac c m ?g s1 = Some s2" "has_mac c m s2" "mac_at c m s2 = Some (?g (?f e))"
    using on_mac_run [OF s1(2,3), of ?g] by auto
  have "(mac_age_flag e AND NOT MAC_AGE_PEER) AND MAC_AGE_LOCAL = mac_age_flag e AND MAC_AGE_LOCAL"
    by (simp add: and.assoc)
  then obtain s3 where s3: "age_mac c True m s2 = Some s3" "has_mac c m s3" "mac_at c m s3 = Some (?g (?f e))"
      "queue_of c s3 = queue_of c s2"
    using age_again [OF s2(2,3)] assms(7) by auto
  obtain s4 where s4: "chip_del c m s3 = Some s4" "has_mac c m s4" using chip_del_run [OF s3(2)] by blast
  obtain e4 where e4: "mac_at c m s4 = Some e4" using has_mac_entry [OF s4(2)] by blast
  obtain s5 where s5: "on_mac c m ?h s4 = Some s5" "has_mac c m s5" using on_mac_run [OF s4(2) e4, of ?h] by auto
  obtain s6 where s6: "mac_unlink c m s5 = Some s6" using unlink_touched [OF s5(2)] by (auto simp: steady_def)
  have "queue_of c s5 = queue_of c s" 
    using queue_steps(1) [OF s5(1)] queue_steps(2) [OF s4(1)] s3(4) queue_steps(1) [OF s2(1)] queue_steps(1) [OF s1(1)] by simp
  then have "mac_at c m s6 = None" using unlink_frees [OF s6] assms(8) by simp
  then show ?thesis using s1 s2 s3 s4 s5 s6 assms(2,3,5,6) by (simp add: peer_mac_add_def)
qed

section \<open>Properties\<close>

text \<open>What can happen to the table.\<close>

datatype mac_event =
    Learned bytes "16 word" string byte byte
  | Announced mLACPMACData
  | Port_changed nat int
  | Resync
  | Clear_pending string

fun run_event :: "nat \<Rightarrow> mac_event \<Rightarrow> System \<Rightarrow> System option" where
  "run_event c (Learned addr v ifname fdb_type op_type) s = do_mac_update_from_syncd addr v ifname fdb_type op_type s"
| "run_event c (Announced d) s = mlacp_fsm_update_mac_entry_from_peer c d s"
| "run_event c (Port_changed l st) s = update_l2_mac_state c l st s"
| "run_event c Resync s = mlacp_sync_mac c s"
| "run_event c (Clear_pending ifname) s = mlacp_local_lif_clear_pending_mac c ifname s"

fun event_ok :: "System \<Rightarrow> mac_event \<Rightarrow> bool" where
  "event_ok s (Announced d) = (cstr_at (md_ifname d) \<noteq> None)"
| "event_ok s (Port_changed l st) = live (lif_heap s) l"
| "event_ok s _ = True"

lemma stays_event_ok: "stays c s t \<Longrightarrow> event_ok t ev = event_ok s ev"
  by (cases ev) (auto simp: stays_def live_def)

lemma run_event_stays:
  assumes "mac_ready c s" "csm_list s = c # cs" "csm_heap s c = Some csm" "peer_itf_name csm \<noteq> []" "event_ok s ev"
  shows "yields (stays c) s (run_event c ev s)"
  using assms do_mac_update_from_syncd_stays update_mac_entry_stays update_l2_mac_state_stays mlacp_sync_mac_stays
    mlacp_local_lif_clear_pending_mac_stays
  by (cases ev) auto

text \<open>C5: Whatever the local switch learns or ages, the peer announces and the port channels
  do, in any order: no operation on the MAC table of a session with a peer link touches a
  freed entry, and the table stays in order: live entries, strictly sorted by VLAN and
  address, so that there is at most one for each address, and a queue of live entries.\<close>

theorem mac_events_safe:
  assumes "mac_ready c s" "csm_list s = c # cs" "csm_heap s c = Some csm" "peer_itf_name csm \<noteq> []"
    "\<forall>ev \<in> set evs. event_ok s ev"
  shows "\<exists>t. foreach (run_event c) evs s = Some t \<and> mac_ready c t"
  using assms
proof (induction evs arbitrary: s csm)
  case (Cons ev evs)
  obtain t where t: "run_event c ev s = Some t" "stays c s t"
    using run_event_stays [OF Cons.prems(1-4), of ev] Cons.prems(5) by (auto simp: yields_def)
  obtain csm' where csm': "csm_heap t c = Some csm'" "peer_itf_name csm' = peer_itf_name csm"
    using stays_itf [OF t(2) Cons.prems(3)] by blast
  have "mac_ready c t" "csm_list t = c # cs" using t(2) Cons.prems(2) by (simp_all add: stays_def)
  then obtain u where "foreach (run_event c) evs t = Some u" "mac_ready c u"
    using Cons.IH [OF _ _ csm'(1)] csm'(2) Cons.prems(4,5) stays_event_ok [OF t(2)] by auto
  with t(1) show ?case by simp
qed simp

text \<open>C6: An address the peer announces for the first time is in the table afterwards, marked as
  not learned here and pointing to the port channel of the same name, or to the peer link
  when the port is an orphan port or the port channel is down here.  Other addresses are
  not affected.\<close>

theorem peer_mac_learned:
  assumes "mac_ready c s" "csm_heap s c = Some csm" "peer_itf_name csm \<noteq> []"
    "cstr_at (md_ifname d) = Some nm" "md_type d = MAC_SYNC_ADD" "md_mac_addr d \<noteq> replicate 6 0"
    "mac_rb_find (ntohs (md_vid d)) (md_mac_addr d) (MLACP csm) = Some None"
    "announced_port csm nm s = Some p" "port_down p s = Some down"
  shows "\<exists>t m. mlacp_fsm_update_mac_entry_from_peer c d s = Some t \<and> mac_ready c t \<and>
    mac_rb_find (ntohs (md_vid d)) (md_mac_addr d) (table c t) = Some (Some m) \<and>
    mac_at c m t = Some (announced_entry d nm (if down then peer_itf_name csm else nm)) \<and>
    (\<forall>v a. (v, a) \<noteq> (ntohs (md_vid d), md_mac_addr d) \<longrightarrow>
      mac_rb_find v a (table c t) = mac_rb_find v a (MLACP csm))"
proof -
  let ?e = "announced_entry d nm (if down then peer_itf_name csm else nm)"
  have e: "mac_vid ?e = ntohs (md_vid d)" "mac_addr ?e = md_mac_addr d" by (simp_all add: announced_entry_def)
  have inv: "mac_inv (MLACP csm)" using assms(1,2) by (simp add: mac_ready_def table_def)
  have p: "\<And>l. p = Some l \<Longrightarrow> live (lif_heap s) l" "p = None \<Longrightarrow> down"
    using announced_port_live [OF assms(1,2), of nm] assms(8,9) by auto
  obtain t where t: "peer_mac_new c d nm p down s = Some t" "stays c s t" "table c t = mac_insert ?e (MLACP csm)"
    using peer_mac_new_run [of c s csm d p down nm, OF assms(1,2,7) p assms(3)] assms(3) by auto
  have "mlacp_fsm_update_mac_entry_from_peer c d s = Some t"
    unfolding mlacp_fsm_update_mac_entry_from_peer_def assms(2,4) Option.bind.simps announced_port_def [symmetric] assms(7,8)
      port_down_def [symmetric] assms(9) using assms(5,6) t(1) by simp
  moreover have "mac_ready c t" "mac_at c (mac_next (MLACP csm)) t = Some ?e"
    using t(2,3) by (auto simp: stays_def mac_at_def table_def mac_ready_def)
  moreover have "mac_rb_find (ntohs (md_vid d)) (md_mac_addr d) (table c t) = Some (Some (mac_next (MLACP csm)))"
    using mac_insert_find [OF inv, of ?e] assms(7) unfolding e t(3) by blast
  moreover have "\<forall>v a. (v, a) \<noteq> (ntohs (md_vid d), md_mac_addr d) \<longrightarrow> mac_rb_find v a (table c t) = mac_rb_find v a (MLACP csm)"
    using mac_insert_other [OF inv, of ?e] assms(7) unfolding e t(3) by blast
  ultimately show ?thesis by (intro exI [of _ t] exI [of _ "mac_next (MLACP csm)"] conjI)
qed

text \<open>C7: When the peer withdraws an address, the entry leaves the table exactly when the local
  switch has aged it as well; otherwise it stays, with the mark that the peer has aged it
  and nothing else changed.\<close>

theorem peer_mac_withdrawn:
  assumes "mac_ready c s" "csm_heap s c = Some csm" "cstr_at (md_ifname d) = Some nm" "md_type d = MAC_SYNC_DEL"
    "md_mac_addr d \<noteq> replicate 6 0" "mac_rb_find (ntohs (md_vid d)) (md_mac_addr d) (MLACP csm) = Some (Some m)"
    "mac_at c m s = Some e"
  shows "\<exists>t. mlacp_fsm_update_mac_entry_from_peer c d s = Some t \<and> mac_ready c t \<and>
    (if mac_age_flag e OR MAC_AGE_PEER = MAC_AGE_LOCAL OR MAC_AGE_PEER
     then mac_rb_find (ntohs (md_vid d)) (md_mac_addr d) (table c t) = Some None
     else mac_rb_find (ntohs (md_vid d)) (md_mac_addr d) (table c t) = Some (Some m) \<and>
       mac_at c m t = Some (e\<lparr>mac_age_flag := mac_age_flag e OR MAC_AGE_PEER\<rparr>))"
proof -
  have tab: "table c s = MLACP csm" and inv: "mac_inv (MLACP csm)" using assms(1,2) by (simp_all add: mac_ready_def table_def)
  have has: "has_mac c m s" using mac_rb_find_Some(1) [OF inv assms(6)] assms(1) tab by (simp add: has_mac_def)
  let ?aged = "mac_age_flag e OR MAC_AGE_PEER = MAC_AGE_LOCAL OR MAC_AGE_PEER"
  obtain u where u: "on_mac c m (mac_age_flag_update (\<lambda>f. f OR MAC_AGE_PEER)) s = Some u" "keeps c m s u" "has_mac c m u"
      "mac_at c m u = Some (e\<lparr>mac_age_flag := mac_age_flag e OR MAC_AGE_PEER\<rparr>)"
    using on_mac_run [OF has assms(7), of "mac_age_flag_update (\<lambda>f. f OR MAC_AGE_PEER)"] by auto
  have find: "mac_rb_find (ntohs (md_vid d)) (md_mac_addr d) (table c u) = Some (Some m)"
    using keeps_found [OF has u(2)] assms(6) tab by simp
  obtain p dn where p: "announced_port csm nm s = Some p" "port_down p s = Some dn"
    using announced_port_live [OF assms(1,2)] by blast
  have run: "mlacp_fsm_update_mac_entry_from_peer c d s =
      (if ?aged then do { t \<leftarrow> chip_del c m u; mac_unlink c m t } else Some u)"
    unfolding mlacp_fsm_update_mac_entry_from_peer_def assms(2,3) Option.bind.simps announced_port_def [symmetric] p(1) assms(6)
      port_down_def [symmetric] p(2) peer_mac_del_def u(1,4) using assms(4,5) by (simp add: u(1,4) peer_mac_del_def)
  show ?thesis
  proof (cases ?aged)
    case False
    then show ?thesis using run find u(3,4) by (auto simp: has_mac_def)
  next
    case True
    obtain v where v: "chip_del c m u = Some v" "keeps c m u v" "has_mac c m v"
      using steady_chip(2) [OF u(3)] tab.valid_eqv [OF u(3)] by (auto simp: steady_def)
    obtain t where t: "mac_unlink c m v = Some t" "touched c m v t" using unlink_touched [OF v(3)] by (auto simp: steady_def)
    have "mac_rb_find (ntohs (md_vid d)) (md_mac_addr d) (table c v) = Some (Some m)"
      using keeps_found [OF u(3) v(2)] find by simp
    then have "mac_rb_find (ntohs (md_vid d)) (md_mac_addr d) (table c t) = Some None"
      using removed_not_found [OF _ _ _ _ unlink_rb [OF t(1)]] v(3) t(2) by (simp add: touched_def has_mac_def)
    then show ?thesis using run True v(1) t by (simp add: touched_def)
  qed
qed

text \<open>C8: Without a peer link, the announcement of an orphan port's address that is in the table
  under another port, learned from the peer before, drops the entry and then reads the
  freed memory for a log line.\<close>

theorem orphan_mac_use_after_free:
  assumes "mac_ready c s" "csm_heap s c = Some csm" "peer_itf_name csm = []"
    "cstr_at (md_ifname d) = Some nm" "md_type d = MAC_SYNC_ADD" "md_mac_addr d \<noteq> replicate 6 0"
    "mac_rb_find (ntohs (md_vid d)) (md_mac_addr d) (MLACP csm) = Some (Some m)" "mac_at c m s = Some e"
    "announced_port csm nm s = Some None" "mac_ifname e \<noteq> nm" "mac_fdb_type e \<noteq> MAC_TYPE_STATIC"
    "mac_age_flag e AND MAC_AGE_LOCAL \<noteq> 0" "m \<notin> set (mac_msg_list (MLACP csm))"
  shows "mlacp_fsm_update_mac_entry_from_peer c d s = None"
proof -
  have tab: "table c s = MLACP csm" and inv: "mac_inv (MLACP csm)" using assms(1,2) by (simp_all add: mac_ready_def table_def)
  have has: "has_mac c m s" using mac_rb_find_Some(1) [OF inv assms(7)] assms(1) tab by (simp add: has_mac_def)
  have "m \<notin> set (queue_of c s)" using assms(13) tab by (simp add: queue_of_def)
  from peer_mac_add_fault [OF has assms(2,3,8,10,11,12) this] show ?thesis
    unfolding mlacp_fsm_update_mac_entry_from_peer_def assms(2,4) Option.bind.simps announced_port_def [symmetric] assms(7,9)
    using assms(5,6) by simp
qed

end
