(* ===== verification/Rb_Pointer.thy ===== *)
theory Rb_Pointer
  imports Rb_Table "HOL-Library.Tree"
begin

text \<open>
  \<^verbatim>\<open>src/openbsd_tree.c\<close> with its pointers: entries that know their parent, their children
  and their colour, in a memory from addresses to entries; reading or writing through
  \<^verbatim>\<open>NULL\<close> or a dangling pointer is a fault.  Loops are \<^theory_text>\<open>partial_function\<close>s: a loop that
  would not end has the value \<open>None\<close> as well.  The left and the right half of the
  balancing code are mirror images in the source and share one definition that takes the
  side.  The trees of the daemon are generated with \<^verbatim>\<open>RB_GENERATE\<close>, which installs no
  augmentation function.  The comparison function is given by the key it compares.
\<close>

datatype rb_color = RB_BLACK | RB_RED

record rb_entry =
  rbt_parent :: "nat option"
  rbt_left :: "nat option"
  rbt_right :: "nat option"
  rbt_color :: rb_color

record rbt_tree =
  rbt_root :: "nat option"
  rbt_mem :: "nat \<rightharpoonup> rb_entry"

datatype side = Lft | Rgt

fun opp :: "side \<Rightarrow> side" where
  "opp Lft = Rgt"
| "opp Rgt = Lft"

fun rbt_child :: "side \<Rightarrow> rb_entry \<Rightarrow> nat option" where
  "rbt_child Lft e = rbt_left e"
| "rbt_child Rgt e = rbt_right e"

fun with_child :: "side \<Rightarrow> nat option \<Rightarrow> rb_entry \<Rightarrow> rb_entry" where
  "with_child Lft p e = e\<lparr>rbt_left := p\<rparr>"
| "with_child Rgt p e = e\<lparr>rbt_right := p\<rparr>"

definition put_entry :: "nat \<Rightarrow> (rb_entry \<Rightarrow> rb_entry) \<Rightarrow> rbt_tree \<Rightarrow> rbt_tree option" where
  "put_entry a f s = do { e \<leftarrow> rbt_mem s a; Some (s\<lparr>rbt_mem := (rbt_mem s)(a \<mapsto> f e)\<rparr>) }"

definition set_child :: "side \<Rightarrow> nat \<Rightarrow> nat option \<Rightarrow> rbt_tree \<Rightarrow> rbt_tree option" where
  "set_child d a p = put_entry a (with_child d p)"

definition set_parent :: "nat \<Rightarrow> nat option \<Rightarrow> rbt_tree \<Rightarrow> rbt_tree option" where
  "set_parent a p = put_entry a (rbt_parent_update (\<lambda>_. p))"

definition set_color :: "nat \<Rightarrow> rb_color \<Rightarrow> rbt_tree \<Rightarrow> rbt_tree option" where
  "set_color a c = put_entry a (rbt_color_update (\<lambda>_. c))"

text \<open>\<^verbatim>\<open>if (p != NULL) ...\<close>\<close>

definition unless_null :: "nat option \<Rightarrow> (nat \<Rightarrow> rbt_tree \<Rightarrow> rbt_tree option) \<Rightarrow> rbt_tree \<Rightarrow> rbt_tree option" where
  "unless_null p f s = (case p of None \<Rightarrow> Some s | Some a \<Rightarrow> f a s)"

text \<open>\<^verbatim>\<open>p == NULL || RBE_COLOR(p) == RB_BLACK\<close>\<close>

definition is_black :: "nat option \<Rightarrow> rbt_tree \<Rightarrow> bool option" where
  "is_black p s = (case p of None \<Rightarrow> Some True | Some a \<Rightarrow> map_option (\<lambda>e. rbt_color e = RB_BLACK) (rbt_mem s a))"

definition rbe_set :: "nat \<Rightarrow> nat option \<Rightarrow> rbt_tree \<Rightarrow> rbt_tree option" where
  "rbe_set rbe parent =
     put_entry rbe (\<lambda>e. e\<lparr>rbt_parent := parent, rbt_left := None, rbt_right := None, rbt_color := RB_RED\<rparr>)"

definition rbe_set_blackred :: "nat \<Rightarrow> nat \<Rightarrow> rbt_tree \<Rightarrow> rbt_tree option" where
  "rbe_set_blackred black red s = do { s \<leftarrow> set_color black RB_BLACK s; set_color red RB_RED s }"

text \<open>Make the parent of \<open>old\<close>, or the root, point to \<open>new\<close>.\<close>

definition relink :: "nat option \<Rightarrow> nat \<Rightarrow> nat option \<Rightarrow> rbt_tree \<Rightarrow> rbt_tree option" where
  "relink parent old new s = (case parent of
       None \<Rightarrow> Some (s\<lparr>rbt_root := new\<rparr>)
     | Some p \<Rightarrow> do { e \<leftarrow> rbt_mem s p; set_child (if rbt_left e = Some old then Lft else Rgt) p new s })"

section \<open>Rotations\<close>

definition rbe_rotate :: "side \<Rightarrow> nat \<Rightarrow> rbt_tree \<Rightarrow> rbt_tree option" where
  "rbe_rotate d rbe s = do {
     e \<leftarrow> rbt_mem s rbe;
     tmp \<leftarrow> rbt_child (opp d) e;
     te \<leftarrow> rbt_mem s tmp;
     s \<leftarrow> set_child (opp d) rbe (rbt_child d te) s;
     s \<leftarrow> unless_null (rbt_child d te) (\<lambda>b. set_parent b (Some rbe)) s;
     e \<leftarrow> rbt_mem s rbe;
     let parent = rbt_parent e;
     s \<leftarrow> set_parent tmp parent s;
     s \<leftarrow> relink parent rbe (Some tmp) s;
     s \<leftarrow> set_child d tmp (Some rbe) s;
     set_parent rbe (Some tmp) s }"

definition rbe_rotate_left :: "nat \<Rightarrow> rbt_tree \<Rightarrow> rbt_tree option" where
  "rbe_rotate_left = rbe_rotate Lft"

definition rbe_rotate_right :: "nat \<Rightarrow> rbt_tree \<Rightarrow> rbt_tree option" where
  "rbe_rotate_right = rbe_rotate Rgt"

section \<open>Insertion\<close>

text \<open>One half of the body of the loop: the parent is the \<open>d\<close> child of the grandparent.  The
  result is the entry to go on with.\<close>

definition insert_color_side :: "side \<Rightarrow> nat \<Rightarrow> nat \<Rightarrow> nat \<Rightarrow> rbt_tree \<Rightarrow> (nat \<times> rbt_tree) option" where
  "insert_color_side d rbe parent gparent s = do {
     ge \<leftarrow> rbt_mem s gparent;
     let tmp = rbt_child (opp d) ge;
     black \<leftarrow> is_black tmp s;
     if \<not> black then do {
       t \<leftarrow> tmp;
       s \<leftarrow> set_color t RB_BLACK s;
       s \<leftarrow> rbe_set_blackred parent gparent s;
       Some (gparent, s) }
     else do {
       pe \<leftarrow> rbt_mem s parent;
       (rbe, parent, s) \<leftarrow>
         (if rbt_child (opp d) pe = Some rbe
          then do { s \<leftarrow> rbe_rotate d parent s; Some (parent, rbe, s) }
          else Some (rbe, parent, s));
       s \<leftarrow> rbe_set_blackred parent gparent s;
       s \<leftarrow> rbe_rotate (opp d) gparent s;
       Some (rbe, s) } }"

definition insert_color_step :: "nat \<Rightarrow> rbt_tree \<Rightarrow> (nat option \<times> rbt_tree) option" where
  "insert_color_step rbe s = do {
     e \<leftarrow> rbt_mem s rbe;
     (case rbt_parent e of
        None \<Rightarrow> Some (None, s)
      | Some parent \<Rightarrow> do {
          pe \<leftarrow> rbt_mem s parent;
          if rbt_color pe \<noteq> RB_RED then Some (None, s)
          else do {
            gparent \<leftarrow> rbt_parent pe;
            ge \<leftarrow> rbt_mem s gparent;
            (rbe, s) \<leftarrow> insert_color_side (if rbt_left ge = Some parent then Lft else Rgt) rbe parent gparent s;
            Some (Some rbe, s) } }) }"

partial_function (option) rbe_insert_color :: "nat \<Rightarrow> rbt_tree \<Rightarrow> rbt_tree option" where
  "rbe_insert_color rbe s = do {
     (go_on, s) \<leftarrow> insert_color_step rbe s;
     (case go_on of
        Some rbe \<Rightarrow> rbe_insert_color rbe s
      | None \<Rightarrow> do { root \<leftarrow> rbt_root s; set_color root RB_BLACK s }) }"

text \<open>The way down: the last entry visited and the side to go on, or the entry with the key.\<close>

partial_function (option) find_slot :: "(nat \<Rightarrow> 'k::linorder) \<Rightarrow> 'k \<Rightarrow> nat option \<Rightarrow> (nat \<times> side) option \<Rightarrow> rbt_tree \<Rightarrow>
    (nat + (nat \<times> side) option) option" where
  "find_slot key k tmp parent s = (case tmp of
       None \<Rightarrow> Some (Inr parent)
     | Some a \<Rightarrow> do {
         e \<leftarrow> rbt_mem s a;
         if k < key a then find_slot key k (rbt_left e) (Some (a, Lft)) s
         else if k > key a then find_slot key k (rbt_right e) (Some (a, Rgt)) s
         else Some (Inl a) })"

definition rb_insert_ptr :: "(nat \<Rightarrow> 'k::linorder) \<Rightarrow> nat \<Rightarrow> rbt_tree \<Rightarrow> (nat option \<times> rbt_tree) option" where
  "rb_insert_ptr key elm s = do {
     slot \<leftarrow> find_slot key (key elm) (rbt_root s) None s;
     (case slot of
        Inl node \<Rightarrow> Some (Some node, s)
      | Inr parent \<Rightarrow> do {
          s \<leftarrow> rbe_set elm (map_option fst parent) s;
          s \<leftarrow> (case parent of
                 None \<Rightarrow> Some (s\<lparr>rbt_root := Some elm\<rparr>)
               | Some (p, d) \<Rightarrow> set_child d p (Some elm) s);
          s \<leftarrow> rbe_insert_color elm s;
          Some (None, s) }) }"

section \<open>Removal\<close>

text \<open>One half of the body of the loop; \<open>Inl\<close> goes on with another parent and entry, \<open>Inr\<close>
  leaves the loop.  \<open>remove_color_last\<close>: the far child of the sibling \<open>tmp\<close> is red;
  \<open>remove_color_fix\<close>: the sibling is black.\<close>

definition children_black :: "rb_entry \<Rightarrow> rbt_tree \<Rightarrow> bool option" where
  "children_black te s = do {
     lblack \<leftarrow> is_black (rbt_left te) s;
     (if lblack then is_black (rbt_right te) s else Some False) }"

definition remove_color_last :: "side \<Rightarrow> nat \<Rightarrow> nat \<Rightarrow> rbt_tree \<Rightarrow> rbt_tree option" where
  "remove_color_last d parent tmp s = do {
     e \<leftarrow> rbt_mem s parent;
     s \<leftarrow> set_color tmp (rbt_color e) s;
     s \<leftarrow> set_color parent RB_BLACK s;
     te \<leftarrow> rbt_mem s tmp;
     s \<leftarrow> unless_null (rbt_child (opp d) te) (\<lambda>a. set_color a RB_BLACK) s;
     rbe_rotate d parent s }"

definition remove_color_fix :: "side \<Rightarrow> nat \<Rightarrow> nat \<Rightarrow> rbt_tree \<Rightarrow>
    (((nat option \<times> nat option) + nat option) \<times> rbt_tree) option" where
  "remove_color_fix d parent tmp s = do {
     te \<leftarrow> rbt_mem s tmp;
     both \<leftarrow> children_black te s;
     if both then do {
       s \<leftarrow> set_color tmp RB_RED s;
       e \<leftarrow> rbt_mem s parent;
       Some (Inl (rbt_parent e, Some parent), s) }
     else do {
       far \<leftarrow> is_black (rbt_child (opp d) te) s;
       (tmp, s) \<leftarrow>
         (if far
          then do {
            s \<leftarrow> unless_null (rbt_child d te) (\<lambda>a. set_color a RB_BLACK) s;
            s \<leftarrow> set_color tmp RB_RED s;
            s \<leftarrow> rbe_rotate (opp d) tmp s;
            e \<leftarrow> rbt_mem s parent;
            tmp \<leftarrow> rbt_child (opp d) e;
            Some (tmp, s) }
          else Some (tmp, s));
       s \<leftarrow> remove_color_last d parent tmp s;
       Some (Inr (rbt_root s), s) } }"

definition remove_color_side :: "side \<Rightarrow> nat \<Rightarrow> rbt_tree \<Rightarrow>
    (((nat option \<times> nat option) + nat option) \<times> rbt_tree) option" where
  "remove_color_side d parent s = do {
     e \<leftarrow> rbt_mem s parent;
     tmp \<leftarrow> rbt_child (opp d) e;
     te \<leftarrow> rbt_mem s tmp;
     (tmp, s) \<leftarrow>
       (if rbt_color te = RB_RED
        then do {
          s \<leftarrow> rbe_set_blackred tmp parent s;
          s \<leftarrow> rbe_rotate d parent s;
          e \<leftarrow> rbt_mem s parent;
          tmp \<leftarrow> rbt_child (opp d) e;
          Some (tmp, s) }
        else Some (tmp, s));
     remove_color_fix d parent tmp s }"

definition remove_color_step :: "nat option \<Rightarrow> nat option \<Rightarrow> rbt_tree \<Rightarrow>
    (((nat option \<times> nat option) + nat option) \<times> rbt_tree) option" where
  "remove_color_step parent rbe s = do {
     black \<leftarrow> is_black rbe s;
     if \<not> black \<or> rbe = rbt_root s then Some (Inr rbe, s)
     else (case parent of
         None \<Rightarrow> Some (Inr rbe, s)
       | Some p \<Rightarrow> do { e \<leftarrow> rbt_mem s p; remove_color_side (if rbt_left e = rbe then Lft else Rgt) p s }) }"

partial_function (option) rbe_remove_color :: "nat option \<Rightarrow> nat option \<Rightarrow> rbt_tree \<Rightarrow> rbt_tree option" where
  "rbe_remove_color parent rbe s = do {
     (r, s) \<leftarrow> remove_color_step parent rbe s;
     (case r of
        Inl (parent, rbe) \<Rightarrow> rbe_remove_color parent rbe s
      | Inr rbe \<Rightarrow> unless_null rbe (\<lambda>a. set_color a RB_BLACK) s) }"

text \<open>\<^verbatim>\<open>while ((tmp = RBE_LEFT(rbe)) != NULL) rbe = tmp;\<close>\<close>

partial_function (option) descend :: "side \<Rightarrow> nat \<Rightarrow> rbt_tree \<Rightarrow> nat option" where
  "descend d rbe s = do {
     e \<leftarrow> rbt_mem s rbe;
     (case rbt_child d e of None \<Rightarrow> Some rbe | Some tmp \<Rightarrow> descend d tmp s) }"

text \<open>Take an entry with at most one child out of the tree.\<close>

definition unsplice :: "nat \<Rightarrow> nat option \<Rightarrow> rbt_tree \<Rightarrow> rbt_tree option" where
  "unsplice rbe child s = do {
     e \<leftarrow> rbt_mem s rbe;
     s \<leftarrow> unless_null child (\<lambda>a. set_parent a (rbt_parent e)) s;
     relink (rbt_parent e) rbe child s }"

text \<open>Put \<open>rbe\<close> into the place of \<open>old\<close>.\<close>

definition replace_entry :: "nat \<Rightarrow> nat \<Rightarrow> rbt_tree \<Rightarrow> rbt_tree option" where
  "replace_entry old rbe s = do {
     oe \<leftarrow> rbt_mem s old;
     s \<leftarrow> put_entry rbe (\<lambda>_. oe) s;
     s \<leftarrow> relink (rbt_parent oe) old (Some rbe) s;
     oe \<leftarrow> rbt_mem s old;
     l \<leftarrow> rbt_left oe;
     s \<leftarrow> set_parent l (Some rbe) s;
     oe \<leftarrow> rbt_mem s old;
     unless_null (rbt_right oe) (\<lambda>a. set_parent a (Some rbe)) s }"

definition rbe_remove :: "nat \<Rightarrow> rbt_tree \<Rightarrow> (nat \<times> rbt_tree) option" where
  "rbe_remove old s = do {
     oe \<leftarrow> rbt_mem s old;
     (parent, child, color, s) \<leftarrow>
       (case (rbt_left oe, rbt_right oe) of
          (Some _, Some r) \<Rightarrow> do {
            rbe \<leftarrow> descend Lft r s;
            e \<leftarrow> rbt_mem s rbe;
            s \<leftarrow> unsplice rbe (rbt_right e) s;
            let parent = (if rbt_parent e = Some old then Some rbe else rbt_parent e);
            s \<leftarrow> replace_entry old rbe s;
            Some (parent, rbt_right e, rbt_color e, s) }
        | _ \<Rightarrow> do {
            let child = (if rbt_left oe = None then rbt_right oe else rbt_left oe);
            s \<leftarrow> unsplice old child s;
            Some (rbt_parent oe, child, rbt_color oe, s) });
     s \<leftarrow> (if color = RB_BLACK then rbe_remove_color parent child s else Some s);
     Some (old, s) }"

section \<open>Looking up and walking\<close>

partial_function (option) rb_find_ptr :: "(nat \<Rightarrow> 'k::linorder) \<Rightarrow> 'k \<Rightarrow> nat option \<Rightarrow> rbt_tree \<Rightarrow> nat option option" where
  "rb_find_ptr key k tmp s = (case tmp of
       None \<Rightarrow> Some None
     | Some a \<Rightarrow> do {
         e \<leftarrow> rbt_mem s a;
         if k < key a then rb_find_ptr key k (rbt_left e) s
         else if k > key a then rb_find_ptr key k (rbt_right e) s
         else Some (Some a) })"

partial_function (option) rb_nfind_ptr ::
    "(nat \<Rightarrow> 'k::linorder) \<Rightarrow> 'k \<Rightarrow> nat option \<Rightarrow> nat option \<Rightarrow> rbt_tree \<Rightarrow> nat option option" where
  "rb_nfind_ptr key k tmp res s = (case tmp of
       None \<Rightarrow> Some res
     | Some a \<Rightarrow> do {
         e \<leftarrow> rbt_mem s a;
         if k < key a then rb_nfind_ptr key k (rbt_left e) (Some a) s
         else if k > key a then rb_nfind_ptr key k (rbt_right e) res s
         else Some (Some a) })"

text \<open>\<^verbatim>\<open>_rb_min\<close> (\<open>Lft\<close>) and \<^verbatim>\<open>_rb_max\<close> (\<open>Rgt\<close>).\<close>

definition rb_extreme :: "side \<Rightarrow> rbt_tree \<Rightarrow> nat option option" where
  "rb_extreme d s = (case rbt_root s of None \<Rightarrow> Some None | Some a \<Rightarrow> map_option Some (descend d a s))"

text \<open>The way up as long as the entry is the \<open>d\<close> child of its parent.\<close>

partial_function (option) climb :: "side \<Rightarrow> nat \<Rightarrow> rbt_tree \<Rightarrow> nat option option" where
  "climb d rbe s = do {
     e \<leftarrow> rbt_mem s rbe;
     (case rbt_parent e of
        None \<Rightarrow> Some None
      | Some p \<Rightarrow> do {
          pe \<leftarrow> rbt_mem s p;
          if rbt_child d pe = Some rbe then climb d p s else Some (Some p) }) }"

text \<open>\<^verbatim>\<open>_rb_next\<close> (\<open>Rgt\<close>) and \<^verbatim>\<open>_rb_prev\<close> (\<open>Lft\<close>).  The test of the other side before the loop is
  part of the loop: an entry that is the other child is not the \<open>d\<close> child.\<close>

definition rb_step :: "side \<Rightarrow> nat \<Rightarrow> rbt_tree \<Rightarrow> nat option option" where
  "rb_step d rbe s = do {
     e \<leftarrow> rbt_mem s rbe;
     (case rbt_child d e of
        Some a \<Rightarrow> map_option Some (descend (opp d) a s)
      | None \<Rightarrow>
          (case rbt_parent e of
             None \<Rightarrow> Some None
           | Some p \<Rightarrow> do {
               pe \<leftarrow> rbt_mem s p;
               if rbt_child (opp d) pe = Some rbe then Some (Some p) else climb d rbe s })) }"

text \<open>\<^verbatim>\<open>RB_FOREACH\<close>: the entries in the order in which the loop visits them.\<close>

partial_function (option) rb_visit :: "nat option \<Rightarrow> rbt_tree \<Rightarrow> nat list option" where
  "rb_visit e s = (case e of
       None \<Rightarrow> Some []
     | Some a \<Rightarrow> do { n \<leftarrow> rb_step Rgt a s; rest \<leftarrow> rb_visit n s; Some (a # rest) })"

definition rb_foreach :: "rbt_tree \<Rightarrow> nat list option" where
  "rb_foreach s = do { e \<leftarrow> rb_extreme Lft s; rb_visit e s }"

end
