(* ===== verification/Rb_Rep.thy ===== *)
theory Rb_Rep
  imports Rb_Pointer
begin

text \<open>
  What the pointers mean: a memory represents a tree of addresses and colours, seen from
  one of its subtrees (the context is the way up to the root).  The lemmas show what
  writing a colour and rotating do to the tree that is represented.
\<close>

type_synonym rbtree = "(nat \<times> rb_color) tree"

fun addr :: "rbtree \<Rightarrow> nat option" where
  "addr Leaf = None"
| "addr (Node l x r) = Some (fst x)"

fun color_of :: "rbtree \<Rightarrow> rb_color" where
  "color_of Leaf = RB_BLACK"
| "color_of (Node l x r) = snd x"

definition addrs :: "rbtree \<Rightarrow> nat list" where
  "addrs t = map fst (inorder t)"

lemma addrs_simps [simp]: "addrs Leaf = []" "addrs (Node l x r) = addrs l @ fst x # addrs r"
  by (simp_all add: addrs_def)

text \<open>\<open>node d\<close>: the first subtree is the one on side \<open>d\<close>.\<close>

fun node :: "side \<Rightarrow> rbtree \<Rightarrow> nat \<times> rb_color \<Rightarrow> rbtree \<Rightarrow> rbtree" where
  "node Lft l x r = Node l x r"
| "node Rgt r x l = Node l x r"

fun entry :: "side \<Rightarrow> nat option \<Rightarrow> nat option \<Rightarrow> nat option \<Rightarrow> rb_color \<Rightarrow> rb_entry" where
  "entry Lft par l r c = \<lparr>rbt_parent = par, rbt_left = l, rbt_right = r, rbt_color = c\<rparr>"
| "entry Rgt par r l c = \<lparr>rbt_parent = par, rbt_left = l, rbt_right = r, rbt_color = c\<rparr>"

datatype frame = Frame side nat rb_color rbtree

fun up :: "frame \<Rightarrow> rbtree \<Rightarrow> rbtree" where
  "up (Frame d a c sib) t = node d t (a, c) sib"

fun fill :: "frame list \<Rightarrow> rbtree \<Rightarrow> rbtree" where
  "fill [] t = t"
| "fill (f # k) t = fill k (up f t)"

fun above :: "frame list \<Rightarrow> nat option" where
  "above [] = None"
| "above (Frame d a c sib # k) = Some a"

section \<open>Representation\<close>

fun rep :: "(nat \<rightharpoonup> rb_entry) \<Rightarrow> nat option \<Rightarrow> rbtree \<Rightarrow> bool" where
  "rep h par Leaf \<longleftrightarrow> True"
| "rep h par (Node l x r) \<longleftrightarrow>
     h (fst x) = Some \<lparr>rbt_parent = par, rbt_left = addr l, rbt_right = addr r, rbt_color = snd x\<rparr> \<and>
     rep h (Some (fst x)) l \<and> rep h (Some (fst x)) r"

fun repc :: "(nat \<rightharpoonup> rb_entry) \<Rightarrow> nat option \<Rightarrow> frame list \<Rightarrow> bool" where
  "repc h ch [] \<longleftrightarrow> True"
| "repc h ch (Frame d a c sib # k) \<longleftrightarrow>
     h a = Some (entry d (above k) ch (addr sib) c) \<and> rep h (Some a) sib \<and> repc h (Some a) k"

text \<open>The state represents the tree with the subtree \<open>t\<close> in the context \<open>k\<close>.\<close>

definition holds :: "rbt_tree \<Rightarrow> frame list \<Rightarrow> rbtree \<Rightarrow> bool" where
  "holds s k t \<longleftrightarrow> rep (rbt_mem s) (above k) t \<and> repc (rbt_mem s) (addr t) k \<and>
     distinct (addrs (fill k t)) \<and> rbt_root s = addr (fill k t)"

lemma opp_opp [simp]: "opp (opp d) = d"
  by (cases d) simp_all

lemma opp_neq [simp]: "opp d \<noteq> d" "d \<noteq> opp d"
  by (cases d, simp_all)+

lemma node_simps [simp]:
  "addr (node d l x r) = Some (fst x)" "color_of (node d l x r) = snd x"
  "node d l x r \<noteq> Leaf" "Leaf \<noteq> node d l x r"
  "set (addrs (node d l x r)) = insert (fst x) (set (addrs l) \<union> set (addrs r))"
  by (cases d; auto)+

lemma node_opp: "node (opp d) l x r = node d r x l"
  by (cases d) simp_all

lemma rep_node [simp]:
  "rep h par (node d l x r) \<longleftrightarrow> h (fst x) = Some (entry d par (addr l) (addr r) (snd x)) \<and>
     rep h (Some (fst x)) l \<and> rep h (Some (fst x)) r"
  by (cases d) auto

lemma entry_simps [simp]:
  "rbt_child d (entry d par l r c) = l" "rbt_child (opp d) (entry d par l r c) = r"
  "rbt_parent (entry d par l r c) = par" "rbt_color (entry d par l r c) = c"
  "with_child d p (entry d par l r c) = entry d par p r c" "with_child (opp d) p (entry d par l r c) = entry d par l p c"
  "(entry d par l r c)\<lparr>rbt_parent := q\<rparr> = entry d q l r c" "(entry d par l r c)\<lparr>rbt_color := c'\<rparr> = entry d par l r c'"
  by (cases d; simp)+

lemma distinct_node [simp]:
  "distinct (addrs (node d l x r)) \<longleftrightarrow> distinct (addrs l) \<and> distinct (addrs r) \<and> fst x \<notin> set (addrs l) \<and> fst x \<notin> set (addrs r) \<and>
     set (addrs l) \<inter> set (addrs r) = {}"
  by (cases d) auto

text \<open>The addresses in the context.\<close>

fun outer :: "frame list \<Rightarrow> nat set" where
  "outer [] = {}"
| "outer (Frame d a c sib # k) = insert a (set (addrs sib) \<union> outer k)"

fun distinct_ctx :: "frame list \<Rightarrow> bool" where
  "distinct_ctx [] = True"
| "distinct_ctx (Frame d a c sib # k) \<longleftrightarrow>
     distinct (addrs sib) \<and> a \<notin> set (addrs sib) \<and> a \<notin> outer k \<and> set (addrs sib) \<inter> outer k = {} \<and> distinct_ctx k"

lemma set_fill: "set (addrs (fill k t)) = set (addrs t) \<union> outer k"
proof (induction k arbitrary: t)
  case (Cons f k)
  then show ?case by (cases f) auto
qed simp

lemma distinct_fill:
  "distinct (addrs (fill k t)) \<longleftrightarrow> distinct (addrs t) \<and> distinct_ctx k \<and> set (addrs t) \<inter> outer k = {}"
proof (induction k arbitrary: t)
  case (Cons f k)
  then show ?case by (cases f) auto
qed simp

lemma rep_fill: "rep h None (fill k t) \<longleftrightarrow> rep h (above k) t \<and> repc h (addr t) k"
proof (induction k arbitrary: t)
  case (Cons f k)
  then show ?case by (cases f) auto
qed simp

lemma rep_other [simp]: "a \<notin> set (addrs t) \<Longrightarrow> rep (h(a \<mapsto> e)) par t = rep h par t"
  by (induction t arbitrary: par) auto

lemma repc_other [simp]: "a \<notin> outer k \<Longrightarrow> repc (h(a \<mapsto> e)) ch k = repc h ch k"
proof (induction k arbitrary: ch)
  case (Cons f k)
  then show ?case by (cases f) (simp del: fun_upd_apply add: fun_upd_other)
qed simp

lemma fill_fill: "fill k (fill j t) = fill (j @ k) t"
  by (induction j arbitrary: t) simp_all

lemma holds_up: "holds s (Frame d a c sib # k) t \<longleftrightarrow> holds s k (node d t (a, c) sib)"
  by (auto simp: holds_def)

lemma holds_fill: "holds s k t \<longleftrightarrow> holds s [] (fill k t)"
  by (simp add: holds_def rep_fill)

text \<open>The root of the whole.\<close>

lemma addr_fill: "k \<noteq> [] \<Longrightarrow> addr (fill k t) = addr (fill k u)"
proof (induction k arbitrary: t u)
  case (Cons f k)
  then show ?case by (cases f; cases "k = []") simp_all
qed simp

lemma addr_fill_same: "addr t = addr u \<Longrightarrow> addr (fill k t) = addr (fill k u)"
  using addr_fill [of k t u] by (cases "k = []") simp_all

section \<open>Reading and writing\<close>

lemma addr_in: "addr t = Some a \<Longrightarrow> a \<in> set (addrs t)"
  by (cases t) auto

lemma addr_not: "a \<notin> set (addrs t) \<Longrightarrow> addr t \<noteq> Some a"
  using addr_in by blast

text \<open>The entry of the subtree in focus.\<close>

lemma holds_entry:
  "holds s k (node d l (x, c) r) \<Longrightarrow> rbt_mem s x = Some (entry d (above k) (addr l) (addr r) c)"
  by (simp add: holds_def)

lemma set_color_holds:
  assumes "holds s k (node d l (x, c) r)"
  shows "\<exists>s'. set_color x c' s = Some s' \<and> holds s' k (node d l (x, c') r)"
proof -
  have m: "rbt_mem s x = Some (entry d (above k) (addr l) (addr r) c)" by (rule holds_entry [OF assms])
  have root: "addr (fill k (node d l (x, c') r)) = addr (fill k (node d l (x, c) r))"
    by (rule addr_fill_same) simp
  show ?thesis using assms m root by (auto simp: set_color_def put_entry_def holds_def distinct_fill)
qed

lemma is_black_holds:
  "rep (rbt_mem s) par t \<Longrightarrow> is_black (addr t) s = Some (color_of t = RB_BLACK)"
  by (cases t) (auto simp: is_black_def)

section \<open>Rotations\<close>

lemma rep_cong: "(\<And>a. a \<in> set (addrs t) \<Longrightarrow> h' a = h a) \<Longrightarrow> rep h' par t = rep h par t"
  by (induction t arbitrary: par) auto

lemma repc_cong: "(\<And>a. a \<in> outer k \<Longrightarrow> h' a = h a) \<Longrightarrow> repc h' ch k = repc h ch k"
proof (induction k arbitrary: ch)
  case (Cons f k)
  obtain d a c sib where f: "f = Frame d a c sib" by (cases f)
  have "rep h' (Some a) sib = rep h (Some a) sib" by (rule rep_cong) (use Cons.prems f in auto)
  then show ?case using Cons f by auto
qed simp

lemma put_entry_run:
  "rbt_mem s a = Some e \<Longrightarrow> put_entry a f s = Some (s\<lparr>rbt_mem := (rbt_mem s)(a \<mapsto> f e)\<rparr>)"
  by (simp add: put_entry_def)

text \<open>A subtree gets another parent.\<close>

lemma adopt:
  assumes "rep (rbt_mem s) par t" "distinct (addrs t)"
  shows "\<exists>s'. unless_null (addr t) (\<lambda>b. set_parent b q) s = Some s' \<and> rbt_root s' = rbt_root s \<and> rep (rbt_mem s') q t \<and>
    (\<forall>a. a \<notin> set (addrs t) \<longrightarrow> rbt_mem s' a = rbt_mem s a)"
proof (cases t)
  case (Node l x r)
  with assms show ?thesis by (auto simp: unless_null_def set_parent_def put_entry_def)
qed (simp add: unless_null_def)

text \<open>The parent, or the root, gets another child.\<close>

lemma relink_run:
  assumes "repc (rbt_mem s) (Some x) k" "distinct_ctx k" "x \<notin> outer k"
  shows "\<exists>s'. relink (above k) x new s = Some s' \<and> rbt_root s' = (if k = [] then new else rbt_root s) \<and>
    repc (rbt_mem s') new k \<and> (\<forall>a. a \<notin> outer k \<longrightarrow> rbt_mem s' a = rbt_mem s a)"
proof (cases k)
  case Nil
  then show ?thesis by (simp add: relink_def)
next
  case (Cons f k')
  obtain d a c sib where f: "f = Frame d a c sib" by (cases f)
  have m: "rbt_mem s a = Some (entry d (above k') (Some x) (addr sib) c)" using assms(1) Cons f by simp
  have "addr sib \<noteq> Some x" using assms(3) Cons f addr_not by auto
  then have side: "(if rbt_left (entry d (above k') (Some x) (addr sib) c) = Some x then Lft else Rgt) = d"
    by (cases d) auto
  show ?thesis
    using assms Cons f m by (auto simp: relink_def side set_child_def put_entry_run [OF m])
qed

text \<open>What a rotation writes.\<close>

lemma rotate_run:
  assumes m: "rbt_mem s x = Some (entry d (above k) (addr A) (Some y) cx)"
      "rbt_mem s y = Some (entry d (Some x) (addr B) (addr C) cy)" "rep (rbt_mem s) (Some y) B" "repc (rbt_mem s) (Some x) k"
    and dist: "x \<noteq> y" "{x, y} \<inter> set (addrs B) = {}" "{x, y} \<inter> outer k = {}" "set (addrs B) \<inter> outer k = {}"
      "distinct (addrs B)" "distinct_ctx k"
  shows "\<exists>s'. rbe_rotate d x s = Some s' \<and> rbt_root s' = (if k = [] then Some y else rbt_root s) \<and>
    rbt_mem s' x = Some (entry d (Some y) (addr A) (addr B) cx) \<and> rbt_mem s' y = Some (entry d (above k) (Some x) (addr C) cy) \<and>
    rep (rbt_mem s') (Some x) B \<and> repc (rbt_mem s') (Some y) k \<and>
    (\<forall>a. a \<notin> {x, y} \<union> set (addrs B) \<union> outer k \<longrightarrow> rbt_mem s' a = rbt_mem s a)"
proof -
  define s1 where "s1 = s\<lparr>rbt_mem := (rbt_mem s)(x \<mapsto> entry d (above k) (addr A) (addr B) cx)\<rparr>"
  have s1: "set_child (opp d) x (addr B) s = Some s1" by (simp add: set_child_def put_entry_run [OF m(1)] s1_def)
  have "rep (rbt_mem s1) (Some y) B" using m(3) dist(2) by (simp add: s1_def)
  from adopt [OF this dist(5), of "Some x"] obtain s2 where s2: "unless_null (addr B) (\<lambda>b. set_parent b (Some x)) s1 = Some s2"
      "rbt_root s2 = rbt_root s1" "rep (rbt_mem s2) (Some x) B" "\<And>a. a \<notin> set (addrs B) \<Longrightarrow> rbt_mem s2 a = rbt_mem s1 a" by blast
  have x2: "rbt_mem s2 x = Some (entry d (above k) (addr A) (addr B) cx)"
    and y2: "rbt_mem s2 y = Some (entry d (Some x) (addr B) (addr C) cy)"
    using s2(4) dist(1,2) m(2) by (simp_all add: s1_def)
  define s3 where "s3 = s2\<lparr>rbt_mem := (rbt_mem s2)(y \<mapsto> entry d (above k) (addr B) (addr C) cy)\<rparr>"
  have s3: "set_parent y (above k) s2 = Some s3" by (simp add: set_parent_def put_entry_run [OF y2] s3_def)
  have s3m: "rbt_mem s3 a = rbt_mem s a" if "a \<noteq> x" "a \<noteq> y" "a \<notin> set (addrs B)" for a
    using that s2(4) by (simp add: s3_def s1_def)
  have "repc (rbt_mem s3) (Some x) k"
    using m(4) repc_cong [of k "rbt_mem s3" "rbt_mem s"] s3m dist(3,4) by blast
  moreover have "x \<notin> outer k" using dist(3) by blast
  ultimately obtain s4 where s4: "relink (above k) x (Some y) s3 = Some s4"
      "rbt_root s4 = (if k = [] then Some y else rbt_root s3)" "repc (rbt_mem s4) (Some y) k"
      "\<And>a. a \<notin> outer k \<Longrightarrow> rbt_mem s4 a = rbt_mem s3 a" using relink_run [OF _ dist(6), of s3 x "Some y"] by blast
  have y4: "rbt_mem s4 y = Some (entry d (above k) (addr B) (addr C) cy)"
    and x4: "rbt_mem s4 x = Some (entry d (above k) (addr A) (addr B) cx)"
    using s4(4) dist(1,3) x2 by (simp_all add: s3_def)
  let ?s5 = "s4\<lparr>rbt_mem := (rbt_mem s4)(y \<mapsto> entry d (above k) (Some x) (addr C) cy)\<rparr>"
  let ?s6 = "s4\<lparr>rbt_mem := (rbt_mem s4)(y \<mapsto> entry d (above k) (Some x) (addr C) cy, x \<mapsto> entry d (Some y) (addr A) (addr B) cx)\<rparr>"
  have s56: "set_child d y (Some x) s4 = Some ?s5" "set_parent x (Some y) ?s5 = Some ?s6"
    using put_entry_run [of ?s5 x] x4 dist(1) by (simp_all add: set_child_def set_parent_def put_entry_run [OF y4])
  have "rbe_rotate d x s = Some ?s6"
    unfolding rbe_rotate_def using m(1,2) s1 s2(1) x2 s3 s4(1) s56 by (simp add: Let_def)
  moreover have "rbt_mem s4 a = rbt_mem s2 a" if "a \<in> set (addrs B)" for a
    using that s4(4) [of a] dist(2,4) by (cases "a = y \<or> a \<in> outer k") (auto simp: s3_def)
  then have "rep (rbt_mem s4) (Some x) B" using s2(3) rep_cong [of B "rbt_mem s4" "rbt_mem s2"] by blast
  then have "rep (rbt_mem ?s6) (Some x) B" using dist(2) by simp
  moreover have "repc (rbt_mem ?s6) (Some y) k"
    using s4(3) repc_cong [of k "rbt_mem ?s6" "rbt_mem s4"] dist(3) by auto
  ultimately show ?thesis
    using s4(2,4) s3m s2(2) dist(1) by (intro exI [of _ ?s6]) (simp add: s3_def s1_def)
qed

lemma rotate_holds:
  assumes "holds s k (node d A (x, cx) (node d B (y, cy) C))"
  shows "\<exists>s'. rbe_rotate d x s = Some s' \<and> holds s' k (node d (node d A (x, cx) B) (y, cy) C)"
proof -
  have rep: "rbt_mem s x = Some (entry d (above k) (addr A) (Some y) cx)" "rbt_mem s y = Some (entry d (Some x) (addr B) (addr C) cy)"
      "rep (rbt_mem s) (Some y) B" "repc (rbt_mem s) (Some x) k" "rep (rbt_mem s) (Some x) A" "rep (rbt_mem s) (Some y) C"
    using assms by (simp_all add: holds_def)
  have dist: "x \<noteq> y" "{x, y} \<inter> set (addrs B) = {}" "{x, y} \<inter> outer k = {}" "set (addrs B) \<inter> outer k = {}"
      "distinct (addrs B)" "distinct_ctx k"
    using assms by (auto simp: holds_def distinct_fill)
  have away: "a \<notin> {x, y} \<union> set (addrs B) \<union> outer k" if "a \<in> set (addrs A) \<union> set (addrs C)" for a
    using assms that by (auto simp: holds_def distinct_fill)
  obtain s' where s': "rbe_rotate d x s = Some s'" "rbt_root s' = (if k = [] then Some y else rbt_root s)"
      "rbt_mem s' x = Some (entry d (Some y) (addr A) (addr B) cx)" "rbt_mem s' y = Some (entry d (above k) (Some x) (addr C) cy)"
      "rep (rbt_mem s') (Some x) B" "repc (rbt_mem s') (Some y) k"
      "\<And>a. a \<notin> {x, y} \<union> set (addrs B) \<union> outer k \<Longrightarrow> rbt_mem s' a = rbt_mem s a"
    using rotate_run [OF rep(1-4) dist] by blast
  have "rep (rbt_mem s') (Some x) A" "rep (rbt_mem s') (Some y) C"
    using rep(5,6) rep_cong [of A "rbt_mem s'" "rbt_mem s"] rep_cong [of C "rbt_mem s'" "rbt_mem s"] s'(7) away by simp_all
  moreover have "rbt_root s' = addr (fill k (node d (node d A (x, cx) B) (y, cy) C))"
    using assms s'(2) addr_fill [of k "node d A (x, cx) (node d B (y, cy) C)" "node d (node d A (x, cx) B) (y, cy) C"]
    by (simp add: holds_def)
  moreover have "distinct (addrs (fill k (node d (node d A (x, cx) B) (y, cy) C)))"
    using assms unfolding holds_def distinct_fill by auto
  ultimately have "holds s' k (node d (node d A (x, cx) B) (y, cy) C)" using s'(3-6) by (simp add: holds_def)
  then show ?thesis using s'(1) by blast
qed

end
