(* ===== verification/Rb_Insert.thy ===== *)
theory Rb_Insert
  imports Rb_Rep
begin

text \<open>
  Insertion into the red-black tree: the loop that restores the colours ends, keeps the
  order of the entries and leaves a tree without two red entries in a row and with the
  same number of black entries on every way down.  Together with the way down this
  makes \<^verbatim>\<open>_rb_insert\<close> an implementation of insertion into a sorted list.
\<close>

section \<open>Red-black trees and their contexts\<close>

fun bheight :: "rbtree \<Rightarrow> nat" where
  "bheight Leaf = 0"
| "bheight (Node l x r) = (if snd x = RB_BLACK then Suc (bheight l) else bheight l)"

fun invc :: "rbtree \<Rightarrow> bool" where
  "invc Leaf \<longleftrightarrow> True"
| "invc (Node l x r) \<longleftrightarrow> (snd x = RB_RED \<longrightarrow> color_of l = RB_BLACK \<and> color_of r = RB_BLACK) \<and> invc l \<and> invc r"

fun invh :: "rbtree \<Rightarrow> bool" where
  "invh Leaf \<longleftrightarrow> True"
| "invh (Node l x r) \<longleftrightarrow> bheight l = bheight r \<and> invh l \<and> invh r"

definition rb_tree :: "rbtree \<Rightarrow> bool" where
  "rb_tree t \<longleftrightarrow> invc t \<and> invh t \<and> color_of t = RB_BLACK"

fun invcc :: "frame list \<Rightarrow> rb_color \<Rightarrow> bool" where
  "invcc [] col \<longleftrightarrow> True"
| "invcc (Frame d a c sib # k) col \<longleftrightarrow> (c = RB_RED \<longrightarrow> col = RB_BLACK \<and> color_of sib = RB_BLACK) \<and> invc sib \<and> invcc k c"

fun invhc :: "frame list \<Rightarrow> nat \<Rightarrow> bool" where
  "invhc [] n \<longleftrightarrow> True"
| "invhc (Frame d a c sib # k) n \<longleftrightarrow> invh sib \<and> bheight sib = n \<and> invhc k (if c = RB_BLACK then Suc n else n)"

fun top_color :: "frame list \<Rightarrow> rb_color \<Rightarrow> rb_color" where
  "top_color [] c = c"
| "top_color (Frame d a c sib # k) _ = top_color k c"

lemma inv_node [simp]:
  "invc (node d l x r) \<longleftrightarrow> (snd x = RB_RED \<longrightarrow> color_of l = RB_BLACK \<and> color_of r = RB_BLACK) \<and> invc l \<and> invc r"
  "invh (node d l x r) \<longleftrightarrow> bheight l = bheight r \<and> invh l \<and> invh r"
  by (cases d; auto)+

lemma bheight_node: "bheight l = bheight r \<Longrightarrow> bheight (node d l x r) = (if snd x = RB_BLACK then Suc (bheight l) else bheight l)"
  by (cases d) simp_all

lemma invc_fill: "invc (fill k t) \<longleftrightarrow> invc t \<and> invcc k (color_of t)"
proof (induction k arbitrary: t)
  case (Cons f k)
  then show ?case by (cases f) auto
qed simp

lemma invh_fill: "invh (fill k t) \<longleftrightarrow> invh t \<and> invhc k (bheight t)"
proof (induction k arbitrary: t)
  case (Cons f k)
  obtain d a c sib where f: "f = Frame d a c sib" by (cases f)
  show ?case
  proof (cases "bheight t = bheight sib")
    case True
    then show ?thesis using Cons f bheight_node [OF True, of d "(a, c)"] by simp
  next
    case False
    then show ?thesis using Cons f by simp
  qed
qed simp

lemma color_fill: "color_of (fill k t) = top_color k (color_of t)"
proof (induction k arbitrary: t)
  case (Cons f k)
  then show ?case by (cases f) auto
qed simp

fun before :: "frame list \<Rightarrow> nat list" where
  "before [] = []"
| "before (Frame Lft a c sib # k) = before k"
| "before (Frame Rgt a c sib # k) = before k @ addrs sib @ [a]"

fun after :: "frame list \<Rightarrow> nat list" where
  "after [] = []"
| "after (Frame Lft a c sib # k) = a # addrs sib @ after k"
| "after (Frame Rgt a c sib # k) = after k"

lemma addrs_fill: "addrs (fill k t) = before k @ addrs t @ after k"
proof (induction k arbitrary: t)
  case (Cons f k)
  obtain d a c sib where "f = Frame d a c sib" by (cases f)
  with Cons show ?case by (cases d) simp_all
qed simp

lemma node_cases:
  assumes "t \<noteq> Leaf"
  obtains l x c r where "t = node d l (x, c) r"
proof -
  obtain l x r where "t = Node l x r" using assms by (cases t) auto
  then have "t = node Lft l (fst x, snd x) r" "t = node Rgt r (fst x, snd x) l" by simp_all
  then show thesis using that by (cases d) blast+
qed

lemma red_not_leaf: "color_of t = RB_RED \<Longrightarrow> t \<noteq> Leaf"
  by auto

section \<open>Restoring the colours after an insertion\<close>

text \<open>The last statement of the loop.\<close>

lemma blacken_root:
  assumes "holds s [] t" "t \<noteq> Leaf"
  shows "\<exists>s' t'. (do { root \<leftarrow> rbt_root s; set_color root RB_BLACK s }) = Some s' \<and> holds s' [] t' \<and> addrs t' = addrs t \<and>
    (invc t \<longrightarrow> invc t') \<and> (invh t \<longrightarrow> invh t') \<and> color_of t' = RB_BLACK"
proof -
  obtain l x c r where t: "t = node Lft l (x, c) r" using node_cases [OF assms(2)] by blast
  then have "rbt_root s = Some x" using assms(1) by (simp add: holds_def)
  moreover obtain s' where "set_color x RB_BLACK s = Some s'" "holds s' [] (node Lft l (x, RB_BLACK) r)"
    using set_color_holds [of s "[]" Lft l x c r RB_BLACK] assms(1) t by blast
  ultimately show ?thesis using t by (intro exI [of _ s'] exI [of _ "node Lft l (x, RB_BLACK) r"]) auto
qed

text \<open>Three colours at a time: a child and its parent, wherever the focus is.\<close>

lemma blackred_holds:
  assumes "holds s k (node d (node e l (p, cp) r) (g, cg) u)"
  shows "\<exists>s'. rbe_set_blackred p g s = Some s' \<and> holds s' k (node d (node e l (p, RB_BLACK) r) (g, RB_RED) u)"
proof -
  have "holds s (Frame d g cg u # k) (node e l (p, cp) r)" using assms by (simp add: holds_up)
  from set_color_holds [OF this] obtain s1 where s1: "set_color p RB_BLACK s = Some s1"
      "holds s1 k (node d (node e l (p, RB_BLACK) r) (g, cg) u)" unfolding holds_up by blast
  from set_color_holds [OF s1(2)] show ?thesis using s1(1) by (auto simp: rbe_set_blackred_def)
qed

lemma side_of:
  assumes "holds s k (node d t (a, c) u)" "addr t = Some x"
  shows "\<exists>e. rbt_mem s a = Some e \<and> (if rbt_left e = Some x then Lft else Rgt) = d"
proof -
  have "rbt_mem s a = Some (entry d (above k) (Some x) (addr u) c)" using assms by (simp add: holds_def)
  moreover have "addr u \<noteq> Some x" using assms addr_in [of t x] addr_in [of u x] by (auto simp: holds_def distinct_fill)
  ultimately show ?thesis by (cases d) auto
qed

lemma uncle_red:
  assumes "holds s k (node d (node e t (p, RB_RED) sib) (g, RB_BLACK) u)" "color_of u = RB_RED"
  shows "\<exists>s' u'. insert_color_side d x p g s = Some (g, s') \<and> color_of u' = RB_BLACK \<and>
    holds s' k (node d (node e t (p, RB_BLACK) sib) (g, RB_RED) u') \<and> addrs u' = addrs u \<and>
    (invc u \<longrightarrow> invc u') \<and> (invh u \<longrightarrow> invh u') \<and> bheight u' = Suc (bheight u)"
proof -
  obtain l y c r where u: "u = node d l (y, c) r" using node_cases [OF red_not_leaf [OF assms(2)]] by blast
  have u': "u = node d l (y, RB_RED) r" using u assms(2) by simp
  let ?u' = "node d l (y, RB_BLACK) r"
  have m: "rbt_mem s g = Some (entry d (above k) (Some p) (Some y) RB_BLACK)" "is_black (Some y) s = Some False"
    using assms(1) u' is_black_holds [of s "Some g" u] by (simp_all add: holds_def)
  have "holds s (Frame (opp d) g RB_BLACK (node e t (p, RB_RED) sib) # k) (node d l (y, RB_RED) r)"
    using assms(1) u' by (simp add: holds_up node_opp)
  from set_color_holds [OF this] obtain s1 where s1: "set_color y RB_BLACK s = Some s1"
      "holds s1 k (node d (node e t (p, RB_RED) sib) (g, RB_BLACK) ?u')" unfolding holds_up node_opp by blast
  from blackred_holds [OF s1(2)] obtain s2 where s2: "rbe_set_blackred p g s1 = Some s2"
      "holds s2 k (node d (node e t (p, RB_BLACK) sib) (g, RB_RED) ?u')" by blast
  have "addrs ?u' = addrs u" "bheight ?u' = Suc (bheight u)" using u' by (cases d; simp)+
  then show ?thesis using m s1(1) s2 u' by (intro exI [of _ s2] exI [of _ ?u']) (simp add: insert_color_side_def Let_def)
qed

lemma uncle_black_outer:
  assumes "holds s k (node d (node d t (p, RB_RED) sib) (g, RB_BLACK) u)" "color_of u = RB_BLACK" "addr t = Some x"
  shows "\<exists>s'. insert_color_side d x p g s = Some (x, s') \<and> holds s' (Frame d p RB_BLACK (node d sib (g, RB_RED) u) # k) t"
proof -
  have m: "rbt_mem s g = Some (entry d (above k) (Some p) (addr u) RB_BLACK)" "is_black (addr u) s = Some True"
      "rbt_mem s p = Some (entry d (Some g) (Some x) (addr sib) RB_RED)" "addr sib \<noteq> Some x"
    using assms is_black_holds [of s "Some g" u] addr_in [of t x] addr_in [of sib x] by (auto simp: holds_def distinct_fill)
  from blackred_holds [OF assms(1)] obtain s1 where s1: "rbe_set_blackred p g s = Some s1"
      "holds s1 k (node d (node d t (p, RB_BLACK) sib) (g, RB_RED) u)" by blast
  have "holds s1 k (node (opp d) u (g, RB_RED) (node (opp d) sib (p, RB_BLACK) t))" using s1(2) by (simp add: node_opp)
  from rotate_holds [OF this] obtain s2 where "rbe_rotate (opp d) g s1 = Some s2"
      "holds s2 k (node d t (p, RB_BLACK) (node d sib (g, RB_RED) u))" unfolding node_opp by blast
  then show ?thesis using m s1(1) by (simp add: insert_color_side_def Let_def holds_up)
qed

lemma uncle_black_inner:
  assumes "holds s k (node d (node d sib (p, RB_RED) (node d B (x, RB_RED) C)) (g, RB_BLACK) u)" "color_of u = RB_BLACK"
  shows "\<exists>s'. insert_color_side d x p g s = Some (p, s') \<and>
    holds s' (Frame d x RB_BLACK (node d C (g, RB_RED) u) # k) (node d sib (p, RB_RED) B)"
proof -
  have m: "rbt_mem s g = Some (entry d (above k) (Some p) (addr u) RB_BLACK)" "is_black (addr u) s = Some True"
      "rbt_mem s p = Some (entry d (Some g) (addr sib) (Some x) RB_RED)"
    using assms is_black_holds [of s "Some g" u] by (simp_all add: holds_def)
  have "holds s (Frame d g RB_BLACK u # k) (node d sib (p, RB_RED) (node d B (x, RB_RED) C))" using assms(1) by (simp add: holds_up)
  from rotate_holds [OF this] obtain s1 where s1: "rbe_rotate d p s = Some s1"
      "holds s1 k (node d (node d (node d sib (p, RB_RED) B) (x, RB_RED) C) (g, RB_BLACK) u)" unfolding holds_up by blast
  from blackred_holds [OF s1(2)] obtain s2 where s2: "rbe_set_blackred x g s1 = Some s2"
      "holds s2 k (node d (node d (node d sib (p, RB_RED) B) (x, RB_BLACK) C) (g, RB_RED) u)" by blast
  have "holds s2 k (node (opp d) u (g, RB_RED) (node (opp d) C (x, RB_BLACK) (node d sib (p, RB_RED) B)))"
    using s2(2) by (simp add: node_opp)
  from rotate_holds [OF this] obtain s3 where "rbe_rotate (opp d) g s2 = Some s3"
      "holds s3 k (node d (node d sib (p, RB_RED) B) (x, RB_BLACK) (node d C (g, RB_RED) u))" unfolding node_opp by blast
  then show ?thesis using m s1(1) s2(1) by (simp add: insert_color_side_def Let_def holds_up)
qed

text \<open>The state of the loop: the entry in focus is red, and may have a red parent; everything
  else is in order.\<close>

definition loop_inv :: "frame list \<Rightarrow> rbtree \<Rightarrow> bool" where
  "loop_inv k t \<longleftrightarrow> color_of t = RB_RED \<and> invc t \<and> invh t \<and> invcc k RB_BLACK \<and> invhc k (bheight t) \<and> top_color k RB_BLACK = RB_BLACK"

lemma loop_exit:
  assumes "holds s k t" "loop_inv k t" "insert_color_step x s = Some (None, s)" "k = [] \<or> invcc k RB_RED"
  shows "\<exists>s' t'. rbe_insert_color x s = Some s' \<and> holds s' [] t' \<and> rb_tree t' \<and> addrs t' = addrs (fill k t)"
proof -
  have "fill k t \<noteq> Leaf"
  proof
    assume "fill k t = Leaf"
    then have "set (addrs (fill k t)) = {}" by simp
    then have "addrs t = []" by (simp add: set_fill)
    then have "t = Leaf" by (cases t) simp_all
    then show False using assms(2) by (simp add: loop_inv_def)
  qed
  moreover have "invc (fill k t)" "invh (fill k t)"
    using assms(2,4) by (auto simp: loop_inv_def invc_fill invh_fill)
  moreover have "holds s [] (fill k t)" using assms(1) holds_fill by blast
  ultimately obtain s' t' where "(do { root \<leftarrow> rbt_root s; set_color root RB_BLACK s }) = Some s'" "holds s' [] t'" "rb_tree t'"
      "addrs t' = addrs (fill k t)" using blacken_root [of s "fill k t"] unfolding rb_tree_def by blast
  then show ?thesis using assms(3) by (subst rbe_insert_color.simps) auto
qed

text \<open>One iteration gets closer to the root.\<close>

definition progress :: "frame list \<Rightarrow> rbtree \<Rightarrow> (nat \<times> rbt_tree) option \<Rightarrow> bool" where
  "progress k t r \<longleftrightarrow> (\<exists>y s' j u. r = Some (y, s') \<and> holds s' j u \<and> length j < length k \<and> addr u = Some y \<and> loop_inv j u \<and>
     addrs (fill j u) = addrs (fill k t))"

lemma red_parent_progress:
  assumes k: "k = Frame e p RB_RED sib # Frame d g RB_BLACK u # k'" and "holds s k t" "addr t = Some x" "loop_inv k t"
  shows "progress k t (insert_color_side d x p g s)"
proof -
  have h: "holds s k' (node d (node e t (p, RB_RED) sib) (g, RB_BLACK) u)" using assms(2) k by (simp add: holds_up)
  have inv: "invc t" "invc sib" "invc u" "color_of sib = RB_BLACK" "invcc k' RB_BLACK" "invh t" "invh sib" "invh u"
      "bheight sib = bheight t" "bheight u = bheight t" "invhc k' (Suc (bheight t))" "top_color k' RB_BLACK = RB_BLACK"
      "color_of t = RB_RED"
    using assms(4) k by (auto simp: loop_inv_def)
  consider "color_of u = RB_RED" | "color_of u = RB_BLACK" "e = d" | "color_of u = RB_BLACK" "e = opp d"
    by (cases "color_of u"; cases d; cases e) simp_all
  then show ?thesis
  proof cases
    case 1
    from uncle_red [OF h this] obtain s' u' where s': "insert_color_side d x p g s = Some (g, s')" "color_of u' = RB_BLACK"
        "holds s' k' (node d (node e t (p, RB_BLACK) sib) (g, RB_RED) u')" "addrs u' = addrs u" "invc u'" "invh u'"
        "bheight u' = Suc (bheight t)" using inv by metis
    have "bheight (node e t (p, RB_BLACK) sib) = Suc (bheight t)" using inv by (simp add: bheight_node)
    then have "loop_inv k' (node d (node e t (p, RB_BLACK) sib) (g, RB_RED) u')"
      using s' inv by (simp add: loop_inv_def bheight_node)
    moreover have "addrs (fill k' (node d (node e t (p, RB_BLACK) sib) (g, RB_RED) u')) = addrs (fill k t)"
      using s'(4) k by (simp add: addrs_fill) (cases d; cases e; simp)
    ultimately show ?thesis using s' k unfolding progress_def by fastforce
  next
    case 2
    let ?j = "Frame d p RB_BLACK (node d sib (g, RB_RED) u) # k'"
    obtain s' where s': "insert_color_side d x p g s = Some (x, s')" "holds s' ?j t"
      using uncle_black_outer [OF h [unfolded 2(2)] 2(1) assms(3)] by blast
    have "loop_inv ?j t" using inv 2 by (simp add: loop_inv_def bheight_node)
    moreover have "addrs (fill ?j t) = addrs (fill k t)" using k 2(2) by (simp add: addrs_fill) (cases d; simp)
    ultimately show ?thesis using s' k assms(3) unfolding progress_def by fastforce
  next
    case 3
    obtain B y c C where "t = node d B (y, c) C" using node_cases [OF red_not_leaf [OF inv(13)]] by blast
    then have t: "t = node d B (x, RB_RED) C" using inv(13) assms(3) by simp
    let ?j = "Frame d x RB_BLACK (node d C (g, RB_RED) u) # k'" and ?u = "node d sib (p, RB_RED) B"
    have "holds s k' (node d (node d sib (p, RB_RED) (node d B (x, RB_RED) C)) (g, RB_BLACK) u)"
      using h 3(2) t by (simp add: node_opp)
    from uncle_black_inner [OF this 3(1)] obtain s' where s': "insert_color_side d x p g s = Some (p, s')" "holds s' ?j ?u" by blast
    have "bheight B = bheight t" "bheight C = bheight t" "invc B" "invc C" "invh B" "invh C"
        "color_of B = RB_BLACK" "color_of C = RB_BLACK"
      using inv(1,6) t bheight_node [of B C d "(x, RB_RED)"] by auto
    then have "loop_inv ?j ?u" using inv 3 by (simp add: loop_inv_def bheight_node)
    moreover have "addrs (fill ?j ?u) = addrs (fill k t)" using k 3(2) t by (simp add: addrs_fill) (cases d; simp)
    ultimately show ?thesis using s' k unfolding progress_def by fastforce
  qed
qed

lemma insert_color_correct:
  assumes "holds s k t" "addr t = Some x" "loop_inv k t"
  shows "\<exists>s' t'. rbe_insert_color x s = Some s' \<and> holds s' [] t' \<and> rb_tree t' \<and> addrs t' = addrs (fill k t)"
  using assms
proof (induction "length k" arbitrary: s k t x rule: less_induct)
  case less
  obtain B C where t: "t = Node B (x, RB_RED) C" using less.prems(2,3) by (cases t) (auto simp: loop_inv_def)
  have mx: "rbt_mem s x = Some \<lparr>rbt_parent = above k, rbt_left = addr B, rbt_right = addr C, rbt_color = RB_RED\<rparr>"
    using less.prems(1) t by (simp add: holds_def)
  consider "k = []" | d p sib j where "k = Frame d p RB_BLACK sib # j" | e p sib j where "k = Frame e p RB_RED sib # j"
    by (cases k; auto) (metis frame.exhaust rb_color.exhaust)
  then show ?case
  proof cases
    case 1
    then show ?thesis using loop_exit [OF less.prems(1,3), of x] mx by (simp add: insert_color_step_def)
  next
    case 2
    then have "rbt_mem s p = Some (entry d (above j) (Some x) (addr sib) RB_BLACK)"
      using less.prems(1,2) by (simp add: holds_def)
    then show ?thesis
      using loop_exit [OF less.prems(1,3), of x] mx 2 less.prems(3) by (simp add: insert_color_step_def loop_inv_def)
  next
    case 3
    then obtain d g u k' where "j = Frame d g RB_BLACK u # k'"
      using less.prems(3) by (cases j; auto simp: loop_inv_def) (metis frame.exhaust invcc.simps(2) rb_color.exhaust)
    then have k: "k = Frame e p RB_RED sib # Frame d g RB_BLACK u # k'" using 3 by simp
    have h: "holds s k' (node d (node e t (p, RB_RED) sib) (g, RB_BLACK) u)" using less.prems(1) k by (simp add: holds_up)
    obtain ge where ge: "rbt_mem s g = Some ge" "(if rbt_left ge = Some p then Lft else Rgt) = d"
      using side_of [OF h, of p] by auto
    have mp: "rbt_mem s p = Some (entry e (Some g) (Some x) (addr sib) RB_RED)" using h less.prems(2) by (simp add: holds_def)
    obtain y s' i v where s': "insert_color_side d x p g s = Some (y, s')" "holds s' i v" "length i < length k" "addr v = Some y"
        "loop_inv i v" "addrs (fill i v) = addrs (fill k t)"
      using red_parent_progress [OF k less.prems] unfolding progress_def by blast
    have "insert_color_step x s = Some (Some y, s')"
      using mx mp ge k s'(1) by (simp add: insert_color_step_def)
    then show ?thesis using less.hyps [OF s'(3,2,4,5)] s'(6) by (subst rbe_insert_color.simps) auto
  qed
qed

section \<open>The way down\<close>

definition slot :: "frame list \<Rightarrow> (nat \<times> side) option" where
  "slot k = (case k of [] \<Rightarrow> None | Frame d a c sib # _ \<Rightarrow> Some (a, d))"

text \<open>The keys before and behind the subtree are smaller and larger.\<close>

definition brackets :: "(nat \<Rightarrow> 'k::linorder) \<Rightarrow> 'k \<Rightarrow> frame list \<Rightarrow> bool" where
  "brackets key v k \<longleftrightarrow> (\<forall>a \<in> set (before k). key a < v) \<and> (\<forall>a \<in> set (after k). v < key a)"

lemma find_slot_correct:
  assumes "holds s k t" "rb_sorted key (addrs t)" "brackets key v k"
  shows "(\<exists>a \<in> set (addrs t). find_slot key v (addr t) (slot k) s = Some (Inl a) \<and> key a = v) \<or>
    (\<exists>j. find_slot key v (addr t) (slot k) s = Some (Inr (slot j)) \<and> fill j Leaf = fill k t \<and> brackets key v j)"
  using assms
proof (induction t arbitrary: k)
  case Leaf
  then show ?case by (auto simp: find_slot.simps)
next
  case (Node l x r)
  obtain a c where x: "x = (a, c)" by (cases x)
  have m: "rbt_mem s a = Some \<lparr>rbt_parent = above k, rbt_left = addr l, rbt_right = addr r, rbt_color = c\<rparr>"
    using Node.prems(1) x by (simp add: holds_def)
  have sorted: "rb_sorted key (addrs l)" "rb_sorted key (addrs r)" "\<forall>b \<in> set (addrs l). key b < key a" "\<forall>b \<in> set (addrs r). key a < key b"
    using Node.prems(2) x by (auto simp: rb_sorted_def sorted_wrt_append)
  have hl: "holds s (Frame Lft a c r # k) l" and hr: "holds s (Frame Rgt a c l # k) r"
    using Node.prems(1) x by (simp_all add: holds_up)
  consider "v < key a" | "key a < v" | "key a = v" by (cases v "key a" rule: linorder_cases) auto
  then show ?case
  proof cases
    case 1
    then have "brackets key v (Frame Lft a c r # k)" using Node.prems(3) sorted(4) by (fastforce simp: brackets_def)
    from Node.IH(1) [OF hl sorted(1) this] 1 m x show ?thesis by (auto simp: find_slot.simps [of key v "Some a"] slot_def)
  next
    case 2
    then have "brackets key v (Frame Rgt a c l # k)" using Node.prems(3) sorted(3) by (fastforce simp: brackets_def)
    from Node.IH(2) [OF hr sorted(2) this] 2 m x show ?thesis by (auto simp: find_slot.simps [of key v "Some a"] slot_def)
  next
    case 3
    then show ?thesis using m x by (auto simp: find_slot.simps [of key v "Some a"])
  qed
qed

text \<open>The new entry as a leaf of the tree.\<close>

lemma link_holds:
  assumes "holds s k Leaf" "rbt_mem s x \<noteq> None" "x \<notin> outer k"
  shows "\<exists>s1 s2. rbe_set x (map_option fst (slot k)) s = Some s1 \<and>
    (case slot k of None \<Rightarrow> Some (s1\<lparr>rbt_root := Some x\<rparr>) | Some (p, d) \<Rightarrow> set_child d p (Some x) s1) = Some s2 \<and>
    holds s2 k (Node Leaf (x, RB_RED) Leaf)"
proof -
  obtain e where e: "rbt_mem s x = Some e" using assms(2) by blast
  let ?n = "\<lparr>rbt_parent = above k, rbt_left = None, rbt_right = None, rbt_color = RB_RED\<rparr>"
  let ?s1 = "s\<lparr>rbt_mem := (rbt_mem s)(x \<mapsto> ?n)\<rparr>"
  have par: "map_option fst (slot k) = above k" by (cases k rule: above.cases) (simp_all add: slot_def)
  have s1: "rbe_set x (map_option fst (slot k)) s = Some ?s1" unfolding par by (cases e) (simp add: rbe_set_def put_entry_run [OF e])
  show ?thesis
  proof (cases k rule: above.cases)
    case 1
    then show ?thesis using s1 by (simp add: slot_def holds_def)
  next
    case (2 d a c sib j)
    let ?s2 = "?s1\<lparr>rbt_mem := (rbt_mem ?s1)(a \<mapsto> entry d (above j) (Some x) (addr sib) c)\<rparr>"
    have m: "rbt_mem ?s1 a = Some (entry d (above j) None (addr sib) c)" using assms(1,3) 2 by (simp add: holds_def)
    then have s2: "set_child d a (Some x) ?s1 = Some ?s2" by (simp add: set_child_def put_entry_run [OF m])
    have "rbt_root s = addr (fill k (Node Leaf (x, RB_RED) Leaf))"
      using assms(1) addr_fill [of k Leaf "Node Leaf (x, RB_RED) Leaf"] 2 by (simp add: holds_def)
    then have "holds ?s2 k (Node Leaf (x, RB_RED) Leaf)"
      using assms(1,3) unfolding holds_def distinct_fill by (simp add: 2)
    then show ?thesis using s1 s2 2 by (auto simp: slot_def)
  qed
qed

lemma rb_insert_between:
  "\<forall>a \<in> set xs. key a < key x \<Longrightarrow> \<forall>a \<in> set ys. key x < key a \<Longrightarrow> rb_insert key x (xs @ ys) = xs @ x # ys"
proof (induction xs)
  case Nil
  then show ?case by (cases ys) simp_all
qed auto

lemma rb_find_between:
  assumes "\<forall>a \<in> set xs. key a < v" "\<forall>a \<in> set ys. v < key a"
  shows "rb_find key v (xs @ ys) = None"
  using assms by (auto simp: rb_find_def find_None_iff)

section \<open>Insertion refines insertion into a sorted list\<close>

text \<open>The memory holds a red-black tree whose entries in order are \<open>xs\<close>.\<close>

definition rb_ok :: "(nat \<Rightarrow> 'k::linorder) \<Rightarrow> rbt_tree \<Rightarrow> nat list \<Rightarrow> bool" where
  "rb_ok key s xs \<longleftrightarrow> (\<exists>t. holds s [] t \<and> rb_tree t \<and> addrs t = xs) \<and> rb_sorted key xs"

lemma rb_insert_present:
  "rb_sorted key xs \<Longrightarrow> a \<in> set xs \<Longrightarrow> key a = key x \<Longrightarrow> rb_insert key x xs = xs"
  by (induction xs) (auto simp: rb_sorted_def)

lemma rb_insert_ok:
  assumes "rb_ok key s xs" "rbt_mem s x \<noteq> None" "x \<notin> set xs"
  shows "\<exists>s'. rb_insert_ptr key x s = Some (rb_find key (key x) xs, s') \<and> rb_ok key s' (rb_insert key x xs)"
proof -
  obtain t where t: "holds s [] t" "rb_tree t" "addrs t = xs" and sorted: "rb_sorted key xs" using assms(1) by (auto simp: rb_ok_def)
  have root: "rbt_root s = addr t" using t(1) by (simp add: holds_def)
  have "brackets key (key x) []" by (simp add: brackets_def)
  from find_slot_correct [OF t(1) _ this] consider
      a where "a \<in> set xs" "find_slot key (key x) (addr t) None s = Some (Inl a)" "key a = key x"
    | j where "find_slot key (key x) (addr t) None s = Some (Inr (slot j))" "fill j Leaf = t" "brackets key (key x) j"
    using t(3) sorted by (auto simp: slot_def)
  then show ?thesis
  proof cases
    case 1
    then have "rb_find key (key x) xs = Some a" using sorted by (simp add: rb_find_Some_iff)
    then show ?thesis using 1 assms(1) root rb_insert_present [OF sorted 1(1,3)] by (simp add: rb_insert_ptr_def)
  next
    case 2
    have xs: "xs = before j @ after j" using t(3) 2(2) addrs_fill [of j Leaf] by simp
    have new: "rb_insert key x xs = before j @ x # after j" "rb_find key (key x) xs = None"
      using 2(3) unfolding xs brackets_def by (simp_all add: rb_insert_between rb_find_between)
    have "holds s j Leaf" using t(1) 2(2) holds_fill by metis
    moreover have "x \<notin> outer j" using assms(3) t(3) 2(2) set_fill [of j Leaf] by simp
    ultimately obtain s1 s2 where s2: "rbe_set x (map_option fst (slot j)) s = Some s1"
        "(case slot j of None \<Rightarrow> Some (s1\<lparr>rbt_root := Some x\<rparr>) | Some (p, d) \<Rightarrow> set_child d p (Some x) s1) = Some s2"
        "holds s2 j (Node Leaf (x, RB_RED) Leaf)" using link_holds assms(2) by blast
    have "loop_inv j (Node Leaf (x, RB_RED) Leaf)"
      using t(2) 2(2) invc_fill [of j Leaf] invh_fill [of j Leaf] color_fill [of j Leaf] by (simp add: loop_inv_def rb_tree_def)
    from insert_color_correct [OF s2(3) _ this] obtain s' t' where s': "rbe_insert_color x s2 = Some s'" "holds s' [] t'" "rb_tree t'"
        "addrs t' = rb_insert key x xs" using new(1) by (auto simp: addrs_fill)
    have "rb_ok key s' (rb_insert key x xs)" using s' rb_insert_sorted [OF sorted] by (auto simp: rb_ok_def)
    then show ?thesis using 2(1) root s2(1,2) s'(1) new(2) by (simp add: rb_insert_ptr_def)
  qed
qed

text \<open>C20: Insertion with pointers, rotations and colours does what insertion into a sorted list
  does: it returns, reports the entry with the same key if there is one and leaves the
  tree alone then, and otherwise the walk over the tree has the new entry at its place; the
  result is a red-black tree again.\<close>

theorem rb_insert_refines:
  assumes "rb_ok key s xs" "rbt_mem s x \<noteq> None" "x \<notin> set xs"
  shows "\<exists>s'. rb_insert_ptr key x s = Some (rb_find key (key x) xs, s') \<and> rb_ok key s' (rb_insert key x xs)"
  using assms by (rule rb_insert_ok)

end
