(* ===== verification/Rb_Remove.thy ===== *)
theory Rb_Remove
  imports Rb_Insert
begin

text \<open>
  Removal from the red-black tree: taking the entry, or its successor, out of its place
  and the loop that makes up for a missing black entry.  \<^verbatim>\<open>_rb_remove\<close> is an
  implementation of removal from a sorted list.
\<close>

section \<open>A black sibling\<close>

lemma paint_near:
  assumes "holds s k (node d l (x, c) r)" "l \<noteq> Leaf"
  shows "\<exists>s' l'. unless_null (addr l) (\<lambda>a. set_color a RB_BLACK) s = Some s' \<and> holds s' k (node d l' (x, c) r) \<and> addr l' = addr l \<and>
    addrs l' = addrs l \<and> color_of l' = RB_BLACK \<and> (invc l \<longrightarrow> invc l') \<and> (invh l \<longrightarrow> invh l') \<and>
    (color_of l = RB_RED \<longrightarrow> bheight l' = Suc (bheight l))"
proof -
  obtain a z cz b where l: "l = node Lft a (z, cz) b" using node_cases [OF assms(2)] by blast
  have "holds s (Frame d x c r # k) (node Lft a (z, cz) b)" using assms(1) l by (simp add: holds_up)
  from set_color_holds [OF this] obtain s' where s': "set_color z RB_BLACK s = Some s'"
      "holds s' k (node d (node Lft a (z, RB_BLACK) b) (x, c) r)" unfolding holds_up by blast
  then show ?thesis using l by (intro exI [of _ s'] exI [of _ "node Lft a (z, RB_BLACK) b"]) (auto simp: unless_null_def)
qed

text \<open>The last rotation: the far child of the sibling is red.\<close>

lemma fix_far_red:
  assumes "holds s k (node d t (p, c) (node d A (y, cy) B))" "color_of B = RB_RED"
    "invc t" "invc A" "invc B" "invh t" "invh A" "invh B" "bheight A = bheight t" "bheight B = bheight t"
  shows "\<exists>s' t'. remove_color_last d p y s = Some s' \<and> holds s' k t' \<and> color_of t' = c \<and> invc t' \<and> invh t' \<and>
     bheight t' = (if c = RB_BLACK then Suc (Suc (bheight t)) else Suc (bheight t)) \<and> addrs t' = addrs (node d t (p, c) (node d A (y, cy) B))"
proof -
  have mp: "rbt_mem s p = Some (entry d (above k) (addr t) (Some y) c)" using assms(1) by (simp add: holds_def)
  have "holds s (Frame (opp d) p c t # k) (node d A (y, cy) B)" using assms(1) by (simp add: holds_up node_opp)
  from set_color_holds [OF this] obtain s1 where s1: "set_color y c s = Some s1" "holds s1 k (node d t (p, c) (node d A (y, c) B))"
    unfolding holds_up node_opp by blast
  from set_color_holds [OF s1(2)] obtain s2 where s2: "set_color p RB_BLACK s1 = Some s2"
      "holds s2 k (node d t (p, RB_BLACK) (node d A (y, c) B))" by blast
  have my: "rbt_mem s2 y = Some (entry d (Some p) (addr A) (addr B) c)" using s2(2) by (simp add: holds_def)
  have "holds s2 (Frame (opp d) p RB_BLACK t # k) (node (opp d) B (y, c) A)" using s2(2) by (simp add: holds_up node_opp)
  from paint_near [OF this red_not_leaf [OF assms(2)]] obtain s3 B' where
      s3: "unless_null (addr B) (\<lambda>a. set_color a RB_BLACK) s2 = Some s3" "holds s3 k (node d t (p, RB_BLACK) (node d A (y, c) B'))"
      "addrs B' = addrs B" "color_of B' = RB_BLACK" "invc B'" "invh B'" "bheight B' = Suc (bheight t)"
    unfolding holds_up node_opp using assms(2,5,8,10) by metis
  from rotate_holds [OF s3(2)] obtain s4 where s4: "rbe_rotate d p s3 = Some s4"
      "holds s4 k (node d (node d t (p, RB_BLACK) A) (y, c) B')" by blast
  have "bheight (node d t (p, RB_BLACK) A) = Suc (bheight t)" using assms(9) by (simp add: bheight_node)
  moreover have "addrs (node d (node d t (p, RB_BLACK) A) (y, c) B') = addrs (node d t (p, c) (node d A (y, cy) B))"
    using s3(3) by (cases d) simp_all
  ultimately show ?thesis
    using mp s1(1) s2(1) my s3 s4 assms
    by (intro exI [of _ s4] exI [of _ "node d (node d t (p, RB_BLACK) A) (y, c) B'"]) (simp add: remove_color_last_def bheight_node)
qed

text \<open>The near child is red: one rotation more.\<close>

lemma far_rotated:
  assumes "holds s k (node d t (p, c) (node d A (y, RB_BLACK) B))" "color_of A = RB_RED"
  shows "\<exists>s1 s2 s3 A1 z A2. A = node d A1 (z, RB_RED) A2 \<and>
    unless_null (addr A) (\<lambda>a. set_color a RB_BLACK) s = Some s1 \<and> set_color y RB_RED s1 = Some s2 \<and>
    rbe_rotate (opp d) y s2 = Some s3 \<and> holds s3 k (node d t (p, c) (node d A1 (z, RB_BLACK) (node d A2 (y, RB_RED) B)))"
proof -
  obtain A1 z cz A2 where "A = node d A1 (z, cz) A2" using node_cases [OF red_not_leaf [OF assms(2)]] by blast
  then have A: "A = node d A1 (z, RB_RED) A2" using assms(2) by simp
  have "holds s (Frame d y RB_BLACK B # Frame (opp d) p c t # k) (node d A1 (z, RB_RED) A2)"
    using assms(1) A by (simp add: holds_up node_opp)
  from set_color_holds [OF this] obtain s1 where s1: "set_color z RB_BLACK s = Some s1"
      "holds s1 (Frame (opp d) p c t # k) (node d (node d A1 (z, RB_BLACK) A2) (y, RB_BLACK) B)" unfolding holds_up(1) by blast
  from set_color_holds [OF s1(2)] obtain s2 where s2: "set_color y RB_RED s1 = Some s2"
      "holds s2 (Frame (opp d) p c t # k) (node (opp d) B (y, RB_RED) (node (opp d) A2 (z, RB_BLACK) A1))" unfolding node_opp by blast
  from rotate_holds [OF s2(2)] obtain s3 where s3: "rbe_rotate (opp d) y s2 = Some s3"
      "holds s3 k (node d t (p, c) (node d A1 (z, RB_BLACK) (node d A2 (y, RB_RED) B)))" unfolding holds_up node_opp by blast
  show ?thesis using A s1(1) s2(1) s3 by (auto simp: unless_null_def)
qed

text \<open>What the loop body leaves when it ends the loop, and when it goes on.\<close>

definition repaired :: "frame list \<Rightarrow> rbtree \<Rightarrow> rb_color \<Rightarrow> nat \<Rightarrow> (((nat option \<times> nat option) + nat option) \<times> rbt_tree) option \<Rightarrow> bool" where
  "repaired k t c n r \<longleftrightarrow> (\<exists>s' t'. r = Some (Inr (rbt_root s'), s') \<and> holds s' k t' \<and> color_of t' = c \<and> invc t' \<and> invh t' \<and>
     bheight t' = n \<and> addrs t' = addrs t)"

lemma both_black:
  assumes "holds s k (node d t (p, c) (node d A (y, cy) B))"
  shows "\<exists>e. rbt_mem s y = Some e \<and> rbt_child d e = addr A \<and> rbt_child (opp d) e = addr B \<and>
    children_black e s = Some (color_of A = RB_BLACK \<and> color_of B = RB_BLACK) \<and>
    is_black (addr B) s = Some (color_of B = RB_BLACK)"
proof -
  have m: "rbt_mem s y = Some (entry d (Some p) (addr A) (addr B) cy)" "rep (rbt_mem s) (Some y) A" "rep (rbt_mem s) (Some y) B"
    using assms by (simp_all add: holds_def)
  then show ?thesis using is_black_holds [OF m(2)] is_black_holds [OF m(3)] by (cases d) (auto simp: children_black_def)
qed

lemma fix_both_black:
  assumes "holds s k (node d t (p, c) (node d A (y, RB_BLACK) B))" "color_of A = RB_BLACK" "color_of B = RB_BLACK"
  shows "\<exists>s'. remove_color_fix d p y s = Some (Inl (above k, Some p), s') \<and> holds s' k (node d t (p, c) (node d A (y, RB_RED) B))"
proof -
  have "holds s (Frame (opp d) p c t # k) (node d A (y, RB_BLACK) B)" using assms(1) by (simp add: holds_up node_opp)
  from set_color_holds [OF this] obtain s' where s': "set_color y RB_RED s = Some s'"
      "holds s' k (node d t (p, c) (node d A (y, RB_RED) B))" unfolding holds_up node_opp by blast
  then have "rbt_mem s' p = Some (entry d (above k) (addr t) (Some y) c)" by (simp add: holds_def)
  then show ?thesis using both_black [OF assms(1)] assms(2,3) s' by (auto simp: remove_color_fix_def)
qed

lemma fix_not_both_black:
  assumes h: "holds s k (node d t (p, c) (node d A (y, RB_BLACK) B))" and red: "\<not> (color_of A = RB_BLACK \<and> color_of B = RB_BLACK)"
    and inv: "invc t" "invc A" "invc B" "invh t" "invh A" "invh B" "bheight A = bheight t" "bheight B = bheight t"
  shows "repaired k (node d t (p, c) (node d A (y, RB_BLACK) B)) c (if c = RB_BLACK then Suc (Suc (bheight t)) else Suc (bheight t))
    (remove_color_fix d p y s)"
proof -
  obtain e where e: "rbt_mem s y = Some e" "rbt_child d e = addr A" "rbt_child (opp d) e = addr B"
      "children_black e s = Some False"
      "is_black (addr B) s = Some (color_of B = RB_BLACK)" using both_black [OF h] red by auto
  show ?thesis
  proof (cases "color_of B")
    case RB_RED
    obtain s' t' where "remove_color_last d p y s = Some s'" "holds s' k t'" "color_of t' = c" "invc t'" "invh t'"
        "bheight t' = (if c = RB_BLACK then Suc (Suc (bheight t)) else Suc (bheight t))"
        "addrs t' = addrs (node d t (p, c) (node d A (y, RB_BLACK) B))" using fix_far_red [OF h RB_RED inv] by blast
    then show ?thesis
      unfolding repaired_def using e RB_RED by (intro exI [of _ s'] exI [of _ t']) (simp add: remove_color_fix_def)
  next
    case RB_BLACK
    then have "color_of A = RB_RED" using red by (cases "color_of A") auto
    from far_rotated [OF h this] obtain s1 s2 s3 A1 z A2 where s3: "A = node d A1 (z, RB_RED) A2"
        "unless_null (addr A) (\<lambda>a. set_color a RB_BLACK) s = Some s1" "set_color y RB_RED s1 = Some s2"
        "rbe_rotate (opp d) y s2 = Some s3" "holds s3 k (node d t (p, c) (node d A1 (z, RB_BLACK) (node d A2 (y, RB_RED) B)))" by blast
    have mp: "rbt_mem s3 p = Some (entry d (above k) (addr t) (Some z) c)" using s3(5) by (simp add: holds_def)
    have A: "invc A1" "invc A2" "invh A1" "invh A2" "bheight A1 = bheight t" "bheight A2 = bheight t" "color_of A2 = RB_BLACK"
      using inv(2,5,7) s3(1) bheight_node [of A1 A2 d "(z, RB_RED)"] by auto
    then have "bheight (node d A2 (y, RB_RED) B) = bheight t" using inv(8) by (simp add: bheight_node)
    then obtain s' t' where "remove_color_last d p z s3 = Some s'" "holds s' k t'" "color_of t' = c" "invc t'" "invh t'"
        "bheight t' = (if c = RB_BLACK then Suc (Suc (bheight t)) else Suc (bheight t))"
        "addrs t' = addrs (node d t (p, c) (node d A1 (z, RB_BLACK) (node d A2 (y, RB_RED) B)))"
      using fix_far_red [OF s3(5) _ inv(1) A(1) _ inv(4) A(3)] A inv RB_BLACK by auto
    moreover have "addrs (node d t (p, c) (node d A1 (z, RB_BLACK) (node d A2 (y, RB_RED) B))) =
        addrs (node d t (p, c) (node d A (y, RB_BLACK) B))" using s3(1) by (cases d) simp_all
    ultimately show ?thesis
      unfolding repaired_def using e RB_BLACK s3(2-4) mp by (intro exI [of _ s'] exI [of _ t']) (simp add: remove_color_fix_def)
  qed
qed

section \<open>The loop\<close>

text \<open>The subtree in focus lacks one black entry; a red root of it is repaired by painting it.\<close>

fun invc2 :: "rbtree \<Rightarrow> bool" where
  "invc2 Leaf \<longleftrightarrow> True"
| "invc2 (Node l x r) \<longleftrightarrow> invc l \<and> invc r"

definition lacking :: "frame list \<Rightarrow> rbtree \<Rightarrow> bool" where
  "lacking k t \<longleftrightarrow> invc2 t \<and> invh t \<and> invcc k RB_BLACK \<and> invhc k (Suc (bheight t)) \<and> top_color k RB_BLACK = RB_BLACK"

definition weight :: "frame list \<Rightarrow> rbtree \<Rightarrow> nat" where
  "weight k t = 2 * length k + (if color_of t = RB_BLACK then 1 else 0)"

definition advance :: "nat \<Rightarrow> nat list \<Rightarrow> (((nat option \<times> nat option) + nat option) \<times> rbt_tree) option \<Rightarrow> bool" where
  "advance n xs r \<longleftrightarrow>
     (\<exists>s j u. r = Some (Inl (above j, addr u), s) \<and> holds s j u \<and> lacking j u \<and> weight j u < n \<and> addrs (fill j u) = xs) \<or>
     (\<exists>s t. r = Some (Inr (rbt_root s), s) \<and> holds s [] t \<and> rb_tree t \<and> addrs t = xs)"

lemma invc2_node [simp]: "invc2 (node d l x r) \<longleftrightarrow> invc l \<and> invc r"
  by (cases d) auto

lemma invc2_black: "color_of t = RB_BLACK \<Longrightarrow> invc2 t = invc t"
  by (cases t) auto

lemma invcc_weaken: "invcc k c \<Longrightarrow> invcc k RB_BLACK"
  by (cases k rule: above.cases) auto

lemma top_color_weaken: "top_color k c = RB_BLACK \<Longrightarrow> top_color k RB_BLACK = RB_BLACK"
  by (cases k rule: above.cases) auto

lemma fix_advance:
  assumes h: "holds s k (node d t (p, c) (node d A (y, RB_BLACK) B))" and t: "color_of t = RB_BLACK" "invc t" "invh t"
    and AB: "invc A" "invc B" "invh A" "invh B" "bheight A = bheight t" "bheight B = bheight t"
    and k: "invcc k c" "invhc k (if c = RB_BLACK then Suc (Suc (bheight t)) else Suc (bheight t))" "top_color k c = RB_BLACK"
    and n: "2 * length k + (if c = RB_BLACK then 1 else 0) < n"
  shows "advance n (addrs (fill k (node d t (p, c) (node d A (y, RB_BLACK) B)))) (remove_color_fix d p y s)"
proof (cases "color_of A = RB_BLACK \<and> color_of B = RB_BLACK")
  case True
  let ?u = "node d t (p, c) (node d A (y, RB_RED) B)"
  obtain s' where s': "remove_color_fix d p y s = Some (Inl (above k, Some p), s')" "holds s' k ?u"
    using fix_both_black [OF h] True by blast
  have "bheight (node d A (y, RB_RED) B) = bheight t" using AB by (simp add: bheight_node)
  then have "lacking k ?u"
    using t AB k True invcc_weaken [OF k(1)] top_color_weaken [OF k(3)] by (auto simp: lacking_def bheight_node)
  moreover have "addrs (fill k ?u) = addrs (fill k (node d t (p, c) (node d A (y, RB_BLACK) B)))"
    by (simp add: addrs_fill) (cases d; simp)
  moreover have "weight k ?u < n" using n by (simp add: weight_def)
  ultimately show ?thesis
    unfolding advance_def using s' by (intro disjI1 exI [of _ s'] exI [of _ k] exI [of _ ?u]) simp
next
  case False
  from fix_not_both_black [OF h False t(2) AB(1,2) t(3) AB(3-6)] obtain s' t' where
    s': "remove_color_fix d p y s = Some (Inr (rbt_root s'), s')" "holds s' k t'" "color_of t' = c" "invc t'" "invh t'"
      "bheight t' = (if c = RB_BLACK then Suc (Suc (bheight t)) else Suc (bheight t))"
      "addrs t' = addrs (node d t (p, c) (node d A (y, RB_BLACK) B))" unfolding repaired_def by blast
  have "rb_tree (fill k t')" using s'(3-6) k by (simp add: rb_tree_def invc_fill invh_fill color_fill)
  moreover have "holds s' [] (fill k t')" using s'(2) holds_fill by blast
  ultimately show ?thesis unfolding advance_def using s'(1,7) by (intro disjI2 exI [of _ s'] exI [of _ "fill k t'"]) (simp add: addrs_fill)
qed

text \<open>A red sibling is rotated away first.\<close>

lemma red_sibling:
  assumes h: "holds s k (node d t (p, RB_BLACK) (node d A (y, RB_RED) B))" and A: "addr A = Some a"
  shows "\<exists>s'. remove_color_side d p s = remove_color_fix d p a s' \<and> holds s' (Frame d y RB_BLACK B # k) (node d t (p, RB_RED) A)"
proof -
  have m: "rbt_mem s p = Some (entry d (above k) (addr t) (Some y) RB_BLACK)" "rbt_mem s y = Some (entry d (Some p) (Some a) (addr B) RB_RED)"
    using h A by (simp_all add: holds_def)
  have "holds s k (node (opp d) (node d A (y, RB_RED) B) (p, RB_BLACK) t)" using h by (simp add: node_opp)
  from blackred_holds [OF this] obtain s1 where s1: "rbe_set_blackred y p s = Some s1"
      "holds s1 k (node d t (p, RB_RED) (node d A (y, RB_BLACK) B))" unfolding node_opp by blast
  from rotate_holds [OF s1(2)] obtain s2 where s2: "rbe_rotate d p s1 = Some s2"
      "holds s2 (Frame d y RB_BLACK B # k) (node d t (p, RB_RED) A)" unfolding holds_up by blast
  then have "rbt_mem s2 p = Some (entry d (Some y) (addr t) (Some a) RB_RED)" using A by (simp add: holds_def)
  then show ?thesis using m s1(1) s2 by (intro exI [of _ s2]) (simp add: remove_color_side_def)
qed

lemma side_advance:
  assumes h: "holds s (Frame d p c sib # k) t" and inv: "lacking (Frame d p c sib # k) t" and t: "color_of t = RB_BLACK"
  shows "advance (weight (Frame d p c sib # k) t) (addrs (fill (Frame d p c sib # k) t)) (remove_color_side d p s)"
proof -
  have i: "invc t" "invh t" "invc sib" "invh sib" "bheight sib = Suc (bheight t)" "c = RB_RED \<longrightarrow> color_of sib = RB_BLACK" "invcc k c"
      "invhc k (if c = RB_BLACK then Suc (Suc (bheight t)) else Suc (bheight t))" "top_color k c = RB_BLACK"
    using inv t invc2_black [OF t] by (auto simp: lacking_def)
  then have "sib \<noteq> Leaf" by auto
  then obtain A y cy B where sib: "sib = node d A (y, cy) B" using node_cases by blast
  have h': "holds s k (node d t (p, c) (node d A (y, cy) B))" using h sib by (simp add: holds_up)
  show ?thesis
  proof (cases cy)
    case RB_BLACK
    have "bheight A = bheight t" "bheight B = bheight t" "invc A" "invc B" "invh A" "invh B"
      using i(3-5) sib RB_BLACK bheight_node [of A B d "(y, RB_BLACK)"] by auto
    from fix_advance [OF h' [unfolded RB_BLACK] t i(1,2) this(3-6) this(1,2) i(7-9), of "weight (Frame d p c sib # k) t"]
    have "advance (weight (Frame d p c sib # k) t) (addrs (fill k (node d t (p, c) sib))) (remove_color_fix d p y s)"
      using t sib RB_BLACK by (simp add: weight_def)
    moreover have "remove_color_side d p s = remove_color_fix d p y s"
      using h' RB_BLACK by (simp add: remove_color_side_def holds_def)
    ultimately show ?thesis by simp
  next
    case RB_RED
    then have c: "c = RB_BLACK" using i(6) sib by (cases c) auto
    have AB: "bheight A = Suc (bheight t)" "bheight B = Suc (bheight t)" "invc A" "invc B" "invh A" "invh B" "color_of A = RB_BLACK"
        "color_of B = RB_BLACK" using i(3-5) sib RB_RED bheight_node [of A B d "(y, RB_RED)"] by auto
    then have "A \<noteq> Leaf" by auto
    then obtain A1 a ca A2 where "A = node d A1 (a, ca) A2" using node_cases by blast
    then have A: "A = node d A1 (a, RB_BLACK) A2" using AB(7) by simp
    from red_sibling [of s k d t p A y B a] h' c RB_RED A obtain s' where s': "remove_color_side d p s = remove_color_fix d p a s'"
        "holds s' (Frame d y RB_BLACK B # k) (node d t (p, RB_RED) A)" by auto
    have "bheight A1 = bheight t" "bheight A2 = bheight t" "invc A1" "invc A2" "invh A1" "invh A2"
      using AB(1,3,5) A bheight_node [of A1 A2 d "(a, RB_BLACK)"] by auto
    from fix_advance [OF s'(2) [unfolded A] t i(1,2) this(3-6) this(1,2), of "weight (Frame d p c sib # k) t"]
    have "advance (weight (Frame d p c sib # k) t) (addrs (fill (Frame d y RB_BLACK B # k) (node d t (p, RB_RED) A)))
        (remove_color_fix d p a s')"
      using t i(7-9) c AB A by (simp add: weight_def)
    moreover have "addrs (fill (Frame d y RB_BLACK B # k) (node d t (p, RB_RED) A)) = addrs (fill (Frame d p c sib # k) t)"
      using sib by (simp add: addrs_fill) (cases d; simp)
    ultimately show ?thesis using s'(1) by simp
  qed
qed

lemma paint_focus:
  assumes "holds s k t"
  shows "\<exists>s' t'. unless_null (addr t) (\<lambda>a. set_color a RB_BLACK) s = Some s' \<and> holds s' k t' \<and> color_of t' = RB_BLACK \<and> addrs t' = addrs t \<and>
    (invc2 t \<longrightarrow> invc t') \<and> (invh t \<longrightarrow> invh t') \<and> bheight t' = (if color_of t = RB_RED then Suc (bheight t) else bheight t)"
proof (cases t)
  case Leaf
  then show ?thesis using assms by (auto simp: unless_null_def)
next
  case (Node l x r)
  then have t: "t = node Lft l (fst x, snd x) r" by simp
  from set_color_holds [OF assms [unfolded t]] obtain s' where "set_color (fst x) RB_BLACK s = Some s'"
      "holds s' k (node Lft l (fst x, RB_BLACK) r)" by blast
  then show ?thesis
    using t by (intro exI [of _ s'] exI [of _ "node Lft l (fst x, RB_BLACK) r"]) (cases "snd x"; auto simp: unless_null_def)
qed

lemma root_elsewhere: "holds s k t \<Longrightarrow> k \<noteq> [] \<Longrightarrow> addr t \<noteq> rbt_root s"
proof -
  assume h: "holds s k t" and k: "k \<noteq> []"
  have "\<exists>a. addr (fill k t) = Some a \<and> a \<in> outer k"
    using k
  proof (induction k arbitrary: t)
    case (Cons f k)
    then show ?case by (cases f; cases "k = []") auto
  qed simp
  then show ?thesis using h addr_in [of t] by (auto simp: holds_def distinct_fill)
qed

lemma sibling_side:
  assumes "holds s (Frame d p c sib # k) t" "sib \<noteq> Leaf"
  shows "\<exists>e. rbt_mem s p = Some e \<and> (if rbt_left e = addr t then Lft else Rgt) = d"
proof -
  obtain l y r where sib: "sib = Node l y r" using assms(2) by (cases sib) auto
  have "rbt_mem s p = Some (entry d (above k) (addr t) (addr sib) c)" using assms(1) by (simp add: holds_def)
  moreover have "addr sib \<noteq> addr t"
    using assms(1) sib addr_in [of t "fst y"] by (auto simp: holds_def distinct_fill)
  ultimately show ?thesis by (cases d) auto
qed

lemma remove_color_correct:
  assumes "holds s k t" "lacking k t"
  shows "\<exists>s' t'. rbe_remove_color (above k) (addr t) s = Some s' \<and> holds s' [] t' \<and> rb_tree t' \<and> addrs t' = addrs (fill k t)"
  using assms
proof (induction "weight k t" arbitrary: s k t rule: less_induct)
  case less
  have black: "is_black (addr t) s = Some (color_of t = RB_BLACK)"
    using less.prems(1) is_black_holds [of s "above k" t] by (simp add: holds_def)
  show ?case
  proof (cases "color_of t = RB_RED \<or> k = []")
    case True
    have "rbt_root s = addr t" if "k = []" using that less.prems(1) by (simp add: holds_def)
    then have step: "remove_color_step (above k) (addr t) s = Some (Inr (addr t), s)"
      using True black by (auto simp: remove_color_step_def)
    obtain s' t' where s': "unless_null (addr t) (\<lambda>a. set_color a RB_BLACK) s = Some s'" "holds s' k t'" "color_of t' = RB_BLACK"
        "addrs t' = addrs t" "invc2 t \<longrightarrow> invc t'" "invh t \<longrightarrow> invh t'"
        "bheight t' = (if color_of t = RB_RED then Suc (bheight t) else bheight t)" using paint_focus [OF less.prems(1)] by blast
    have "rb_tree (fill k t')"
      using less.prems(2) s'(3,5-7) True by (auto simp: lacking_def rb_tree_def invc_fill invh_fill color_fill)
    moreover have "holds s' [] (fill k t')" using s'(2) holds_fill by blast
    ultimately show ?thesis
      using step s'(1,4) by (subst rbe_remove_color.simps) (auto simp: addrs_fill)
  next
    case False
    then have t: "color_of t = RB_BLACK" by (cases "color_of t") auto
    note lack = less.prems(2)
    obtain d p c sib j where k: "k = Frame d p c sib # j" using False by (cases k rule: above.cases) auto
    have "sib \<noteq> Leaf" using lack k by (auto simp: lacking_def)
    from sibling_side [OF less.prems(1) [unfolded k] this] obtain e where
      e: "rbt_mem s p = Some e" "(if rbt_left e = addr t then Lft else Rgt) = d" by blast
    have "remove_color_step (above k) (addr t) s = remove_color_side d p s"
      using t black root_elsewhere [OF less.prems(1)] k e by (simp add: remove_color_step_def)
    moreover have "advance (weight k t) (addrs (fill k t)) (remove_color_side d p s)"
      using side_advance [OF less.prems(1) [unfolded k] lack [unfolded k] t] k by simp
    ultimately consider s' j u where "remove_color_step (above k) (addr t) s = Some (Inl (above j, addr u), s')" "holds s' j u"
        "lacking j u" "weight j u < weight k t" "addrs (fill j u) = addrs (fill k t)"
      | s' t' where "remove_color_step (above k) (addr t) s = Some (Inr (rbt_root s'), s')" "holds s' [] t'" "rb_tree t'"
        "addrs t' = addrs (fill k t)" unfolding advance_def by metis
    then show ?thesis
    proof cases
      case 1
      then show ?thesis using less.hyps [OF 1(4,2)] by (subst rbe_remove_color.simps) auto
    next
      case 2
      have "rbt_root s' = addr t'" using 2(2) by (simp add: holds_def)
      moreover obtain s'' t'' where "unless_null (addr t') (\<lambda>a. set_color a RB_BLACK) s' = Some s''" "holds s'' [] t''" "rb_tree t''"
          "addrs t'' = addrs t'" using paint_focus [OF 2(2)] 2(3) by (auto simp: rb_tree_def invc2_black)
      ultimately show ?thesis using 2(1,4) by (subst rbe_remove_color.simps) auto
    qed
  qed
qed

section \<open>Taking an entry out\<close>

lemma unsplice_holds:
  assumes "holds s k (node d t (x, c) Leaf)"
  shows "\<exists>s'. unsplice x (addr t) s = Some s' \<and> holds s' k t \<and> (\<forall>a. a \<notin> set (addrs t) \<union> outer k \<longrightarrow> rbt_mem s' a = rbt_mem s a)"
proof -
  have rep: "rbt_mem s x = Some (entry d (above k) (addr t) None c)" "rep (rbt_mem s) (Some x) t" "repc (rbt_mem s) (Some x) k"
    and dist: "distinct (addrs t)" "distinct_ctx k" "x \<notin> outer k" "set (addrs t) \<inter> outer k = {}" "x \<notin> set (addrs t)"
    using assms by (auto simp: holds_def distinct_fill)
  obtain s1 where s1: "unless_null (addr t) (\<lambda>a. set_parent a (above k)) s = Some s1" "rbt_root s1 = rbt_root s"
      "rep (rbt_mem s1) (above k) t" "\<And>a. a \<notin> set (addrs t) \<Longrightarrow> rbt_mem s1 a = rbt_mem s a"
    using adopt [OF rep(2) dist(1)] by blast
  have "repc (rbt_mem s1) (Some x) k" using rep(3) repc_cong [of k "rbt_mem s1" "rbt_mem s"] s1(4) dist(4) by blast
  from relink_run [OF this dist(2,3), of "addr t"] obtain s2 where s2: "relink (above k) x (addr t) s1 = Some s2"
      "rbt_root s2 = (if k = [] then addr t else rbt_root s1)" "repc (rbt_mem s2) (addr t) k"
      "\<And>a. a \<notin> outer k \<Longrightarrow> rbt_mem s2 a = rbt_mem s1 a" by blast
  have "rep (rbt_mem s2) (above k) t" using s1(3) rep_cong [of t "rbt_mem s2" "rbt_mem s1"] s2(4) dist(4) by blast
  moreover have "rbt_root s2 = addr (fill k t)"
    using assms s2(2) s1(2) addr_fill [of k t "node d t (x, c) Leaf"] by (simp add: holds_def)
  ultimately have "holds s2 k t" using s2(3) dist by (simp add: holds_def distinct_fill)
  then show ?thesis using rep(1) s1(1,4) s2(1,4) by (auto simp: unsplice_def)
qed

lemma replace_holds:
  assumes "holds s k (Node L (o', c) R)" "L \<noteq> Leaf" "rbt_mem s m \<noteq> None" "m \<notin> set (addrs (fill k (Node L (o', c) R)))"
  shows "\<exists>s'. replace_entry o' m s = Some s' \<and> holds s' k (Node L (m, c) R)"
proof -
  let ?e = "\<lparr>rbt_parent = above k, rbt_left = addr L, rbt_right = addr R, rbt_color = c\<rparr>"
  have rep: "rbt_mem s o' = Some ?e" "rep (rbt_mem s) (Some o') L" "rep (rbt_mem s) (Some o') R" "repc (rbt_mem s) (Some o') k"
    and dist: "distinct (addrs L)" "distinct (addrs R)" "distinct_ctx k" "{o', m} \<inter> outer k = {}" "{o', m} \<inter> set (addrs L) = {}"
      "{o', m} \<inter> set (addrs R) = {}" "set (addrs L) \<inter> set (addrs R) = {}" "set (addrs L) \<inter> outer k = {}" "set (addrs R) \<inter> outer k = {}" "o' \<noteq> m"
    using assms by (auto simp: holds_def distinct_fill set_fill)
  obtain l where l: "addr L = Some l" using assms(2) by (cases L) auto
  obtain me where me: "rbt_mem s m = Some me" using assms(3) by blast
  define s1 where "s1 = s\<lparr>rbt_mem := (rbt_mem s)(m \<mapsto> ?e)\<rparr>"
  have s1: "put_entry m (\<lambda>_. ?e) s = Some s1" by (simp add: put_entry_run [OF me] s1_def)
  have "repc (rbt_mem s1) (Some o') k" using rep(4) dist(4) by (simp add: s1_def)
  moreover have "o' \<notin> outer k" using dist(4) by blast
  ultimately obtain s2 where s2: "relink (above k) o' (Some m) s1 = Some s2" "rbt_root s2 = (if k = [] then Some m else rbt_root s1)"
      "repc (rbt_mem s2) (Some m) k" "\<And>a. a \<notin> outer k \<Longrightarrow> rbt_mem s2 a = rbt_mem s1 a"
    using relink_run [OF _ dist(3), of s1 o' "Some m"] by blast
  have o2: "rbt_mem s2 o' = Some ?e" and m2: "rbt_mem s2 m = Some ?e"
    using s2(4) dist(4,10) rep(1) by (simp_all add: s1_def)
  have old: "rbt_mem s2 a = rbt_mem s a" if "a \<in> set (addrs L) \<union> set (addrs R)" for a
    using that s2(4) [of a] dist(5,6,8,9) by (cases "a = m \<or> a \<in> outer k") (auto simp: s1_def)
  have "rep (rbt_mem s2) (Some o') L" using rep(2) rep_cong [of L "rbt_mem s2" "rbt_mem s"] old by blast
  from adopt [OF this dist(1), of "Some m"] obtain s3 where s3: "set_parent l (Some m) s2 = Some s3" "rbt_root s3 = rbt_root s2"
      "rep (rbt_mem s3) (Some m) L" "\<And>a. a \<notin> set (addrs L) \<Longrightarrow> rbt_mem s3 a = rbt_mem s2 a" unfolding l by (auto simp: unless_null_def)
  have o3: "rbt_mem s3 o' = Some ?e" using s3(4) dist(5) o2 by simp
  have "rep (rbt_mem s3) (Some o') R"
    using rep(3) rep_cong [of R "rbt_mem s3" "rbt_mem s"] old s3(4) dist(7) by (metis UnI2 disjoint_iff)
  from adopt [OF this dist(2), of "Some m"] obtain s4 where s4: "unless_null (addr R) (\<lambda>b. set_parent b (Some m)) s3 = Some s4"
      "rbt_root s4 = rbt_root s3" "rep (rbt_mem s4) (Some m) R" "\<And>a. a \<notin> set (addrs R) \<Longrightarrow> rbt_mem s4 a = rbt_mem s3 a" by blast
  have "rep (rbt_mem s4) (Some m) L"
    using s3(3) rep_cong [of L "rbt_mem s4" "rbt_mem s3"] s4(4) dist(7) by blast
  moreover have "rbt_mem s4 m = Some ?e" using m2 s3(4) s4(4) dist(5,6) by simp
  moreover have "repc (rbt_mem s4) (Some m) k"
    using s2(3) repc_cong [of k "rbt_mem s4" "rbt_mem s2"] s3(4) s4(4) dist(8,9) by (metis disjoint_iff)
  moreover have "rbt_root s4 = addr (fill k (Node L (m, c) R))"
    using assms(1) s2(2) s3(2) s4(2) addr_fill [of k "Node L (m, c) R" "Node L (o', c) R"] by (simp add: holds_def s1_def)
  moreover have "distinct (addrs (fill k (Node L (m, c) R)))"
    using assms(1) dist(4-6) unfolding holds_def distinct_fill by auto
  ultimately have "holds s4 k (Node L (m, c) R)" using s4(3) by (simp add: holds_def)
  then show ?thesis using rep(1) s1 s2(1) o2 l s3(1) o3 s4(1) by (simp add: replace_entry_def)
qed

lemma descend_correct:
  assumes "rep (rbt_mem s) par t" "addr t = Some x"
  shows "\<exists>j m c r. descend d x s = Some m \<and> t = fill j (node d Leaf (m, c) r) \<and> (\<forall>f \<in> set j. \<exists>a c u. f = Frame d a c u)"
  using assms
proof (induction t arbitrary: par x)
  case (Node l y r)
  have *: "Node l y r = node d (if d = Lft then l else r) (x, snd y) (if d = Lft then r else l)" using Node.prems(2) by (cases d) auto
  define A B where "A = (if d = Lft then l else r)" and "B = (if d = Lft then r else l)"
  have t: "Node l y r = node d A (x, snd y) B" using * by (simp add: A_def B_def)
  have m: "rbt_mem s x = Some (entry d par (addr A) (addr B) (snd y))" and A: "rep (rbt_mem s) (Some x) A"
    using Node.prems(1) unfolding t by simp_all
  show ?case
  proof (cases "addr A")
    case None
    then have "A = Leaf" by (cases A) auto
    then show ?thesis using t m by (intro exI [of _ "[]"] exI [of _ x] exI [of _ "snd y"] exI [of _ B]) (simp add: descend.simps)
  next
    case (Some z)
    obtain j m' c r' where IH: "descend d z s = Some m'" "A = fill j (node d Leaf (m', c) r')" "\<forall>f \<in> set j. \<exists>a c u. f = Frame d a c u"
      using Node.IH(1) [of "Some x" z] Node.IH(2) [of "Some x" z] A Some by (cases d) (auto simp: A_def)
    then have "Node l y r = fill (j @ [Frame d x (snd y) B]) (node d Leaf (m', c) r')"
      using t by (simp add: fill_fill [symmetric])
    moreover have "descend d x s = Some m'" using m Some IH(1) by (simp add: descend.simps [of d x])
    ultimately show ?thesis using IH(3) by (intro exI [of _ "j @ [Frame d x (snd y) B]"] exI [of _ m'] exI [of _ c] exI [of _ r']) auto
  qed
qed simp

lemma before_left: "\<forall>f \<in> set j. \<exists>a c u. f = Frame Lft a c u \<Longrightarrow> before (j @ k) = before k \<and> after (j @ k) = after j @ after k"
  by (induction j) auto

text \<open>An entry with two children: its successor takes its place.\<close>

lemma remove_two:
  assumes h: "holds s k (Node L (x, cx) R)" and L: "L \<noteq> Leaf" and R: "addr R = Some r"
  shows "\<exists>m e s1 s2 j t. descend Lft r s = Some m \<and> rbt_mem s m = Some e \<and> unsplice m (rbt_right e) s = Some s1 \<and>
    replace_entry x m s1 = Some s2 \<and> (if rbt_parent e = Some x then Some m else rbt_parent e) = above (j @ Frame Rgt m cx L # k) \<and>
    rbt_right e = addr t \<and> holds s2 (j @ Frame Rgt m cx L # k) t \<and> R = fill j (Node Leaf (m, rbt_color e) t) \<and>
    (\<forall>f \<in> set j. \<exists>a c u. f = Frame Lft a c u)"
proof -
  have "rep (rbt_mem s) (Some x) R" using h by (simp add: holds_def)
  from descend_correct [OF this R, of Lft] obtain j m c t where
    m: "descend Lft r s = Some m" "R = fill j (Node Leaf (m, c) t)" "\<forall>f \<in> set j. \<exists>a c u. f = Frame Lft a c u" by auto
  let ?J = "j @ Frame Rgt x cx L # k" and ?K = "j @ Frame Rgt m cx L # k"
  have fill: "fill ?J u = fill k (Node L (x, cx) (fill j u))" "fill ?K u = fill k (Node L (m, cx) (fill j u))" for u
    by (simp_all add: fill_fill [symmetric])
  have hJ: "holds s ?J (Node Leaf (m, c) t)" using h m(2) holds_fill [of s k] holds_fill [of s ?J] fill(1) by simp
  define e where "e = \<lparr>rbt_parent = above ?J, rbt_left = None, rbt_right = addr t, rbt_color = c\<rparr>"
  have me: "rbt_mem s m = Some e" using hJ by (simp add: holds_def e_def)
  have hJ': "holds s ?J (node Rgt t (m, c) Leaf)" using hJ by simp
  have dist: "m \<notin> set (addrs t) \<union> outer ?J" using hJ by (auto simp: holds_def distinct_fill)
  from unsplice_holds [OF hJ'] obtain s1 where s1: "unsplice m (addr t) s = Some s1" "holds s1 ?J t"
      "\<And>a. a \<notin> set (addrs t) \<union> outer ?J \<Longrightarrow> rbt_mem s1 a = rbt_mem s a" by blast
  have h1: "holds s1 k (Node L (x, cx) (fill j t))" using s1(2) holds_fill [of s1 ?J t] holds_fill [of s1 k] fill(1) by simp
  have "m \<notin> set (addrs (fill k (Node L (x, cx) (fill j t))))"
    using dist set_fill [of ?J t] fill(1) [of t] by simp
  from replace_holds [OF h1 L _ this] obtain s2 where s2: "replace_entry x m s1 = Some s2" "holds s2 k (Node L (m, cx) (fill j t))"
    using s1(3) [OF dist] me by auto
  have hK: "holds s2 ?K t" using s2(2) holds_fill [of s2 ?K t] holds_fill [of s2 k] fill(2) by simp
  have par: "(if rbt_parent e = Some x then Some m else rbt_parent e) = above ?K"
  proof (cases j rule: above.cases)
    case 1
    then show ?thesis by (simp add: e_def)
  next
    case (2 d a c' sib j')
    have "a \<noteq> x"
      using h m(2) 2 set_fill [of j "Node Leaf (m, c) t"] by (auto simp: holds_def distinct_fill)
    then show ?thesis using 2 by (simp add: e_def)
  qed
  show ?thesis
    using m me s1(1) s2(1) par hK
    by (intro exI [of _ m] exI [of _ e] exI [of _ s1] exI [of _ s2] exI [of _ j] exI [of _ t]) (simp add: e_def)
qed

text \<open>What is left after an entry of colour \<open>c\<close> was taken out, before the colours are restored.\<close>

lemma recolor_correct:
  assumes "holds s k t" "rb_tree (fill k' (node d t (x, c) Leaf))" "invcc k' = invcc k" "invhc k' = invhc k" "top_color k' = top_color k"
  shows "\<exists>s' t'. (if c = RB_BLACK then rbe_remove_color (above k) (addr t) s else Some s) = Some s' \<and> holds s' [] t' \<and> rb_tree t' \<and>
    addrs t' = addrs (fill k t)"
proof -
  have i: "invc t" "invh t" "bheight t = 0" "invcc k c" "invhc k (if c = RB_BLACK then Suc (bheight t) else bheight t)" "top_color k c = RB_BLACK"
      "c = RB_RED \<longrightarrow> color_of t = RB_BLACK"
    using assms(2-5) bheight_node [of t Leaf d "(x, c)"] by (auto simp: rb_tree_def invc_fill invh_fill color_fill split: if_splits)
  show ?thesis
  proof (cases c)
    case RB_BLACK
    then have "lacking k t"
      using i by (cases t) (auto simp: lacking_def)
    then show ?thesis using remove_color_correct [OF assms(1)] RB_BLACK by simp
  next
    case RB_RED
    then have "color_of t = RB_BLACK" using i(7) by simp
    then have "rb_tree (fill k t)"
      using i RB_RED invcc_weaken [OF i(4)] top_color_weaken [OF i(6)] by (simp add: rb_tree_def invc_fill invh_fill color_fill)
    then show ?thesis using assms(1) RB_RED holds_fill by auto
  qed
qed

section \<open>Removal refines removal from a sorted list\<close>

lemma rb_sorted_remove: "rb_sorted key xs \<Longrightarrow> rb_sorted key (remove1 x xs)"
  unfolding rb_sorted_def by (induction xs) (auto dest: notin_set_remove1)

lemma focus_exists:
  assumes "x \<in> set (addrs t)"
  shows "\<exists>k l c r. t = fill k (Node l (x, c) r)"
  using assms
proof (induction t)
  case (Node l y r)
  consider "x = fst y" | "x \<in> set (addrs l)" | "x \<in> set (addrs r)" using Node.prems by auto
  then show ?case
  proof cases
    case 1
    then show ?thesis by (intro exI [of _ "[]"] exI [of _ l] exI [of _ "snd y"] exI [of _ r]) simp
  next
    case 2
    then obtain k l' c r' where "l = fill k (Node l' (x, c) r')" using Node.IH(1) by blast
    then have "Node l y r = fill (k @ [Frame Lft (fst y) (snd y) r]) (Node l' (x, c) r')" by (simp add: fill_fill [symmetric])
    then show ?thesis by blast
  next
    case 3
    then obtain k l' c r' where "r = fill k (Node l' (x, c) r')" using Node.IH(2) by blast
    then have "Node l y r = fill (k @ [Frame Rgt (fst y) (snd y) l]) (Node l' (x, c) r')" by (simp add: fill_fill [symmetric])
    then show ?thesis by blast
  qed
qed simp

lemma inv_append:
  "invcc (j @ Frame d a c u # k) = invcc (j @ Frame d b c u # k)" "invhc (j @ Frame d a c u # k) = invhc (j @ Frame d b c u # k)"
  "top_color (j @ Frame d a c u # k) = top_color (j @ Frame d b c u # k)"
proof (induction j)
  case (Cons f j)
  {
    case 1
    then show ?case using Cons(1) by (cases f) (simp add: fun_eq_iff)
  next
    case 2
    then show ?case using Cons(2) by (cases f) (simp add: fun_eq_iff)
  next
    case 3
    then show ?case using Cons(3) by (cases f) (simp add: fun_eq_iff)
  }
qed (simp_all add: fun_eq_iff)

lemma remove_one:
  assumes "holds s k (node d t (x, c) Leaf)" "rb_tree (fill k (node d t (x, c) Leaf))"
  shows "\<exists>s' t'. rbe_remove x s = Some (x, s') \<and> holds s' [] t' \<and> rb_tree t' \<and> addrs t' = before k @ addrs t @ after k"
proof -
  have m: "rbt_mem s x = Some (entry d (above k) (addr t) None c)" using assms(1) by (simp add: holds_def)
  obtain s1 where s1: "unsplice x (addr t) s = Some s1" "holds s1 k t" using unsplice_holds [OF assms(1)] by blast
  obtain s2 t' where s2: "(if c = RB_BLACK then rbe_remove_color (above k) (addr t) s1 else Some s1) = Some s2" "holds s2 [] t'" "rb_tree t'"
      "addrs t' = addrs (fill k t)" using recolor_correct [OF s1(2) assms(2) refl refl refl] by blast
  have "rbe_remove x s = Some (x, s2)"
    using m s1(1) s2(1) by (cases d; cases "addr t"; cases c) (simp_all add: rbe_remove_def Let_def)
  then show ?thesis using s2 by (auto simp: addrs_fill)
qed

lemma remove_both:
  assumes "holds s k (Node L (x, cx) R)" "rb_tree (fill k (Node L (x, cx) R))" "L \<noteq> Leaf" "R \<noteq> Leaf"
  shows "\<exists>s' t'. rbe_remove x s = Some (x, s') \<and> holds s' [] t' \<and> rb_tree t' \<and> addrs t' = before k @ addrs L @ addrs R @ after k"
proof -
  obtain l r where lr: "addr L = Some l" "addr R = Some r" using assms(3,4) by (cases L; cases R) auto
  have mx: "rbt_mem s x = Some \<lparr>rbt_parent = above k, rbt_left = Some l, rbt_right = Some r, rbt_color = cx\<rparr>"
    using assms(1) lr by (simp add: holds_def)
  obtain m e s1 s2 j t where r: "descend Lft r s = Some m" "rbt_mem s m = Some e" "unsplice m (rbt_right e) s = Some s1"
      "replace_entry x m s1 = Some s2" "(if rbt_parent e = Some x then Some m else rbt_parent e) = above (j @ Frame Rgt m cx L # k)"
      "rbt_right e = addr t" "holds s2 (j @ Frame Rgt m cx L # k) t" "R = fill j (Node Leaf (m, rbt_color e) t)"
      "\<forall>f \<in> set j. \<exists>a c u. f = Frame Lft a c u" using remove_two [OF assms(1,3) lr(2)] by blast
  have "fill (j @ Frame Rgt x cx L # k) (node Rgt t (m, rbt_color e) Leaf) = fill k (Node L (x, cx) R)"
    using r(8) by (simp add: fill_fill [symmetric])
  then have "rb_tree (fill (j @ Frame Rgt x cx L # k) (node Rgt t (m, rbt_color e) Leaf))" using assms(2) by simp
  from recolor_correct [OF r(7) this inv_append] obtain s' t' where
    s': "(if rbt_color e = RB_BLACK then rbe_remove_color (above (j @ Frame Rgt m cx L # k)) (addr t) s2 else Some s2) = Some s'"
      "holds s' [] t'" "rb_tree t'" "addrs t' = addrs (fill (j @ Frame Rgt m cx L # k) t)" by blast
  have "rbe_remove x s = Some (x, s')"
    using mx r(1-6) s'(1) by (cases "rbt_color e") (simp_all add: rbe_remove_def Let_def)
  moreover have "before j = []" using before_left [OF r(9), of "[]"] by simp
  then have "addrs (fill (j @ Frame Rgt m cx L # k) t) = before k @ addrs L @ addrs R @ after k"
    using r(8) before_left [OF r(9)] by (simp add: addrs_fill)
  ultimately show ?thesis using s'(2-4) by auto
qed

lemma rb_remove_ok:
  assumes "rb_ok key s xs" "x \<in> set xs"
  shows "\<exists>s'. rbe_remove x s = Some (x, s') \<and> rb_ok key s' (remove1 x xs)"
proof -
  obtain t where t: "holds s [] t" "rb_tree t" "addrs t = xs" and sorted: "rb_sorted key xs" using assms(1) by (auto simp: rb_ok_def)
  obtain k l c r where f: "t = fill k (Node l (x, c) r)" using focus_exists assms(2) t(3) by blast
  have h: "holds s k (Node l (x, c) r)" using t(1) f holds_fill by blast
  have xs: "xs = before k @ addrs l @ x # addrs r @ after k" using t(3) f by (simp add: addrs_fill)
  obtain s' t' where s': "rbe_remove x s = Some (x, s')" "holds s' [] t'" "rb_tree t'" "addrs t' = before k @ addrs l @ addrs r @ after k"
  proof -
    consider "l = Leaf" | "r = Leaf" | "l \<noteq> Leaf" "r \<noteq> Leaf" by blast
    then show ?thesis
    proof cases
      case 1
      then show ?thesis using that remove_one [of s k Rgt r x c] h t(2) f by auto
    next
      case 2
      then show ?thesis using that remove_one [of s k Lft l x c] h t(2) f by auto
    next
      case 3
      then show ?thesis using that remove_both [OF h] t(2) f by auto
    qed
  qed
  have "distinct xs" using t(1,3) by (simp add: holds_def)
  then have "remove1 x xs = before k @ addrs l @ addrs r @ after k" unfolding xs by (auto simp: remove1_append)
  then have "rb_ok key s' (remove1 x xs)" using s'(2-4) rb_sorted_remove [OF sorted, of x] by (auto simp: rb_ok_def)
  then show ?thesis using s'(1) by blast
qed

text \<open>C21: Removal with pointers, rotations and colours does what removal from a sorted list does:
  it returns the entry, the walk over the tree visits the others in the same order, and
  the result is a red-black tree again.\<close>

theorem rb_remove_refines:
  assumes "rb_ok key s xs" "x \<in> set xs"
  shows "\<exists>s'. rbe_remove x s = Some (x, s') \<and> rb_ok key s' (remove1 x xs)"
  using assms by (rule rb_remove_ok)

end
