(* ===== verification/Rb_Walk.thy ===== *)
theory Rb_Walk
  imports Rb_Remove
begin

text \<open>
  Looking up an entry and walking over the tree: \<^verbatim>\<open>_rb_find\<close> and \<^verbatim>\<open>_rb_nfind\<close> agree with the
  search in the sorted list, \<^verbatim>\<open>RB_FOREACH\<close> visits every entry once and in order, and no way
  down is longer than twice the logarithm of the number of entries.
\<close>

section \<open>Lookup\<close>

lemma find_append: "find P (xs @ ys) = (case find P xs of None \<Rightarrow> find P ys | Some x \<Rightarrow> Some x)"
  by (induction xs) auto

lemma find_none: "\<forall>x \<in> set xs. \<not> P x \<Longrightarrow> find P xs = None"
  by (auto simp: find_None_iff)

lemma rb_sorted_node:
  assumes "rb_sorted key (addrs (Node l (a, c) r))"
  shows "rb_sorted key (addrs l)" "rb_sorted key (addrs r)" "\<forall>b \<in> set (addrs l). key b < key a" "\<forall>b \<in> set (addrs r). key a < key b"
  using assms by (auto simp: rb_sorted_def sorted_wrt_append)

lemma find_ptr_rep:
  assumes "rep (rbt_mem s) par t" "rb_sorted key (addrs t)"
  shows "rb_find_ptr key v (addr t) s = Some (rb_find key v (addrs t))"
  using assms
proof (induction t arbitrary: par)
  case (Node l x r)
  obtain a c where x: "x = (a, c)" by (cases x)
  note o = rb_sorted_node [OF Node.prems(2) [unfolded x]]
  have m: "rbt_mem s a = Some \<lparr>rbt_parent = par, rbt_left = addr l, rbt_right = addr r, rbt_color = c\<rparr>"
      "rep (rbt_mem s) (Some a) l" "rep (rbt_mem s) (Some a) r" using Node.prems(1) x by simp_all
  consider "v < key a" | "key a < v" | "key a = v" by (cases v "key a" rule: linorder_cases) auto
  then show ?case
  proof cases
    case 1
    then have "find (\<lambda>b. key b = v) (addrs r) = None" using o(4) by (intro find_none) auto
    then have "rb_find key v (addrs (Node l x r)) = rb_find key v (addrs l)"
      using 1 x by (auto simp: rb_find_def find_append split: option.split)
    then show ?thesis using Node.IH(1) [OF m(2) o(1)] m(1) 1 x by (subst rb_find_ptr.simps) simp
  next
    case 2
    then have "find (\<lambda>b. key b = v) (addrs l) = None" using o(3) by (intro find_none) auto
    then have "rb_find key v (addrs (Node l x r)) = rb_find key v (addrs r)"
      using 2 x by (auto simp: rb_find_def find_append)
    then show ?thesis using Node.IH(2) [OF m(3) o(2)] m(1) 2 x by (subst rb_find_ptr.simps) auto
  next
    case 3
    then have "find (\<lambda>b. key b = v) (addrs l) = None" using o(3) by (intro find_none) auto
    then show ?thesis using 3 x m(1) by (subst rb_find_ptr.simps) (simp add: rb_find_def find_append)
  qed
qed (simp add: rb_find_ptr.simps rb_find_def)

lemma nfind_ptr_rep:
  assumes "rep (rbt_mem s) par t" "rb_sorted key (addrs t)"
  shows "rb_nfind_ptr key v (addr t) res s = Some (case find (\<lambda>b. v \<le> key b) (addrs t) of None \<Rightarrow> res | Some b \<Rightarrow> Some b)"
  using assms
proof (induction t arbitrary: par res)
  case (Node l x r)
  obtain a c where x: "x = (a, c)" by (cases x)
  note o = rb_sorted_node [OF Node.prems(2) [unfolded x]]
  have m: "rbt_mem s a = Some \<lparr>rbt_parent = par, rbt_left = addr l, rbt_right = addr r, rbt_color = c\<rparr>"
      "rep (rbt_mem s) (Some a) l" "rep (rbt_mem s) (Some a) r" using Node.prems(1) x by simp_all
  consider "v < key a" | "key a < v" | "key a = v" by (cases v "key a" rule: linorder_cases) auto
  then show ?case
  proof cases
    case 1
    then show ?thesis
      using Node.IH(1) [OF m(2) o(1), of "Some a"] m(1) x by (subst rb_nfind_ptr.simps) (auto simp: find_append split: option.split)
  next
    case 2
    then have "find (\<lambda>b. v \<le> key b) (addrs l) = None" using o(3) by (intro find_none) auto
    then show ?thesis using Node.IH(2) [OF m(3) o(2), of res] m(1) 2 x by (subst rb_nfind_ptr.simps) (auto simp: find_append)
  next
    case 3
    then have "find (\<lambda>b. v \<le> key b) (addrs l) = None" using o(3) by (intro find_none) auto
    then show ?thesis using 3 x m(1) by (subst rb_nfind_ptr.simps) (simp add: find_append)
  qed
qed (simp add: rb_nfind_ptr.simps)

section \<open>Walking\<close>

definition hd_option :: "'a list \<Rightarrow> 'a option" where
  "hd_option xs = (case xs of [] \<Rightarrow> None | x # _ \<Rightarrow> Some x)"

lemma hd_option_simps [simp]: "hd_option [] = None" "hd_option (x # xs) = Some x"
  by (simp_all add: hd_option_def)

lemma descend_first:
  assumes "rep (rbt_mem s) par t" "addr t = Some x"
  shows "\<exists>m ys. descend Lft x s = Some m \<and> addrs t = m # ys"
proof -
  obtain j m c r where r: "descend Lft x s = Some m" "t = fill j (Node Leaf (m, c) r)" "\<forall>f \<in> set j. \<exists>a c u. f = Frame Lft a c u"
    using descend_correct [OF assms, of Lft] by auto
  then show ?thesis using before_left [OF r(3), of "[]"] by (simp add: addrs_fill)
qed

lemma climb_correct:
  assumes "holds s k t" "addr t = Some x"
  shows "climb Rgt x s = Some (hd_option (after k))"
  using assms
proof (induction k arbitrary: t x)
  case Nil
  then obtain l c r where "t = Node l (x, c) r" by (cases t) auto
  with Nil show ?case by (subst climb.simps) (simp add: holds_def)
next
  case (Cons f k)
  obtain d a c sib where f: "f = Frame d a c sib" by (cases f)
  obtain l cx r where t: "t = Node l (x, cx) r" using Cons.prems(2) by (cases t) auto
  have m: "rbt_mem s x = Some \<lparr>rbt_parent = Some a, rbt_left = addr l, rbt_right = addr r, rbt_color = cx\<rparr>"
      "rbt_mem s a = Some (entry d (above k) (Some x) (addr sib) c)" "addr sib \<noteq> Some x"
    using Cons.prems(1) f t addr_in [of sib x] by (auto simp: holds_def distinct_fill)
  show ?case
  proof (cases d)
    case Lft
    then show ?thesis using m f by (subst climb.simps) simp
  next
    case Rgt
    have "holds s k (node d t (a, c) sib)" using Cons.prems(1) f by (simp add: holds_up)
    then have "climb Rgt a s = Some (hd_option (after k))" using Cons.IH by simp
    then show ?thesis using m f Rgt by (subst climb.simps) simp
  qed
qed

lemma next_correct:
  assumes "holds s k (Node l (x, c) r)"
  shows "rb_step Rgt x s = Some (hd_option (addrs r @ after k))"
proof -
  have m: "rbt_mem s x = Some \<lparr>rbt_parent = above k, rbt_left = addr l, rbt_right = addr r, rbt_color = c\<rparr>" "rep (rbt_mem s) (Some x) r"
    using assms by (simp_all add: holds_def)
  show ?thesis
  proof (cases "addr r")
    case (Some y)
    then show ?thesis using m descend_first [OF m(2) Some] by (auto simp: rb_step_def)
  next
    case None
    then have r: "r = Leaf" by (cases r) auto
    show ?thesis
    proof (cases k rule: above.cases)
      case 1
      then show ?thesis using m r by (simp add: rb_step_def)
    next
      case (2 d a ca sib j)
      have ma: "rbt_mem s a = Some (entry d (above j) (Some x) (addr sib) ca)" "addr sib \<noteq> Some x"
        using assms 2 addr_in [of sib x] by (auto simp: holds_def distinct_fill)
      show ?thesis using m r 2 ma climb_correct [OF assms, of x] by (cases d) (simp_all add: rb_step_def)
    qed
  qed
qed

lemma visit_correct:
  assumes "holds s [] t" "addrs t = xs @ ys"
  shows "rb_visit (hd_option ys) s = Some ys"
  using assms(2)
proof (induction ys arbitrary: xs)
  case Nil
  then show ?case by (simp add: rb_visit.simps)
next
  case (Cons y ys)
  obtain k l c r where f: "t = fill k (Node l (y, c) r)" using focus_exists [of y t] Cons.prems by auto
  have e: "(before k @ addrs l) @ y # (addrs r @ after k) = xs @ y # ys" using Cons.prems f by (simp add: addrs_fill)
  have d: "distinct (xs @ y # ys)" using assms(1) Cons.prems by (simp add: holds_def)
  then have "y \<notin> set xs" "y \<notin> set ys" by simp_all
  then have "addrs r @ after k = ys" using append_Cons_eq_iff [of y xs ys "before k @ addrs l" "addrs r @ after k"] e by auto
  moreover have "holds s k (Node l (y, c) r)" using assms(1) f holds_fill by blast
  ultimately have "rb_step Rgt y s = Some (hd_option ys)" using next_correct by simp
  then show ?case using Cons.IH [of "xs @ [y]"] Cons.prems by (subst rb_visit.simps) simp
qed

section \<open>Height\<close>

lemma height_bheight: "invc t \<Longrightarrow> invh t \<Longrightarrow> height t \<le> 2 * bheight t + (if color_of t = RB_RED then 1 else 0)"
proof (induction t)
  case (Node l x r)
  have "height l \<le> 2 * bheight l + (if color_of l = RB_RED then 1 else 0)" "height r \<le> 2 * bheight l + (if color_of r = RB_RED then 1 else 0)"
    using Node by auto
  then show ?case using Node.prems(1) by (cases "snd x"; cases "color_of l"; cases "color_of r") auto
qed simp

lemma bheight_size: "invh t \<Longrightarrow> 2 ^ bheight t \<le> Suc (length (addrs t))"
proof (induction t)
  case (Node l x r)
  have "2 ^ bheight l \<le> Suc (length (addrs l))" "2 ^ bheight l \<le> Suc (length (addrs r))" using Node by auto
  then show ?case by simp
qed simp

lemma rb_height:
  assumes "rb_tree t"
  shows "2 ^ height t \<le> (Suc (length (addrs t)))\<^sup>2"
proof -
  have "height t \<le> 2 * bheight t" using height_bheight [of t] assms by (simp add: rb_tree_def)
  then have "(2::nat) ^ height t \<le> (2 ^ bheight t)\<^sup>2" by (simp add: power_increasing mult.commute flip: power_mult)
  also have "\<dots> \<le> (Suc (length (addrs t)))\<^sup>2"
    using bheight_size [of t] assms by (intro power_mono) (simp_all add: rb_tree_def)
  finally show ?thesis .
qed

section \<open>Properties\<close>

text \<open>C24: Searching the tree gives what searching the sorted list gives: the entry with the key,
  and the first entry whose key is not smaller.\<close>

theorem rb_lookup_refines:
  assumes "rb_ok key s xs"
  shows "rb_find_ptr key v (rbt_root s) s = Some (rb_find key v xs) \<and>
    rb_nfind_ptr key v (rbt_root s) None s = Some (find (\<lambda>b. v \<le> key b) xs)"
proof -
  obtain t where t: "holds s [] t" "addrs t = xs" "rb_sorted key xs" using assms by (auto simp: rb_ok_def)
  then have "rbt_root s = addr t" "rep (rbt_mem s) None t" by (simp_all add: holds_def)
  then show ?thesis
    using find_ptr_rep [of s None t key v] nfind_ptr_rep [of s None t key v None] t by (simp split: option.split)
qed

lemma rb_foreach_ok:
  assumes "rb_ok key s xs"
  shows "rb_foreach s = Some xs \<and> distinct xs \<and> sorted_wrt (\<lambda>a b. key a < key b) xs"
proof -
  obtain t where t: "holds s [] t" "addrs t = xs" "rb_sorted key xs" using assms by (auto simp: rb_ok_def)
  then have r: "rbt_root s = addr t" "rep (rbt_mem s) None t" "distinct xs" by (auto simp: holds_def)
  have "rb_extreme Lft s = Some (hd_option xs)"
  proof (cases "addr t")
    case None
    then have "t = Leaf" by (cases t) auto
    then show ?thesis using r(1) t(2) by (auto simp: rb_extreme_def)
  next
    case (Some x)
    then show ?thesis using descend_first [OF r(2) Some] r(1) t(2) by (auto simp: rb_extreme_def)
  qed
  then show ?thesis using visit_correct [OF t(1), of "[]" xs] t(2,3) r(3) by (simp add: rb_foreach_def rb_sorted_def)
qed

text \<open>C0: The loop \<^verbatim>\<open>RB_FOREACH\<close> ends, and visits every entry of the tree exactly once, in the
  order of the keys.\<close>

theorem rb_foreach_visits_all:
  assumes "rb_ok key s xs"
  shows "rb_foreach s = Some xs \<and> distinct xs \<and> sorted_wrt (\<lambda>a b. key a < key b) xs"
  using assms by (rule rb_foreach_ok)


text \<open>Operations on a tree: a new entry is inserted (it is allocated and cleared first), an
  entry of the tree is removed.  The reference is the sorted list.\<close>

datatype rb_op = Rb_insert nat | Rb_remove nat

fun run_op :: "(nat \<Rightarrow> 'k::linorder) \<Rightarrow> rb_op \<Rightarrow> rbt_tree \<Rightarrow> rbt_tree option" where
  "run_op key (Rb_insert x) s = map_option snd (rb_insert_ptr key x
     (s\<lparr>rbt_mem := (rbt_mem s)(x \<mapsto> \<lparr>rbt_parent = None, rbt_left = None, rbt_right = None, rbt_color = RB_BLACK\<rparr>)\<rparr>))"
| "run_op key (Rb_remove x) s = map_option snd (rbe_remove x s)"

fun run_ops :: "(nat \<Rightarrow> 'k::linorder) \<Rightarrow> rb_op list \<Rightarrow> rbt_tree \<Rightarrow> rbt_tree option" where
  "run_ops key [] s = Some s"
| "run_ops key (op # ops) s = do { s \<leftarrow> run_op key op s; run_ops key ops s }"

fun list_op :: "(nat \<Rightarrow> 'k::linorder) \<Rightarrow> rb_op \<Rightarrow> nat list \<Rightarrow> nat list" where
  "list_op key (Rb_insert x) xs = rb_insert key x xs"
| "list_op key (Rb_remove x) xs = remove1 x xs"

fun ops_ok :: "(nat \<Rightarrow> 'k::linorder) \<Rightarrow> rb_op list \<Rightarrow> nat list \<Rightarrow> bool" where
  "ops_ok key [] xs = True"
| "ops_ok key (Rb_insert x # ops) xs \<longleftrightarrow> x \<notin> set xs \<and> ops_ok key ops (rb_insert key x xs)"
| "ops_ok key (Rb_remove x # ops) xs \<longleftrightarrow> x \<in> set xs \<and> ops_ok key ops (remove1 x xs)"

lemma rb_ok_alloc:
  assumes "rb_ok key s xs" "x \<notin> set xs"
  shows "rb_ok key (s\<lparr>rbt_mem := (rbt_mem s)(x \<mapsto> e)\<rparr>) xs"
proof -
  obtain t where t: "holds s [] t" "rb_tree t" "addrs t = xs" using assms(1) by (auto simp: rb_ok_def)
  then have "holds (s\<lparr>rbt_mem := (rbt_mem s)(x \<mapsto> e)\<rparr>) [] t" using assms(2) by (simp add: holds_def)
  then show ?thesis using assms(1) t by (auto simp: rb_ok_def)
qed

lemma run_op_correct:
  assumes "rb_ok key s xs" "ops_ok key [op] xs"
  shows "\<exists>s'. run_op key op s = Some s' \<and> rb_ok key s' (list_op key op xs)"
proof (cases op)
  case (Rb_insert x)
  then show ?thesis using rb_insert_ok [OF rb_ok_alloc [OF assms(1)]] assms(2) by fastforce
next
  case (Rb_remove x)
  then show ?thesis using rb_remove_ok [OF assms(1)] assms(2) by fastforce
qed

text \<open>C22: Any sequence of insertions of new entries and removals of present ones returns, and
  walking over the tree afterwards gives the list that the same operations on a sorted
  list give.\<close>

theorem rb_operations_equivalent:
  assumes "rb_ok key s xs" "ops_ok key ops xs"
  shows "\<exists>s'. run_ops key ops s = Some s' \<and> rb_ok key s' (fold (list_op key) ops xs) \<and>
    rb_foreach s' = Some (fold (list_op key) ops xs)"
proof -
  have "\<exists>s'. run_ops key ops s = Some s' \<and> rb_ok key s' (fold (list_op key) ops xs)"
    using assms
  proof (induction ops arbitrary: s xs)
    case (Cons op ops)
    have "ops_ok key [op] xs" "ops_ok key ops (list_op key op xs)" using Cons.prems(2) by (cases op; simp)+
    then show ?case using run_op_correct [OF Cons.prems(1)] Cons.IH by fastforce
  qed simp
  then show ?thesis using rb_foreach_ok by blast
qed

end
