(* ===== verification/Witnesses.thy ===== *)
theory Witnesses
  imports Connection Mac_Ops Rb_Walk
begin

unbundle bit_operations_syntax

text \<open>
  Concrete inputs at which the hypotheses of the properties hold, and the
  properties applied there.
\<close>

section \<open>Control messages\<close>

definition demo_csm :: CSM where
  "demo_csm = CSM_zero\<lparr>mlag_id := 1, sock_fd := 7, peer_ip := ''10.0.0.2'', sender_ip := ''10.0.0.1'',
     session_timeout := 15, heartbeat_update_time := 100, current_state := ICCP_OPERATIONAL,
     iccp_info := (iccp_info CSM_zero)\<lparr>info_icc_rg_id := 1, sender_name := ''sw'', sender_capability_flag := 1\<rparr>\<rparr>"

lemma demo_info [simp]:
  "sender_capability_flag (iccp_info demo_csm) = 1" "sender_name (iccp_info demo_csm) = ''sw''"
  "status_code (iccp_info demo_csm) = 0" "info_icc_rg_id (iccp_info demo_csm) = 1"
  by (simp_all add: demo_csm_def CSM_zero_def)

theorem capability_accepted_witness:
  "\<exists>buf' m. iccp_csm_prepare_capability_msg demo_csm 16 (replicate 16 0) Env_start = Some (16, buf', next_msg_id Env_start) \<and>
    iccp_csm_enqueue_msg CSM_zero (take 16 buf') = Some (CSM_zero\<lparr>msg_list := msg_list CSM_zero @ [m]\<rparr>) \<and>
    iccp_csm_correspond_from_msg CSM_zero m = Some (info_update (peer_capability_flag_update (\<lambda>_. 1)) CSM_zero)"
  using capability_accepted [of "replicate 16 0" 16 demo_csm Env_start CSM_zero] by simp

theorem rg_connect_accepted_witness:
  "\<exists>len buf' m. iccp_csm_prepare_rg_connect_msg demo_csm 30 (replicate 30 0) Env_start =
      Some (int len, buf', next_msg_id Env_start) \<and>
    iccp_csm_enqueue_msg demo_csm (take len buf') = Some (demo_csm\<lparr>msg_list := msg_list demo_csm @ [m]\<rparr>) \<and>
    (\<exists>b. iccp_csm_correspond_from_msg demo_csm m = Some b)"
  using rg_connect_accepted [of "replicate 30 0" 30 demo_csm Env_start demo_csm] by auto

theorem received_nak_runs_off_witness:
  "\<exists>buf'. iccp_csm_prepare_nak_msg demo_csm 28 (replicate 28 0) Env_start = Some (28, buf', next_msg_id Env_start) \<and>
    iccp_csm_correspond_from_msg CSM_zero (queued (take 28 buf')) = None"
  using received_nak_runs_off [of "replicate 28 0" 28 demo_csm Env_start CSM_zero] by simp

theorem enqueue_in_bounds_iff_witness:
  "\<exists>m. swap16 0 (replicate 8 0) = Some m \<and>
    (iccp_csm_enqueue_msg CSM_zero (replicate 8 0) \<noteq> None \<longleftrightarrow>
      \<not> (msg_type_at m = Some MSG_T_RG_APP_DATA \<and> length (replicate 8 (0::byte)) < 18) \<and>
      \<not> (msg_type_at m = Some MSG_T_NOTIFICATION \<and> length (replicate 8 (0::byte)) < 28))"
  by (rule enqueue_in_bounds_iff) simp

theorem rg_disconnect_ignored_witness:
  "\<exists>buf' b'. iccp_csm_prepare_rg_disconnect_msg demo_csm 24 (replicate 24 0) Env_start =
      Some (24, buf', next_msg_id Env_start) \<and>
    iccp_csm_correspond_from_msg demo_csm (queued (take 24 buf')) = Some b' \<and>
    sender_rg_connect_flag (iccp_info b') = sender_rg_connect_flag (iccp_info demo_csm) \<and>
    peer_rg_connect_flag (iccp_info b') = peer_rg_connect_flag (iccp_info demo_csm)"
  by (rule rg_disconnect_ignored) simp_all

section \<open>Taking a session down\<close>

definition demo_mac :: "byte \<Rightarrow> byte \<Rightarrow> MACMsg" where
  "demo_mac op age = \<lparr>mac_vid = 10, mac_addr = [0, 1, 2, 3, 4, 5], mac_op_type = op, mac_fdb_type = MAC_TYPE_DYNAMIC,
     mac_ifname = ''PortChannel1'', mac_origin_ifname = ''PortChannel1'', mac_age_flag = age,
     mac_pending_local_del = 0, mac_add_to_syncd = 1\<rparr>"

text \<open>A session with one MAC entry in the tree; \<open>q\<close> tells whether it also waits to be sent.\<close>

definition mac_csm :: "byte \<Rightarrow> nat list \<Rightarrow> int \<Rightarrow> CSM" where
  "mac_csm op q wr = MLACP_update (\<lambda>M. M\<lparr>mac_rb := [0], mac_msg_list := q, mac_heap := [0 \<mapsto> demo_mac op 0]\<rparr>)
     (demo_csm\<lparr>peer_warm_reboot_time := wr\<rparr>)"

definition mac_sys :: "byte \<Rightarrow> nat list \<Rightarrow> int \<Rightarrow> System" where
  "mac_sys op q wr = (system_init 3 Env_start 200)
     \<lparr>csm_list := [0], csm_heap := [0 \<mapsto> mac_csm op q wr], readfd := [3, 7]\<rparr>"

lemma mac_sys_csm [simp]: "csm_heap (mac_sys op q wr) 0 = Some (mac_csm op q wr)"
  by (simp add: mac_sys_def)

lemma mac_sys_fields [simp]: "warmboot_exit (mac_sys op q wr) = 0" "clock (mac_sys op q wr) = 200"
  by (simp_all add: mac_sys_def system_init_def)

lemma mac_csm_fields [simp]:
  "mac_rb (MLACP (mac_csm op q wr)) = [0]" "mac_msg_list (MLACP (mac_csm op q wr)) = q"
  "mac_heap (MLACP (mac_csm op q wr)) = [0 \<mapsto> demo_mac op 0]" "peer_warm_reboot_time (mac_csm op q wr) = wr"
  "sock_fd (mac_csm op q wr) = 7" "heartbeat_update_time (mac_csm op q wr) = 100"
  "session_timeout (mac_csm op q wr) = 15"
  by (simp_all add: mac_csm_def demo_csm_def MLACP_update_def)

lemma mac_sys_wf: "wf (mac_sys op q wr)"
  by (simp add: wf_def mac_sys_def system_init_def live_def wf_csm_def live_opt_def mac_csm_def demo_csm_def
      CSM_zero_def AppCSM_zero_def mLACP_zero_def MLACP_update_def)

lemma mac_csm_ok:
  "set q \<subseteq> {0} \<Longrightarrow> mac_ok (MLACP (mac_csm op q wr))"
  "q = [] \<or> op \<noteq> MAC_SYNC_DEL \<Longrightarrow> no_queued_delete (MLACP (mac_csm op q wr))"
  by (auto simp: mac_ok_def no_queued_delete_def live_def list_all_iff demo_mac_def)

theorem disconnect_resets_session_witness:
  "\<exists>s' csm'. scheduler_session_disconnect_handler 0 (mac_sys MAC_SYNC_ADD [0] 0) = Some s' \<and>
    csm_heap s' 0 = Some csm' \<and> session_reset csm'"
  using disconnect_resets_session [of "mac_sys MAC_SYNC_ADD [0] 0" 0 "mac_csm MAC_SYNC_ADD [0] 0"]
  by (auto simp: mac_sys_wf mac_csm_ok)

theorem warm_reboot_deadline_lost_witness:
  "\<exists>s' csm'. scheduler_session_disconnect_handler 0 (mac_sys MAC_SYNC_ADD [0] 150) = Some s' \<and>
    csm_heap s' 0 = Some csm' \<and> warm_reboot_disconn_time csm' = 0"
  using warm_reboot_deadline_lost [of "mac_sys MAC_SYNC_ADD [0] 150" 0 "mac_csm MAC_SYNC_ADD [0] 150"]
  by (auto simp: mac_sys_wf mac_csm_ok)

theorem queued_delete_use_after_free_witness:
  "scheduler_session_disconnect_handler 0 (mac_sys MAC_SYNC_DEL [0] 150) = None"
  using queued_delete_use_after_free [of "mac_sys MAC_SYNC_DEL [0] 150" 0 "mac_csm MAC_SYNC_DEL [0] 150" 0
      "demo_mac MAC_SYNC_DEL 0"]
  by (simp add: mac_sys_wf demo_mac_def)

theorem disconnect_marks_macs_witness:
  "\<exists>s' csm'. mlacp_peer_disconn_fdb_handler 0 (mac_sys MAC_SYNC_ADD [] 0) = Some s' \<and> csm_heap s' 0 = Some csm' \<and>
    set (mac_rb (MLACP csm')) \<subseteq> {0}"
  using disconnect_marks_macs [of "mac_sys MAC_SYNC_ADD [] 0" 0 "mac_csm MAC_SYNC_ADD [] 0"]
  by (auto simp: mac_csm_ok demo_mac_def)


section \<open>Handshake\<close>

definition fresh_csm :: "32 word \<Rightarrow> CSM" where
  "fresh_csm rg = demo_csm\<lparr>current_state := ICCP_INITIALIZED, iccp_info := (iccp_info demo_csm)\<lparr>info_icc_rg_id := rg\<rparr>\<rparr>"

lemma fresh_stage: "stage ICCP_INITIALIZED 0 rg [] (fresh_csm rg) Env_start"
proof -
  have "no_data_logged (fresh_csm rg)"
    by (simp add: no_data_logged_def fresh_csm_def demo_csm_def CSM_zero_def MsgLog_zero_def)
  then show ?thesis
    by (simp add: stage_def connected_ok_def fresh_csm_def demo_csm_def CSM_zero_def Env_start_def Let_def)
qed

theorem handshake_completes_witness:
  "\<exists>a' ea' b' eb'. operational a' \<and> operational b' \<and>
    (\<forall>n. peer_rounds (4 + n) (fresh_csm 1, Env_start) (fresh_csm 1, Env_start) = Some ((a', ea'), (b', eb')))"
  by (rule handshake_completes [OF fresh_stage fresh_stage])

theorem different_groups_fault_witness:
  "peer_rounds 5 (fresh_csm 1, Env_start) (fresh_csm 2, Env_start) = None"
  by (rule different_groups_fault [OF fresh_stage fresh_stage]) simp

section \<open>Reading\<close>

definition reading_sys :: "recv_result list \<Rightarrow> System" where
  "reading_sys rs = set_stream rs (mac_sys MAC_SYNC_ADD [] 0)"

lemma reading_sys_facts [simp]:
  "csm_heap (reading_sys rs) 0 = Some (mac_csm MAC_SYNC_ADD [] 0)" "recv_results (s_env (reading_sys rs)) = rs"
  by (simp_all add: reading_sys_def) (simp add: set_stream_def)

lemma reading_sys_wf: "wf (reading_sys rs)"
  using carry(1) [of "reading_sys rs" "mac_sys MAC_SYNC_ADD [] 0"] mac_sys_wf by (simp add: reading_sys_def)

text \<open>A capability message that arrives in two pieces, the second with the first byte of the next.\<close>

theorem message_reassembled_witness:
  "\<exists>frags'. [] \<notin> set frags' \<and> concat frags' = [0x07] \<and>
    scheduler_csm_read_callback 0 (reading_sys (frag_stream [[0x07, 0, 0], [12, 0, 0, 0, 1, 0x87, 0, 0, 4, 0, 0x80, 1, 0, 0x07]] @ [])) =
      map_option (\<lambda>csm'. (1, set_csm 0 (icc_msg_in_count_update (\<lambda>n. n + 1) csm')
          (set_stream (frag_stream frags' @ []) (reading_sys
            (frag_stream [[0x07, 0, 0], [12, 0, 0, 0, 1, 0x87, 0, 0, 4, 0, 0x80, 1, 0, 0x07]] @ [])))))
        (iccp_csm_enqueue_msg (mac_csm MAC_SYNC_ADD [] 0) [0x07, 0, 0, 12, 0, 0, 0, 1, 0x87, 0, 0, 4, 0, 0x80, 1, 0])"
proof (rule message_reassembled [where w = "0x0C00" and csm = "mac_csm MAC_SYNC_ADD [] 0" and
      frags = "[[0x07, 0, 0], [12, 0, 0, 0, 1, 0x87, 0, 0, 4, 0, 0x80, 1, 0, 0x07]]"])
  show "peek get_u16 2 [0x07, 0, 0, 12, 0, 0, 0, 1, 0x87, 0, 0, 4, 0, 0x80, 1, 0] = Some 0x0C00"
    by (simp add: peek_def of_le16_def)
  show "length [0x07, 0, 0, 12, 0, 0, 0, 1, 0x87, 0, 0, 4, 0, 0x80, 1, 0::byte] = unat (ntohs (0x0C00::16 word)) + 4"
    by (simp add: htons_def of_le16_def)
qed simp_all


definition long_msg :: bytes where "long_msg = [0x07, 0, 0xFF, 0xFD] @ replicate 65533 0"

theorem long_message_overflows_witness:
  "scheduler_csm_read_callback 0 (reading_sys (frag_stream [long_msg] @ [])) = None"
proof (rule long_message_overflows [where w = "0xFDFF" and msg = long_msg and tail = "[]" and csm = "mac_csm MAC_SYNC_ADD [] 0" and
      frags = "[long_msg]" and rs = "[]"])
  show "peek get_u16 2 long_msg = Some 0xFDFF" by (simp add: long_msg_def peek_def of_le16_def)
  show "length long_msg = unat (ntohs (0xFDFF::16 word)) + 4" "65532 < unat (ntohs (0xFDFF::16 word))"
    by (simp_all add: long_msg_def htons_def of_le16_def)
qed (simp_all add: long_msg_def)

section \<open>Transitions and roles\<close>

definition role_sys :: "string \<Rightarrow> string \<Rightarrow> System" where
  "role_sys x y = (system_init 3 Env_start 200)\<lparr>csm_list := [0],
     csm_heap := [0 \<mapsto> demo_csm\<lparr>current_state := ICCP_NONEXISTENT, sender_ip := x, peer_ip := y\<rparr>]\<rparr>"

lemma role_sys_wf: "wf (role_sys x y)"
  by (simp add: wf_def role_sys_def system_init_def live_def wf_csm_def live_opt_def demo_csm_def
      CSM_zero_def AppCSM_zero_def mLACP_zero_def)

lemma role_sys_csm [simp]:
  "csm_heap (role_sys x y) 0 = Some (demo_csm\<lparr>current_state := ICCP_NONEXISTENT, sender_ip := x, peer_ip := y\<rparr>)"
  by (simp add: role_sys_def)

lemma demo_role [simp]: "role_type demo_csm = STP_ROLE_NONE"
  by (simp add: demo_csm_def CSM_zero_def)

theorem transit_keeps_session_witness:
  "\<exists>r s' csm'. iccp_csm_transit 0 (role_sys ''10.0.0.1'' ''10.0.0.2'') = Some r \<and> r = Running s' \<and>
    csm_heap s' 0 = Some csm' \<and> session_ok csm' \<and> iccp_arrow ICCP_NONEXISTENT (current_state csm')"
proof -
  obtain r where r: "iccp_csm_transit 0 (role_sys ''10.0.0.1'' ''10.0.0.2'') = Some r"
    using transit_first_state [OF role_sys_wf role_sys_csm] by auto
  show ?thesis
    using transit_keeps_session [OF role_sys_wf role_sys_csm _ r] r by (auto simp: session_ok_def flags_ok_def)
qed

theorem roles_opposite_witness:
  "\<exists>s' a' t' b'. iccp_csm_stp_role_count 0 (role_sys ''10.0.0.1'' ''10.0.0.2'') = Some s' \<and> csm_heap s' 0 = Some a' \<and>
    iccp_csm_stp_role_count 0 (role_sys ''10.0.0.2'' ''10.0.0.1'') = Some t' \<and> csm_heap t' 0 = Some b' \<and>
    {role_type a', role_type b'} = {STP_ROLE_ACTIVE, STP_ROLE_STANDBY}"
proof (rule roles_opposite [OF role_sys_wf role_sys_csm role_sys_wf role_sys_csm])
  have "inet_addr ''10.0.0.1'' \<noteq> inet_addr ''10.0.0.2''" by code_simp
  then show "inet_addr (sender_ip (demo_csm\<lparr>current_state := ICCP_NONEXISTENT, sender_ip := ''10.0.0.1'', peer_ip := ''10.0.0.2''\<rparr>)) \<noteq>
      inet_addr (sender_ip (demo_csm\<lparr>current_state := ICCP_NONEXISTENT, sender_ip := ''10.0.0.2'', peer_ip := ''10.0.0.1''\<rparr>))"
    by simp
qed simp_all


section \<open>MAC table\<close>

text \<open>A session whose table holds one address, aged as given, with or without a peer link.\<close>

definition table_csm :: "string \<Rightarrow> byte \<Rightarrow> CSM" where
  "table_csm itf age = MLACP_update (\<lambda>M. M\<lparr>mac_rb := [0], mac_heap := [0 \<mapsto> demo_mac MAC_SYNC_ADD age], mac_next := 1\<rparr>)
     (demo_csm\<lparr>peer_itf_name := itf\<rparr>)"

definition table_sys :: "string \<Rightarrow> byte \<Rightarrow> System" where
  "table_sys itf age = (system_init 3 Env_start 200)\<lparr>csm_list := [0], csm_heap := [0 \<mapsto> table_csm itf age]\<rparr>"

lemma table_sys_facts [simp]:
  "csm_heap (table_sys itf age) 0 = Some (table_csm itf age)" "csm_list (table_sys itf age) = [0]"
  "peer_itf_name (table_csm itf age) = itf" "mac_rb (MLACP (table_csm itf age)) = [0]"
  "mac_heap (MLACP (table_csm itf age)) = [0 \<mapsto> demo_mac MAC_SYNC_ADD age]" "mac_msg_list (MLACP (table_csm itf age)) = []"
  "mac_next (MLACP (table_csm itf age)) = 1" "mac_at 0 0 (table_sys itf age) = Some (demo_mac MAC_SYNC_ADD age)"
  "mlacp_lif_list (MLACP (table_csm itf age)) = []" "table 0 (table_sys itf age) = MLACP (table_csm itf age)"
  by (simp_all add: table_sys_def table_csm_def demo_csm_def CSM_zero_def AppCSM_zero_def mLACP_zero_def MLACP_update_def mac_at_def table_def)

lemma table_sys_ready: "mac_ready 0 (table_sys itf age)"
proof -
  have "wf (table_sys itf age)"
    by (simp add: wf_def table_sys_def system_init_def live_def wf_csm_def live_opt_def table_csm_def demo_csm_def
        CSM_zero_def AppCSM_zero_def mLACP_zero_def MLACP_update_def)
  then show ?thesis by (simp add: mac_ready_def mac_inv_def live_def rb_sorted_def)
qed

lemma table_sys_find:
  "mac_rb_find 10 [0, 1, 2, 3, 4, 5] (MLACP (table_csm itf age)) = Some (Some 0)"
  "mac_rb_find 20 [0, 1, 2, 3, 4, 5] (MLACP (table_csm itf age)) = Some None"
  by (simp_all add: mac_rb_find_def MACMsg_compare_def demo_mac_def)

definition demo_data :: "byte \<Rightarrow> 16 word \<Rightarrow> mLACPMACData" where
  "demo_data op v = \<lparr>md_type = op, md_mac_type = MAC_TYPE_DYNAMIC, md_mac_addr = [0, 1, 2, 3, 4, 5], md_vid = v,
     md_ifname = char_arr 20 ''Ethernet4''\<rparr>"

lemma demo_data_facts [simp]:
  "md_type (demo_data op v) = op" "md_vid (demo_data op v) = v" "md_mac_addr (demo_data op v) = [0, 1, 2, 3, 4, 5]"
  "cstr_at (md_ifname (demo_data op v)) = Some ''Ethernet4''" "[0, 1, 2, 3, 4, 5] \<noteq> replicate 6 (0::byte)"
  by (simp_all add: demo_data_def, code_simp+)

lemma table_sys_port:
  "announced_port (table_csm itf age) nm s = Some None" "port_down None s = Some True"
  by (simp_all add: announced_port_def port_down_def)

theorem mac_events_safe_witness:
  "\<exists>t. foreach (run_event 0) [Resync, Announced (demo_data MAC_SYNC_ADD 20), Clear_pending ''PortChannel1'',
      Learned [0, 1, 2, 3, 4, 5] 10 ''PortChannel1'' MAC_TYPE_DYNAMIC MAC_SYNC_DEL] (table_sys ''PortChannel9'' 0) = Some t \<and>
    mac_ready 0 t"
  using mac_events_safe [OF table_sys_ready table_sys_facts(2) table_sys_facts(1),
      of "''PortChannel9''" 0 "[Resync, Announced (demo_data MAC_SYNC_ADD 20), Clear_pending ''PortChannel1'',
      Learned [0, 1, 2, 3, 4, 5] 10 ''PortChannel1'' MAC_TYPE_DYNAMIC MAC_SYNC_DEL]"] by simp

theorem peer_mac_learned_witness:
  "\<exists>t m. mlacp_fsm_update_mac_entry_from_peer 0 (demo_data MAC_SYNC_ADD (htons 20)) (table_sys ''PortChannel9'' 0) = Some t \<and>
    mac_at 0 m t = Some (announced_entry (demo_data MAC_SYNC_ADD (htons 20)) ''Ethernet4'' ''PortChannel9'')"
  using peer_mac_learned [OF table_sys_ready table_sys_facts(1), of "''PortChannel9''" 0 "demo_data MAC_SYNC_ADD (htons 20)" "''Ethernet4''" None True]
  by (auto simp: table_sys_port table_sys_find)

theorem peer_mac_withdrawn_witness:
  "\<exists>t. mlacp_fsm_update_mac_entry_from_peer 0 (demo_data MAC_SYNC_DEL (htons 10)) (table_sys ''PortChannel9'' MAC_AGE_LOCAL) = Some t \<and>
    mac_rb_find 10 [0, 1, 2, 3, 4, 5] (table 0 t) = Some None"
  using peer_mac_withdrawn [OF table_sys_ready table_sys_facts(1), of "demo_data MAC_SYNC_DEL (htons 10)" "''Ethernet4''" "''PortChannel9''" MAC_AGE_LOCAL 0
      "demo_mac MAC_SYNC_ADD MAC_AGE_LOCAL"]
  by (auto simp: table_sys_find demo_mac_def)

theorem orphan_mac_use_after_free_witness:
  "mlacp_fsm_update_mac_entry_from_peer 0 (demo_data MAC_SYNC_ADD (htons 10)) (table_sys [] MAC_AGE_LOCAL) = None"
  using orphan_mac_use_after_free [OF table_sys_ready table_sys_facts(1), of "[]" MAC_AGE_LOCAL "demo_data MAC_SYNC_ADD (htons 10)" "''Ethernet4''" 0
      "demo_mac MAC_SYNC_ADD MAC_AGE_LOCAL"]
  by (simp add: table_sys_port table_sys_find demo_mac_def)

section \<open>Red-black tree\<close>

text \<open>A tree with one entry, and memory for another.\<close>

definition small_tree :: rbt_tree where
  "small_tree = \<lparr>rbt_root = Some 7, rbt_mem =
     [7 \<mapsto> \<lparr>rbt_parent = None, rbt_left = None, rbt_right = None, rbt_color = RB_BLACK\<rparr>,
      3 \<mapsto> \<lparr>rbt_parent = None, rbt_left = None, rbt_right = None, rbt_color = RB_BLACK\<rparr>]\<rparr>"

lemma small_tree_ok: "rb_ok (\<lambda>x. x) small_tree [7]"
proof -
  have "holds small_tree [] (Node Leaf (7, RB_BLACK) Leaf)" by (simp add: holds_def small_tree_def)
  moreover have "rb_tree (Node Leaf (7, RB_BLACK) Leaf)" by (simp add: rb_tree_def)
  ultimately show ?thesis unfolding rb_ok_def by (intro conjI exI [of _ "Node Leaf (7, RB_BLACK) Leaf"]) (simp_all add: rb_sorted_def)
qed

theorem rb_insert_refines_witness:
  "\<exists>s'. rb_insert_ptr (\<lambda>x. x) 3 small_tree = Some (None, s') \<and> rb_ok (\<lambda>x. x) s' [3, 7]"
  using rb_insert_refines [OF small_tree_ok, of 3] by (simp add: small_tree_def rb_find_def)

theorem rb_remove_refines_witness: "\<exists>s'. rbe_remove 7 small_tree = Some (7, s') \<and> rb_ok (\<lambda>x. x) s' []"
  using rb_remove_refines [OF small_tree_ok, of 7] by simp

theorem rb_lookup_refines_witness:
  "rb_find_ptr (\<lambda>x. x) 7 (rbt_root small_tree) small_tree = Some (Some 7) \<and>
   rb_nfind_ptr (\<lambda>x. x) 8 (rbt_root small_tree) None small_tree = Some None"
  using rb_lookup_refines [OF small_tree_ok, of 7] rb_lookup_refines [OF small_tree_ok, of 8] by (simp add: rb_find_def)

theorem rb_foreach_visits_all_witness: "rb_foreach small_tree = Some [7]"
  using rb_foreach_visits_all [OF small_tree_ok] by simp


theorem rb_operations_equivalent_witness:
  "\<exists>s'. run_ops (\<lambda>x. x) [Rb_insert 9, Rb_insert 2, Rb_remove 7, Rb_insert 5] small_tree = Some s' \<and> rb_foreach s' = Some [2, 5, 9]"
  using rb_operations_equivalent [OF small_tree_ok, of "[Rb_insert 9, Rb_insert 2, Rb_remove 7, Rb_insert 5]"] by auto

end
