(* ===== verification/Mlacp_Send.thy ===== *)
theory Mlacp_Send
  imports Mac_Table
begin

unbundle bit_operations_syntax

text \<open>
  The sending side of the mLACP application (\<^verbatim>\<open>src/mlacp_fsm.c\<close>): the messages of the
  initial synchronisation, the queues of MAC, ARP and ND changes, heartbeat, NAK and
  the acknowledgement of an interface that came up.  Every message is prepared in the
  global buffer \<^verbatim>\<open>g_csm_buf\<close>, which is cleared first, and handed to \<^verbatim>\<open>iccp_csm_send\<close>.
\<close>

section \<open>Preparing and sending\<close>

abbreviation (input) MAX_MAC_ENTRY_NUM :: nat where "MAX_MAC_ENTRY_NUM \<equiv> 30"
abbreviation (input) MAX_NEIGH_ENTRY_NUM :: nat where "MAX_NEIGH_ENTRY_NUM \<equiv> 40"
abbreviation (input) PORT_ISOLATION_STATE_ENABLE :: byte where "PORT_ISOLATION_STATE_ENABLE \<equiv> 1"

abbreviation (input) g_csm_buf :: bytes where "g_csm_buf \<equiv> zbuf CSM_BUFFER_SIZE []"

definition send_buf :: "nat \<Rightarrow> bytes \<Rightarrow> int \<Rightarrow> System \<Rightarrow> (int \<times> System) option" where
  "send_buf c buf len s = do {
     csm \<leftarrow> csm_heap s c;
     (rc, csm, e) \<leftarrow> iccp_csm_send csm buf len (s_env s);
     Some (rc, (set_csm c csm s)\<lparr>s_env := e\<rparr>) }"

definition send_msg ::
  "nat \<Rightarrow> (CSM \<Rightarrow> nat \<Rightarrow> bytes \<Rightarrow> Env \<Rightarrow> (int \<times> bytes \<times> Env) option) \<Rightarrow> System \<Rightarrow> (int \<times> System) option" where
  "send_msg c prep s = do {
     csm \<leftarrow> csm_heap s c;
     (len, buf, e) \<leftarrow> prep csm CSM_BUFFER_SIZE g_csm_buf (s_env s);
     send_buf c buf len (s\<lparr>s_env := e\<rparr>) }"

text \<open>The callers that ignore the result.\<close>

definition post_msg ::
  "nat \<Rightarrow> (CSM \<Rightarrow> nat \<Rightarrow> bytes \<Rightarrow> Env \<Rightarrow> (int \<times> bytes \<times> Env) option) \<Rightarrow> System \<Rightarrow> System option" where
  "post_msg c prep s = map_option snd (send_msg c prep s)"

section \<open>The messages of the initial synchronisation\<close>

text \<open>Where the code does not send a message that could not be prepared, \<^verbatim>\<open>iccp_csm_send\<close> would
  refuse its length.\<close>

definition mlacp_sync_send_sysConf :: "nat \<Rightarrow> System \<Rightarrow> System option" where
  "mlacp_sync_send_sysConf c s = post_msg c mlacp_prepare_for_sys_config s"

text \<open>The walk over the port channels of the session.\<close>

definition each_port_channel :: "nat \<Rightarrow> (nat \<Rightarrow> LocalInterface \<Rightarrow> System \<Rightarrow> System option) \<Rightarrow> System \<Rightarrow> System option" where
  "each_port_channel c f s = do {
     csm \<leftarrow> csm_heap s c;
     foreach (\<lambda>l s. do {
       lif \<leftarrow> lif_heap s l;
       if lif_type lif = IF_T_PORT_CHANNEL then f l lif s else Some s }) (mlacp_lif_list (MLACP csm)) s }"

definition mlacp_sync_send_aggConf :: "nat \<Rightarrow> System \<Rightarrow> System option" where
  "mlacp_sync_send_aggConf c s = each_port_channel c (\<lambda>l lif s. do {
     s \<leftarrow> post_msg c (\<lambda>csm n buf. mlacp_prepare_for_Aggport_config csm n buf lif 0) s;
     on_lif l (lif_port_config_sync_update (\<lambda>_. 0)) s }) s"

definition mlacp_sync_send_aggState :: "nat \<Rightarrow> System \<Rightarrow> System option" where
  "mlacp_sync_send_aggState c s = each_port_channel c (\<lambda>l lif s. do {
     s \<leftarrow> post_msg c (\<lambda>csm n buf. mlacp_prepare_for_Aggport_state csm n buf (Some lif)) s;
     on_lif l (lif_changed_update (\<lambda>_. 0)) s }) s"

definition mlacp_sync_send_syncPortChannelInfo :: "nat \<Rightarrow> System \<Rightarrow> System option" where
  "mlacp_sync_send_syncPortChannelInfo c s = each_port_channel c (\<lambda>l lif s. do {
     s \<leftarrow> post_msg c (\<lambda>csm n buf. mlacp_prepare_for_port_channel_info csm n buf (Some lif)) s;
     on_lif l (lif_changed_update (\<lambda>_. 0)) s }) s"

definition mlacp_sync_send_syncPeerLinkInfo :: "nat \<Rightarrow> System \<Rightarrow> System option" where
  "mlacp_sync_send_syncPeerLinkInfo c s = do {
     csm \<leftarrow> csm_heap s c;
     (case peer_link_if csm of None \<Rightarrow> Some s
      | Some p \<Rightarrow> do {
          lif \<leftarrow> lif_heap s p;
          post_msg c (\<lambda>csm n buf. mlacp_prepare_for_port_peerlink_info csm n buf (Some lif)) s }) }"

definition mlacp_sync_send_heartbeat :: "nat \<Rightarrow> System \<Rightarrow> System option" where
  "mlacp_sync_send_heartbeat c s = do {
     csm \<leftarrow> csm_heap s c;
     if heartbeat_send_time csm = 0 \<or> clock s - heartbeat_send_time csm > keepalive_time csm
     then do {
       s \<leftarrow> post_msg c mlacp_prepare_for_heartbeat s;
       on_csm c (heartbeat_send_time_update (\<lambda>_. clock s)) s }
     else Some s }"

definition mlacp_sync_send_syncDoneData :: "nat \<Rightarrow> System \<Rightarrow> System option" where
  "mlacp_sync_send_syncDoneData c s = do {
     s \<leftarrow> on_csm c (MLACP_update (wait_for_sync_data_update (\<lambda>_. 0))) s;
     post_msg c (\<lambda>csm n buf. mlacp_prepare_for_sync_data_tlv csm n buf 1) s }"

section \<open>The queues of changes\<close>

text \<open>The state of the loops: entries in the buffer, length of the message, buffer.\<close>

type_synonym batch = "nat \<times> int \<times> bytes"

definition send_batch :: "nat \<Rightarrow> nat \<Rightarrow> batch \<Rightarrow> System \<Rightarrow> (batch \<times> System) option" where
  "send_batch c full b s =
     (let (count, len, buf) = b in
      if count \<ge> full
      then do { (rc, s) \<leftarrow> send_buf c buf len s; Some ((0, len, g_csm_buf), s) }
      else Some ((count, len, buf), s))"

definition flush_batch :: "nat \<Rightarrow> batch \<times> System \<Rightarrow> System option" where
  "flush_batch c bs =
     (let ((count, len, buf), s) = bs in
      if count = 0 then Some s else map_option snd (send_buf c buf len s))"

text \<open>An entry that announced a deletion is freed once it is sent, unless it or another entry
  with its key is in the tree.\<close>

definition free_sent_mac :: "nat \<Rightarrow> MACMsg \<Rightarrow> mLACP \<Rightarrow> mLACP option" where
  "free_sent_mac m e M =
     (if mac_op_type e = MAC_SYNC_DEL \<and> m \<notin> set (mac_rb M)
      then do {
        found \<leftarrow> mac_rb_find (mac_vid e) (mac_addr e) M;
        Some (if found = None then M\<lparr>mac_heap := (mac_heap M)(m := None)\<rparr> else M) }
      else Some M)"

text \<open>One iteration: an entry is added to the buffer, and a full buffer is sent.\<close>

definition send_entry ::
  "nat \<Rightarrow> nat \<Rightarrow> ('q \<Rightarrow> nat \<Rightarrow> bytes \<Rightarrow> System \<Rightarrow> (int \<times> bytes \<times> System) option) \<Rightarrow> 'q \<Rightarrow>
   batch \<times> System \<Rightarrow> (batch \<times> System) option" where
  "send_entry c full add x bs =
     (let ((count, len, buf), s) = bs in do {
      (len, buf, s) \<leftarrow> add x count buf s;
      send_batch c full (count + 1, len, buf) s })"

definition send_queue ::
  "nat \<Rightarrow> nat \<Rightarrow> ('q \<Rightarrow> nat \<Rightarrow> bytes \<Rightarrow> System \<Rightarrow> (int \<times> bytes \<times> System) option) \<Rightarrow> 'q list \<Rightarrow>
   System \<Rightarrow> System option" where
  "send_queue c full add q s = do {
     bs \<leftarrow> foreach (send_entry c full add) q ((0, 0, g_csm_buf), s);
     flush_batch c bs }"

definition add_mac :: "nat \<Rightarrow> nat \<Rightarrow> nat \<Rightarrow> bytes \<Rightarrow> System \<Rightarrow> (int \<times> bytes \<times> System) option" where
  "add_mac c m count buf s = do {
     csm \<leftarrow> csm_heap s c;
     e \<leftarrow> mac_heap (MLACP csm) m;
     let csm = MLACP_update (mac_msg_list_update tl) csm;
     (len, buf, env) \<leftarrow> mlacp_prepare_for_mac_info_to_peer csm CSM_BUFFER_SIZE buf e count (s_env s);
     M \<leftarrow> free_sent_mac m e (MLACP csm);
     Some (len, buf, (set_csm c (MLACP_update (\<lambda>_. M) csm) s)\<lparr>s_env := env\<rparr>) }"

text \<open>The loop takes the entries from the head of the queue; nothing in it adds one.\<close>

definition mlacp_sync_send_syncMacInfo :: "nat \<Rightarrow> System \<Rightarrow> System option" where
  "mlacp_sync_send_syncMacInfo c s = do {
     csm \<leftarrow> csm_heap s c;
     send_queue c MAX_MAC_ENTRY_NUM (add_mac c) (mac_msg_list (MLACP csm)) s }"

definition add_arp :: "nat \<Rightarrow> ARPMsg \<Rightarrow> nat \<Rightarrow> bytes \<Rightarrow> System \<Rightarrow> (int \<times> bytes \<times> System) option" where
  "add_arp c msg count buf s = do {
     csm \<leftarrow> csm_heap s c;
     let csm = MLACP_update (arp_msg_list_update tl) csm;
     (len, buf, env) \<leftarrow> mlacp_prepare_for_arp_info csm CSM_BUFFER_SIZE buf msg count (s_env s);
     Some (len, buf, (set_csm c csm s)\<lparr>s_env := env\<rparr>) }"

definition mlacp_sync_send_syncArpInfo :: "nat \<Rightarrow> System \<Rightarrow> System option" where
  "mlacp_sync_send_syncArpInfo c s = do {
     csm \<leftarrow> csm_heap s c;
     send_queue c MAX_NEIGH_ENTRY_NUM (add_arp c) (arp_msg_list (MLACP csm)) s }"

definition add_ndisc :: "nat \<Rightarrow> NDISCMsg \<Rightarrow> nat \<Rightarrow> bytes \<Rightarrow> System \<Rightarrow> (int \<times> bytes \<times> System) option" where
  "add_ndisc c msg count buf s = do {
     csm \<leftarrow> csm_heap s c;
     let csm = MLACP_update (ndisc_msg_list_update tl) csm;
     (len, buf, env) \<leftarrow> mlacp_prepare_for_ndisc_info csm CSM_BUFFER_SIZE buf msg count (s_env s);
     Some (len, buf, (set_csm c csm s)\<lparr>s_env := env\<rparr>) }"

definition mlacp_sync_send_syncNdiscInfo :: "nat \<Rightarrow> System \<Rightarrow> System option" where
  "mlacp_sync_send_syncNdiscInfo c s = do {
     csm \<leftarrow> csm_heap s c;
     send_queue c MAX_NEIGH_ENTRY_NUM (add_ndisc c) (ndisc_msg_list (MLACP csm)) s }"

section \<open>Answering a synchronisation request\<close>

definition mlacp_sync_sender_handler :: "nat \<Rightarrow> System \<Rightarrow> System option" where
  "mlacp_sync_sender_handler c s = do {
     csm \<leftarrow> csm_heap s c;
     (case sync_state (MLACP csm) of
        MLACP_SYNC_SYSCONF \<Rightarrow> mlacp_sync_send_sysConf c s
      | MLACP_SYNC_AGGCONF \<Rightarrow> mlacp_sync_send_aggConf c s
      | MLACP_SYNC_AGGSTATE \<Rightarrow> mlacp_sync_send_aggState c s
      | MLACP_SYNC_AGGINFO \<Rightarrow> mlacp_sync_send_syncPortChannelInfo c s
      | MLACP_SYNC_PEERLINKINFO \<Rightarrow> mlacp_sync_send_syncPeerLinkInfo c s
      | MLACP_SYNC_ARP_INFO \<Rightarrow> mlacp_sync_send_syncArpInfo c s
      | MLACP_SYNC_NDISC_INFO \<Rightarrow> mlacp_sync_send_syncNdiscInfo c s
      | MLACP_SYNC_DONE \<Rightarrow> mlacp_sync_send_syncDoneData c s) }"

text \<open>\<^verbatim>\<open>sync_state++\<close> and \<^verbatim>\<open>current_state++\<close>.  The successor of the last constant is not a value
  of the enumeration.\<close>

fun sync_state_succ :: "MLACP_SYNC_STATE \<Rightarrow> MLACP_SYNC_STATE option" where
  "sync_state_succ MLACP_SYNC_SYSCONF = Some MLACP_SYNC_AGGCONF"
| "sync_state_succ MLACP_SYNC_AGGCONF = Some MLACP_SYNC_AGGSTATE"
| "sync_state_succ MLACP_SYNC_AGGSTATE = Some MLACP_SYNC_AGGINFO"
| "sync_state_succ MLACP_SYNC_AGGINFO = Some MLACP_SYNC_PEERLINKINFO"
| "sync_state_succ MLACP_SYNC_PEERLINKINFO = Some MLACP_SYNC_ARP_INFO"
| "sync_state_succ MLACP_SYNC_ARP_INFO = Some MLACP_SYNC_NDISC_INFO"
| "sync_state_succ MLACP_SYNC_NDISC_INFO = Some MLACP_SYNC_DONE"
| "sync_state_succ MLACP_SYNC_DONE = None"

fun app_state_succ :: "MLACP_APP_STATE \<Rightarrow> MLACP_APP_STATE option" where
  "app_state_succ MLACP_STATE_INIT = Some MLACP_STATE_STAGE1"
| "app_state_succ MLACP_STATE_STAGE1 = Some MLACP_STATE_STAGE2"
| "app_state_succ MLACP_STATE_STAGE2 = Some MLACP_STATE_EXCHANGE"
| "app_state_succ MLACP_STATE_EXCHANGE = Some MLACP_STATE_ERROR"
| "app_state_succ MLACP_STATE_ERROR = None"

definition next_stage :: "nat \<Rightarrow> System \<Rightarrow> System option" where
  "next_stage c s = do {
     csm \<leftarrow> csm_heap s c;
     st \<leftarrow> app_state_succ (mlacp_current_state (MLACP csm));
     on_csm c (MLACP_update (mlacp_current_state_update (\<lambda>_. st))) s }"

partial_function (option) send_all_loop :: "nat \<Rightarrow> System \<Rightarrow> System option" where
  "send_all_loop c s = do {
     s \<leftarrow> mlacp_sync_sender_handler c s;
     csm \<leftarrow> csm_heap s c;
     if sync_state (MLACP csm) \<noteq> MLACP_SYNC_DONE then do {
       st \<leftarrow> sync_state_succ (sync_state (MLACP csm));
       s \<leftarrow> on_csm c (MLACP_update (sync_state_update (\<lambda>_. st))) s;
       send_all_loop c s }
     else do {
       s \<leftarrow> on_csm c (MLACP_update (wait_for_sync_data_update (\<lambda>_. 0))) s;
       next_stage c s } }"

definition mlacp_sync_send_all_info_handler :: "nat \<Rightarrow> System \<Rightarrow> System option" where
  "mlacp_sync_send_all_info_handler c s = do {
     s \<leftarrow> post_msg c (\<lambda>csm n buf. mlacp_prepare_for_sync_data_tlv csm n buf 0) s;
     s \<leftarrow> on_csm c (MLACP_update (sync_state_update (\<lambda>_. MLACP_SYNC_SYSCONF))) s;
     send_all_loop c s }"

section \<open>Requests, NAK and acknowledgement\<close>

definition send_sync_request :: "nat \<Rightarrow> System \<Rightarrow> System option" where
  "send_sync_request c s = do {
     csm \<leftarrow> csm_heap s c;
     (len, csm, buf, e) \<leftarrow> mlacp_prepare_for_sync_request_tlv csm CSM_BUFFER_SIZE g_csm_buf (s_env s);
     map_option snd (send_buf c buf len ((set_csm c csm s)\<lparr>s_env := e\<rparr>)) }"

definition mlacp_sync_send_nak_handler :: "nat \<Rightarrow> bytes \<Rightarrow> System \<Rightarrow> System option" where
  "mlacp_sync_send_nak_handler c msg s = do {
     i \<leftarrow> peek get_u32 4 msg;
     s \<leftarrow> on_csm c (app_csm_update (invalid_msg_id_update (\<lambda>_. ntohl i))) s;
     post_msg c app_csm_prepare_nak_msg s }"

text \<open>An identifier that is not in the log leaves \<^verbatim>\<open>tlvType\<close> at its initial value, which is no
  TLV.\<close>

definition mlacp_sync_recv_nak_handler :: "nat \<Rightarrow> bytes \<Rightarrow> System \<Rightarrow> System option" where
  "mlacp_sync_recv_nak_handler c msg s = do {
     csm \<leftarrow> csm_heap s c;
     naktlv \<leftarrow> peek NAKTLV_overlay sizeof_ICCHdr msg;
     let tlvType = (case log_lookup (ntohl (nak_rejected_msg_id naktlv)) (msg_log csm) of
                      Some e \<Rightarrow> log_tlv e | None \<Rightarrow> 0xFFFF);
     on_csm c (MLACP_update (\<lambda>M.
       if tlvType = TLV_T_MLACP_SYSTEM_CONFIG
       then M\<lparr>node_id := node_id M - 1, system_config_changed := 1\<rparr>
       else M\<lparr>need_to_sync := 1\<rparr>)) s }"

definition mlacp_fsm_send_if_up_ack :: "nat \<Rightarrow> byte \<Rightarrow> 16 word \<Rightarrow> byte \<Rightarrow> System \<Rightarrow> System option" where
  "mlacp_fsm_send_if_up_ack c if_type if_id port_isolation_enable s = do {
     csm \<leftarrow> csm_heap s c;
     if mlacp_current_state (MLACP csm) \<noteq> MLACP_STATE_EXCHANGE then Some s
     else post_msg c (\<lambda>csm n buf. mlacp_prepare_for_if_up_ack csm n buf if_type if_id port_isolation_enable) s }"

end
