(* ===== verification/Neigh.thy ===== *)
theory Neigh
  imports Mlacp_Send
begin

unbundle bit_operations_syntax

text \<open>
  Neighbour entries (\<^verbatim>\<open>src/mlacp_link_handler.c\<close>, \<^verbatim>\<open>iccp_netlink_neighbor_request\<close> of
  \<^verbatim>\<open>src/iccp_netlink.c\<close>): installing and removing the ARP and ND entries of an interface
  in the kernel, queueing them for the peer, and announcing the addresses of the
  local VLAN interfaces.  A name behind the end of its array is a fault.
\<close>

section \<open>Requests to the kernel\<close>

abbreviation (input) ICCP_NLE_SEQ_MISMATCH :: int where "ICCP_NLE_SEQ_MISMATCH \<equiv> -16"

text \<open>The allocations of libnl succeed; the result of the request is the next one the
  environment has in store, 0 when there is none.\<close>

definition iccp_netlink_neighbor_request ::
  "addr_family \<Rightarrow> bytes \<Rightarrow> bool \<Rightarrow> bytes \<Rightarrow> string \<Rightarrow> bool \<Rightarrow> System \<Rightarrow> (int \<times> System) option" where
  "iccp_netlink_neighbor_request family addr add mac portname permanent s = do {
     found \<leftarrow> local_if_find_by_name portname s;
     (case found of None \<Rightarrow> Some (-3, s)
      | Some l \<Rightarrow> do {
          lif \<leftarrow> lif_heap s l;
          let e = s_env s;
          let err = (case neigh_results e of [] \<Rightarrow> 0 | r # _ \<Rightarrow> r);
          Some (err, s\<lparr>s_env := e\<lparr>neigh_results := tl (neigh_results e),
            kernel_out := kernel_out e @ [Neigh_request family add addr mac (lif_ifindex lif) permanent]\<rparr>\<rparr>) }) }"

definition arp_set_handler :: "nat \<Rightarrow> nat \<Rightarrow> bool \<Rightarrow> System \<Rightarrow> System option" where
  "arp_set_handler c l add s = do {
     csm \<leftarrow> csm_heap s c;
     lif \<leftarrow> lif_heap s l;
     if add then
       (if mlacp_current_state (MLACP csm) \<noteq> MLACP_STATE_EXCHANGE then Some s
        else foreach (\<lambda>msg s.
          if arp_op_type msg = NEIGH_SYNC_DEL then Some s
          else do {
            nm \<leftarrow> cstr_at (arp_ifname msg);
            if lif_name lif \<noteq> nm then Some s
            else map_option snd (iccp_netlink_neighbor_request AF_INET (le32 (arp_ipv4_addr msg)) True
                   (arp_mac_addr msg) nm False s) }) (arp_list (MLACP csm)) s)
     else foreach (\<lambda>msg s. do {
            nm \<leftarrow> cstr_at (arp_ifname msg);
            if lif_name lif \<noteq> nm \<or> arp_op_type msg = NEIGH_SYNC_DEL then Some s
            else map_option snd (iccp_netlink_neighbor_request AF_INET (le32 (arp_ipv4_addr msg)) False
                   (arp_mac_addr msg) nm False s) }) (arp_list (MLACP csm)) s }"

text \<open>Both branches of the ND handler ask the kernel to add the entry.\<close>

definition ndisc_set_handler :: "nat \<Rightarrow> nat \<Rightarrow> bool \<Rightarrow> System \<Rightarrow> System option" where
  "ndisc_set_handler c l add s = do {
     csm \<leftarrow> csm_heap s c;
     lif \<leftarrow> lif_heap s l;
     if add then
       (if mlacp_current_state (MLACP csm) \<noteq> MLACP_STATE_EXCHANGE then Some s
        else foreach (\<lambda>msg s.
          if nd_op_type msg = NEIGH_SYNC_DEL then Some s
          else do {
            nm \<leftarrow> cstr_at (nd_ifname msg);
            if lif_name lif \<noteq> nm then Some s
            else map_option snd (iccp_netlink_neighbor_request AF_INET6 (nd_ipv6_addr msg) True
                   (nd_mac_addr msg) nm False s) }) (ndisc_list (MLACP csm)) s)
     else foreach (\<lambda>msg s. do {
            nm \<leftarrow> cstr_at (nd_ifname msg);
            if lif_name lif \<noteq> nm \<or> nd_op_type msg = NEIGH_SYNC_DEL then Some s
            else map_option snd (iccp_netlink_neighbor_request AF_INET6 (nd_ipv6_addr msg) True
                   (nd_mac_addr msg) nm False s) }) (ndisc_list (MLACP csm)) s }"

datatype ROUTE_MANIPULATE_TYPE =
    ROUTE_NONE
  | ROUTE_ADD
  | ROUTE_DEL

definition set_l3_itf_state :: "nat \<Rightarrow> nat \<Rightarrow> ROUTE_MANIPULATE_TYPE \<Rightarrow> System \<Rightarrow> System option" where
  "set_l3_itf_state c l route_type s =
     (case route_type of
        ROUTE_NONE \<Rightarrow> Some s
      | ROUTE_ADD \<Rightarrow> do {
          lif \<leftarrow> lif_heap s l;
          if take 4 (lif_name lif) \<noteq> ''Vlan''
          then do { s \<leftarrow> arp_set_handler c l False s; ndisc_set_handler c l False s }
          else Some s }
      | ROUTE_DEL \<Rightarrow> do { s \<leftarrow> arp_set_handler c l True s; ndisc_set_handler c l True s })"

section \<open>Queueing the entries of an interface for the peer\<close>

text \<open>The entries of the interface are marked as additions in the list and copied to the
  queue.\<close>

definition syn_arp_info_to_peer :: "nat \<Rightarrow> nat \<Rightarrow> System \<Rightarrow> System option" where
  "syn_arp_info_to_peer c l s = do {
     csm \<leftarrow> csm_heap s c;
     lif \<leftarrow> lif_heap s l;
     let hit = (\<lambda>m. cstr_at (arp_ifname m) = Some (lif_name lif));
     let mark = (\<lambda>m. m\<lparr>arp_op_type := NEIGH_SYNC_ADD, arp_flag := 0\<rparr>);
     if list_all (\<lambda>m. cstr_at (arp_ifname m) \<noteq> None) (arp_list (MLACP csm))
     then on_csm c (MLACP_update (\<lambda>M. M\<lparr>
            arp_list := map (\<lambda>m. if hit m then mark m else m) (arp_list M),
            arp_msg_list := arp_msg_list M @ map mark (filter hit (arp_list M))\<rparr>)) s
     else None }"

definition syn_ndisc_info_to_peer :: "nat \<Rightarrow> nat \<Rightarrow> System \<Rightarrow> System option" where
  "syn_ndisc_info_to_peer c l s = do {
     csm \<leftarrow> csm_heap s c;
     lif \<leftarrow> lif_heap s l;
     let hit = (\<lambda>m. cstr_at (nd_ifname m) = Some (lif_name lif));
     let mark = (\<lambda>m. m\<lparr>nd_op_type := NEIGH_SYNC_ADD, nd_flag := 0\<rparr>);
     if list_all (\<lambda>m. cstr_at (nd_ifname m) \<noteq> None) (ndisc_list (MLACP csm))
     then on_csm c (MLACP_update (\<lambda>M. M\<lparr>
            ndisc_list := map (\<lambda>m. if hit m then mark m else m) (ndisc_list M),
            ndisc_msg_list := ndisc_msg_list M @ map mark (filter hit (ndisc_list M))\<rparr>)) s
     else None }"

text \<open>What a change of the peer's port channel means for one layer-3 interface over it.\<close>

definition l3_peer_change :: "nat \<Rightarrow> nat \<Rightarrow> int \<Rightarrow> byte \<Rightarrow> System \<Rightarrow> System option" where
  "l3_peer_change c i po_state po_active s = do {
     s \<leftarrow> (if po_state = 1 \<and> po_active = 0 then set_l3_itf_state c i ROUTE_ADD s
           else if po_state = 0 \<and> po_active = 0 then set_l3_itf_state c i ROUTE_DEL s
           else Some s);
     if po_state = 1 \<and> po_active = 1
     then do { s \<leftarrow> syn_arp_info_to_peer c i s; syn_ndisc_info_to_peer c i s }
     else Some s }"

definition update_stp_peer_link :: "nat \<Rightarrow> PeerInterface \<Rightarrow> int \<Rightarrow> int \<Rightarrow> System \<Rightarrow> System option" where
  "update_stp_peer_link c pif po_state new_create s =
     (if new_create = 0 \<and> po_state = uint (pif_po_active pif) then Some s
      else do {
        csm \<leftarrow> csm_heap s c;
        found \<leftarrow> find_obj (lif_heap s) (\<lambda>lif. lif_name lif = pif_name pif) (mlacp_lif_list (MLACP csm));
        (case found of None \<Rightarrow> Some s
         | Some l \<Rightarrow> do {
             lif \<leftarrow> lif_heap s l;
             if local_if_is_l3_mode lif then l3_peer_change c l po_state (lif_po_active lif) s
             else foreach_vlan (\<lambda>_ v s. do {
               vif \<leftarrow> lif_heap s v;
               if local_if_is_l3_mode vif then l3_peer_change c v po_state (lif_po_active lif) s
               else Some s }) (lif_vlan_tree lif) s }) })"

section \<open>Announcing the addresses of a VLAN interface\<close>

text \<open>\<^verbatim>\<open>sscanf(name, "<prefix>%d", &vid)\<close>.\<close>

definition scan_after :: "string \<Rightarrow> string \<Rightarrow> int" where
  "scan_after prefix name =
     (if take (length prefix) name = prefix
      then (case scan_int (drop (length prefix) name) of Some n \<Rightarrow> n | None \<Rightarrow> 0) else 0)"

definition syn_local_mac_info_to_peer :: "nat \<Rightarrow> nat \<Rightarrow> bool \<Rightarrow> bool \<Rightarrow> System \<Rightarrow> (int \<times> System) option" where
  "syn_local_mac_info_to_peer c l sync_add is_sag s = do {
     csm \<leftarrow> csm_heap s c;
     lif \<leftarrow> lif_heap s l;
     if system_id (MLACP csm) = replicate 6 0 then Some (MCLAG_ERROR, s)
     else send_msg c (\<lambda>csm n buf. mlacp_prepare_for_mac_info_to_peer csm n buf
       \<lparr>mac_vid = word_of_int (if is_sag then scan_after ''sag'' (lif_name lif) else scan_vlan (lif_name lif)),
        mac_addr = system_id (MLACP csm), mac_op_type = (if sync_add then MAC_SYNC_ADD else MAC_SYNC_DEL),
        mac_fdb_type = MAC_TYPE_STATIC, mac_ifname = [], mac_origin_ifname = peer_itf_name csm,
        mac_age_flag = 0, mac_pending_local_del = 0, mac_add_to_syncd = 0\<rparr> 0) s }"

definition syn_local_arp_info_to_peer :: "nat \<Rightarrow> nat \<Rightarrow> bool \<Rightarrow> bool \<Rightarrow> System \<Rightarrow> (int \<times> System) option" where
  "syn_local_arp_info_to_peer c l sync_add ack s = do {
     lif \<leftarrow> lif_heap s l;
     send_msg c (\<lambda>csm n buf. mlacp_prepare_for_arp_info csm n buf
       \<lparr>arp_op_type = (if sync_add then NEIGH_SYNC_ADD else NEIGH_SYNC_DEL),
        arp_flag = (if sync_add \<and> ack then NEIGH_SYNC_FLAG_ACK else 0) OR NEIGH_SYNC_FLAG_SELF_IP,
        arp_learn_flag = 0, arp_ifname = char_arr MAX_L_PORT_NAME (lif_name lif), arp_pad = 0,
        arp_ipv4_addr = lif_ipv4_addr lif, arp_mac_addr = lif_mac_addr lif, arp_tail_pad = 0\<rparr> 0) s }"

definition syn_local_nd_info_to_peer :: "nat \<Rightarrow> nat \<Rightarrow> bool \<Rightarrow> bool \<Rightarrow> bool \<Rightarrow> System \<Rightarrow> (int \<times> System) option" where
  "syn_local_nd_info_to_peer c l sync_add ack is_ipv6_ll s = do {
     csm \<leftarrow> csm_heap s c;
     lif \<leftarrow> lif_heap s l;
     if is_ipv6_ll \<and> (lif_ll_prefixlen_v6 lif = 0 \<or> system_id (MLACP csm) = replicate 6 0)
     then Some (MCLAG_ERROR, s)
     else send_msg c (\<lambda>csm n buf. mlacp_prepare_for_ndisc_info csm n buf
       \<lparr>nd_op_type = (if sync_add then NEIGH_SYNC_ADD else NEIGH_SYNC_DEL),
        nd_flag = (if sync_add \<and> ack then NEIGH_SYNC_FLAG_ACK else 0)
                  OR (if is_ipv6_ll then NEIGH_SYNC_FLAG_SELF_LL else NEIGH_SYNC_FLAG_SELF_IP),
        nd_learn_flag = 0, nd_ifname = char_arr MAX_L_PORT_NAME (lif_name lif), nd_pad = 0,
        nd_ipv6_addr = concat (map le32 (if is_ipv6_ll then lif_ipv6_ll_addr lif else lif_ipv6_addr lif)),
        nd_mac_addr = (if is_ipv6_ll then system_id (MLACP csm) else lif_mac_addr lif), nd_tail_pad = 0\<rparr> 0) s }"

text \<open>The first session of the list is the one that is told.\<close>

definition syn_local_neigh_mac_info_to_peer ::
  "nat \<Rightarrow> bool \<Rightarrow> bool \<Rightarrow> bool \<Rightarrow> bool \<Rightarrow> bool \<Rightarrow> bool \<Rightarrow> System \<Rightarrow> (int \<times> System) option" where
  "syn_local_neigh_mac_info_to_peer l sync_add is_v4 is_v6 sync_mac ack is_ipv6_ll s =
     (case csm_list s of [] \<Rightarrow> Some (MCLAG_ERROR, s)
      | c # _ \<Rightarrow> do {
          csm \<leftarrow> csm_heap s c;
          lif \<leftarrow> lif_heap s l;
          if mlacp_current_state (MLACP csm) \<noteq> MLACP_STATE_EXCHANGE \<or> lif_type lif \<noteq> IF_T_VLAN
          then Some (MCLAG_ERROR, s)
          else do {
            s \<leftarrow> (if peer_link_if csm \<noteq> None then set_peerlink_learn_kernel c 0 s else Some s);
            s \<leftarrow> (if sync_mac then map_option snd (syn_local_mac_info_to_peer c l sync_add is_ipv6_ll s) else Some s);
            s \<leftarrow> (if is_v4 then map_option snd (syn_local_arp_info_to_peer c l sync_add ack s) else Some s);
            s \<leftarrow> (if is_v6 then map_option snd (syn_local_nd_info_to_peer c l sync_add ack is_ipv6_ll s) else Some s);
            Some (0, s) } })"

definition syn_ack_local_neigh_mac_info_to_peer :: "string \<Rightarrow> bool \<Rightarrow> System \<Rightarrow> System option" where
  "syn_ack_local_neigh_mac_info_to_peer ifname is_ipv6_ll s = do {
     found \<leftarrow> local_if_find_by_name ifname s;
     (case found of None \<Rightarrow> Some s
      | Some l \<Rightarrow> do {
          lif \<leftarrow> lif_heap s l;
          if is_ipv6_ll
          then map_option snd (syn_local_neigh_mac_info_to_peer l True False True True False True s)
          else if lif_l3_mode lif \<noteq> 0 \<and> lif_is_l3_proto_enabled lif
          then map_option snd (syn_local_neigh_mac_info_to_peer l True (lif_ipv4_addr lif \<noteq> 0)
                 (lif_prefixlen_v6 lif \<noteq> 0) True False False s)
          else Some s }) }"

definition sync_unique_ip :: "System \<Rightarrow> System option" where
  "sync_unique_ip s = foreach (\<lambda>nm s. syn_ack_local_neigh_mac_info_to_peer nm False s) (unq_ip_if_list s) s"

end
