(* ===== verification/Po_State.thy ===== *)
theory Po_State
  imports Neigh
begin

unbundle bit_operations_syntax

text \<open>
  The state of the port channels and the session coming up (\<^verbatim>\<open>src/mlacp_link_handler.c\<close>),
  and the interfaces of the peer (\<^verbatim>\<open>src/port.c\<close>, \<^verbatim>\<open>src/iccp_consistency_check.c\<close>).  Peer
  interfaces are stored by value in \<open>pif_list\<close>, the head being the one created last.
\<close>

section \<open>Interfaces of the peer\<close>

definition PeerInterface_zero :: PeerInterface where
  "PeerInterface_zero = \<lparr>pif_ifindex = 0, pif_type = 0, pif_name = [], pif_mac_addr = replicate 6 0,
     pif_state = PORT_STATE_UP, pif_ipv4_addr = 0, pif_l3_mode = 0, pif_is_peer_link = 0, pif_po_id = 0,
     pif_po_active = 0, pif_csm = None, pif_vlan_tree = []\<rparr>"

text \<open>The new interface is the head of the list.\<close>

definition peer_if_create :: "nat \<Rightarrow> int \<Rightarrow> int \<Rightarrow> System \<Rightarrow> (PeerInterface option \<times> System) option" where
  "peer_if_create c peer_if_number ty s =
     (if peer_if_number < 0 \<or> (ty \<noteq> IF_T_PORT \<and> ty \<noteq> IF_T_PORT_CHANNEL) then Some (None, s)
      else do {
        let pif = PeerInterface_zero\<lparr>pif_ifindex := peer_if_number, pif_type := ty,
                    pif_csm := (if ty = IF_T_PORT then Some c else None)\<rparr>;
        s \<leftarrow> on_csm c (MLACP_update (pif_list_update (\<lambda>ps. pif # ps))) s;
        Some (Some pif, s) })"

text \<open>Unlinking the interface at a position frees it and its VLAN nodes.\<close>

definition peer_if_destroy :: "nat \<Rightarrow> nat \<Rightarrow> System \<Rightarrow> System option" where
  "peer_if_destroy c i s = on_csm c (MLACP_update (pif_list_update (\<lambda>ps. take i ps @ drop (Suc i) ps))) s"

text \<open>\<^verbatim>\<open>RB_FIND\<close> returns a pointer to the node: assigning through it changes the node in the
  tree.\<close>

definition peer_if_add_vlan :: "16 word \<Rightarrow> PeerInterface \<Rightarrow> PeerInterface" where
  "peer_if_add_vlan vlan_id pif =
     (let t = pif_vlan_tree pif;
          t = (if rb_find vid vlan_id t = None
               then rb_insert vid \<lparr>vid = vlan_id, vlan_removed = 0, vlan_itf = None\<rparr> t else t)
      in pif\<lparr>pif_vlan_tree := rb_modify vid vlan_id (vlan_removed_update (\<lambda>_. 0)) t\<rparr>)"

text \<open>One traversal, in which a node marked as removed is unlinked when the next one has been
  reached.\<close>

definition peer_if_clean_unused_vlan :: "PeerInterface \<Rightarrow> PeerInterface" where
  "peer_if_clean_unused_vlan pif =
     (let (pending, t) = foldl (\<lambda>(pending, t) v.
            let t = (case pending of None \<Rightarrow> t | Some k \<Rightarrow> rb_remove vid k t) in
            (if vlan_removed v = 1 then Some (vid v) else None, t))
          (None, pif_vlan_tree pif) (pif_vlan_tree pif)
      in pif\<lparr>pif_vlan_tree := (case pending of None \<Rightarrow> t | Some k \<Rightarrow> rb_remove vid k t)\<rparr>)"

section \<open>Consistency with the local interface\<close>

datatype Reason_ID =
    REASON_NONE
  | REASON_INTERRFACE_MODE_IS_ASYNC
  | REASON_PEER_IF_IP_IS_ASYNC
  | REASON_PEER_IF_VLAN_IS_ASYNC

text \<open>The three checks find the interfaces in the same way.\<close>

definition check_interfaces :: "string \<Rightarrow> System \<Rightarrow> (LocalInterface \<times> PeerInterface) option option" where
  "check_interfaces ifname s = do {
     found \<leftarrow> local_if_find_by_name ifname s;
     (case found of None \<Rightarrow> Some None
      | Some l \<Rightarrow> do {
          lif \<leftarrow> lif_heap s l;
          (case lif_csm lif of None \<Rightarrow> Some None
           | Some c \<Rightarrow> do {
               csm \<leftarrow> csm_heap s c;
               Some (map_option (Pair lif) (peer_if_find_by_name csm ifname)) }) }) }"

definition iccp_check_interface_mode :: "LocalInterface \<Rightarrow> PeerInterface \<Rightarrow> bool" where
  "iccp_check_interface_mode lif pif \<longleftrightarrow> pif_l3_mode pif = lif_l3_mode lif"

definition iccp_check_interface_layer3_addr :: "LocalInterface \<Rightarrow> PeerInterface \<Rightarrow> bool" where
  "iccp_check_interface_layer3_addr lif pif \<longleftrightarrow> pif_ipv4_addr pif = lif_ipv4_addr lif"

definition iccp_check_interface_vlan :: "LocalInterface \<Rightarrow> PeerInterface \<Rightarrow> bool" where
  "iccp_check_interface_vlan lif pif \<longleftrightarrow>
     list_all (\<lambda>v. rb_find vid (vid v) (pif_vlan_tree pif) \<noteq> None) (lif_vlan_tree lif) \<and>
     list_all (\<lambda>v. rb_find vid (vid v) (lif_vlan_tree lif) \<noteq> None) (pif_vlan_tree pif)"

definition iccp_consistency_check :: "string \<Rightarrow> System \<Rightarrow> Reason_ID option" where
  "iccp_consistency_check ifname s = do {
     found \<leftarrow> check_interfaces ifname s;
     Some (case found of None \<Rightarrow> REASON_INTERRFACE_MODE_IS_ASYNC
       | Some (lif, pif) \<Rightarrow>
           if \<not> iccp_check_interface_mode lif pif then REASON_INTERRFACE_MODE_IS_ASYNC
           else if \<not> iccp_check_interface_layer3_addr lif pif then REASON_PEER_IF_IP_IS_ASYNC
           else if \<not> iccp_check_interface_vlan lif pif then REASON_PEER_IF_VLAN_IS_ASYNC
           else REASON_NONE) }"

section \<open>Port channel up and down\<close>

definition peer_po_is_alive :: "CSM \<Rightarrow> int \<Rightarrow> bool" where
  "peer_po_is_alive csm po_ifindex \<longleftrightarrow>
     (case find (\<lambda>p. pif_type p = IF_T_PORT_CHANNEL \<and> pif_po_id p = po_ifindex) (pif_list (MLACP csm)) of
        None \<Rightarrow> False | Some p \<Rightarrow> pif_po_active p \<noteq> 0)"

definition update_peerlink_isolate_from_lif :: "nat \<Rightarrow> nat \<Rightarrow> int \<Rightarrow> System \<Rightarrow> System option" where
  "update_peerlink_isolate_from_lif c l lif_po_state s = do {
     csm \<leftarrow> csm_heap s c;
     if peer_link_if csm = None \<or> mlacp_current_state (MLACP csm) \<noteq> MLACP_STATE_EXCHANGE then Some s
     else do {
       lif \<leftarrow> lif_heap s l;
       let pif_po_state = (case peer_if_find_by_name csm (lif_name lif) of None \<Rightarrow> 1 | Some p \<Rightarrow> pif_po_active p);
       if lif_po_state = 1
       then set_peerlink_mlag_port_isolate c l (if pif_po_state = 1 then 1 else 0) False s
       else Some s } }"

text \<open>\<^verbatim>\<open>update_vlan_if_info\<close> and \<^verbatim>\<open>update_l3_if_info\<close> record the state of the session in the
  interface.\<close>

definition record_mlacp_state :: "nat \<Rightarrow> nat \<Rightarrow> System \<Rightarrow> System option" where
  "record_mlacp_state c l s = do {
     csm \<leftarrow> csm_heap s c;
     on_lif l (lif_mlacp_state_update (\<lambda>_. mlacp_current_state (MLACP csm))) s }"

text \<open>The VLAN interface records the state before it is compared, and the peer's port channel is
  looked up under the interface index.\<close>

definition update_l2_po_state :: "nat \<Rightarrow> nat \<Rightarrow> int \<Rightarrow> System \<Rightarrow> System option" where
  "update_l2_po_state c l po_state s = do {
     lif \<leftarrow> lif_heap s l;
     foreach_vlan (\<lambda>_ v s. do {
       s \<leftarrow> record_mlacp_state c v s;
       csm \<leftarrow> csm_heap s c;
       lif \<leftarrow> lif_heap s l;
       vif \<leftarrow> lif_heap s v;
       if \<not> local_if_is_l3_mode vif then Some s
       else do {
         let st = mlacp_current_state (MLACP csm);
         let route_type =
           (if po_state \<noteq> uint (lif_po_active lif) \<or> st \<noteq> lif_mlacp_state vif
            then (if po_state = 1 then ROUTE_DEL
                  else if po_state = 0 \<and> st = MLACP_STATE_EXCHANGE \<and> peer_po_is_alive csm (lif_ifindex lif)
                  then ROUTE_ADD else ROUTE_NONE)
            else ROUTE_NONE);
         s \<leftarrow> set_l3_itf_state c v route_type s;
         record_mlacp_state c v s } }) (lif_vlan_tree lif) s }"

definition update_l3_po_state :: "nat \<Rightarrow> nat \<Rightarrow> int \<Rightarrow> System \<Rightarrow> System option" where
  "update_l3_po_state c l po_state s = do {
     csm \<leftarrow> csm_heap s c;
     lif \<leftarrow> lif_heap s l;
     let st = mlacp_current_state (MLACP csm);
     let alive = peer_po_is_alive csm (lif_po_id lif);
     let route_type =
       (if po_state \<noteq> uint (lif_po_active lif) \<and> po_state = 1 then ROUTE_DEL
        else if po_state \<noteq> uint (lif_po_active lif) \<and> po_state = 0 \<and> st = MLACP_STATE_EXCHANGE
        then (if alive then ROUTE_ADD else ROUTE_NONE)
        else if st \<noteq> lif_mlacp_state lif \<and> st = MLACP_STATE_EXCHANGE \<and> po_state = 0
        then (if alive then ROUTE_ADD else ROUTE_NONE)
        else ROUTE_NONE);
     s \<leftarrow> set_l3_itf_state c l route_type s;
     record_mlacp_state c l s }"

definition update_po_if_info :: "nat \<Rightarrow> nat \<Rightarrow> int \<Rightarrow> System \<Rightarrow> System option" where
  "update_po_if_info c l po_state s = do {
     s \<leftarrow> on_lif l (\<lambda>lif. if uint (lif_po_active lif) \<noteq> po_state
            then lif\<lparr>lif_changed := 1, lif_po_active := (if po_state \<noteq> 0 then 1 else 0)\<rparr> else lif) s;
     record_mlacp_state c l s }"

definition mlacp_portchannel_state_handler :: "nat \<Rightarrow> nat \<Rightarrow> int \<Rightarrow> System \<Rightarrow> System option" where
  "mlacp_portchannel_state_handler c l po_state s = do {
     s \<leftarrow> update_peerlink_isolate_from_lif c l po_state s;
     s \<leftarrow> update_l2_mac_state c l po_state s;
     lif \<leftarrow> lif_heap s l;
     s \<leftarrow> (if \<not> local_if_is_l3_mode lif then update_l2_po_state c l po_state s
           else update_l3_po_state c l po_state s);
     s \<leftarrow> update_po_if_info c l po_state s;
     if po_state = 0 then mlacp_link_disable_traffic_distribution l s else Some s }"

section \<open>Changes of the peer's port channels\<close>

definition mlacp_convert_remote_mac_to_local :: "nat \<Rightarrow> string \<Rightarrow> System \<Rightarrow> System option" where
  "mlacp_convert_remote_mac_to_local c po_name s = do {
     found \<leftarrow> local_if_find_by_name po_name s;
     (case found of None \<Rightarrow> Some s
      | Some l \<Rightarrow> do {
          st \<leftarrow> lif_state_at l s;
          if st = PORT_STATE_DOWN then Some s
          else do {
            csm \<leftarrow> csm_heap s c;
            foreach (\<lambda>m s. do {
              e \<leftarrow> mac_at c m s;
              if mac_origin_ifname e = po_name \<and> mac_age_flag e = MAC_AGE_LOCAL then do {
                s \<leftarrow> on_mac c m (mac_age_flag_update (\<lambda>_. MAC_AGE_PEER)) s;
                s \<leftarrow> chip_add c m MAC_TYPE_DYNAMIC_LOCAL s;
                s \<leftarrow> on_mac c m (mac_op_type_update (\<lambda>_. MAC_SYNC_ADD)) s;
                on_csm c (MLACP_update (enqueue_mac m)) s }
              else Some s }) (mac_rb (MLACP csm)) s } }) }"

definition mlacp_peer_mlag_intf_delete_handler :: "string \<Rightarrow> System \<Rightarrow> System option" where
  "mlacp_peer_mlag_intf_delete_handler mlag_if_name s = do {
     found \<leftarrow> local_if_find_by_name mlag_if_name s;
     (case found of None \<Rightarrow> Some s | Some l \<Rightarrow> recover_if_ipmac_on_standby l s) }"

section \<open>The session comes up\<close>

definition mlacp_peer_conn_handler :: "nat \<Rightarrow> System \<Rightarrow> System option" where
  "mlacp_peer_conn_handler c s = do {
     s \<leftarrow> on_csm c (warm_reboot_disconn_time_update (\<lambda>_. 0)) s;
     csm \<leftarrow> csm_heap s c;
     s \<leftarrow> (case peer_link_if csm of None \<Rightarrow> Some s
           | Some p \<Rightarrow> do {
               lif \<leftarrow> lif_heap s p;
               set_peerlink_learn_kernel c 0 (set_peerlink_mlag_port_learn (Some lif) 0 s) });
     let s = (if once_connected s = 0 then mlacp_fix_bridge_mac csm (s\<lparr>once_connected := 1\<rparr>) else s);
     let s = s\<lparr>csm_trans_time := clock s\<rparr>;
     s \<leftarrow> mlacp_sync_mac c s;
     s \<leftarrow> each_port_channel c (\<lambda>l lif s.
            mlacp_portchannel_state_handler c l (if lif_state lif = PORT_STATE_UP then 1 else 0) s) s;
     let s = snd (mlacp_link_set_iccp_state (mlag_id csm) True s);
     csm \<leftarrow> csm_heap s c;
     let s = fold (\<lambda>p s. snd (mlacp_link_set_remote_if_state (mlag_id csm) (pif_name p)
                                 (pif_state p = PORT_STATE_UP) s)) (pif_list (MLACP csm)) s;
     s \<leftarrow> update_peerlink_isolate_from_all_csm_lif c s;
     s \<leftarrow> (case peer_link_if csm of None \<Rightarrow> Some s
           | Some p \<Rightarrow> update_vlan_if_mac_on_iccp_up p True None s);
     sync_unique_ip s }"

end
