(* ===== verification/Sync_Update.thy ===== *)
theory Sync_Update
  imports Po_State
begin

unbundle bit_operations_syntax

text \<open>
  \<^verbatim>\<open>src/mlacp_sync_update.c\<close> apart from the MAC entries: what the messages of the peer
  change in the session.  A TLV arrives as the bytes of the message from the TLV on, so
  that reading behind its end is a fault.
\<close>

section \<open>System configuration\<close>

text \<open>The function has no path that reports an error.\<close>

definition mlacp_fsm_update_system_conf :: "nat \<Rightarrow> mLACPSysConfigTLV \<Rightarrow> System \<Rightarrow> (int \<times> System) option" where
  "mlacp_fsm_update_system_conf c t s = do {
     csm \<leftarrow> csm_heap s c;
     let old_remote_system_id = rs_system_id (remote_system (MLACP csm));
     s \<leftarrow> on_csm c (MLACP_update (\<lambda>M. M\<lparr>
            node_id := (if sc_node_id t = node_id M then node_id M + 1 else node_id M),
            remote_system := \<lparr>rs_system_id = sc_sys_id t, rs_system_priority = ntohs (sc_sys_priority t),
                              rs_node_id = ucast (sc_node_id t)\<rparr>\<rparr>)) s;
     s \<leftarrow> foreach update_if_ipmac_on_standby (mlacp_lif_list (MLACP csm)) s;
     Some (0, if role_type csm = STP_ROLE_STANDBY \<and> old_remote_system_id \<noteq> sc_sys_id t
              then snd (mlacp_link_set_iccp_system_id (mlag_id csm) (sc_sys_id t) s) else s) }"

section \<open>Port channels of the peer\<close>

fun find_pos :: "('a \<Rightarrow> bool) \<Rightarrow> 'a list \<Rightarrow> nat option" where
  "find_pos P [] = None"
| "find_pos P (x # xs) = (if P x then Some 0 else map_option Suc (find_pos P xs))"

text \<open>The peer interface at a position of the list.\<close>

definition pif_at :: "nat \<Rightarrow> nat \<Rightarrow> System \<Rightarrow> PeerInterface option" where
  "pif_at c i s = do {
     csm \<leftarrow> csm_heap s c;
     if i < length (pif_list (MLACP csm)) then Some (pif_list (MLACP csm) ! i) else None }"

definition on_pif :: "nat \<Rightarrow> nat \<Rightarrow> (PeerInterface \<Rightarrow> PeerInterface) \<Rightarrow> System \<Rightarrow> System option" where
  "on_pif c i f s = do {
     p \<leftarrow> pif_at c i s;
     on_csm c (MLACP_update (pif_list_update (\<lambda>ps. ps[i := f p]))) s }"

text \<open>The name is copied with the length the peer sent: more than the size of the array is a
  write behind its end.  An interface that is neither known nor announced as new is a null
  pointer.\<close>

definition mlacp_fsm_update_Agg_conf :: "nat \<Rightarrow> mLACPAggConfigTLV \<Rightarrow> System \<Rightarrow> (int \<times> System) option" where
  "mlacp_fsm_update_Agg_conf c t s = do {
     csm \<leftarrow> csm_heap s c;
     agg_name \<leftarrow> cstr_at (ac_agg_name t);
     let found = find_pos (\<lambda>p. pif_name p = agg_name) (pif_list (MLACP csm));
     let agg_id = uint (ntohs (ac_agg_id t));
     if ac_flags t AND 0x02 \<noteq> 0 then
       (case found of
          Some i \<Rightarrow> do {
            s \<leftarrow> mlacp_peer_mlag_intf_delete_handler agg_name s;
            let s = snd (mlacp_link_del_remote_if_info (mlag_id csm) agg_name s);
            s \<leftarrow> peer_if_destroy c i s;
            Some (0, s) }
        | None \<Rightarrow> do {
            s \<leftarrow> on_csm c (MLACP_update (need_to_sync_update (\<lambda>_. 1))) s;
            Some (0, s) })
     else do {
       (new_create, s) \<leftarrow> (if found = None \<and> ac_flags t AND 0x01 \<noteq> 0
                           then map_option (\<lambda>(p, s). (True, s)) (peer_if_create c agg_id IF_T_PORT_CHANNEL s)
                           else Some (False, s));
       i \<leftarrow> (if new_create then Some 0 else found);
       let len = unat (ac_agg_name_len t);
       s \<leftarrow> (if len > MAX_L_PORT_NAME then None
             else on_pif c i (\<lambda>p. p\<lparr>pif_po_id := agg_id, pif_mac_addr := ac_mac_addr t,
                    pif_name := take len agg_name @ drop len (pif_name p)\<rparr>) s);
       pif \<leftarrow> pif_at c i s;
       let po_active = (if pif_state pif = PORT_STATE_UP then 1 else 0);
       let new = (if new_create then 1 else 0);
       s \<leftarrow> update_stp_peer_link c pif po_active new s;
       s \<leftarrow> update_peerlink_isolate_from_pif c pif po_active new s;
       s \<leftarrow> on_pif c i (pif_po_active_update (\<lambda>_. word_of_int po_active)) s;
       if new_create then do {
         let s = snd (mlacp_link_set_remote_if_state (mlag_id csm) (pif_name pif) (po_active = 1) s);
         if role_type csm = STP_ROLE_STANDBY then do {
           lif \<leftarrow> local_if_find_by_name agg_name s;
           s \<leftarrow> (case lif of None \<Rightarrow> Some s | Some l \<Rightarrow> update_if_ipmac_on_standby l s);
           Some (0, s) }
         else Some (0, s) }
       else Some (0, s) } }"

definition mlacp_fsm_update_Aggport_state :: "nat \<Rightarrow> mLACPAggPortStateTLV \<Rightarrow> System \<Rightarrow> (int \<times> System) option" where
  "mlacp_fsm_update_Aggport_state c t s = do {
     csm \<leftarrow> csm_heap s c;
     let po_active = (if as_agg_state t = PORT_STATE_UP then 1 else 0);
     (case find_pos (\<lambda>p. pif_type p = IF_T_PORT_CHANNEL \<and> pif_po_id p = uint (ntohs (as_agg_id t)))
            (pif_list (MLACP csm)) of
        None \<Rightarrow> Some (0, s)
      | Some i \<Rightarrow> do {
          s \<leftarrow> on_pif c i (pif_state_update (\<lambda>_. as_agg_state t)) s;
          pif \<leftarrow> pif_at c i s;
          s \<leftarrow> update_stp_peer_link c pif po_active 0 s;
          s \<leftarrow> update_peerlink_isolate_from_pif c pif po_active 0 s;
          s \<leftarrow> on_pif c i (pif_po_active_update (\<lambda>_. word_of_int po_active)) s;
          if mlacp_current_state (MLACP csm) = MLACP_STATE_EXCHANGE then do {
            s \<leftarrow> (if as_agg_state t = PORT_STATE_DOWN then mlacp_convert_remote_mac_to_local c (pif_name pif) s
                  else Some s);
            Some (0, snd (mlacp_link_set_remote_if_state (mlag_id csm) (pif_name pif)
                            (as_agg_state t = PORT_STATE_UP) s)) }
          else Some (0, s) }) }"

text \<open>The VLAN nodes are marked, the announced ones unmarked or added, the others removed.\<close>

definition update_peer_vlans :: "mLACPPortChannelInfoTLV \<Rightarrow> 16 word list \<Rightarrow> PeerInterface \<Rightarrow> PeerInterface" where
  "update_peer_vlans t vlans p =
     (let p = p\<lparr>pif_vlan_tree := map (vlan_removed_update (\<lambda>_. 1)) (pif_vlan_tree p),
                pif_ipv4_addr := ntohl (pc_ipv4_addr t), pif_l3_mode := pc_l3_mode t\<rparr>
      in peer_if_clean_unused_vlan (fold peer_if_add_vlan vlans p))"

fun vlans_at :: "nat \<Rightarrow> nat \<Rightarrow> bytes \<Rightarrow> 16 word list option" where
  "vlans_at off 0 tlv = Some []"
| "vlans_at off (Suc n) tlv = do {
     w \<leftarrow> peek get_u16 off tlv;
     ws \<leftarrow> vlans_at (off + 2) n tlv;
     Some (ntohs w # ws) }"

definition mlacp_fsm_update_port_channel_info :: "nat \<Rightarrow> bytes \<Rightarrow> System \<Rightarrow> (int \<times> System) option" where
  "mlacp_fsm_update_port_channel_info c tlv s = do {
     csm \<leftarrow> csm_heap s c;
     t \<leftarrow> peek mLACPPortChannelInfoTLV_overlay 0 tlv;
     (case find_pos (\<lambda>p. pif_type p = IF_T_PORT_CHANNEL \<and> pif_po_id p = uint (ntohs (pc_agg_id t)))
            (pif_list (MLACP csm)) of
        None \<Rightarrow> Some (0, s)
      | Some i \<Rightarrow> do {
          vlans \<leftarrow> vlans_at sizeof_mLACPPortChannelInfoTLV (unat (ntohs (pc_num_of_vlan_id t))) tlv;
          s \<leftarrow> on_pif c i (update_peer_vlans t vlans) s;
          pif \<leftarrow> pif_at c i s;
          _ \<leftarrow> iccp_consistency_check (pif_name pif) s;
          Some (0, s) }) }"

text \<open>The peer link of the peer is only compared for the log.\<close>

definition mlacp_fsm_update_peerlink_info :: "nat \<Rightarrow> bytes \<Rightarrow> System \<Rightarrow> System option" where
  "mlacp_fsm_update_peerlink_info c tlv s = do {
     csm \<leftarrow> csm_heap s c;
     (case peer_link_if csm of None \<Rightarrow> Some s
      | Some p \<Rightarrow> do {
          lif \<leftarrow> lif_heap s p;
          t \<leftarrow> peek mLACPPeerLinkInfoTLV_overlay 0 tlv;
          Some s }) }"

definition mlacp_fsm_update_heartbeat :: "nat \<Rightarrow> System \<Rightarrow> System option" where
  "mlacp_fsm_update_heartbeat c s = on_csm c (heartbeat_update_time_update (\<lambda>_. clock s)) s"

definition mlacp_fsm_update_warmboot :: "nat \<Rightarrow> System \<Rightarrow> System option" where
  "mlacp_fsm_update_warmboot c s = on_csm c (peer_warm_reboot_time_update (\<lambda>_. clock s)) s"

section \<open>Neighbours announced by the peer\<close>

text \<open>Whether the address is one of the local switch, and whether the kernel is to be told.
  First the peer link: \<open>mine\<close> tells whether an interface has the address.\<close>

definition neigh_on_peer_link ::
  "(LocalInterface \<Rightarrow> bool) \<Rightarrow> 16 word \<Rightarrow> string \<Rightarrow> CSM \<Rightarrow> System \<Rightarrow> (bool \<times> bool) option" where
  "neigh_on_peer_link mine vlan_id nm csm s =
     (if vlan_id = 0 then Some (False, False)
      else do {
        found \<leftarrow> local_if_find_by_name (peer_itf_name csm) s;
        (case found of None \<Rightarrow> Some (False, False)
         | Some p \<Rightarrow> do {
             plif \<leftarrow> lif_heap s p;
             if local_if_is_l3_mode plif then Some (False, False)
             else (case rb_find vid vlan_id (lif_vlan_tree plif) of
                 Some v \<Rightarrow>
                   (case vlan_itf v of None \<Rightarrow> Some (False, False)
                    | Some i \<Rightarrow> do {
                        vif \<leftarrow> lif_heap s i;
                        Some (lif_name vif = nm \<and> local_if_is_l3_mode vif \<and> mine vif, True) })
               | None \<Rightarrow> do {
                   vlan_if \<leftarrow> local_if_find_by_name nm s;
                   (case vlan_if of None \<Rightarrow> Some (False, False)
                    | Some i \<Rightarrow> do {
                        vif \<leftarrow> lif_heap s i;
                        Some (if lif_is_l3_proto_enabled vif then (mine vif, True) else (False, False)) }) }) }) })"

text \<open>Then the port channels, up to the first one that carries the neighbour and is up.\<close>

fun neigh_on_mlag ::
  "(LocalInterface \<Rightarrow> bool) \<Rightarrow> 16 word \<Rightarrow> string \<Rightarrow> (nat \<Rightarrow> LocalInterface option) \<Rightarrow> nat list \<Rightarrow> bool \<Rightarrow>
   (bool \<times> bool) option" where
  "neigh_on_mlag mine vlan_id nm h [] my = Some (my, False)"
| "neigh_on_mlag mine vlan_id nm h (l # ls) my = do {
     lif \<leftarrow> h l;
     if lif_type lif \<noteq> IF_T_PORT_CHANNEL then neigh_on_mlag mine vlan_id nm h ls my
     else if local_if_is_l3_mode lif then
       (if lif_name lif = nm \<and> lif_po_active lif = 1 then Some (my, True)
        else neigh_on_mlag mine vlan_id nm h ls my)
     else if vlan_id = 0 then neigh_on_mlag mine vlan_id nm h ls my
     else (case rb_find vid vlan_id (lif_vlan_tree lif) of
         None \<Rightarrow> neigh_on_mlag mine vlan_id nm h ls my
       | Some v \<Rightarrow> do {
           my \<leftarrow> (case vlan_itf v of None \<Rightarrow> Some my | Some i \<Rightarrow> map_option (\<lambda>vif. my \<or> mine vif) (h i));
           if lif_po_active lif = 1 then Some (my, True) else neigh_on_mlag mine vlan_id nm h ls my }) }"

text \<open>\<^verbatim>\<open>sscanf(ifname, "Vlan%hu", &vlan_id)\<close>.\<close>

definition neigh_vlan_id :: "string \<Rightarrow> 16 word" where
  "neigh_vlan_id nm = word_of_int (scan_vlan nm)"

text \<open>\<open>Own\<close>: the address belongs to the local switch and is ignored; \<open>Install\<close>: it goes to the
  kernel; \<open>Remember\<close>: it only goes to the list.\<close>

datatype neigh_verdict = Own | Install | Remember

definition neigh_verdict_of ::
  "(LocalInterface \<Rightarrow> bool) \<Rightarrow> (LocalInterface \<Rightarrow> bool) \<Rightarrow> string \<Rightarrow> CSM \<Rightarrow> System \<Rightarrow> neigh_verdict option" where
  "neigh_verdict_of mine_peer mine nm csm s = do {
     (my, set_flag) \<leftarrow> neigh_on_peer_link mine_peer (neigh_vlan_id nm) nm csm s;
     if my then Some Own
     else do {
       (my, set_flag) \<leftarrow> (if set_flag then Some (False, True)
          else neigh_on_mlag mine (neigh_vlan_id nm) nm (lif_heap s) (mlacp_lif_list (MLACP csm)) False);
       if my then Some Own
       else if set_flag then Some Install
       else do {
         found \<leftarrow> local_if_find_by_name nm s;
         (case found of None \<Rightarrow> Some Remember
          | Some i \<Rightarrow> map_option (\<lambda>vif. if mine vif then Own else Remember) (lif_heap s i)) } } }"

text \<open>The request to the kernel and its result; \<^verbatim>\<open>True\<close>: go on.\<close>

definition install_neigh ::
  "addr_family \<Rightarrow> bytes \<Rightarrow> bytes \<Rightarrow> string \<Rightarrow> bool \<Rightarrow> bool \<Rightarrow> bool \<Rightarrow> bool \<Rightarrow> System \<Rightarrow> (bool \<times> System) option" where
  "install_neigh family addr mac nm add permanent ack is_ack_ll s = do {
     (err, s) \<leftarrow> iccp_netlink_neighbor_request family addr add mac nm permanent s;
     if err < 0 \<and> err \<noteq> ICCP_NLE_SEQ_MISMATCH then Some (False, s)
     else if add \<and> ack then map_option (Pair True) (syn_ack_local_neigh_mac_info_to_peer nm is_ack_ll s)
     else Some (True, s) }"

text \<open>The first entry of the list with the address is updated, and removed when the peer withdrew
  it; a new address is appended.  Bytes behind the end of a name are not modelled.\<close>

fun update_first :: "('a \<Rightarrow> bool) \<Rightarrow> ('a \<Rightarrow> 'a list) \<Rightarrow> 'a list \<Rightarrow> 'a list" where
  "update_first P f [] = []"
| "update_first P f (x # xs) = (if P x then f x @ xs else x # update_first P f xs)"

definition mlacp_enqueue_arp :: "ARPMsg \<Rightarrow> mLACP \<Rightarrow> mLACP" where
  "mlacp_enqueue_arp msg M = (if arp_op_type msg \<noteq> NEIGH_SYNC_DEL then M\<lparr>arp_list := arp_list M @ [msg]\<rparr> else M)"

definition mlacp_enqueue_ndisc :: "NDISCMsg \<Rightarrow> mLACP \<Rightarrow> mLACP" where
  "mlacp_enqueue_ndisc msg M = (if nd_op_type msg \<noteq> NEIGH_SYNC_DEL then M\<lparr>ndisc_list := ndisc_list M @ [msg]\<rparr> else M)"

definition record_arp :: "ARPMsg \<Rightarrow> string \<Rightarrow> mLACP \<Rightarrow> mLACP" where
  "record_arp entry nm M =
     (let same = (\<lambda>m. arp_ipv4_addr m = arp_ipv4_addr entry);
          upd = (\<lambda>m. m\<lparr>arp_ifname := char_arr MAX_L_PORT_NAME nm, arp_mac_addr := arp_mac_addr entry\<rparr>);
          M = (if list_ex same (arp_list M)
               then M\<lparr>arp_list := update_first same
                        (\<lambda>m. if arp_op_type entry = NEIGH_SYNC_DEL then [] else [upd m]) (arp_list M)\<rparr>
               else if arp_op_type entry = NEIGH_SYNC_ADD
               then mlacp_enqueue_arp \<lparr>arp_op_type = arp_op_type entry, arp_flag = 0, arp_learn_flag = NEIGH_REMOTE,
                      arp_ifname = char_arr MAX_L_PORT_NAME nm, arp_pad = 0, arp_ipv4_addr = arp_ipv4_addr entry,
                      arp_mac_addr = arp_mac_addr entry, arp_tail_pad = 0\<rparr> M
               else M)
      in M\<lparr>arp_msg_list := filter (\<lambda>m. \<not> same m) (arp_msg_list M)\<rparr>)"

definition mlacp_fsm_update_arp_entry :: "nat \<Rightarrow> ARPMsg \<Rightarrow> System \<Rightarrow> (int \<times> System) option" where
  "mlacp_fsm_update_arp_entry c entry s = do {
     csm \<leftarrow> csm_heap s c;
     nm \<leftarrow> cstr_at (arp_ifname entry);
     let mine = (\<lambda>lif. arp_ipv4_addr entry = lif_ipv4_addr lif);
     verdict \<leftarrow> neigh_verdict_of mine mine nm csm s;
     if verdict = Own then Some (0, s)
     else do {
       (ok, s) \<leftarrow> (if verdict = Install
          then install_neigh AF_INET (le32 (arp_ipv4_addr entry)) (arp_mac_addr entry) nm
                 (arp_op_type entry = NEIGH_SYNC_ADD) (arp_flag entry AND NEIGH_SYNC_FLAG_SELF_IP \<noteq> 0)
                 (arp_flag entry AND NEIGH_SYNC_FLAG_ACK \<noteq> 0) False s
          else Some (True, s));
       if \<not> ok then Some (MCLAG_ERROR, s)
       else map_option (Pair 0) (on_csm c (MLACP_update (record_arp entry nm)) s) } }"

definition mlacp_fsm_update_arp_info :: "nat \<Rightarrow> bytes \<Rightarrow> System \<Rightarrow> (int \<times> System) option" where
  "mlacp_fsm_update_arp_info c tlv s = do {
     t \<leftarrow> peek mLACPARPInfoTLV_overlay 0 tlv;
     let count = unat (ntohs (ai_num_of_entry t));
     if unat (ntohs (ip_len (ai_icc_parameter t))) < 2 + count * sizeof_ARPMsg
     then Some (MCLAG_ERROR_INVALID_TLV, s)
     else map_option (Pair 0) (foreach (\<lambda>i s. do {
       entry \<leftarrow> peek ARPMsg_overlay (sizeof_mLACPARPInfoTLV + sizeof_ARPMsg * i) tlv;
       map_option snd (mlacp_fsm_update_arp_entry c entry s) }) [0..<count] s) }"

text \<open>The text of an IPv6 address starts with \<^verbatim>\<open>fe80\<close> exactly when its first two bytes say so.\<close>

definition is_link_local :: "bytes \<Rightarrow> bool" where
  "is_link_local addr \<longleftrightarrow> take 2 addr = [0xFE, 0x80]"

definition record_ndisc :: "NDISCMsg \<Rightarrow> string \<Rightarrow> mLACP \<Rightarrow> mLACP" where
  "record_ndisc entry nm M =
     (let same = (\<lambda>m. nd_ipv6_addr m = nd_ipv6_addr entry);
          upd = (\<lambda>m. m\<lparr>nd_ifname := char_arr MAX_L_PORT_NAME nm, nd_mac_addr := nd_mac_addr entry\<rparr>);
          M = (if list_ex same (ndisc_list M)
               then M\<lparr>ndisc_list := update_first same
                        (\<lambda>m. if nd_op_type entry = NEIGH_SYNC_DEL then [] else [upd m]) (ndisc_list M)\<rparr>
               else if nd_op_type entry = NEIGH_SYNC_ADD
               then mlacp_enqueue_ndisc \<lparr>nd_op_type = nd_op_type entry, nd_flag = 0, nd_learn_flag = NEIGH_REMOTE,
                      nd_ifname = char_arr MAX_L_PORT_NAME nm, nd_pad = 0, nd_ipv6_addr = nd_ipv6_addr entry,
                      nd_mac_addr = nd_mac_addr entry, nd_tail_pad = 0\<rparr> M
               else M)
      in M\<lparr>ndisc_msg_list := filter (\<lambda>m. \<not> same m) (ndisc_msg_list M)\<rparr>)"

text \<open>The link-local address of an interface counts only in the test for the peer link.\<close>

definition mlacp_fsm_update_ndisc_entry :: "nat \<Rightarrow> NDISCMsg \<Rightarrow> System \<Rightarrow> (int \<times> System) option" where
  "mlacp_fsm_update_ndisc_entry c entry s = do {
     csm \<leftarrow> csm_heap s c;
     nm \<leftarrow> cstr_at (nd_ifname entry);
     let ip = nd_ipv6_addr entry;
     let mine = (\<lambda>lif. ip = concat (map le32 (lif_ipv6_addr lif)));
     let mine_ll = (\<lambda>lif. mine lif \<or> (is_link_local ip \<and> ip = concat (map le32 (lif_ipv6_ll_addr lif))));
     verdict \<leftarrow> neigh_verdict_of mine_ll mine nm csm s;
     if verdict = Own then Some (0, s)
     else do {
       let ll = (nd_flag entry AND NEIGH_SYNC_FLAG_SELF_LL \<noteq> 0);
       (ok, s) \<leftarrow> (if verdict = Install
          then install_neigh AF_INET6 ip (nd_mac_addr entry) nm
                 (nd_op_type entry = NEIGH_SYNC_ADD) (ll \<or> nd_flag entry AND NEIGH_SYNC_FLAG_SELF_IP \<noteq> 0)
                 (nd_flag entry AND NEIGH_SYNC_FLAG_ACK \<noteq> 0) ll s
          else Some (True, s));
       if \<not> ok then Some (MCLAG_ERROR, s)
       else map_option (Pair 0) (on_csm c (MLACP_update (record_ndisc entry nm)) s) } }"

definition mlacp_fsm_update_ndisc_info :: "nat \<Rightarrow> bytes \<Rightarrow> System \<Rightarrow> (int \<times> System) option" where
  "mlacp_fsm_update_ndisc_info c tlv s = do {
     t \<leftarrow> peek mLACPNDISCInfoTLV_overlay 0 tlv;
     let count = unat (ntohs (ni_num_of_entry t));
     if unat (ntohs (ip_len (ni_icc_parameter t))) < 2 + count * sizeof_NDISCMsg
     then Some (MCLAG_ERROR_INVALID_TLV, s)
     else map_option (Pair 0) (foreach (\<lambda>i s. do {
       entry \<leftarrow> peek NDISCMsg_overlay (sizeof_mLACPNDISCInfoTLV + sizeof_NDISCMsg * i) tlv;
       map_option snd (mlacp_fsm_update_ndisc_entry c entry s) }) [0..<count] s) }"

end
