(* ===== verification/Mlacp_Fsm.thy ===== *)
theory Mlacp_Fsm
  imports Sync_Update
begin

unbundle bit_operations_syntax

text \<open>
  The state machine of the mLACP application (\<^verbatim>\<open>src/mlacp_fsm.c\<close>): dispatching a received
  message, the two stages of the initial synchronisation, the exchange state, and the
  loop that drains the queue of received messages.
\<close>

section \<open>Receiving\<close>

definition count_rx :: "nat \<Rightarrow> bytes \<Rightarrow> nat \<Rightarrow> System \<Rightarrow> System option" where
  "count_rx c msg status s = do {
     w \<leftarrow> peek get_u16 sizeof_ICCHdr msg;
     on_csm c (MLACP_SET_ICCP_RX_DBG_COUNTER (par_type w) status) s }"

text \<open>The handlers that answer an error with a NAK and count the message.\<close>

definition nak_or_count :: "nat \<Rightarrow> bytes \<Rightarrow> int \<times> System \<Rightarrow> System option" where
  "nak_or_count c msg rs =
     (let (rc, s) = rs in
      if rc = MCLAG_ERROR
      then do { s \<leftarrow> mlacp_sync_send_nak_handler c msg s; count_rx c msg ICCP_DBG_CNTR_STS_ERR s }
      else count_rx c msg ICCP_DBG_CNTR_STS_OK s)"

definition mlacp_sync_recv_sysConf :: "nat \<Rightarrow> bytes \<Rightarrow> System \<Rightarrow> System option" where
  "mlacp_sync_recv_sysConf c msg s = do {
     t \<leftarrow> peek mLACPSysConfigTLV_overlay sizeof_ICCHdr msg;
     rs \<leftarrow> mlacp_fsm_update_system_conf c t s;
     nak_or_count c msg rs }"

definition mlacp_sync_recv_aggConf :: "nat \<Rightarrow> bytes \<Rightarrow> System \<Rightarrow> System option" where
  "mlacp_sync_recv_aggConf c msg s = do {
     t \<leftarrow> peek mLACPAggConfigTLV_overlay sizeof_ICCHdr msg;
     rs \<leftarrow> mlacp_fsm_update_Agg_conf c t s;
     nak_or_count c msg rs }"

definition mlacp_sync_recv_aggState :: "nat \<Rightarrow> bytes \<Rightarrow> System \<Rightarrow> System option" where
  "mlacp_sync_recv_aggState c msg s = do {
     t \<leftarrow> peek mLACPAggPortStateTLV_overlay sizeof_ICCHdr msg;
     rs \<leftarrow> mlacp_fsm_update_Aggport_state c t s;
     s \<leftarrow> nak_or_count c msg rs;
     if as_agg_state t = PORT_STATE_UP
     then mlacp_fsm_send_if_up_ack c IF_UP_ACK_TYPE_PORT_CHANNEL (ntohs (as_agg_id t)) PORT_ISOLATION_STATE_ENABLE s
     else Some s }"

definition mlacp_sync_recv_syncData :: "nat \<Rightarrow> bytes \<Rightarrow> System \<Rightarrow> System option" where
  "mlacp_sync_recv_syncData c msg s = do {
     t \<leftarrow> peek mLACPSyncDataTLV_overlay sizeof_ICCHdr msg;
     s \<leftarrow> (if ntohs (sd_flags t) = 1 then on_csm c (MLACP_update (wait_for_sync_data_update (\<lambda>_. 0))) s else Some s);
     count_rx c msg ICCP_DBG_CNTR_STS_OK s }"

definition mlacp_sync_recv_syncReq :: "nat \<Rightarrow> bytes \<Rightarrow> System \<Rightarrow> System option" where
  "mlacp_sync_recv_syncReq c msg s = do {
     w \<leftarrow> peek get_u16 (sizeof_ICCHdr + sizeof_ICCParameter) msg;
     s \<leftarrow> on_csm c (MLACP_update (sync_req_num_update (\<lambda>_. uint (ntohs w)))) s;
     s \<leftarrow> mlacp_sync_send_all_info_handler c s;
     count_rx c msg ICCP_DBG_CNTR_STS_OK s }"

text \<open>The messages with a counted number of entries are dropped when they are too short for
  them; \<open>off\<close> is the position of the count in the TLV.\<close>

definition entries_fit :: "nat \<Rightarrow> nat \<Rightarrow> nat \<Rightarrow> bytes \<Rightarrow> bool option" where
  "entries_fit off tlv_size entry_size msg =
     (if length msg < sizeof_ICCHdr + tlv_size then Some False
      else do {
        w \<leftarrow> peek get_u16 (sizeof_ICCHdr + off) msg;
        Some (sizeof_ICCHdr + tlv_size + unat (ntohs w) * entry_size \<le> length msg) })"

definition mlacp_sync_recv_portChanInfo :: "nat \<Rightarrow> bytes \<Rightarrow> System \<Rightarrow> System option" where
  "mlacp_sync_recv_portChanInfo c msg s = do {
     fit \<leftarrow> entries_fit (sizeof_mLACPPortChannelInfoTLV - 2) sizeof_mLACPPortChannelInfoTLV 2 msg;
     if \<not> fit then Some s
     else do {
       rs \<leftarrow> mlacp_fsm_update_port_channel_info c (drop sizeof_ICCHdr msg) s;
       nak_or_count c msg rs } }"

definition mlacp_sync_recv_peerLlinkInfo :: "nat \<Rightarrow> bytes \<Rightarrow> System \<Rightarrow> System option" where
  "mlacp_sync_recv_peerLlinkInfo c msg s = do {
     s \<leftarrow> mlacp_fsm_update_peerlink_info c (drop sizeof_ICCHdr msg) s;
     count_rx c msg ICCP_DBG_CNTR_STS_OK s }"

definition mlacp_sync_recv_macInfo :: "nat \<Rightarrow> bytes \<Rightarrow> System \<Rightarrow> System option" where
  "mlacp_sync_recv_macInfo c msg s = do {
     fit \<leftarrow> entries_fit 4 sizeof_mLACPMACInfoTLV sizeof_mLACPMACData msg;
     if \<not> fit then Some s
     else do {
       s \<leftarrow> mlacp_fsm_update_mac_info_from_peer c (drop sizeof_ICCHdr msg) s;
       count_rx c msg ICCP_DBG_CNTR_STS_OK s } }"

definition mlacp_sync_recv_arpInfo :: "nat \<Rightarrow> bytes \<Rightarrow> System \<Rightarrow> System option" where
  "mlacp_sync_recv_arpInfo c msg s = do {
     fit \<leftarrow> entries_fit 4 sizeof_mLACPARPInfoTLV sizeof_ARPMsg msg;
     if \<not> fit then Some s
     else do {
       (rc, s) \<leftarrow> mlacp_fsm_update_arp_info c (drop sizeof_ICCHdr msg) s;
       count_rx c msg ICCP_DBG_CNTR_STS_OK s } }"

text \<open>ND messages are not counted.\<close>

definition mlacp_sync_recv_ndiscInfo :: "nat \<Rightarrow> bytes \<Rightarrow> System \<Rightarrow> System option" where
  "mlacp_sync_recv_ndiscInfo c msg s = do {
     fit \<leftarrow> entries_fit 4 sizeof_mLACPNDISCInfoTLV sizeof_NDISCMsg msg;
     if \<not> fit then Some s
     else map_option snd (mlacp_fsm_update_ndisc_info c (drop sizeof_ICCHdr msg) s) }"

definition mlacp_sync_recv_heartbeat :: "nat \<Rightarrow> bytes \<Rightarrow> System \<Rightarrow> System option" where
  "mlacp_sync_recv_heartbeat c msg s = do {
     s \<leftarrow> mlacp_fsm_update_heartbeat c s;
     count_rx c msg ICCP_DBG_CNTR_STS_OK s }"

definition mlacp_sync_recv_warmboot :: "nat \<Rightarrow> bytes \<Rightarrow> System \<Rightarrow> System option" where
  "mlacp_sync_recv_warmboot c msg s = do {
     s \<leftarrow> mlacp_fsm_update_warmboot c s;
     count_rx c msg ICCP_DBG_CNTR_STS_OK s }"

definition mlacp_fsm_recv_if_up_ack :: "nat \<Rightarrow> bytes \<Rightarrow> System \<Rightarrow> System option" where
  "mlacp_fsm_recv_if_up_ack c msg s = do {
     t \<leftarrow> peek mLACPIfUpAckTLV_overlay sizeof_ICCHdr msg;
     if ua_if_type t = IF_UP_ACK_TYPE_PORT_CHANNEL then do {
       found \<leftarrow> local_if_find_by_po_id (uint (ntohs (ua_if_id t))) s;
       s \<leftarrow> (case found of None \<Rightarrow> Some s
             | Some l \<Rightarrow> do {
                 lif \<leftarrow> lif_heap s l;
                 if lif_po_active lif \<noteq> 0 then mlacp_link_enable_traffic_distribution l s else Some s });
       count_rx c msg ICCP_DBG_CNTR_STS_OK s }
     else count_rx c msg ICCP_DBG_CNTR_STS_ERR s }"

text \<open>The TLVs for physical ports and spanning tree have empty handlers; unknown TLVs are only
  logged.\<close>

definition mlacp_sync_receiver_handler :: "nat \<Rightarrow> bytes option \<Rightarrow> System \<Rightarrow> System option" where
  "mlacp_sync_receiver_handler c msg s =
     (case msg of None \<Rightarrow> Some s
      | Some msg \<Rightarrow> do {
          w \<leftarrow> peek get_u16 sizeof_ICCHdr msg;
          let t = par_type w;
          if t = TLV_T_MLACP_SYSTEM_CONFIG then mlacp_sync_recv_sysConf c msg s
          else if t = TLV_T_MLACP_AGGREGATOR_CONFIG then mlacp_sync_recv_aggConf c msg s
          else if t = TLV_T_MLACP_AGGREGATOR_STATE then mlacp_sync_recv_aggState c msg s
          else if t = TLV_T_MLACP_SYNC_DATA then mlacp_sync_recv_syncData c msg s
          else if t = TLV_T_MLACP_SYNC_REQUEST then mlacp_sync_recv_syncReq c msg s
          else if t = TLV_T_MLACP_PORT_CHANNEL_INFO then mlacp_sync_recv_portChanInfo c msg s
          else if t = TLV_T_MLACP_PEERLINK_INFO then mlacp_sync_recv_peerLlinkInfo c msg s
          else if t = TLV_T_MLACP_MAC_INFO then mlacp_sync_recv_macInfo c msg s
          else if t = TLV_T_MLACP_ARP_INFO then mlacp_sync_recv_arpInfo c msg s
          else if t = TLV_T_MLACP_NDISC_INFO then mlacp_sync_recv_ndiscInfo c msg s
          else if t = TLV_T_MLACP_HEARTBEAT then mlacp_sync_recv_heartbeat c msg s
          else if t = TLV_T_MLACP_WARMBOOT_FLAG then mlacp_sync_recv_warmboot c msg s
          else if t = TLV_T_MLACP_IF_UP_ACK then mlacp_fsm_recv_if_up_ack c msg s
          else Some s })"

section \<open>The two stages\<close>

definition mlacp_stage_sync_send_handler :: "nat \<Rightarrow> bytes option \<Rightarrow> System \<Rightarrow> System option" where
  "mlacp_stage_sync_send_handler c msg s = do {
     csm \<leftarrow> csm_heap s c;
     (case msg of Some msg \<Rightarrow>
        if wait_for_sync_data (MLACP csm) = 0 then do {
          mtype \<leftarrow> msg_type_at msg;
          w \<leftarrow> peek get_u16 sizeof_ICCHdr msg;
          if mtype = MSG_T_RG_APP_DATA \<and> par_type w = TLV_T_MLACP_SYNC_REQUEST then do {
            r \<leftarrow> peek get_u16 (sizeof_ICCHdr + sizeof_ICCParameter) msg;
            s \<leftarrow> on_csm c (MLACP_update (\<lambda>M. M\<lparr>wait_for_sync_data := 1, sync_req_num := uint (ntohs r)\<rparr>)) s;
            mlacp_sync_send_all_info_handler c s }
          else Some s }
        else Some s
      | None \<Rightarrow> Some s) }"

definition mlacp_stage_sync_request_handler :: "nat \<Rightarrow> bytes option \<Rightarrow> System \<Rightarrow> System option" where
  "mlacp_stage_sync_request_handler c msg s = do {
     csm \<leftarrow> csm_heap s c;
     if wait_for_sync_data (MLACP csm) = 0 then do {
       s \<leftarrow> send_sync_request c s;
       on_csm c (MLACP_update (wait_for_sync_data_update (\<lambda>_. 1))) s }
     else do {
       s \<leftarrow> mlacp_sync_receiver_handler c msg s;
       csm \<leftarrow> csm_heap s c;
       if wait_for_sync_data (MLACP csm) = 0 then next_stage c s else Some s } }"

definition mlacp_stage_handler :: "nat \<Rightarrow> bytes option \<Rightarrow> System \<Rightarrow> System option" where
  "mlacp_stage_handler c msg s = do {
     csm \<leftarrow> csm_heap s c;
     if (mlacp_current_state (MLACP csm) = MLACP_STATE_STAGE1) = (role_type csm = STP_ROLE_ACTIVE)
     then mlacp_stage_sync_send_handler c msg s
     else mlacp_stage_sync_request_handler c msg s }"

section \<open>Exchange\<close>

abbreviation (input) MLACP_LOCAL_IF_DOWN_TIMER :: int where "MLACP_LOCAL_IF_DOWN_TIMER \<equiv> 600"
abbreviation (input) WARM_REBOOT_TIMEOUT :: int where "WARM_REBOOT_TIMEOUT \<equiv> 90"

text \<open>A purged interface leaves the list after its removal was announced.\<close>

definition send_purged_lif :: "nat \<Rightarrow> nat \<Rightarrow> System \<Rightarrow> System option" where
  "send_purged_lif c l s = do {
     lif \<leftarrow> lif_heap s l;
     s \<leftarrow> post_msg c (\<lambda>csm n buf. mlacp_prepare_for_Aggport_config csm n buf lif 1) s;
     s \<leftarrow> (if lif_type lif = IF_T_PORT_CHANNEL \<and> lif_is_traffic_disable lif
           then mlacp_link_enable_traffic_distribution l s else Some s);
     on_csm c (MLACP_update (mlacp_lif_purge_list_update (remove1 l))) s }"

text \<open>What changed about a port channel: its configuration is sent once; its state until the
  peer has taken it.\<close>

definition send_changed_lif :: "nat \<Rightarrow> nat \<Rightarrow> LocalInterface \<Rightarrow> System \<Rightarrow> System option" where
  "send_changed_lif c l lif s = do {
     s \<leftarrow> (if lif_port_config_sync lif \<noteq> 0 then do {
             s \<leftarrow> (if lif_po_active lif = 0 then mlacp_link_disable_traffic_distribution l s else Some s);
             s \<leftarrow> post_msg c (\<lambda>csm n buf. mlacp_prepare_for_Aggport_config csm n buf lif 0) s;
             s \<leftarrow> post_msg c (\<lambda>csm n buf. mlacp_prepare_for_port_channel_info csm n buf (Some lif)) s;
             on_lif l (lif_port_config_sync_update (\<lambda>_. 0)) s }
           else Some s);
     if lif_changed lif \<noteq> 0 then do {
       (rc, s) \<leftarrow> send_msg c (\<lambda>csm n buf. mlacp_prepare_for_Aggport_state csm n buf (Some lif)) s;
       if rc > 0 then on_lif l (lif_changed_update (\<lambda>_. 0)) s else Some s }
     else Some s }"

definition mlacp_exchange_handler :: "nat \<Rightarrow> bytes option \<Rightarrow> System \<Rightarrow> System option" where
  "mlacp_exchange_handler c msg s = do {
     s \<leftarrow> (case msg of None \<Rightarrow> Some s
           | Some m \<Rightarrow> do {
               mtype \<leftarrow> msg_type_at m;
               if mtype = MSG_T_RG_APP_DATA then mlacp_sync_receiver_handler c msg s else Some s });
     csm \<leftarrow> csm_heap s c;
     s \<leftarrow> (if need_to_sync (MLACP csm) \<noteq> 0 then do {
             s \<leftarrow> on_csm c (MLACP_update (need_to_sync_update (\<lambda>_. 0))) s;
             send_sync_request c s }
           else Some s);
     csm \<leftarrow> csm_heap s c;
     s \<leftarrow> (if system_config_changed (MLACP csm) \<noteq> 0 then do {
             s \<leftarrow> mlacp_sync_send_sysConf c s;
             s \<leftarrow> mlacp_sync_send_syncPeerLinkInfo c s;
             on_csm c (MLACP_update (system_config_changed_update (\<lambda>_. 0))) s }
           else Some s);
     csm \<leftarrow> csm_heap s c;
     s \<leftarrow> foreach (send_purged_lif c) (mlacp_lif_purge_list (MLACP csm)) s;
     s \<leftarrow> each_port_channel c (send_changed_lif c) s;
     s \<leftarrow> mlacp_sync_send_syncMacInfo c s;
     s \<leftarrow> mlacp_sync_send_syncArpInfo c s;
     s \<leftarrow> mlacp_sync_send_syncNdiscInfo c s;
     on_csm c (\<lambda>csm. if peer_warm_reboot_time csm \<noteq> 0 \<and> clock s - peer_warm_reboot_time csm \<ge> WARM_REBOOT_TIMEOUT
                     then csm\<lparr>peer_warm_reboot_time := 0\<rparr> else csm) s }"

section \<open>The loop over the received messages\<close>

definition mlacp_local_lif_state_mac_handler :: "nat \<Rightarrow> System \<Rightarrow> System option" where
  "mlacp_local_lif_state_mac_handler c s = each_port_channel c (\<lambda>l lif s.
     if lif_state lif = PORT_STATE_DOWN \<and> lif_po_down_time lif \<noteq> 0 \<and>
        clock s - lif_po_down_time lif > MLACP_LOCAL_IF_DOWN_TIMER
     then do {
       s \<leftarrow> mlacp_local_lif_clear_pending_mac c (lif_name lif) s;
       on_lif l (lif_po_down_time_update (\<lambda>_. 0)) s }
     else Some s) s"

definition mlacp_peer_link_learning_handler :: "nat \<Rightarrow> System \<Rightarrow> System option" where
  "mlacp_peer_link_learning_handler c s = do {
     csm \<leftarrow> csm_heap s c;
     (case peer_link_if csm of None \<Rightarrow> Some s
      | Some p \<Rightarrow> do {
          lif \<leftarrow> lif_heap s p;
          if lif_vlan_count lif \<noteq> 0 \<and> peer_link_learning_retry_time csm \<noteq> 0 \<and>
             clock s - peer_link_learning_retry_time csm > 2
          then set_peerlink_learn_kernel c (peer_link_learning_enable csm) s else Some s }) }"

text \<open>The neighbours learned before are announced again.\<close>

definition mlacp_resync_arp :: "mLACP \<Rightarrow> mLACP" where
  "mlacp_resync_arp M =
     (let ms = map (\<lambda>m. m\<lparr>arp_op_type := NEIGH_SYNC_ADD, arp_flag := 0\<rparr>) (arp_list M)
      in M\<lparr>arp_list := ms, arp_msg_list := arp_msg_list M @ ms\<rparr>)"

definition mlacp_resync_ndisc :: "mLACP \<Rightarrow> mLACP" where
  "mlacp_resync_ndisc M =
     (let ms = map (\<lambda>m. m\<lparr>nd_op_type := NEIGH_SYNC_ADD, nd_flag := 0\<rparr>) (ndisc_list M)
      in M\<lparr>ndisc_list := ms, ndisc_msg_list := ndisc_msg_list M @ ms\<rparr>)"

text \<open>What an iteration does with its message after the NAKs have been sorted out.\<close>

definition mlacp_turn :: "nat \<Rightarrow> bytes option \<Rightarrow> System \<Rightarrow> System option" where
  "mlacp_turn c msg s = do {
     csm \<leftarrow> csm_heap s c;
     let st = mlacp_current_state (MLACP csm);
     s \<leftarrow> (if mlacp_prev_state s \<noteq> st then do {
             s \<leftarrow> (if st = MLACP_STATE_EXCHANGE then mlacp_peer_conn_handler c s else Some s);
             Some (s\<lparr>mlacp_prev_state := st\<rparr>) }
           else Some s);
     s \<leftarrow> (if st = MLACP_STATE_INIT
           then on_csm c (MLACP_update (\<lambda>M. mlacp_resync_ndisc (mlacp_resync_arp
                  (M\<lparr>wait_for_sync_data := 0, mlacp_current_state := MLACP_STATE_STAGE1\<rparr>)))) s
           else Some s);
     (case (if st = MLACP_STATE_INIT then MLACP_STATE_STAGE1 else st) of
        MLACP_STATE_STAGE1 \<Rightarrow> mlacp_stage_handler c msg s
      | MLACP_STATE_STAGE2 \<Rightarrow> mlacp_stage_handler c msg s
      | MLACP_STATE_EXCHANGE \<Rightarrow> mlacp_exchange_handler c msg s
      | _ \<Rightarrow> Some s) }"

text \<open>The loop.  In the first iteration of a new session no message is taken; afterwards the
  iteration that finds the queue empty is the last one.\<close>

partial_function (option) mlacp_fsm_loop :: "nat \<Rightarrow> System \<Rightarrow> System option" where
  "mlacp_fsm_loop c s = do {
     csm \<leftarrow> csm_heap s c;
     if mlacp_current_state (MLACP csm) = MLACP_STATE_INIT
     then do { s \<leftarrow> mlacp_turn c None s; mlacp_fsm_loop c s }
     else (case mlacp_dequeue_msg csm of
         (None, _) \<Rightarrow> mlacp_turn c None s
       | (Some msg, csm) \<Rightarrow> do {
           let s = set_csm c csm s;
           mtype \<leftarrow> msg_type_at msg;
           w \<leftarrow> peek get_u16 sizeof_ICCHdr msg;
           s \<leftarrow> (if mtype = MSG_T_NOTIFICATION \<and> par_type w = TLV_T_NAK
                 then mlacp_sync_recv_nak_handler c msg s
                 else mlacp_turn c (Some msg) s);
           mlacp_fsm_loop c s }) }"

definition mlacp_fsm_transit :: "nat \<Rightarrow> System \<Rightarrow> System option" where
  "mlacp_fsm_transit c s = do {
     csm \<leftarrow> csm_heap s c;
     if sock_fd csm \<le> 0 \<or> app_current_state (app_csm csm) \<noteq> APP_OPERATIONAL then
       (if mlacp_current_state (MLACP csm) = MLACP_STATE_INIT then Some s
        else do {
          csm \<leftarrow> mlacp_mac_msg_queue_reinit
                   (MLACP_update (\<lambda>M. M\<lparr>mlacp_msg_list := [], arp_msg_list := [], ndisc_msg_list := []\<rparr>) csm);
          let s = set_csm c (MLACP_update (mlacp_current_state_update (\<lambda>_. MLACP_STATE_INIT)) csm) s;
          if sock_fd csm > 0 then do {
            s \<leftarrow> scheduler_csm_socket_cleanup c s;
            Some (bump_dbg (socket_cleanup_counter_update (\<lambda>n. n + 1)) s) }
          else Some s })
     else do {
       s \<leftarrow> (if warm_reboot_disconn_time csm \<noteq> 0 \<and> clock s - warm_reboot_disconn_time csm \<ge> WARM_REBOOT_TIMEOUT
             then do {
               s \<leftarrow> on_csm c (warm_reboot_disconn_time_update (\<lambda>_. 0)) s;
               mlacp_peer_disconn_handler c s }
             else Some s);
       s \<leftarrow> mlacp_sync_send_heartbeat c s;
       s \<leftarrow> mlacp_local_lif_state_mac_handler c s;
       s \<leftarrow> mlacp_peer_link_learning_handler c s;
       mlacp_fsm_loop c s } }"

end
