(* ===== verification/Calculus.thy ===== *)
theory Calculus
  imports Mlacp_Fsm Mac_Ops
begin

text \<open>
  Rules for computations that may fault.  \<open>returns P r\<close>: the computation returns and its
  result satisfies \<open>P\<close>; \<open>ensures P r\<close>: if it returns, its result satisfies \<open>P\<close>.  The rules follow
  the syntax of the definitions, so that a proof about a handler unfolds it and applies
  them; loops take an invariant.
\<close>

definition returns :: "('a \<Rightarrow> bool) \<Rightarrow> 'a option \<Rightarrow> bool" where
  "returns P r \<longleftrightarrow> (\<exists>x. r = Some x \<and> P x)"

definition ensures :: "('a \<Rightarrow> bool) \<Rightarrow> 'a option \<Rightarrow> bool" where
  "ensures P r \<longleftrightarrow> (\<forall>x. r = Some x \<longrightarrow> P x)"

named_theorems returning "introduction rules for computations that return"
named_theorems ensuring "introduction rules for computations that may fault"

lemma returnsI: "r = Some x \<Longrightarrow> P x \<Longrightarrow> returns P r"
  by (simp add: returns_def)

lemma returnsE: "returns P r \<Longrightarrow> (\<And>x. r = Some x \<Longrightarrow> P x \<Longrightarrow> thesis) \<Longrightarrow> thesis"
  by (auto simp: returns_def)

lemma returns_mono: "returns Q r \<Longrightarrow> (\<And>x. Q x \<Longrightarrow> P x) \<Longrightarrow> returns P r"
  by (auto simp: returns_def)

lemma returns_Some [returning]: "P x \<Longrightarrow> returns P (Some x)"
  by (simp add: returns_def)

lemma returns_bind: "returns Q m \<Longrightarrow> (\<And>x. Q x \<Longrightarrow> returns P (f x)) \<Longrightarrow> returns P (Option.bind m f)"
  by (auto simp: returns_def)

lemma returns_read [returning]: "m = Some x \<Longrightarrow> returns P (f x) \<Longrightarrow> returns P (Option.bind m f)"
  by simp

lemma returns_map [returning]: "returns (\<lambda>x. P (f x)) m \<Longrightarrow> returns P (map_option f m)"
  by (auto simp: returns_def)

lemma returns_if [returning]: "(b \<Longrightarrow> returns P x) \<Longrightarrow> (\<not> b \<Longrightarrow> returns P y) \<Longrightarrow> returns P (if b then x else y)"
  by simp

lemma returns_option [returning]:
  "(x = None \<Longrightarrow> returns P n) \<Longrightarrow> (\<And>y. x = Some y \<Longrightarrow> returns P (f y)) \<Longrightarrow> returns P (case x of None \<Rightarrow> n | Some y \<Rightarrow> f y)"
  by (cases x) simp_all

lemma returns_prod [returning]: "(\<And>a b. x = (a, b) \<Longrightarrow> returns P (f a b)) \<Longrightarrow> returns P (case x of (a, b) \<Rightarrow> f a b)"
  by (cases x) simp

lemma returns_foreach:
  assumes "I s" "\<And>x s. x \<in> set xs \<Longrightarrow> I s \<Longrightarrow> returns I (f x s)"
  shows "returns I (foreach f xs s)"
  using assms
proof (induction xs arbitrary: s)
  case (Cons x xs)
  have "returns I (f x s)" by (rule Cons.prems(2)) (simp_all add: Cons.prems(1))
  then show ?case by (elim returnsE) (simp add: Cons)
qed (simp add: returns_def)

lemma ensuresD: "ensures P r \<Longrightarrow> r = Some x \<Longrightarrow> P x"
  by (simp add: ensures_def)

lemma ensures_mono: "ensures Q r \<Longrightarrow> (\<And>x. Q x \<Longrightarrow> P x) \<Longrightarrow> ensures P r"
  by (auto simp: ensures_def)

lemma returns_ensures: "returns P r \<Longrightarrow> ensures P r"
  by (auto simp: returns_def ensures_def)

lemma ensures_Some [ensuring]: "P x \<Longrightarrow> ensures P (Some x)"
  and ensures_None [ensuring]: "ensures P None"
  by (simp_all add: ensures_def)

lemma ensures_bind: "ensures Q m \<Longrightarrow> (\<And>x. Q x \<Longrightarrow> ensures P (f x)) \<Longrightarrow> ensures P (Option.bind m f)"
  by (cases m) (auto simp: ensures_def)

lemma ensures_read [ensuring]: "(\<And>x. m = Some x \<Longrightarrow> ensures P (f x)) \<Longrightarrow> ensures P (Option.bind m f)"
  by (cases m) (auto simp: ensures_def)

lemma ensures_map [ensuring]: "ensures (\<lambda>x. P (f x)) m \<Longrightarrow> ensures P (map_option f m)"
  by (cases m) (auto simp: ensures_def)

lemma ensures_if [ensuring]: "(b \<Longrightarrow> ensures P x) \<Longrightarrow> (\<not> b \<Longrightarrow> ensures P y) \<Longrightarrow> ensures P (if b then x else y)"
  by simp

lemma ensures_option [ensuring]:
  "(x = None \<Longrightarrow> ensures P n) \<Longrightarrow> (\<And>y. x = Some y \<Longrightarrow> ensures P (f y)) \<Longrightarrow> ensures P (case x of None \<Rightarrow> n | Some y \<Rightarrow> f y)"
  by (cases x) simp_all

lemma ensures_prod [ensuring]: "(\<And>a b. x = (a, b) \<Longrightarrow> ensures P (f a b)) \<Longrightarrow> ensures P (case x of (a, b) \<Rightarrow> f a b)"
  by (cases x) simp

lemma ensures_foreach:
  assumes "I s" "\<And>x s. x \<in> set xs \<Longrightarrow> I s \<Longrightarrow> ensures I (f x s)"
  shows "ensures I (foreach f xs s)"
  using assms
proof (induction xs arbitrary: s)
  case (Cons x xs)
  have "ensures I (f x s)" by (rule Cons.prems(2)) (simp_all add: Cons.prems(1))
  then have "I t" if "f x s = Some t" for t using that by (rule ensuresD)
  then have "ensures I (foreach f xs t)" if "f x s = Some t" for t
    using that by (intro Cons.IH) (simp_all add: Cons.prems(2))
  then show ?case by (simp add: ensures_read)
qed (simp add: ensures_def)

text \<open>Lookups and accesses in a system whose pointers are valid.\<close>

lemma returns_live: "live h p \<Longrightarrow> (\<And>x. h p = Some x \<Longrightarrow> returns P (f x)) \<Longrightarrow> returns P (Option.bind (h p) f)"
  by (auto simp: live_def)

lemma returns_find:
  assumes "wf s" "returns P (f None)" "\<And>l. live (lif_heap s) l \<Longrightarrow> returns P (f (Some l))"
  shows "returns P (Option.bind (local_if_find_by_name nm s) f)"
proof -
  obtain r where "local_if_find_by_name nm s = Some r" "\<forall>l. r = Some l \<longrightarrow> live (lif_heap s) l"
    using assms(1) find_obj_wf unfolding local_if_find_by_name_def wf_def by blast
  with assms(2,3) show ?thesis by (cases r) simp_all
qed

end
