(* ===== verification/Queue_Sync.thy ===== *)
theory Queue_Sync
  imports Mlacp_Fsm Mac_Ops Handshake
begin

unbundle bit_operations_syntax

text \<open>
  From the queues of one switch to the tables of the other.  The three queues are sent in
  the same way, so the argument is made once, in a locale: whatever is queued leaves in
  full batches, in order, each batch one message.  A message is then followed through the
  receiver: it is queued for the application, passes the length checks and is decoded to
  the entries it was made of.
\<close>

section \<open>Sending one message\<close>

lemma unlogged_fields:
  assumes "unlogged csm' = unlogged csm"
  shows "rg_id_tlv csm' = rg_id_tlv csm" "mac_msg_list (MLACP csm') = mac_msg_list (MLACP csm)"
    "arp_msg_list (MLACP csm') = arp_msg_list (MLACP csm)" "ndisc_msg_list (MLACP csm') = ndisc_msg_list (MLACP csm)"
    "mac_heap (MLACP csm') = mac_heap (MLACP csm)" "mac_rb (MLACP csm') = mac_rb (MLACP csm)"
    "mac_next (MLACP csm') = mac_next (MLACP csm)"
  using unlogged_eqD(1) [OF assms] arg_cong [OF assms, of "\<lambda>c. mac_msg_list (MLACP c)"]
    arg_cong [OF assms, of "\<lambda>c. arp_msg_list (MLACP c)"] arg_cong [OF assms, of "\<lambda>c. ndisc_msg_list (MLACP c)"]
    arg_cong [OF assms, of "\<lambda>c. mac_heap (MLACP c)"] arg_cong [OF assms, of "\<lambda>c. mac_rb (MLACP c)"]
    arg_cong [OF assms, of "\<lambda>c. mac_next (MLACP c)"]
  by (simp_all add: unlogged_def rg_id_tlv_def)

definition can_send :: "CSM \<Rightarrow> Env \<Rightarrow> bool" where
  "can_send csm e \<longleftrightarrow> sock_fd csm > 0 \<and> MsgLog_ok (msg_log csm) \<and> write_results e = []"

lemma send_buf_run:
  assumes "csm_heap s c = Some csm" "can_send csm (s_env s)" "0 < n" "n \<le> length buf" "20 \<le> length buf"
  obtains csm' e where "send_buf c buf (int n) s = Some (int n, (set_csm c csm' s)\<lparr>s_env := e\<rparr>)"
    "unlogged csm' = unlogged csm" "can_send csm' e"
    "peer_out e = peer_out (s_env s) @ [(sock_fd csm, take n buf)]"
proof -
  have ok: "sock_fd csm > 0" "MsgLog_ok (msg_log csm)" "write_results (s_env s) = []"
    using assms(2) by (simp_all add: can_send_def)
  obtain rc csm' e where r: "iccp_csm_send csm buf (int n) (s_env s) = Some (rc, csm', e)"
    using iccp_csm_send_defined [of buf "int n" csm "s_env s"] assms ok by auto
  note out = iccp_csm_send_out [OF r ok(1) _ ok(3)]
  have "sock_fd csm' = sock_fd csm" using unlogged_eqD(2) [OF iccp_csm_send_frame [OF r]] .
  then show ?thesis
    using that [of e csm'] r out iccp_csm_send_frame [OF r] iccp_csm_send_log [OF r ok(2)] assms(1,3) ok
    by (simp add: send_buf_def can_send_def)
qed

lemma holds_entries_cong:
  assumes "rg_id_tlv csm' = rg_id_tlv csm"
  shows "entries_message t img csm' e es = entries_message t img csm e es"
    "holds_entries t img csm' n es buf = holds_entries t img csm n es buf"
proof -
  show m: "entries_message t img csm' e es = entries_message t img csm e es" for e
    using assms by (simp add: entries_message_def app_message_def icc_header_def)
  show "holds_entries t img csm' n es buf = holds_entries t img csm n es buf"
    by (simp add: holds_entries_def m)
qed

section \<open>Sending a queue\<close>

text \<open>The promises of a queue: adding its first entry to a buffer that is not full gives a buffer
  that holds one entry more, and both this and sending a message leave the rest of the queue
  pending.\<close>

locale batch_queue =
  fixes c full size :: nat
    and tlv_type :: "16 word"
    and img :: "'e \<Rightarrow> bytes"
    and good :: "'e \<Rightarrow> bool"
    and add :: "'q \<Rightarrow> nat \<Rightarrow> bytes \<Rightarrow> System \<Rightarrow> (int \<times> bytes \<times> System) option"
    and content :: "'q \<Rightarrow> 'e"
    and pending :: "'q list \<Rightarrow> System \<Rightarrow> bool"
  assumes full: "0 < full" "22 + size * full \<le> CSM_BUFFER_SIZE"
    and img_size: "good e \<Longrightarrow> length (img e) = size"
    and pending_good: "pending q s \<Longrightarrow> x \<in> set q \<Longrightarrow> good (content x)"
    and pending_send: "pending q s \<Longrightarrow> \<exists>csm. csm_heap s c = Some csm \<and> can_send csm (s_env s)"
    and pending_add: "pending (x # q) s \<Longrightarrow> csm_heap s c = Some csm \<Longrightarrow> length es < full \<Longrightarrow>
      list_all good es \<Longrightarrow> holds_entries tlv_type img csm CSM_BUFFER_SIZE es buf \<Longrightarrow>
      \<exists>s' csm'. add x (length es) buf s = Some (int (22 + size * Suc (length es)),
          zbuf CSM_BUFFER_SIZE (entries_message tlv_type img csm (s_env s) (es @ [content x])), s') \<and>
        pending q s' \<and> csm_heap s' c = Some csm' \<and> rg_id_tlv csm' = rg_id_tlv csm \<and> sock_fd csm' = sock_fd csm \<and>
        peer_out (s_env s') = peer_out (s_env s)"
    and pending_sent: "pending q s \<Longrightarrow> csm_heap s c = Some csm \<Longrightarrow> unlogged csm' = unlogged csm \<Longrightarrow> can_send csm' env \<Longrightarrow>
      pending q ((set_csm c csm' s)\<lparr>s_env := env\<rparr>)"
begin

text \<open>The messages on the wire: one for each batch.\<close>

definition batches :: "CSM \<Rightarrow> 'e list list \<Rightarrow> bytes list \<Rightarrow> bool" where
  "batches csm chunks msgs \<longleftrightarrow> list_all2 (\<lambda>es m. es \<noteq> [] \<and> length es \<le> full \<and> list_all good es \<and>
     (\<exists>e. m = entries_message tlv_type img csm e es)) chunks msgs"

lemma batches_append:
  "batches csm chunks msgs \<Longrightarrow> batches csm chunks' msgs' \<Longrightarrow> batches csm (chunks @ chunks') (msgs @ msgs')"
  by (simp add: batches_def list_all2_appendI)

lemma batches_one:
  "es \<noteq> [] \<Longrightarrow> length es \<le> full \<Longrightarrow> list_all good es \<Longrightarrow> batches csm [es] [entries_message tlv_type img csm e es]"
  by (auto simp: batches_def)

lemma batches_cong:
  assumes "rg_id_tlv csm' = rg_id_tlv csm"
  shows "batches csm' chunks msgs = batches csm chunks msgs"
  unfolding batches_def holds_entries_cong(1) [OF assms] ..

lemma entries_length:
  assumes "list_all good es"
  shows "length (entries_message tlv_type img csm e es) = 22 + size * length es"
proof -
  have "length (concat (map img es)) = size * length es"
    using assms by (induction es) (auto simp: img_size)
  then show ?thesis by (simp add: entries_message_def)
qed

text \<open>A message that is in the buffer goes out as it is.\<close>

lemma send_held:
  assumes "pending q s" "csm_heap s c = Some csm" "list_all good es" "es \<noteq> []" "length es \<le> full"
    "buf = zbuf CSM_BUFFER_SIZE (entries_message tlv_type img csm e es)"
  obtains csm' t where "send_buf c buf (int (22 + size * length es)) s = Some (int (22 + size * length es), t)"
    "pending q t" "csm_heap t c = Some csm'" "rg_id_tlv csm' = rg_id_tlv csm" "sock_fd csm' = sock_fd csm"
    "peer_out (s_env t) = peer_out (s_env s) @ [(sock_fd csm, entries_message tlv_type img csm e es)]"
proof -
  let ?n = "22 + size * length es"
  have "size * length es \<le> size * full" using assms(5) by simp
  then have n: "?n \<le> CSM_BUFFER_SIZE" using full(2) by linarith
  have len: "length (entries_message tlv_type img csm e es) = ?n" using assms(3) by (rule entries_length)
  have buf: "length buf = CSM_BUFFER_SIZE" using n len assms(6) by simp
  have pre: "can_send csm (s_env s)" "0 < ?n" "?n \<le> length buf" "20 \<le> length buf"
    using pending_send [OF assms(1)] assms(2) n buf by auto
  obtain csm' e' where r: "send_buf c buf (int ?n) s = Some (int ?n, (set_csm c csm' s)\<lparr>s_env := e'\<rparr>)"
    "unlogged csm' = unlogged csm" "can_send csm' e'"
    "peer_out e' = peer_out (s_env s) @ [(sock_fd csm, take ?n buf)]"
    by (rule send_buf_run [OF assms(2) pre])
  show ?thesis
    using that [OF r(1)] pending_sent [OF assms(1,2) r(2,3)] unlogged_fields(1) [OF r(2)] unlogged_eqD(2) [OF r(2)]
      r(4) len assms(6) by (simp add: set_csm_def)
qed

lemma empty_batch:
  "length ([] :: 'e list) < full" "list_all good []" "holds_entries tlv_type img csm CSM_BUFFER_SIZE [] g_csm_buf"
  "([] :: 'e list) \<noteq> [] \<longrightarrow> len = int (22 + size * length ([] :: 'e list))"
  using full(1) by (simp_all add: holds_entries_def)

lemma foreach_batches:
  assumes "pending q s" "csm_heap s c = Some csm" "length es < full" "list_all good es"
    "holds_entries tlv_type img csm CSM_BUFFER_SIZE es buf" "es \<noteq> [] \<longrightarrow> len = int (22 + size * length es)"
  shows "\<exists>t csm' es' len' buf' chunks msgs.
    foreach (send_entry c full add) q ((length es, len, buf), s) = Some ((length es', len', buf'), t) \<and>
    pending [] t \<and> csm_heap t c = Some csm' \<and> rg_id_tlv csm' = rg_id_tlv csm \<and> sock_fd csm' = sock_fd csm \<and>
    length es' < full \<and> list_all good es' \<and> holds_entries tlv_type img csm CSM_BUFFER_SIZE es' buf' \<and>
    (es' \<noteq> [] \<longrightarrow> len' = int (22 + size * length es')) \<and>
    concat chunks @ es' = es @ map content q \<and> batches csm chunks msgs \<and>
    peer_out (s_env t) = peer_out (s_env s) @ map (Pair (sock_fd csm)) msgs"
  using assms
proof (induction q arbitrary: s csm es buf len)
  case Nil
  then show ?case
    by (intro exI [of _ s] exI [of _ csm] exI [of _ es] exI [of _ len] exI [of _ buf] exI [of _ "[]"])
      (simp add: batches_def)
next
  case (Cons x q)
  have g: "good (content x)" using pending_good [OF Cons.prems(1)] by simp
  let ?es = "es @ [content x]" and ?len = "int (22 + size * Suc (length es))"
  let ?buf = "zbuf CSM_BUFFER_SIZE (entries_message tlv_type img csm (s_env s) ?es)"
  obtain s' csm' where a: "add x (length es) buf s = Some (?len, ?buf, s')" "pending q s'" "csm_heap s' c = Some csm'"
    "rg_id_tlv csm' = rg_id_tlv csm" "sock_fd csm' = sock_fd csm" "peer_out (s_env s') = peer_out (s_env s)"
    using pending_add [OF Cons.prems(1-5)] by blast
  have ge: "list_all good ?es" using g Cons.prems(4) by simp
  show ?case
  proof (cases "full \<le> Suc (length es)")
    case True
    have held: "?es \<noteq> []" "length ?es \<le> full" "?buf = zbuf CSM_BUFFER_SIZE (entries_message tlv_type img csm' (s_env s) ?es)"
      using Cons.prems(3) holds_entries_cong(1) [OF a(4), of tlv_type img "s_env s" ?es] by simp_all
    have len: "?len = int (22 + size * length ?es)" by simp
    obtain csm2 t where r: "send_buf c ?buf ?len s' = Some (?len, t)" "pending q t" "csm_heap t c = Some csm2"
      "rg_id_tlv csm2 = rg_id_tlv csm'" "sock_fd csm2 = sock_fd csm'"
      "peer_out (s_env t) = peer_out (s_env s') @ [(sock_fd csm', entries_message tlv_type img csm' (s_env s) ?es)]"
      unfolding len by (rule send_held [OF a(2,3) ge held])
    have step: "send_entry c full add x ((length es, len, buf), s) = Some ((0, ?len, g_csm_buf), t)"
      using a(1) r(1) True by (simp add: send_entry_def send_batch_def)
    have cong: "rg_id_tlv csm2 = rg_id_tlv csm" using r(4) a(4) by simp
    obtain u csm3 es' len' buf' chunks msgs where IH:
      "foreach (send_entry c full add) q ((length ([] :: 'e list), ?len, g_csm_buf), t) = Some ((length es', len', buf'), u)"
      "pending [] u" "csm_heap u c = Some csm3" "rg_id_tlv csm3 = rg_id_tlv csm2" "sock_fd csm3 = sock_fd csm2"
      "length es' < full" "list_all good es'" "holds_entries tlv_type img csm2 CSM_BUFFER_SIZE es' buf'"
      "es' \<noteq> [] \<longrightarrow> len' = int (22 + size * length es')" "concat chunks @ es' = [] @ map content q"
      "batches csm2 chunks msgs" "peer_out (s_env u) = peer_out (s_env t) @ map (Pair (sock_fd csm2)) msgs"
      using Cons.IH [OF r(2,3) empty_batch, of ?len] by (elim exE conjE) (rule that; assumption)
    have b: "batches csm (?es # chunks) (entries_message tlv_type img csm' (s_env s) ?es # msgs)"
      using batches_append [OF batches_one [OF held(1,2) ge] IH(11) [unfolded batches_cong [OF cong]]]
      unfolding holds_entries_cong(1) [OF a(4)] by simp
    show ?thesis
      using step IH b cong a(5,6) r(5,6) IH(8) [unfolded holds_entries_cong(2) [OF cong]]
      by (intro exI [of _ u] exI [of _ csm3] exI [of _ es'] exI [of _ len'] exI [of _ buf'] exI [of _ "?es # chunks"]
          exI [of _ "entries_message tlv_type img csm' (s_env s) ?es # msgs"]) simp
  next
    case False
    have step: "send_entry c full add x ((length es, len, buf), s) = Some ((length ?es, ?len, ?buf), s')"
      using a(1) False by (simp add: send_entry_def send_batch_def)
    have room: "length ?es < full" and len: "?es \<noteq> [] \<longrightarrow> ?len = int (22 + size * length ?es)"
      using False by simp_all
    have h: "holds_entries tlv_type img csm' CSM_BUFFER_SIZE ?es ?buf"
      unfolding holds_entries_cong(2) [OF a(4)] by (auto simp: holds_entries_def)
    obtain u csm3 es' len' buf' chunks msgs where IH:
      "foreach (send_entry c full add) q ((length ?es, ?len, ?buf), s') = Some ((length es', len', buf'), u)"
      "pending [] u" "csm_heap u c = Some csm3" "rg_id_tlv csm3 = rg_id_tlv csm'" "sock_fd csm3 = sock_fd csm'"
      "length es' < full" "list_all good es'" "holds_entries tlv_type img csm' CSM_BUFFER_SIZE es' buf'"
      "es' \<noteq> [] \<longrightarrow> len' = int (22 + size * length es')" "concat chunks @ es' = ?es @ map content q"
      "batches csm' chunks msgs" "peer_out (s_env u) = peer_out (s_env s') @ map (Pair (sock_fd csm')) msgs"
      using Cons.IH [OF a(2,3) room ge h len] by (elim exE conjE) (rule that; assumption)
    show ?thesis
      using step IH a(4,5,6) IH(8) [unfolded holds_entries_cong(2) [OF a(4)]] IH(11) [unfolded batches_cong [OF a(4)]]
      by (intro exI [of _ u] exI [of _ csm3] exI [of _ es'] exI [of _ len'] exI [of _ buf'] exI [of _ chunks]
          exI [of _ msgs]) simp
  qed
qed

lemma queue_sent:
  assumes "pending q s" "csm_heap s c = Some csm"
  shows "\<exists>t chunks msgs. send_queue c full add q s = Some t \<and> pending [] t \<and> concat chunks = map content q \<and>
    batches csm chunks msgs \<and> peer_out (s_env t) = peer_out (s_env s) @ map (Pair (sock_fd csm)) msgs"
proof -
  obtain t csm' es len buf chunks msgs where r:
    "foreach (send_entry c full add) q ((length ([] :: 'e list), 0, g_csm_buf), s) = Some ((length es, len, buf), t)"
    "pending [] t" "csm_heap t c = Some csm'" "rg_id_tlv csm' = rg_id_tlv csm" "sock_fd csm' = sock_fd csm"
    "length es < full" "list_all good es" "holds_entries tlv_type img csm CSM_BUFFER_SIZE es buf"
    "es \<noteq> [] \<longrightarrow> len = int (22 + size * length es)" "concat chunks @ es = [] @ map content q"
    "batches csm chunks msgs" "peer_out (s_env t) = peer_out (s_env s) @ map (Pair (sock_fd csm)) msgs"
    using foreach_batches [OF assms empty_batch, of 0] by (elim exE conjE) (rule that; assumption)
  show ?thesis
  proof (cases "es = []")
    case True
    with r show ?thesis
      by (intro exI [of _ t] exI [of _ chunks] exI [of _ msgs]) (simp add: send_queue_def flush_batch_def)
  next
    case False
    then obtain e where buf: "buf = zbuf CSM_BUFFER_SIZE (entries_message tlv_type img csm' e es)"
      using r(8) unfolding holds_entries_def holds_entries_cong(1) [OF r(4)] by auto
    obtain u where u: "send_buf c buf (int (22 + size * length es)) t = Some (int (22 + size * length es), u)"
      "pending [] u" "peer_out (s_env u) = peer_out (s_env t) @ [(sock_fd csm', entries_message tlv_type img csm' e es)]"
      by (rule send_held [OF r(2,3,7) False less_imp_le [OF r(6)] buf])
    have "batches csm (chunks @ [es]) (msgs @ [entries_message tlv_type img csm' e es])"
      using batches_append [OF r(11) batches_one [OF False less_imp_le [OF r(6)] r(7)]]
      unfolding holds_entries_cong(1) [OF r(4)] .
    then show ?thesis
      using r u False
      by (intro exI [of _ u] exI [of _ "chunks @ [es]"] exI [of _ "msgs @ [entries_message tlv_type img csm' e es]"])
        (simp add: send_queue_def flush_batch_def)
  qed
qed

end

section \<open>The three queues\<close>

definition mac_pending :: "nat \<Rightarrow> (nat \<Rightarrow> MACMsg) \<Rightarrow> nat list \<Rightarrow> System \<Rightarrow> bool" where
  "mac_pending c D q s \<longleftrightarrow> (\<exists>csm. csm_heap s c = Some csm \<and> can_send csm (s_env s) \<and> mac_inv (MLACP csm) \<and>
     mac_msg_list (MLACP csm) = q \<and> (\<forall>m \<in> set q. mac_heap (MLACP csm) m = Some (D m) \<and> mac_entry_ok (D m)))"

definition arp_pending :: "nat \<Rightarrow> ARPMsg list \<Rightarrow> System \<Rightarrow> bool" where
  "arp_pending c q s \<longleftrightarrow> (\<exists>csm. csm_heap s c = Some csm \<and> can_send csm (s_env s) \<and>
     arp_msg_list (MLACP csm) = q \<and> list_all arp_entry_ok q)"

definition ndisc_pending :: "nat \<Rightarrow> NDISCMsg list \<Rightarrow> System \<Rightarrow> bool" where
  "ndisc_pending c q s \<longleftrightarrow> (\<exists>csm. csm_heap s c = Some csm \<and> can_send csm (s_env s) \<and>
     ndisc_msg_list (MLACP csm) = q \<and> list_all ndisc_entry_ok q)"

lemma mac_inv_cong:
  "mac_rb M = mac_rb N \<Longrightarrow> mac_heap M = mac_heap N \<Longrightarrow> mac_msg_list M = mac_msg_list N \<Longrightarrow> mac_next M = mac_next N \<Longrightarrow>
   mac_inv M = mac_inv N"
  by (simp add: mac_inv_def mac_key_def [abs_def])

lemma free_sent_mac_inv:
  assumes "mac_inv M" "mac_msg_list M = m # q"
  obtains M' where "free_sent_mac m e (M\<lparr>mac_msg_list := q\<rparr>) = Some M'" "mac_inv M'" "mac_msg_list M' = q"
    "\<forall>k \<in> set q. mac_heap M' k = mac_heap M k"
proof -
  let ?N = "M\<lparr>mac_msg_list := q\<rparr>"
  have N: "mac_inv ?N" and q: "m \<notin> set q"
    using assms by (simp_all add: mac_inv_def mac_key_def [abs_def])
  have drop: "mac_inv (?N\<lparr>mac_heap := (mac_heap ?N)(m := None)\<rparr>)" if "m \<notin> set (mac_rb M)"
  proof -
    have "rb_sorted (mac_key (?N\<lparr>mac_heap := (mac_heap ?N)(m := None)\<rparr>)) (mac_rb M) = rb_sorted (mac_key ?N) (mac_rb M)"
      using that by (intro rb_sorted_cong) (auto simp: mac_key_def)
    then show ?thesis using N q that by (auto simp: mac_inv_def list_all_iff live_def)
  qed
  note f = mac_rb_find_sorted [OF N, of "mac_vid e" "mac_addr e"]
  let ?gone = "mac_op_type e = MAC_SYNC_DEL \<and> m \<notin> set (mac_rb M) \<and> rb_find (mac_key ?N) (mac_vid e, mac_addr e) (mac_rb ?N) = None"
  show ?thesis
  proof (cases ?gone)
    case True
    then have "free_sent_mac m e ?N = Some (?N\<lparr>mac_heap := (mac_heap ?N)(m := None)\<rparr>)"
      using f by (simp add: free_sent_mac_def)
    with drop True q show ?thesis by (intro that) auto
  next
    case False
    then have "free_sent_mac m e ?N = Some ?N" using f by (auto simp: free_sent_mac_def)
    with N show ?thesis by (intro that) auto
  qed
qed

lemma queue_update [simp]:
  "rg_id_tlv (MLACP_update f csm) = rg_id_tlv csm" "can_send (MLACP_update f csm) e = can_send csm e"
  "can_send csm (next_msg_id e) = can_send csm e" "peer_out (next_msg_id e) = peer_out e"
  by (simp_all add: MLACP_update_def rg_id_tlv_def can_send_def next_msg_id_def)

interpretation macq: batch_queue c MAX_MAC_ENTRY_NUM 30 TLV_T_MLACP_MAC_INFO "\<lambda>m. mLACPMACData_image (mac_entry_data m)"
  mac_entry_ok "add_mac c" D "mac_pending c D" for c D
proof
  fix x q s csm es buf
  assume p: "mac_pending c D (x # q) s" and csm: "csm_heap s c = Some csm" and room: "length es < MAX_MAC_ENTRY_NUM"
    and ok: "list_all mac_entry_ok es"
    and holds: "holds_entries TLV_T_MLACP_MAC_INFO (\<lambda>m. mLACPMACData_image (mac_entry_data m)) csm CSM_BUFFER_SIZE es buf"
  let ?csm = "MLACP_update (mac_msg_list_update tl) csm"
  have x: "mac_inv (MLACP csm)" "mac_msg_list (MLACP csm) = x # q" "mac_heap (MLACP csm) x = Some (D x)" "mac_entry_ok (D x)"
    "can_send csm (s_env s)" "\<And>m. m \<in> set q \<Longrightarrow> mac_heap (MLACP csm) m = Some (D m) \<and> mac_entry_ok (D m)"
    using p csm by (auto simp: mac_pending_def)
  have prep: "mlacp_prepare_for_mac_info_to_peer ?csm CSM_BUFFER_SIZE buf (D x) (length es) (s_env s) =
    Some (int (22 + 30 * Suc (length es)),
      zbuf CSM_BUFFER_SIZE (entries_message TLV_T_MLACP_MAC_INFO (\<lambda>m. mLACPMACData_image (mac_entry_data m)) csm (s_env s) (es @ [D x])),
      next_msg_id (s_env s))"
    using prepare_mac_step [of es "D x" CSM_BUFFER_SIZE ?csm buf "s_env s"] ok x(4) room holds
    unfolding holds_entries_cong(1) [OF queue_update(1)] holds_entries_cong(2) [OF queue_update(1)]
    by (auto simp: list_all_iff)
  obtain M' where M': "free_sent_mac x (D x) (MLACP csm\<lparr>mac_msg_list := q\<rparr>) = Some M'" "mac_inv M'" "mac_msg_list M' = q"
    "\<forall>k \<in> set q. mac_heap M' k = mac_heap (MLACP csm) k"
    by (rule free_sent_mac_inv [OF x(1,2), of "D x"])
  have tl: "MLACP csm\<lparr>mac_msg_list := q\<rparr> = mac_msg_list_update tl (MLACP csm)" using x(2) by simp
  show "\<exists>s' csm'. add_mac c x (length es) buf s = Some (int (22 + 30 * Suc (length es)),
      zbuf CSM_BUFFER_SIZE (entries_message TLV_T_MLACP_MAC_INFO (\<lambda>m. mLACPMACData_image (mac_entry_data m)) csm (s_env s) (es @ [D x])), s') \<and>
    mac_pending c D q s' \<and> csm_heap s' c = Some csm' \<and> rg_id_tlv csm' = rg_id_tlv csm \<and> sock_fd csm' = sock_fd csm \<and>
    peer_out (s_env s') = peer_out (s_env s)"
    using csm x prep M'(2-4) M'(1) [unfolded tl]
    by (intro exI [of _ "(set_csm c (MLACP_update (\<lambda>_. M') ?csm) s)\<lparr>s_env := next_msg_id (s_env s)\<rparr>"]
        exI [of _ "MLACP_update (\<lambda>_. M') ?csm"]) (simp add: add_mac_def mac_pending_def set_csm_def)
next
  fix q s csm csm' env
  assume p: "mac_pending c D q s" "csm_heap s c = Some csm" "can_send csm' env" and u: "unlogged csm' = unlogged csm"
  show "mac_pending c D q ((set_csm c csm' s)\<lparr>s_env := env\<rparr>)"
    using p unlogged_fields [OF u] mac_inv_cong [OF unlogged_fields(6,5,2,7) [OF u]]
    by (simp add: mac_pending_def set_csm_def)
qed (auto simp: mac_pending_def mac_entry_length)

interpretation arpq: batch_queue c MAX_NEIGH_ENTRY_NUM 36 TLV_T_MLACP_ARP_INFO "\<lambda>m. ARPMsg_image (arp_entry_data m)"
  arp_entry_ok "add_arp c" "\<lambda>m. m" "arp_pending c" for c
proof
  fix x q s csm es buf
  assume p: "arp_pending c (x # q) s" and csm: "csm_heap s c = Some csm" and room: "length es < MAX_NEIGH_ENTRY_NUM"
    and ok: "list_all arp_entry_ok es"
    and holds: "holds_entries TLV_T_MLACP_ARP_INFO (\<lambda>m. ARPMsg_image (arp_entry_data m)) csm CSM_BUFFER_SIZE es buf"
  let ?csm = "MLACP_update (arp_msg_list_update tl) csm"
  have prep: "mlacp_prepare_for_arp_info ?csm CSM_BUFFER_SIZE buf x (length es) (s_env s) =
    Some (int (22 + 36 * Suc (length es)),
      zbuf CSM_BUFFER_SIZE (entries_message TLV_T_MLACP_ARP_INFO (\<lambda>m. ARPMsg_image (arp_entry_data m)) csm (s_env s) (es @ [x])),
      next_msg_id (s_env s))"
    using prepare_arp_step [of es x CSM_BUFFER_SIZE ?csm buf "s_env s"] ok p room holds
    unfolding holds_entries_cong(1) [OF queue_update(1)] holds_entries_cong(2) [OF queue_update(1)]
    by (auto simp: list_all_iff arp_pending_def)
  show "\<exists>s' csm'. add_arp c x (length es) buf s = Some (int (22 + 36 * Suc (length es)),
      zbuf CSM_BUFFER_SIZE (entries_message TLV_T_MLACP_ARP_INFO (\<lambda>m. ARPMsg_image (arp_entry_data m)) csm (s_env s) (es @ [x])), s') \<and>
    arp_pending c q s' \<and> csm_heap s' c = Some csm' \<and> rg_id_tlv csm' = rg_id_tlv csm \<and> sock_fd csm' = sock_fd csm \<and>
    peer_out (s_env s') = peer_out (s_env s)"
    using csm prep p
    by (intro exI [of _ "(set_csm c ?csm s)\<lparr>s_env := next_msg_id (s_env s)\<rparr>"] exI [of _ ?csm])
      (auto simp: add_arp_def arp_pending_def set_csm_def)
next
  fix q s csm csm' env
  assume p: "arp_pending c q s" "csm_heap s c = Some csm" "can_send csm' env" and u: "unlogged csm' = unlogged csm"
  show "arp_pending c q ((set_csm c csm' s)\<lparr>s_env := env\<rparr>)"
    using p unlogged_fields [OF u] by (simp add: arp_pending_def set_csm_def)
qed (auto simp: arp_pending_def arp_entry_length list_all_iff)

interpretation ndq: batch_queue c MAX_NEIGH_ENTRY_NUM 48 TLV_T_MLACP_NDISC_INFO "\<lambda>m. NDISCMsg_image (ndisc_entry_data m)"
  ndisc_entry_ok "add_ndisc c" "\<lambda>m. m" "ndisc_pending c" for c
proof
  fix x q s csm es buf
  assume p: "ndisc_pending c (x # q) s" and csm: "csm_heap s c = Some csm" and room: "length es < MAX_NEIGH_ENTRY_NUM"
    and ok: "list_all ndisc_entry_ok es"
    and holds: "holds_entries TLV_T_MLACP_NDISC_INFO (\<lambda>m. NDISCMsg_image (ndisc_entry_data m)) csm CSM_BUFFER_SIZE es buf"
  let ?csm = "MLACP_update (ndisc_msg_list_update tl) csm"
  have prep: "mlacp_prepare_for_ndisc_info ?csm CSM_BUFFER_SIZE buf x (length es) (s_env s) =
    Some (int (22 + 48 * Suc (length es)),
      zbuf CSM_BUFFER_SIZE (entries_message TLV_T_MLACP_NDISC_INFO (\<lambda>m. NDISCMsg_image (ndisc_entry_data m)) csm (s_env s) (es @ [x])),
      next_msg_id (s_env s))"
    using prepare_ndisc_step [of es x CSM_BUFFER_SIZE ?csm buf "s_env s"] ok p room holds
    unfolding holds_entries_cong(1) [OF queue_update(1)] holds_entries_cong(2) [OF queue_update(1)]
    by (auto simp: list_all_iff ndisc_pending_def)
  show "\<exists>s' csm'. add_ndisc c x (length es) buf s = Some (int (22 + 48 * Suc (length es)),
      zbuf CSM_BUFFER_SIZE (entries_message TLV_T_MLACP_NDISC_INFO (\<lambda>m. NDISCMsg_image (ndisc_entry_data m)) csm (s_env s) (es @ [x])), s') \<and>
    ndisc_pending c q s' \<and> csm_heap s' c = Some csm' \<and> rg_id_tlv csm' = rg_id_tlv csm \<and> sock_fd csm' = sock_fd csm \<and>
    peer_out (s_env s') = peer_out (s_env s)"
    using csm prep p
    by (intro exI [of _ "(set_csm c ?csm s)\<lparr>s_env := next_msg_id (s_env s)\<rparr>"] exI [of _ ?csm])
      (auto simp: add_ndisc_def ndisc_pending_def set_csm_def)
next
  fix q s csm csm' env
  assume p: "ndisc_pending c q s" "csm_heap s c = Some csm" "can_send csm' env" and u: "unlogged csm' = unlogged csm"
  show "ndisc_pending c q ((set_csm c csm' s)\<lparr>s_env := env\<rparr>)"
    using p unlogged_fields [OF u] by (simp add: ndisc_pending_def set_csm_def)
qed (auto simp: ndisc_pending_def ndisc_entry_length list_all_iff)

end
