(* ===== verification/Delivery.thy ===== *)
theory Delivery
  imports Queue_Sync
begin

unbundle bit_operations_syntax

text \<open>
  The way of a message from the buffer it was prepared in to the handler of its type on
  the other switch: its form in the application's queue, the checks of the receivers and
  the entries they read.
\<close>

section \<open>Messages of the application\<close>

text \<open>The parameter types that reach the application: the type survives the bit fields of the
  parameter header, and lies between the constants the demultiplexer compares with.\<close>

definition mlacp_tlv :: "16 word \<Rightarrow> bool" where
  "mlacp_tlv t \<longleftrightarrow> unit14 (ucast (htons t)) 0 0 = htons t \<and> par_type t = t \<and>
     TLV_T_MLACP_CONNECT < t \<and> t < TLV_T_MLACP_LIST_END"

lemma mlacp_tlvs [simp]:
  "mlacp_tlv TLV_T_MLACP_SYSTEM_CONFIG" "mlacp_tlv TLV_T_MLACP_AGGREGATOR_CONFIG" "mlacp_tlv TLV_T_MLACP_AGGREGATOR_STATE"
  "mlacp_tlv TLV_T_MLACP_SYNC_DATA" "mlacp_tlv TLV_T_MLACP_SYNC_REQUEST" "mlacp_tlv TLV_T_MLACP_PORT_CHANNEL_INFO"
  "mlacp_tlv TLV_T_MLACP_PEERLINK_INFO" "mlacp_tlv TLV_T_MLACP_MAC_INFO" "mlacp_tlv TLV_T_MLACP_ARP_INFO"
  "mlacp_tlv TLV_T_MLACP_NDISC_INFO" "mlacp_tlv TLV_T_MLACP_HEARTBEAT"
  by (code_simp)+

definition app_head :: "CSM \<Rightarrow> Env \<Rightarrow> nat \<Rightarrow> bytes" where
  "app_head csm env n = le16 MSG_T_RG_APP_DATA @ le16 (htons (word_of_nat (n - 4))) @
     le32 (htonl (ICCP_MSG_ID env)) @ ICCRGIDTLV_image (rg_id_tlv csm)"

lemma app_head_length [simp]: "length (app_head csm env n) = 16"
  by (simp add: app_head_def sizeof_defs)

text \<open>The message in the queue: both type fields are in host order.\<close>

definition app_queued :: "CSM \<Rightarrow> Env \<Rightarrow> 16 word \<Rightarrow> nat \<Rightarrow> bytes \<Rightarrow> bytes" where
  "app_queued csm env t k rest =
     app_head csm env (20 + length rest) @ le16 t @ le16 (htons (word_of_nat k)) @ rest"

lemma app_enqueued:
  assumes "mlacp_tlv t"
  shows "iccp_csm_enqueue_msg r (app_message csm env (ICCParameter_image (icc_param t k) @ rest)) =
    Some (mlacp_enqueue_msg r (app_queued csm env t k rest))"
proof -
  let ?h = "le16 (htons (word_of_nat (16 + length rest))) @ le32 (htonl (ICCP_MSG_ID env)) @ ICCRGIDTLV_image (rg_id_tlv csm)"
  have "app_message csm env (ICCParameter_image (icc_param t k) @ rest) =
      le16 (htons MSG_T_RG_APP_DATA) @ ?h @ le16 (htons t) @ le16 (htons (word_of_nat k)) @ rest"
    using assms by (simp add: app_message_def message_parts mlacp_tlv_def sizeof_defs)
  then show ?thesis
    using assms by (simp add: iccp_csm_enqueue_msg_def app_csm_enqueue_msg_def access msg_type_at_def mlacp_tlv_def
        app_queued_def app_head_def sizeof_defs)
qed

lemma app_queued_fields:
  "peek get_u16 sizeof_ICCHdr (app_queued csm env t k rest) = Some t"
  "msg_type_at (app_queued csm env t k rest) = Some MSG_T_RG_APP_DATA"
  "drop sizeof_ICCHdr (app_queued csm env t k rest) = le16 t @ le16 (htons (word_of_nat k)) @ rest"
  "length (app_queued csm env t k rest) = 20 + length rest"
  "4 \<le> off \<Longrightarrow> peek get_u16 (sizeof_ICCHdr + off) (app_queued csm env t k rest) = peek get_u16 (off - 4) rest"
  by (simp_all add: app_queued_def access sizeof_defs msg_type_at_def app_head_def)

section \<open>Reading the entries\<close>

lemma foreach_map: "foreach f (map g xs) s = foreach (\<lambda>x. f (g x)) xs s"
  by (induction xs arbitrary: s) (simp_all cong: Option.bind_cong)

lemma foreach_cong: "(\<And>x t. x \<in> set xs \<Longrightarrow> f x t = g x t) \<Longrightarrow> foreach f xs s = foreach g xs s"
  by (induction xs arbitrary: s) (simp_all cong: Option.bind_cong)

context packed_layout
begin

lemma concat_images_length: "list_all fits xs \<Longrightarrow> length (concat (map image_of xs)) = size_of * length xs"
  by (induction xs) (simp_all add: image_length)

lemma peek_entry:
  assumes "list_all fits xs" "i < length xs" "length pre = off"
  shows "peek overlay (off + size_of * i) (pre @ concat (map image_of xs)) = Some (xs ! i)"
proof -
  let ?front = "take i xs"
  have xs: "xs = ?front @ xs ! i # drop (Suc i) xs" using assms(2) by (simp add: id_take_nth_drop)
  have "list_all fits ?front" "fits (xs ! i)"
    using assms by (auto simp: list_all_iff dest: in_set_takeD)
  then have "length (pre @ concat (map image_of ?front)) = off + size_of * i"
    using concat_images_length [of ?front] assms(2,3) by simp
  from peek_image [OF \<open>fits (xs ! i)\<close> this, of "concat (map image_of (drop (Suc i) xs))"]
  show ?thesis by (subst xs) simp
qed

text \<open>A loop over the entries of a message is a loop over the entries it was made of.\<close>

lemma foreach_entries:
  assumes "list_all fits xs" "length pre = off"
  shows "foreach (\<lambda>i s. do { d \<leftarrow> peek overlay (off + size_of * i) (pre @ concat (map image_of xs)); f d s })
    [0..<length xs] s = foreach f xs s"
proof -
  have "foreach (\<lambda>i s. do { d \<leftarrow> peek overlay (off + size_of * i) (pre @ concat (map image_of xs)); f d s })
      [0..<length xs] s = foreach (\<lambda>i. f (xs ! i)) [0..<length xs] s"
    by (intro foreach_cong) (simp add: peek_entry [OF assms(1) _ assms(2)])
  also have "\<dots> = foreach f (map ((!) xs) [0..<length xs]) s" by (simp add: foreach_map)
  finally show ?thesis by (simp add: map_nth)
qed

end

text \<open>The message of a batch in the queue.\<close>

definition entries_queued :: "16 word \<Rightarrow> ('e \<Rightarrow> bytes) \<Rightarrow> CSM \<Rightarrow> Env \<Rightarrow> 'e list \<Rightarrow> bytes" where
  "entries_queued t img csm env es = app_queued csm env t (2 + length (concat (map img es)))
     (le16 (htons (word_of_nat (length es))) @ concat (map img es))"

lemma entries_enqueued:
  "mlacp_tlv t \<Longrightarrow> iccp_csm_enqueue_msg r (entries_message t img csm env es) =
     Some (mlacp_enqueue_msg r (entries_queued t img csm env es))"
  using app_enqueued [of t r csm env "2 + length (concat (map img es))"]
  by (simp add: entries_message_def entries_head_def entries_queued_def)

lemma entries_queued_type: "peek get_u16 sizeof_ICCHdr (entries_queued t img csm env es) = Some t"
  by (simp add: entries_queued_def app_queued_fields)

lemma count_rx_queued:
  "mlacp_tlv t \<Longrightarrow> count_rx c (entries_queued t img csm env es) st = on_csm c (MLACP_SET_ICCP_RX_DBG_COUNTER t st)"
  by (rule ext) (simp add: count_rx_def entries_queued_type mlacp_tlv_def)

lemma small_word: "k < 65536 \<Longrightarrow> unat (word_of_nat k :: 16 word) = k"
  by (simp add: unat_of_nat take_bit_nat_eq_self)

lemma entries_count: "length es \<le> 40 \<Longrightarrow> unat (word_of_nat (length es) :: 16 word) = length es"
  by (simp add: small_word)

lemma paired: "map_option (Pair a) x \<bind> (\<lambda>(rc, y). f y) = x \<bind> f" "map_option snd (map_option (Pair a) x) = x"
  by (cases x; simp)+

lemma entries_length_word:
  assumes "length es \<le> 40" "sz \<le> 1000"
  shows "unat (word_of_nat (2 + sz * length es) :: 16 word) = 2 + sz * length es"
proof -
  have "sz * length es \<le> 1000 * 40" using assms by (intro mult_le_mono)
  then show ?thesis by (intro small_word) simp
qed

lemma neigh_head_read:
  "\<exists>h. peek mLACPARPInfoTLV_overlay 0 (le16 t @ le16 l @ le16 k @ r) = Some h \<and> ip_len (ai_icc_parameter h) = l \<and> ai_num_of_entry h = k"
  "\<exists>h. peek mLACPNDISCInfoTLV_overlay 0 (le16 t @ le16 l @ le16 k @ r) = Some h \<and> ip_len (ni_icc_parameter h) = l \<and> ni_num_of_entry h = k"
  by (simp_all add: peek_def mLACPARPInfoTLV_overlay_def mLACPNDISCInfoTLV_overlay_def ICCParameter_overlay_def)

lemma entries_fit_queued:
  assumes "length es \<le> 40" "length (concat (map img es)) = sz * length es"
  shows "entries_fit 4 6 sz (entries_queued t img csm env es) = Some True"
  using assms entries_count [OF assms(1)]
  by (simp add: entries_fit_def entries_queued_def app_queued_fields access) (simp add: sizeof_defs)

lemma data_fits:
  "mac_entry_ok m \<Longrightarrow> mLACPMACData_fits (mac_entry_data m)" "arp_entry_ok a \<Longrightarrow> ARPMsg_fits (arp_entry_data a)"
  "ndisc_entry_ok n \<Longrightarrow> NDISCMsg_fits (ndisc_entry_data n)"
  by (auto simp: mac_entry_ok_def mac_entry_data_def mLACPMACData_layout arp_entry_ok_def arp_entry_data_def ARPMsg_layout
      ndisc_entry_ok_def ndisc_entry_data_def NDISCMsg_layout neigh_name_ok_def)

lemma mac_message_read:
  assumes "length es \<le> MAX_MAC_ENTRY_NUM" "list_all mac_entry_ok es"
  shows "mlacp_sync_receiver_handler c (Some (entries_queued TLV_T_MLACP_MAC_INFO (\<lambda>m. mLACPMACData_image (mac_entry_data m)) csm env es)) s =
    do { s \<leftarrow> foreach (mlacp_fsm_update_mac_entry_from_peer c) (map mac_entry_data es) s;
         on_csm c (MLACP_SET_ICCP_RX_DBG_COUNTER TLV_T_MLACP_MAC_INFO ICCP_DBG_CNTR_STS_OK) s }"
proof -
  let ?ds = "map mac_entry_data es" and ?q = "entries_queued TLV_T_MLACP_MAC_INFO (\<lambda>m. mLACPMACData_image (mac_entry_data m)) csm env es"
  have fits: "list_all mLACPMACData_fits ?ds" using assms(2) by (simp add: list_all_iff data_fits)
  have len: "length (concat (map (\<lambda>m. mLACPMACData_image (mac_entry_data m)) es)) = 30 * length es"
    using macdata.concat_images_length [OF fits] by (simp add: comp_def tlv_sizes)
  have n: "length es \<le> 40" using assms(1) by simp
  let ?pre = "le16 TLV_T_MLACP_MAC_INFO @ le16 (htons (word_of_nat (2 + 30 * length es))) @ le16 (htons (word_of_nat (length es)))"
  have "mlacp_fsm_update_mac_info_from_peer c (drop sizeof_ICCHdr ?q) s = foreach (mlacp_fsm_update_mac_entry_from_peer c) ?ds s" for s
    using macdata.foreach_entries [OF fits, of ?pre 6 "mlacp_fsm_update_mac_entry_from_peer c" s] len entries_count [OF n]
    by (simp add: mlacp_fsm_update_mac_info_from_peer_def entries_queued_def app_queued_fields access comp_def
        sizeof_mLACPMACInfoTLV_def)
  then show ?thesis
    using entries_fit_queued [OF n len, of TLV_T_MLACP_MAC_INFO csm env]
    by (simp add: mlacp_sync_receiver_handler_def mlacp_sync_recv_macInfo_def entries_queued_type count_rx_queued par_type_def
        sizeof_mLACPMACInfoTLV_def sizeof_mLACPMACData_def)
qed

lemma arp_message_read:
  assumes "length es \<le> MAX_NEIGH_ENTRY_NUM" "list_all arp_entry_ok es"
  shows "mlacp_sync_receiver_handler c (Some (entries_queued TLV_T_MLACP_ARP_INFO (\<lambda>m. ARPMsg_image (arp_entry_data m)) csm env es)) s =
    do { s \<leftarrow> foreach (\<lambda>d s. map_option snd (mlacp_fsm_update_arp_entry c d s)) (map arp_entry_data es) s;
         on_csm c (MLACP_SET_ICCP_RX_DBG_COUNTER TLV_T_MLACP_ARP_INFO ICCP_DBG_CNTR_STS_OK) s }"
proof -
  let ?ds = "map arp_entry_data es" and ?q = "entries_queued TLV_T_MLACP_ARP_INFO (\<lambda>m. ARPMsg_image (arp_entry_data m)) csm env es"
  have fits: "list_all ARPMsg_fits ?ds" using assms(2) by (simp add: list_all_iff data_fits)
  have len: "length (concat (map (\<lambda>m. ARPMsg_image (arp_entry_data m)) es)) = 36 * length es"
    using arpmsg.concat_images_length [OF fits] by (simp add: comp_def tlv_sizes)
  have n: "length es \<le> 40" using assms(1) by simp
  let ?pre = "le16 TLV_T_MLACP_ARP_INFO @ le16 (htons (word_of_nat (2 + 36 * length es))) @ le16 (htons (word_of_nat (length es)))"
  obtain t where t: "peek mLACPARPInfoTLV_overlay 0 (drop sizeof_ICCHdr ?q) = Some t" "ai_num_of_entry t = htons (word_of_nat (length es))"
    "ip_len (ai_icc_parameter t) = htons (word_of_nat (2 + 36 * length es))"
    using neigh_head_read(1) [of TLV_T_MLACP_ARP_INFO "htons (word_of_nat (2 + 36 * length es))" "htons (word_of_nat (length es))"
      "concat (map (\<lambda>m. ARPMsg_image (arp_entry_data m)) es)"] len
    unfolding entries_queued_def app_queued_fields by auto
  have "mlacp_fsm_update_arp_info c (drop sizeof_ICCHdr ?q) s =
      map_option (Pair 0) (foreach (\<lambda>d s. map_option snd (mlacp_fsm_update_arp_entry c d s)) ?ds s)" for s
    using arpmsg.foreach_entries [OF fits, of ?pre 6 "\<lambda>d s. map_option snd (mlacp_fsm_update_arp_entry c d s)" s] len t
      entries_count [OF n] entries_length_word [OF n, of 36]
    by (simp add: mlacp_fsm_update_arp_info_def entries_queued_def app_queued_fields access comp_def
        sizeof_mLACPARPInfoTLV_def sizeof_ARPMsg_def)
  then show ?thesis
    using entries_fit_queued [OF n len, of TLV_T_MLACP_ARP_INFO csm env]
    by (simp add: mlacp_sync_receiver_handler_def mlacp_sync_recv_arpInfo_def entries_queued_type count_rx_queued par_type_def
        paired sizeof_mLACPARPInfoTLV_def sizeof_ARPMsg_def)
qed

lemma ndisc_message_read:
  assumes "length es \<le> MAX_NEIGH_ENTRY_NUM" "list_all ndisc_entry_ok es"
  shows "mlacp_sync_receiver_handler c (Some (entries_queued TLV_T_MLACP_NDISC_INFO (\<lambda>m. NDISCMsg_image (ndisc_entry_data m)) csm env es)) s =
    foreach (\<lambda>d s. map_option snd (mlacp_fsm_update_ndisc_entry c d s)) (map ndisc_entry_data es) s"
proof -
  let ?ds = "map ndisc_entry_data es" and ?q = "entries_queued TLV_T_MLACP_NDISC_INFO (\<lambda>m. NDISCMsg_image (ndisc_entry_data m)) csm env es"
  have fits: "list_all NDISCMsg_fits ?ds" using assms(2) by (simp add: list_all_iff data_fits)
  have len: "length (concat (map (\<lambda>m. NDISCMsg_image (ndisc_entry_data m)) es)) = 48 * length es"
    using ndiscmsg.concat_images_length [OF fits] by (simp add: comp_def tlv_sizes)
  have n: "length es \<le> 40" using assms(1) by simp
  let ?pre = "le16 TLV_T_MLACP_NDISC_INFO @ le16 (htons (word_of_nat (2 + 48 * length es))) @ le16 (htons (word_of_nat (length es)))"
  obtain t where t: "peek mLACPNDISCInfoTLV_overlay 0 (drop sizeof_ICCHdr ?q) = Some t" "ni_num_of_entry t = htons (word_of_nat (length es))"
    "ip_len (ni_icc_parameter t) = htons (word_of_nat (2 + 48 * length es))"
    using neigh_head_read(2) [of TLV_T_MLACP_NDISC_INFO "htons (word_of_nat (2 + 48 * length es))" "htons (word_of_nat (length es))"
      "concat (map (\<lambda>m. NDISCMsg_image (ndisc_entry_data m)) es)"] len
    unfolding entries_queued_def app_queued_fields by auto
  have "mlacp_fsm_update_ndisc_info c (drop sizeof_ICCHdr ?q) s =
      map_option (Pair 0) (foreach (\<lambda>d s. map_option snd (mlacp_fsm_update_ndisc_entry c d s)) ?ds s)" for s
    using ndiscmsg.foreach_entries [OF fits, of ?pre 6 "\<lambda>d s. map_option snd (mlacp_fsm_update_ndisc_entry c d s)" s] len t
      entries_count [OF n] entries_length_word [OF n, of 48]
    by (simp add: mlacp_fsm_update_ndisc_info_def entries_queued_def app_queued_fields access comp_def
        sizeof_mLACPNDISCInfoTLV_def sizeof_NDISCMsg_def)
  then show ?thesis
    using entries_fit_queued [OF n len, of TLV_T_MLACP_NDISC_INFO csm env]
    by (simp add: mlacp_sync_receiver_handler_def mlacp_sync_recv_ndiscInfo_def entries_queued_type par_type_def
        paired sizeof_mLACPNDISCInfoTLV_def sizeof_NDISCMsg_def)
qed

section \<open>From queue to table\<close>

text \<open>What a queue is delivered means: the output is a sequence of messages of at most \<open>full\<close> entries.
  Any session that receives such a message queues it for its application, and handling it does what
  \<open>handle\<close> does with the entries of the message.  Together the entries are those of the queue, in order.\<close>

definition delivered ::
  "nat \<Rightarrow> (nat \<Rightarrow> 'e list \<Rightarrow> System \<Rightarrow> System option) \<Rightarrow> 'e list \<Rightarrow> int \<Rightarrow> (int \<times> bytes) list \<Rightarrow> bool" where
  "delivered full handle queue fd out \<longleftrightarrow> (\<exists>sent. out = map (\<lambda>(wire, q, es). (fd, wire)) sent \<and>
     concat (map (\<lambda>(wire, q, es). es) sent) = queue \<and>
     (\<forall>(wire, q, es) \<in> set sent. es \<noteq> [] \<and> length es \<le> full \<and>
       (\<forall>r. iccp_csm_enqueue_msg r wire = Some (mlacp_enqueue_msg r q)) \<and>
       (\<forall>b r. mlacp_sync_receiver_handler b (Some q) r = handle b es r)))"

lemma delivered_Nil: "delivered full handle [] fd []"
  unfolding delivered_def by (intro exI [of _ "[]"]) simp

lemma delivered_Cons:
  assumes "delivered full handle queue fd out" "es \<noteq> []" "length es \<le> full"
    "\<And>r. iccp_csm_enqueue_msg r wire = Some (mlacp_enqueue_msg r q)"
    "\<And>b r. mlacp_sync_receiver_handler b (Some q) r = handle b es r"
  shows "delivered full handle (es @ queue) fd ((fd, wire) # out)"
proof -
  from assms(1) obtain sent where "out = map (\<lambda>(wire, q, es). (fd, wire)) sent"
    "concat (map (\<lambda>(wire, q, es). es) sent) = queue"
    "\<forall>(wire, q, es) \<in> set sent. es \<noteq> [] \<and> length es \<le> full \<and>
       (\<forall>r. iccp_csm_enqueue_msg r wire = Some (mlacp_enqueue_msg r q)) \<and>
       (\<forall>b r. mlacp_sync_receiver_handler b (Some q) r = handle b es r)"
    unfolding delivered_def by blast
  then show ?thesis
    unfolding delivered_def by (intro exI [of _ "(wire, q, es) # sent"]) (simp add: assms(2-5))
qed

lemma delivered_empty_iff: "delivered full handle queue fd out \<Longrightarrow> out = [] \<longleftrightarrow> queue = []"
  unfolding delivered_def by (elim exE conjE, rename_tac sent, case_tac sent) auto

context batch_queue
begin

lemma batches_delivered:
  assumes "mlacp_tlv tlv_type" "batches csm chunks msgs"
    and read: "\<And>es env b r. length es \<le> full \<Longrightarrow> list_all good es \<Longrightarrow>
      mlacp_sync_receiver_handler b (Some (entries_queued tlv_type img csm env es)) r = handle b es r"
  shows "delivered full handle (concat chunks) fd (map (Pair fd) msgs)"
  using assms(2) unfolding batches_def
proof (induction rule: list_all2_induct)
  case (Cons es chunks m msgs)
  from Cons(1) obtain env where es: "es \<noteq> []" "length es \<le> full" "list_all good es" "m = entries_message tlv_type img csm env es"
    by blast
  show ?case
    using delivered_Cons [OF Cons(3) es(1,2) entries_enqueued [OF assms(1)] read [OF es(2,3)]] by (simp add: es(4))
qed (simp add: delivered_Nil)

lemma queue_delivered:
  assumes "mlacp_tlv tlv_type" "pending q s" "csm_heap s c = Some csm"
    and read: "\<And>es env b r. length es \<le> full \<Longrightarrow> list_all good es \<Longrightarrow>
      mlacp_sync_receiver_handler b (Some (entries_queued tlv_type img csm env es)) r = handle b es r"
  shows "\<exists>t out. send_queue c full add q s = Some t \<and> pending [] t \<and> peer_out (s_env t) = peer_out (s_env s) @ out \<and>
    delivered full handle (map content q) (sock_fd csm) out"
proof -
  obtain t chunks msgs where t: "send_queue c full add q s = Some t" "pending [] t" "concat chunks = map content q"
    "batches csm chunks msgs" "peer_out (s_env t) = peer_out (s_env s) @ map (Pair (sock_fd csm)) msgs"
    using queue_sent [OF assms(2,3)] by blast
  with batches_delivered [OF assms(1) t(4) read, of "sock_fd csm"] show ?thesis by auto
qed

end

text \<open>C9: The queue of MAC changes is delivered: sending it returns, leaves the queue empty and the table
  in order, and puts messages of at most thirty entries on the wire.  Any session that receives one
  of them handles it exactly as the announcements of its entries one after the other (and counts it).\<close>

theorem mac_queue_delivered:
  assumes "csm_heap s a = Some csm" "can_send csm (s_env s)" "mac_inv (MLACP csm)"
    "\<forall>m \<in> set (mac_msg_list (MLACP csm)). mac_entry_ok (the (mac_heap (MLACP csm) m))"
  shows "\<exists>t csm' out. mlacp_sync_send_syncMacInfo a s = Some t \<and>
    csm_heap t a = Some csm' \<and> mac_msg_list (MLACP csm') = [] \<and> mac_inv (MLACP csm') \<and>
    peer_out (s_env t) = peer_out (s_env s) @ out \<and>
    delivered MAX_MAC_ENTRY_NUM
      (\<lambda>b es r. do {
         r \<leftarrow> foreach (mlacp_fsm_update_mac_entry_from_peer b) (map mac_entry_data es) r;
         on_csm b (MLACP_SET_ICCP_RX_DBG_COUNTER TLV_T_MLACP_MAC_INFO ICCP_DBG_CNTR_STS_OK) r })
      (map (\<lambda>m. the (mac_heap (MLACP csm) m)) (mac_msg_list (MLACP csm))) (sock_fd csm) out"
proof -
  let ?D = "\<lambda>m. the (mac_heap (MLACP csm) m)" and ?q = "mac_msg_list (MLACP csm)"
  have "mac_pending a ?D ?q s"
    using assms by (auto simp: mac_pending_def mac_inv_def list_all_iff live_def)
  from macq.queue_delivered [OF mlacp_tlvs(8) this assms(1) mac_message_read] show ?thesis
    using assms(1) by (auto simp: mlacp_sync_send_syncMacInfo_def mac_pending_def)
qed

text \<open>C10: The queues of ARP and of neighbour discovery changes are delivered in the same way, in messages
  of at most forty entries: the receiver handles each message as its entries one after the other,
  with the fields that are not part of the announcement cleared.\<close>

theorem neigh_queues_delivered:
  assumes "csm_heap s a = Some csm" "can_send csm (s_env s)"
    "list_all arp_entry_ok (arp_msg_list (MLACP csm))" "list_all ndisc_entry_ok (ndisc_msg_list (MLACP csm))"
  shows "(\<exists>t csm' out. mlacp_sync_send_syncArpInfo a s = Some t \<and> csm_heap t a = Some csm' \<and> arp_msg_list (MLACP csm') = [] \<and>
      peer_out (s_env t) = peer_out (s_env s) @ out \<and>
      delivered MAX_NEIGH_ENTRY_NUM
        (\<lambda>b es r. do {
           r \<leftarrow> foreach (\<lambda>d r. map_option snd (mlacp_fsm_update_arp_entry b d r)) (map arp_entry_data es) r;
           on_csm b (MLACP_SET_ICCP_RX_DBG_COUNTER TLV_T_MLACP_ARP_INFO ICCP_DBG_CNTR_STS_OK) r })
        (arp_msg_list (MLACP csm)) (sock_fd csm) out) \<and>
    (\<exists>t csm' out. mlacp_sync_send_syncNdiscInfo a s = Some t \<and> csm_heap t a = Some csm' \<and> ndisc_msg_list (MLACP csm') = [] \<and>
      peer_out (s_env t) = peer_out (s_env s) @ out \<and>
      delivered MAX_NEIGH_ENTRY_NUM
        (\<lambda>b es. foreach (\<lambda>d r. map_option snd (mlacp_fsm_update_ndisc_entry b d r)) (map ndisc_entry_data es))
        (ndisc_msg_list (MLACP csm)) (sock_fd csm) out)"
proof
  have "arp_pending a (arp_msg_list (MLACP csm)) s" using assms by (simp add: arp_pending_def)
  from arpq.queue_delivered [OF mlacp_tlvs(9) this assms(1) arp_message_read]
  show "\<exists>t csm' out. mlacp_sync_send_syncArpInfo a s = Some t \<and> csm_heap t a = Some csm' \<and> arp_msg_list (MLACP csm') = [] \<and>
      peer_out (s_env t) = peer_out (s_env s) @ out \<and>
      delivered MAX_NEIGH_ENTRY_NUM
        (\<lambda>b es r. do {
           r \<leftarrow> foreach (\<lambda>d r. map_option snd (mlacp_fsm_update_arp_entry b d r)) (map arp_entry_data es) r;
           on_csm b (MLACP_SET_ICCP_RX_DBG_COUNTER TLV_T_MLACP_ARP_INFO ICCP_DBG_CNTR_STS_OK) r })
        (arp_msg_list (MLACP csm)) (sock_fd csm) out"
    using assms(1) by (auto simp: mlacp_sync_send_syncArpInfo_def arp_pending_def)
  have "ndisc_pending a (ndisc_msg_list (MLACP csm)) s" using assms by (simp add: ndisc_pending_def)
  from ndq.queue_delivered [OF mlacp_tlvs(10) this assms(1) ndisc_message_read]
  show "\<exists>t csm' out. mlacp_sync_send_syncNdiscInfo a s = Some t \<and> csm_heap t a = Some csm' \<and> ndisc_msg_list (MLACP csm') = [] \<and>
      peer_out (s_env t) = peer_out (s_env s) @ out \<and>
      delivered MAX_NEIGH_ENTRY_NUM
        (\<lambda>b es. foreach (\<lambda>d r. map_option snd (mlacp_fsm_update_ndisc_entry b d r)) (map ndisc_entry_data es))
        (ndisc_msg_list (MLACP csm)) (sock_fd csm) out"
    using assms(1) by (auto simp: mlacp_sync_send_syncNdiscInfo_def ndisc_pending_def)
qed

end
