(* ===== verification/Neigh_Table.thy ===== *)
theory Neigh_Table
  imports Calculus Delivery
begin

unbundle bit_operations_syntax

text \<open>
  The tables of neighbours.  The list of entries is a map from addresses to interface and
  MAC address; an announcement of the peer updates that map and removes what waits to
  be announced for the same address.
\<close>

section \<open>The list as a map\<close>

definition list_map :: "('m \<Rightarrow> 'k) \<Rightarrow> ('m \<Rightarrow> 'v) \<Rightarrow> 'm list \<Rightarrow> 'k \<rightharpoonup> 'v" where
  "list_map key val ms = map_of (map (\<lambda>m. (key m, val m)) ms)"

text \<open>What an announcement does to the map: \<open>del\<close> removes the address, \<open>add\<close> sets it, anything else
  only updates an address that is known.\<close>

definition map_announce :: "bool \<Rightarrow> bool \<Rightarrow> 'k \<Rightarrow> 'v \<Rightarrow> ('k \<rightharpoonup> 'v) \<Rightarrow> ('k \<rightharpoonup> 'v)" where
  "map_announce del add k v f = (if del then f(k := None) else if add \<or> k \<in> dom f then f(k \<mapsto> v) else f)"

lemma list_map_simps [simp]:
  "list_map key val [] = Map.empty"
  "list_map key val (m # ms) = (list_map key val ms)(key m \<mapsto> val m)"
  "list_map key val (ms @ ns) = list_map key val ns ++ list_map key val ms"
  by (simp_all add: list_map_def)

lemma list_map_dom: "k \<in> dom (list_map key val ms) \<longleftrightarrow> list_ex (\<lambda>m. key m = k) ms"
  by (induction ms) auto

lemma list_map_None: "list_map key val ms k = None \<longleftrightarrow> \<not> list_ex (\<lambda>m. key m = k) ms"
  using list_map_dom [of k key val ms] by (auto simp: dom_def)

lemma update_first_map:
  assumes "list_ex (\<lambda>m. key m = k) ms" "distinct (map key ms)"
    "\<And>m. key m = k \<Longrightarrow> key (upd m) = k \<and> val (upd m) = v"
  shows "list_map key val (update_first (\<lambda>m. key m = k) (\<lambda>m. if del then [] else [upd m]) ms) =
      (if del then (list_map key val ms)(k := None) else (list_map key val ms)(k \<mapsto> v))"
    "distinct (map key (update_first (\<lambda>m. key m = k) (\<lambda>m. if del then [] else [upd m]) ms))"
    "set (update_first (\<lambda>m. key m = k) (\<lambda>m. if del then [] else [upd m]) ms) \<subseteq> set ms \<union> upd ` {m \<in> set ms. key m = k}"
proof -
  have sub: "x \<in> set (update_first (\<lambda>m. key m = k) (\<lambda>m. if del then [] else [upd m]) ms) \<Longrightarrow> key x \<in> key ` set ms" for x ms
    using assms(3) by (induction ms) (auto split: if_splits)
  show "list_map key val (update_first (\<lambda>m. key m = k) (\<lambda>m. if del then [] else [upd m]) ms) =
      (if del then (list_map key val ms)(k := None) else (list_map key val ms)(k \<mapsto> v))"
    using assms
  proof (induction ms)
    case (Cons m ms)
    show ?case
    proof (cases "key m = k")
      case True
      then have "list_map key val ms k = None"
        unfolding list_map_None list_ex_iff using Cons.prems(2) by (auto simp: image_iff)
      with True assms(3) show ?thesis by (auto simp: fun_eq_iff)
    next
      case False
      with Cons show ?thesis by (auto simp: fun_eq_iff)
    qed
  qed simp
  show "distinct (map key (update_first (\<lambda>m. key m = k) (\<lambda>m. if del then [] else [upd m]) ms))"
    using assms(2)
  proof (induction ms)
    case (Cons m ms)
    then show ?case using sub [of _ ms] assms(3) by (auto split: if_splits)
  qed simp
  show "set (update_first (\<lambda>m. key m = k) (\<lambda>m. if del then [] else [upd m]) ms) \<subseteq> set ms \<union> upd ` {m \<in> set ms. key m = k}"
    by (induction ms) auto
qed

section \<open>Announcements\<close>

definition arp_value :: "ARPMsg \<Rightarrow> bytes \<times> bytes" where "arp_value m = (arp_ifname m, arp_mac_addr m)"

definition nd_value :: "NDISCMsg \<Rightarrow> bytes \<times> bytes" where "nd_value m = (nd_ifname m, nd_mac_addr m)"

abbreviation arp_table :: "mLACP \<Rightarrow> 32 word \<rightharpoonup> bytes \<times> bytes" where
  "arp_table M \<equiv> list_map arp_ipv4_addr arp_value (arp_list M)"

abbreviation nd_table :: "mLACP \<Rightarrow> bytes \<rightharpoonup> bytes \<times> bytes" where
  "nd_table M \<equiv> list_map nd_ipv6_addr nd_value (ndisc_list M)"

text \<open>The lists and queues hold entries whose arrays have their size and whose names end, and no
  address is twice in a list.\<close>

definition neigh_typed :: "mLACP \<Rightarrow> bool" where
  "neigh_typed M \<longleftrightarrow> list_all arp_entry_ok (arp_list M) \<and> list_all arp_entry_ok (arp_msg_list M) \<and>
     list_all ndisc_entry_ok (ndisc_list M) \<and> list_all ndisc_entry_ok (ndisc_msg_list M) \<and>
     distinct (map arp_ipv4_addr (arp_list M)) \<and> distinct (map nd_ipv6_addr (ndisc_list M))"

lemma list_map_snoc:
  "list_map key val ms (key m) = None \<Longrightarrow> list_map key val (ms @ [m]) = (list_map key val ms)(key m \<mapsto> val m)"
  by (auto simp: fun_eq_iff map_add_def split: option.splits)

definition announce_list :: "('m \<Rightarrow> 'k) \<Rightarrow> 'k \<Rightarrow> bool \<Rightarrow> bool \<Rightarrow> ('m \<Rightarrow> 'm) \<Rightarrow> 'm \<Rightarrow> 'm list \<Rightarrow> 'm list" where
  "announce_list key k del add upd new ms =
     (if list_ex (\<lambda>m. key m = k) ms then update_first (\<lambda>m. key m = k) (\<lambda>m. if del then [] else [upd m]) ms
      else if add then ms @ [new] else ms)"

lemma announce_list_refines:
  assumes "distinct (map key ms)" "\<And>m. key m = k \<Longrightarrow> key (upd m) = k \<and> val (upd m) = v" "key new = k" "val new = v" "\<not> (del \<and> add)"
  shows "list_map key val (announce_list key k del add upd new ms) = map_announce del add k v (list_map key val ms)"
    "distinct (map key (announce_list key k del add upd new ms))"
    "list_all P ms \<Longrightarrow> (\<And>m. P m \<Longrightarrow> P (upd m)) \<Longrightarrow> P new \<Longrightarrow> list_all P (announce_list key k del add upd new ms)"
proof -
  note up = update_first_map [of key k ms upd val v del, OF _ assms(1,2)]
  show "list_map key val (announce_list key k del add upd new ms) = map_announce del add k v (list_map key val ms)"
  proof (cases "list_ex (\<lambda>m. key m = k) ms")
    case True
    then show ?thesis
      using up(1) list_map_dom [of k key val ms] by (simp add: announce_list_def map_announce_def)
  next
    case False
    then have "list_map key val ms k = None" by (simp add: list_map_None)
    then show ?thesis
      using False assms(3-5) list_map_snoc [of key val ms new] by (auto simp: announce_list_def map_announce_def fun_eq_iff)
  qed
  show "distinct (map key (announce_list key k del add upd new ms))"
    using up(2) assms(1,3) by (auto simp: announce_list_def list_ex_iff)
  show "list_all P (announce_list key k del add upd new ms)" if "list_all P ms" "\<And>m. P m \<Longrightarrow> P (upd m)" "P new"
    using up(3) that by (auto simp: announce_list_def list_all_iff)
qed

text \<open>Recording an announcement refines the update of the map.\<close>

lemma record_arp_list:
  "arp_list (record_arp e nm M) = announce_list arp_ipv4_addr (arp_ipv4_addr e) (arp_op_type e = NEIGH_SYNC_DEL) (arp_op_type e = NEIGH_SYNC_ADD)
     (\<lambda>m. m\<lparr>arp_ifname := char_arr MAX_L_PORT_NAME nm, arp_mac_addr := arp_mac_addr e\<rparr>)
     \<lparr>arp_op_type = arp_op_type e, arp_flag = 0, arp_learn_flag = NEIGH_REMOTE, arp_ifname = char_arr MAX_L_PORT_NAME nm,
      arp_pad = 0, arp_ipv4_addr = arp_ipv4_addr e, arp_mac_addr = arp_mac_addr e, arp_tail_pad = 0\<rparr> (arp_list M)"
  "arp_msg_list (record_arp e nm M) = filter (\<lambda>m. arp_ipv4_addr m \<noteq> arp_ipv4_addr e) (arp_msg_list M)"
  "ndisc_list (record_arp e nm M) = ndisc_list M" "ndisc_msg_list (record_arp e nm M) = ndisc_msg_list M"
  by (simp_all add: record_arp_def announce_list_def mlacp_enqueue_arp_def Let_def)

lemma record_ndisc_list:
  "ndisc_list (record_ndisc e nm M) = announce_list nd_ipv6_addr (nd_ipv6_addr e) (nd_op_type e = NEIGH_SYNC_DEL) (nd_op_type e = NEIGH_SYNC_ADD)
     (\<lambda>m. m\<lparr>nd_ifname := char_arr MAX_L_PORT_NAME nm, nd_mac_addr := nd_mac_addr e\<rparr>)
     \<lparr>nd_op_type = nd_op_type e, nd_flag = 0, nd_learn_flag = NEIGH_REMOTE, nd_ifname = char_arr MAX_L_PORT_NAME nm,
      nd_pad = 0, nd_ipv6_addr = nd_ipv6_addr e, nd_mac_addr = nd_mac_addr e, nd_tail_pad = 0\<rparr> (ndisc_list M)"
  "ndisc_msg_list (record_ndisc e nm M) = filter (\<lambda>m. nd_ipv6_addr m \<noteq> nd_ipv6_addr e) (ndisc_msg_list M)"
  "arp_list (record_ndisc e nm M) = arp_list M" "arp_msg_list (record_ndisc e nm M) = arp_msg_list M"
  by (simp_all add: record_ndisc_def announce_list_def mlacp_enqueue_ndisc_def Let_def)

lemma list_all_filter: "list_all P xs \<Longrightarrow> list_all P (filter Q xs)"
  by (simp add: list_all_iff)

lemma record_arp_refines:
  assumes "neigh_typed M" "length (arp_mac_addr e) = 6" "c_string nm" "length nm < MAX_L_PORT_NAME"
  shows "arp_table (record_arp e nm M) = map_announce (arp_op_type e = NEIGH_SYNC_DEL) (arp_op_type e = NEIGH_SYNC_ADD)
      (arp_ipv4_addr e) (char_arr MAX_L_PORT_NAME nm, arp_mac_addr e) (arp_table M)"
    "neigh_typed (record_arp e nm M)"
proof -
  have ok: "arp_entry_ok (m\<lparr>arp_ifname := char_arr MAX_L_PORT_NAME nm, arp_mac_addr := arp_mac_addr e\<rparr>)" if "arp_entry_ok m" for m
    using assms by (auto simp: arp_entry_ok_def neigh_name_ok_def)
  have d: "distinct (map arp_ipv4_addr (arp_list M))" "list_all arp_entry_ok (arp_list M)"
    using assms(1) by (simp_all add: neigh_typed_def)
  note an = announce_list_refines [of arp_ipv4_addr "arp_list M", OF d(1)]
  show "arp_table (record_arp e nm M) = map_announce (arp_op_type e = NEIGH_SYNC_DEL) (arp_op_type e = NEIGH_SYNC_ADD)
      (arp_ipv4_addr e) (char_arr MAX_L_PORT_NAME nm, arp_mac_addr e) (arp_table M)"
    unfolding record_arp_list(1) by (rule an(1)) (simp_all add: arp_value_def)
  have new: "arp_entry_ok \<lparr>arp_op_type = arp_op_type e, arp_flag = 0, arp_learn_flag = NEIGH_REMOTE, arp_ifname = char_arr MAX_L_PORT_NAME nm,
      arp_pad = 0, arp_ipv4_addr = arp_ipv4_addr e, arp_mac_addr = arp_mac_addr e, arp_tail_pad = 0\<rparr>"
    using assms by (auto simp: arp_entry_ok_def neigh_name_ok_def)
  have "list_all arp_entry_ok (arp_list (record_arp e nm M))" "distinct (map arp_ipv4_addr (arp_list (record_arp e nm M)))"
    unfolding record_arp_list(1) by (rule an(3) [OF _ _ _ _ d(2) ok new] an(2); simp add: arp_value_def)+
  then show "neigh_typed (record_arp e nm M)"
    using assms(1) by (simp add: neigh_typed_def record_arp_list(2-4) list_all_filter)
qed

lemma record_ndisc_refines:
  assumes "neigh_typed M" "length (nd_ipv6_addr e) = 16 \<and> length (nd_mac_addr e) = 6" "c_string nm" "length nm < MAX_L_PORT_NAME"
  shows "nd_table (record_ndisc e nm M) = map_announce (nd_op_type e = NEIGH_SYNC_DEL) (nd_op_type e = NEIGH_SYNC_ADD)
      (nd_ipv6_addr e) (char_arr MAX_L_PORT_NAME nm, nd_mac_addr e) (nd_table M)"
    "neigh_typed (record_ndisc e nm M)"
proof -
  have ok: "ndisc_entry_ok (m\<lparr>nd_ifname := char_arr MAX_L_PORT_NAME nm, nd_mac_addr := nd_mac_addr e\<rparr>)" if "ndisc_entry_ok m" for m
    using assms that by (auto simp: ndisc_entry_ok_def neigh_name_ok_def)
  have d: "distinct (map nd_ipv6_addr (ndisc_list M))" "list_all ndisc_entry_ok (ndisc_list M)"
    using assms(1) by (simp_all add: neigh_typed_def)
  note an = announce_list_refines [of nd_ipv6_addr "ndisc_list M", OF d(1)]
  show "nd_table (record_ndisc e nm M) = map_announce (nd_op_type e = NEIGH_SYNC_DEL) (nd_op_type e = NEIGH_SYNC_ADD)
      (nd_ipv6_addr e) (char_arr MAX_L_PORT_NAME nm, nd_mac_addr e) (nd_table M)"
    unfolding record_ndisc_list(1) by (rule an(1)) (simp_all add: nd_value_def)
  have new: "ndisc_entry_ok \<lparr>nd_op_type = nd_op_type e, nd_flag = 0, nd_learn_flag = NEIGH_REMOTE, nd_ifname = char_arr MAX_L_PORT_NAME nm,
      nd_pad = 0, nd_ipv6_addr = nd_ipv6_addr e, nd_mac_addr = nd_mac_addr e, nd_tail_pad = 0\<rparr>"
    using assms by (auto simp: ndisc_entry_ok_def neigh_name_ok_def)
  have "list_all ndisc_entry_ok (ndisc_list (record_ndisc e nm M))" "distinct (map nd_ipv6_addr (ndisc_list (record_ndisc e nm M)))"
    unfolding record_ndisc_list(1) by (rule an(3) [OF _ _ _ _ d(2) ok new] an(2); simp add: nd_value_def)+
  then show "neigh_typed (record_ndisc e nm M)"
    using assms(1) by (simp add: neigh_typed_def record_ndisc_list(2-4) list_all_filter)
qed

end
