(* ===== verification/Neigh_Types.thy ===== *)
theory Neigh_Types
  imports Neigh_Table
begin

unbundle bit_operations_syntax

text \<open>
  Type safety of the neighbour component.  A system is typed when its pointers are valid,
  the arrays of its objects have their declared sizes and its strings end inside theirs.
  Every operation on neighbours returns on a typed system and leaves it typed.
\<close>

section \<open>Typed systems\<close>

definition name_ok :: "string \<Rightarrow> bool" where
  "name_ok nm \<longleftrightarrow> c_string nm \<and> length nm < MAX_L_PORT_NAME"

definition lif_typed :: "LocalInterface \<Rightarrow> bool" where
  "lif_typed lif \<longleftrightarrow> name_ok (lif_name lif) \<and> length (lif_mac_addr lif) = 6 \<and>
     length (lif_ipv6_addr lif) = 4 \<and> length (lif_ipv6_ll_addr lif) = 4"

definition csm_typed :: "CSM \<Rightarrow> bool" where
  "csm_typed csm \<longleftrightarrow> MsgLog_ok (msg_log csm) \<and> length (system_id (MLACP csm)) = 6 \<and> name_ok (peer_itf_name csm) \<and>
     neigh_typed (MLACP csm)"

definition typed :: "System \<Rightarrow> bool" where
  "typed s \<longleftrightarrow> wf s \<and> (\<forall>c csm. csm_heap s c = Some csm \<longrightarrow> csm_typed csm) \<and>
     (\<forall>l lif. lif_heap s l = Some lif \<longrightarrow> lif_typed lif)"

text \<open>What the operations on neighbours leave alone.\<close>

definition evolves :: "System \<Rightarrow> System \<Rightarrow> bool" where
  "evolves s t \<longleftrightarrow> typed t \<and> lif_heap t = lif_heap s \<and> lif_list t = lif_list s \<and> csm_list t = csm_list s \<and>
     dom (csm_heap t) = dom (csm_heap s)"

lemma evolves_refl: "typed s \<Longrightarrow> evolves s s"
  and evolves_trans: "evolves s t \<Longrightarrow> evolves t u \<Longrightarrow> evolves s u"
  and evolves_typed: "evolves s t \<Longrightarrow> typed t"
  by (simp_all add: evolves_def)

lemma evolves_live: "evolves s t \<Longrightarrow> live (csm_heap t) c = live (csm_heap s) c"
  "evolves s t \<Longrightarrow> live (lif_heap t) l = live (lif_heap s) l"
  by (auto simp: evolves_def live_def dom_def)

lemma typedD:
  "typed s \<Longrightarrow> wf s" "typed s \<Longrightarrow> csm_heap s c = Some csm \<Longrightarrow> csm_typed csm"
  "typed s \<Longrightarrow> lif_heap s l = Some lif \<Longrightarrow> lif_typed lif"
  by (simp_all add: typed_def)

lemma wf_update_csm:
  assumes "wf s" "csm_heap s c = Some csm" "peer_link_if csm' = peer_link_if csm"
    "mlacp_lif_list (MLACP csm') = mlacp_lif_list (MLACP csm)"
  shows "wf ((set_csm c csm' s)\<lparr>s_env := e\<rparr>)"
proof -
  let ?t = "(set_csm c csm' s)\<lparr>s_env := e\<rparr>"
  have l: "live (csm_heap ?t) = live (csm_heap s)"
    using assms(2) by (auto simp: live_def set_csm_def fun_eq_iff)
  then have lo: "live_opt (csm_heap ?t) = live_opt (csm_heap s)" by (simp add: live_opt_def [abs_def])
  have "wf_csm ?t (the (csm_heap ?t x)) = wf_csm s (the (csm_heap s x))" for x
    using assms(2-4) by (auto simp: wf_csm_def set_csm_def)
  moreover have "wf_lif ?t y = wf_lif s y" for y
    using lo by (simp add: wf_lif_def set_csm_def)
  moreover have "dom (csm_heap ?t) = dom (csm_heap s)" using assms(2) by (auto simp: set_csm_def)
  ultimately show ?thesis using assms(1) l by (simp add: wf_def set_csm_def)
qed

lemma evolves_set:
  assumes "typed s" "csm_heap s c = Some csm" "csm_typed csm'" "peer_link_if csm' = peer_link_if csm"
    "mlacp_lif_list (MLACP csm') = mlacp_lif_list (MLACP csm)"
  shows "evolves s ((set_csm c csm' s)\<lparr>s_env := e\<rparr>)"
  using assms wf_update_csm [OF typedD(1) [OF assms(1)] assms(2,4,5)]
  by (auto simp: evolves_def typed_def set_csm_def)

lemma evolves_env: "typed s \<Longrightarrow> evolves s (s\<lparr>s_env := e\<rparr>)"
  by (auto simp: evolves_def typed_def wf_def wf_csm_def wf_lif_def)

lemma set_csm_env: "set_csm c csm s = (set_csm c csm s)\<lparr>s_env := s_env s\<rparr>"
  by (simp add: set_csm_def)

text \<open>The requests and messages leave the sessions alone but for the counters, the log and the
  learning on the peer link.\<close>

definition csm_rest :: "CSM \<Rightarrow> CSM" where
  "csm_rest csm = unlogged (csm_base csm)"

lemma csm_rest_fields:
  assumes "csm_rest csm' = csm_rest csm"
  shows "arp_list (MLACP csm') = arp_list (MLACP csm)" "arp_msg_list (MLACP csm') = arp_msg_list (MLACP csm)"
    "ndisc_list (MLACP csm') = ndisc_list (MLACP csm)" "ndisc_msg_list (MLACP csm') = ndisc_msg_list (MLACP csm)"
  using arg_cong [OF assms, of "\<lambda>c. arp_list (MLACP c)"] arg_cong [OF assms, of "\<lambda>c. arp_msg_list (MLACP c)"]
    arg_cong [OF assms, of "\<lambda>c. ndisc_list (MLACP c)"] arg_cong [OF assms, of "\<lambda>c. ndisc_msg_list (MLACP c)"]
  by (simp_all add: csm_rest_def unlogged_def MLACP_update_def)

lemma csm_rest_unlogged: "unlogged csm' = unlogged csm \<Longrightarrow> csm_rest csm' = csm_rest csm"
proof (drule arg_cong [where f = csm_base])
  have "csm_base (unlogged k) = unlogged (csm_base k)" for k
    by (cases k) (simp add: unlogged_def csm_base_def MLACP_update_def)
  then show "csm_base (unlogged csm') = csm_base (unlogged csm) \<Longrightarrow> csm_rest csm' = csm_rest csm" by (simp add: csm_rest_def)
qed

definition quiet :: "System \<Rightarrow> System \<Rightarrow> bool" where
  "quiet s t \<longleftrightarrow> evolves s t \<and> (\<forall>c. map_option csm_rest (csm_heap t c) = map_option csm_rest (csm_heap s c))"

lemma quiet_refl: "typed s \<Longrightarrow> quiet s s"
  and quiet_trans: "quiet s t \<Longrightarrow> quiet t u \<Longrightarrow> quiet s u"
  and quiet_typed: "quiet s t \<Longrightarrow> typed t"
  and quiet_evolves: "quiet s t \<Longrightarrow> evolves s t"
  and quiet_env: "typed s \<Longrightarrow> quiet s (s\<lparr>s_env := e\<rparr>)"
  using evolves_trans by (auto simp: quiet_def evolves_refl evolves_typed evolves_env)

lemmas quiet_live = evolves_live [OF quiet_evolves]

lemma quiet_set:
  assumes "typed s" "csm_heap s c = Some csm" "csm_typed csm'" "peer_link_if csm' = peer_link_if csm"
    "mlacp_lif_list (MLACP csm') = mlacp_lif_list (MLACP csm)" "csm_rest csm' = csm_rest csm"
  shows "quiet s ((set_csm c csm' s)\<lparr>s_env := e\<rparr>)"
  using evolves_set [OF assms(1-5), of e] assms(2,6) by (simp add: quiet_def set_csm_def)

lemma on_csm_quiet:
  assumes "typed s" "live (csm_heap s) c"
    "\<And>csm. csm_typed csm \<Longrightarrow> csm_typed (f csm) \<and> peer_link_if (f csm) = peer_link_if csm \<and>
       mlacp_lif_list (MLACP (f csm)) = mlacp_lif_list (MLACP csm) \<and> csm_rest (f csm) = csm_rest csm"
  shows "returns (quiet s) (on_csm c f s)"
proof -
  obtain csm where csm: "csm_heap s c = Some csm" using assms(2) by (auto simp: live_def)
  show ?thesis
    using quiet_set [OF assms(1) csm, of "f csm" "s_env s"] assms(3) typedD(2) [OF assms(1) csm] csm
    by (simp add: on_csm_def returns_def flip: set_csm_env)
qed

section \<open>Sending\<close>

lemma unlogged_typed:
  assumes "unlogged csm' = unlogged csm" "csm_typed csm" "MsgLog_ok (msg_log csm')"
  shows "csm_typed csm'" "peer_link_if csm' = peer_link_if csm" "mlacp_lif_list (MLACP csm') = mlacp_lif_list (MLACP csm)"
    "csm_rest csm' = csm_rest csm"
  using assms(2,3) arg_cong [OF assms(1), of peer_link_if] arg_cong [OF assms(1), of peer_itf_name]
    arg_cong [OF assms(1), of "\<lambda>c. mlacp_lif_list (MLACP c)"] arg_cong [OF assms(1), of "\<lambda>c. system_id (MLACP c)"]
    arg_cong [OF assms(1), of "\<lambda>c. arp_list (MLACP c)"] arg_cong [OF assms(1), of "\<lambda>c. arp_msg_list (MLACP c)"]
    arg_cong [OF assms(1), of "\<lambda>c. ndisc_list (MLACP c)"] arg_cong [OF assms(1), of "\<lambda>c. ndisc_msg_list (MLACP c)"]
    csm_rest_unlogged [OF assms(1)]
  by (simp_all add: unlogged_def csm_typed_def neigh_typed_def MLACP_update_def)

lemma send_buf_quiet:
  assumes "typed s" "csm_heap s c = Some csm" "nat n \<le> length buf" "20 \<le> length buf"
  shows "returns (\<lambda>(rc, t). quiet s t) (send_buf c buf n s)"
proof -
  have t: "csm_typed csm" using typedD(2) [OF assms(1,2)] .
  then have log: "MsgLog_ok (msg_log csm)" by (simp add: csm_typed_def)
  obtain rc csm' e where r: "iccp_csm_send csm buf n (s_env s) = Some (rc, csm', e)"
    using iccp_csm_send_defined [OF assms(4,3) log] by blast
  note u = unlogged_typed [OF iccp_csm_send_frame [OF r] t iccp_csm_send_log [OF r log]]
  show ?thesis
    using quiet_set [OF assms(1,2) u] assms(2) r by (simp add: send_buf_def returns_def)
qed

lemma send_msg_quiet:
  assumes "typed s" "csm_heap s c = Some csm" "prep csm CSM_BUFFER_SIZE g_csm_buf (s_env s) = Some (n, buf, e)"
    "nat n \<le> length buf" "20 \<le> length buf"
  shows "returns (\<lambda>(rc, t). quiet s t) (send_msg c prep s)"
proof -
  have e: "quiet s (s\<lparr>s_env := e\<rparr>)" using quiet_env [OF assms(1)] .
  have "returns (\<lambda>(rc, t). quiet (s\<lparr>s_env := e\<rparr>) t) (send_buf c buf n (s\<lparr>s_env := e\<rparr>))"
    using send_buf_quiet [OF quiet_typed [OF e] _ assms(4,5)] assms(2) by simp
  then show ?thesis
    using assms(2,3) quiet_trans [OF e] by (auto simp: send_msg_def returns_def)
qed

text \<open>A single entry is prepared in the cleared buffer.\<close>

lemma prepare_single:
  "mac_entry_ok m \<Longrightarrow> \<exists>buf. mlacp_prepare_for_mac_info_to_peer csm CSM_BUFFER_SIZE g_csm_buf m 0 env =
     Some (52, buf, next_msg_id env) \<and> length buf = CSM_BUFFER_SIZE"
  "arp_entry_ok a \<Longrightarrow> \<exists>buf. mlacp_prepare_for_arp_info csm CSM_BUFFER_SIZE g_csm_buf a 0 env =
     Some (58, buf, next_msg_id env) \<and> length buf = CSM_BUFFER_SIZE"
  "ndisc_entry_ok n \<Longrightarrow> \<exists>buf. mlacp_prepare_for_ndisc_info csm CSM_BUFFER_SIZE g_csm_buf n 0 env =
     Some (70, buf, next_msg_id env) \<and> length buf = CSM_BUFFER_SIZE"
  using prepare_mac_step [of "[]" m CSM_BUFFER_SIZE csm g_csm_buf env] macq.entries_length [of "[m]" csm env]
    prepare_arp_step [of "[]" a CSM_BUFFER_SIZE csm g_csm_buf env] arpq.entries_length [of "[a]" csm env]
    prepare_ndisc_step [of "[]" n CSM_BUFFER_SIZE csm g_csm_buf env] ndq.entries_length [of "[n]" csm env]
  by (simp_all add: holds_entries_def)

lemma ipv6_bytes: "length ws = 4 \<Longrightarrow> length (concat (map le32 ws)) = 16"
  by (simp add: length_concat comp_def sum_list_triv)

lemma name_ok_char_arr: "name_ok nm \<Longrightarrow> neigh_name_ok (char_arr MAX_L_PORT_NAME nm)"
  by (auto simp: name_ok_def neigh_name_ok_def)

lemma send_single_quiet:
  assumes "typed s" "csm_heap s c = Some csm"
  shows "mac_entry_ok (m csm) \<Longrightarrow> returns (\<lambda>(rc, t). quiet s t) (send_msg c (\<lambda>csm n buf. mlacp_prepare_for_mac_info_to_peer csm n buf (m csm) 0) s)"
    "arp_entry_ok (a csm) \<Longrightarrow> returns (\<lambda>(rc, t). quiet s t) (send_msg c (\<lambda>csm n buf. mlacp_prepare_for_arp_info csm n buf (a csm) 0) s)"
    "ndisc_entry_ok (n csm) \<Longrightarrow> returns (\<lambda>(rc, t). quiet s t) (send_msg c (\<lambda>csm k buf. mlacp_prepare_for_ndisc_info csm k buf (n csm) 0) s)"
  using prepare_single(1) [of "m csm" csm "s_env s"] prepare_single(2) [of "a csm" csm "s_env s"] prepare_single(3) [of "n csm" csm "s_env s"]
  by (auto intro!: send_msg_quiet [OF assms])

lemma syn_local_quiet:
  assumes "typed s" "live (csm_heap s) c" "live (lif_heap s) l"
  shows "returns (\<lambda>(rc, t). quiet s t) (syn_local_mac_info_to_peer c l sync_add is_sag s)"
    "returns (\<lambda>(rc, t). quiet s t) (syn_local_arp_info_to_peer c l sync_add ack s)"
    "returns (\<lambda>(rc, t). quiet s t) (syn_local_nd_info_to_peer c l sync_add ack is_ll s)"
proof -
  obtain csm lif where h: "csm_heap s c = Some csm" "lif_heap s l = Some lif"
    using assms(2,3) by (auto simp: live_def)
  have t: "csm_typed csm" "lif_typed lif" using typedD(2,3) [OF assms(1)] h by blast+
  have none: "returns (\<lambda>(rc, t). quiet s t) (Some (MCLAG_ERROR, s))" by (simp add: returns_def quiet_refl assms(1))
  show "returns (\<lambda>(rc, t). quiet s t) (syn_local_mac_info_to_peer c l sync_add is_sag s)"
    using t none by (auto simp: syn_local_mac_info_to_peer_def h mac_entry_ok_def csm_typed_def name_ok_def
        intro!: send_single_quiet(1) [OF assms(1) h(1)])
  show "returns (\<lambda>(rc, t). quiet s t) (syn_local_arp_info_to_peer c l sync_add ack s)"
    using t by (auto simp: syn_local_arp_info_to_peer_def h arp_entry_ok_def lif_typed_def name_ok_char_arr
        intro!: send_single_quiet(2) [OF assms(1) h(1)])
  show "returns (\<lambda>(rc, t). quiet s t) (syn_local_nd_info_to_peer c l sync_add ack is_ll s)"
    using t none by (auto simp: syn_local_nd_info_to_peer_def h ndisc_entry_ok_def lif_typed_def csm_typed_def name_ok_char_arr ipv6_bytes
        intro!: send_single_quiet(3) [OF assms(1) h(1)])
qed

lemma learn_kernel_quiet:
  assumes "typed s" "live (csm_heap s) c"
  shows "returns (quiet s) (set_peerlink_learn_kernel c enable s)"
proof -
  obtain csm where csm: "csm_heap s c = Some csm" using assms(2) by (auto simp: live_def)
  show ?thesis
  proof (cases "peer_link_if csm")
    case None
    then show ?thesis using csm assms(1) by (simp add: set_peerlink_learn_kernel_def returns_def quiet_refl)
  next
    case (Some l)
    then obtain lif where lif: "lif_heap s l = Some lif"
      using wf_csmD [OF typedD(1) [OF assms(1)] csm] by (auto simp: wf_csm_def live_opt_def live_def)
    obtain ret e where sh: "sys_shell (''bridge link set dev '' @ lif_name lif @ (if enable = 0 then '' learning off'' else '' learning on'')) (s_env s) =
        (ret, e)" by (rule prod.exhaust)
    have "returns (quiet (s\<lparr>s_env := e\<rparr>)) (on_csm c (\<lambda>csm.
        if ret \<noteq> 0 then csm\<lparr>peer_link_learning_enable := enable, peer_link_learning_retry_time := clock (s\<lparr>s_env := e\<rparr>)\<rparr>
        else csm\<lparr>peer_link_learning_retry_time := 0\<rparr>) (s\<lparr>s_env := e\<rparr>))"
      using assms by (intro on_csm_quiet quiet_typed [OF quiet_env]) (auto simp: csm_typed_def live_def csm_rest_def)
    then have "returns (quiet s) (on_csm c (\<lambda>csm.
        if ret \<noteq> 0 then csm\<lparr>peer_link_learning_enable := enable, peer_link_learning_retry_time := clock (s\<lparr>s_env := e\<rparr>)\<rparr>
        else csm\<lparr>peer_link_learning_retry_time := 0\<rparr>) (s\<lparr>s_env := e\<rparr>))"
      by (rule returns_mono) (rule quiet_trans [OF quiet_env [OF assms(1)]])
    then show ?thesis unfolding set_peerlink_learn_kernel_def shell_def using csm Some lif sh by simp
  qed
qed

text \<open>A step that quiet the state after another one.\<close>

lemma quiet_bind:
  assumes "returns (quiet s) m" "\<And>t. quiet s t \<Longrightarrow> returns (\<lambda>x. P x) (f t)"
  shows "returns P (Option.bind m f)"
  using assms by (rule returns_bind)

lemma quiet_opt:
  assumes "quiet s t" "b \<Longrightarrow> returns (quiet t) m"
  shows "returns (quiet s) (if b then m else Some t)"
  using assms quiet_trans by (auto simp: returns_def)

lemma syn_local_neigh_quiet:
  assumes "typed s" "live (lif_heap s) l"
  shows "returns (\<lambda>(rc, t). quiet s t) (syn_local_neigh_mac_info_to_peer l sync_add is_v4 is_v6 sync_mac ack is_ll s)"
proof (cases "csm_list s")
  case Nil
  then show ?thesis by (simp add: syn_local_neigh_mac_info_to_peer_def returns_def quiet_refl assms(1))
next
  case (Cons c cs)
  then have live: "live (csm_heap s) c" using typedD(1) [OF assms(1)] by (simp add: wf_def)
  then obtain csm lif where h: "csm_heap s c = Some csm" "lif_heap s l = Some lif" using assms(2) by (auto simp: live_def)
  have ok: "typed t \<and> live (csm_heap t) c \<and> live (lif_heap t) l" if "quiet s t" for t
    using that quiet_live [OF that] live assms(2) by (simp add: quiet_typed)
  have snd: "returns (quiet t) (map_option snd m)" if "returns (\<lambda>(rc, u). quiet t u) m" for t and m :: "(int \<times> System) option"
    using that by (auto simp: returns_def)
  have step: "returns (quiet s) (if b then map_option snd (m t) else Some t)"
    if "quiet s t" "returns (\<lambda>(rc, u). quiet t u) (m t)" for b t and m :: "System \<Rightarrow> (int \<times> System) option"
    using quiet_opt [OF that(1) snd [OF that(2)], of b] .
  have first: "returns (quiet s) (if b then set_peerlink_learn_kernel c 0 s else Some s)" for b
    using quiet_opt [OF quiet_refl [OF assms(1)] learn_kernel_quiet [OF assms(1) live]] .
  show ?thesis
    unfolding syn_local_neigh_mac_info_to_peer_def Cons list.case h Option.bind.simps
    by (intro returns_if returns_bind [OF first] returns_bind [OF step] returns_Some syn_local_quiet; (simp add: quiet_refl assms(1))?; blast dest: ok)
qed

lemma snd_returns: "returns (\<lambda>(rc, u). R u) m \<Longrightarrow> returns R (map_option snd m)"
  by (auto simp: returns_def)

lemma syn_ack_quiet:
  assumes "typed s"
  shows "returns (quiet s) (syn_ack_local_neigh_mac_info_to_peer nm is_ll s)"
  unfolding syn_ack_local_neigh_mac_info_to_peer_def
proof (rule returns_find [OF typedD(1) [OF assms]])
  fix l assume l: "live (lif_heap s) l"
  then obtain lif where "lif_heap s l = Some lif" by (auto simp: live_def)
  then show "returns (quiet s) (case Some l of None \<Rightarrow> Some s
      | Some l \<Rightarrow> do {
          lif \<leftarrow> lif_heap s l;
          if is_ll then map_option snd (syn_local_neigh_mac_info_to_peer l True False True True False True s)
          else if lif_l3_mode lif \<noteq> 0 \<and> lif_is_l3_proto_enabled lif
          then map_option snd (syn_local_neigh_mac_info_to_peer l True (lif_ipv4_addr lif \<noteq> 0)
                 (lif_prefixlen_v6 lif \<noteq> 0) True False False s)
          else Some s })"
    using snd_returns [OF syn_local_neigh_quiet [OF assms l]] by (simp add: returns_Some quiet_refl assms)
qed (simp add: returns_Some quiet_refl assms)

section \<open>Announcements\<close>

lemma neighbor_request_quiet:
  assumes "typed s"
  shows "returns (\<lambda>(rc, t). quiet s t) (iccp_netlink_neighbor_request family addr add mac nm permanent s)"
  unfolding iccp_netlink_neighbor_request_def
  by (rule returns_find [OF typedD(1) [OF assms]])
    (auto simp: returns_def live_def quiet_refl quiet_env assms Let_def)

lemma install_neigh_quiet:
  assumes "typed s"
  shows "returns (\<lambda>(ok, t). quiet s t) (install_neigh family addr mac nm add permanent ack is_ack_ll s)"
  unfolding install_neigh_def
proof (rule returns_bind [OF neighbor_request_quiet [OF assms]], clarify)
  fix err t assume t: "quiet s t"
  have "returns (\<lambda>(ok, u). quiet s u) (map_option (Pair True) (syn_ack_local_neigh_mac_info_to_peer nm is_ack_ll t))"
    using syn_ack_quiet [OF quiet_typed [OF t], of nm is_ack_ll] quiet_trans [OF t] by (auto simp: returns_def)
  then show "returns (\<lambda>(ok, t). quiet s t) (if err < 0 \<and> err \<noteq> ICCP_NLE_SEQ_MISMATCH then Some (False, t)
      else if add \<and> ack then map_option (Pair True) (syn_ack_local_neigh_mac_info_to_peer nm is_ack_ll t) else Some (True, t))"
    using t by (simp add: returns_Some)
qed

lemma neigh_on_peer_link_returns:
  assumes "wf s"
  shows "returns (\<lambda>_. True) (neigh_on_peer_link mine vlan_id nm csm s)"
proof -
  have vlan: "returns (\<lambda>_. True) (do {
      vlan_if \<leftarrow> local_if_find_by_name nm s;
      (case vlan_if of None \<Rightarrow> Some (False, False)
       | Some i \<Rightarrow> do {
           vif \<leftarrow> lif_heap s i;
           Some (if lif_is_l3_proto_enabled vif then (mine vif, True) else (False, False)) }) })"
    by (rule returns_find [OF assms]) (auto simp: returns_def live_def)
  have "returns (\<lambda>_. True) (case rb_find vid vlan_id (lif_vlan_tree plif) of
       Some v \<Rightarrow> (case vlan_itf v of None \<Rightarrow> Some (False, False)
          | Some i \<Rightarrow> do { vif \<leftarrow> lif_heap s i; Some (lif_name vif = nm \<and> local_if_is_l3_mode vif \<and> mine vif, True) })
     | None \<Rightarrow> do {
         vlan_if \<leftarrow> local_if_find_by_name nm s;
         (case vlan_if of None \<Rightarrow> Some (False, False)
          | Some i \<Rightarrow> do {
              vif \<leftarrow> lif_heap s i;
              Some (if lif_is_l3_proto_enabled vif then (mine vif, True) else (False, False)) }) })"
    if "lif_heap s p = Some plif" for p plif
  proof (cases "rb_find vid vlan_id (lif_vlan_tree plif)")
    case (Some v)
    then have "v \<in> set (lif_vlan_tree plif)" by (auto simp: rb_find_def find_Some_iff)
    then have "live_opt (lif_heap s) (vlan_itf v)"
      using wf_lifD [OF assms that] by (simp add: wf_lif_def list_all_iff)
    with Some show ?thesis by (auto simp: live_opt_def live_def returns_def split: option.splits)
  next
    case None
    with vlan show ?thesis by simp
  qed
  then show ?thesis
    unfolding neigh_on_peer_link_def
    by (auto intro!: returns_if returns_find [OF assms] simp: returns_Some live_def)
qed

lemma neigh_on_mlag_returns:
  assumes "wf s" "list_all (live (lif_heap s)) ls"
  shows "returns (\<lambda>_. True) (neigh_on_mlag mine vlan_id nm (lif_heap s) ls my)"
  using assms(2)
proof (induction ls arbitrary: my)
  case (Cons l ls)
  then obtain lif where lif: "lif_heap s l = Some lif" by (auto simp: live_def)
  have "live_opt (lif_heap s) (vlan_itf v)" if "rb_find vid vlan_id (lif_vlan_tree lif) = Some v" for v
    using that wf_lifD [OF assms(1) lif] by (auto simp: rb_find_def find_Some_iff wf_lif_def list_all_iff)
  then show ?case
    using Cons lif by (auto simp: returns_Some live_opt_def live_def split: option.splits)
qed (simp add: returns_Some)

lemma neigh_verdict_returns:
  assumes "wf s" "csm_heap s c = Some csm"
  shows "returns (\<lambda>_. True) (neigh_verdict_of mine_peer mine nm csm s)"
proof -
  have ls: "list_all (live (lif_heap s)) (mlacp_lif_list (MLACP csm))"
    using wf_csmD [OF assms] by (simp add: wf_csm_def)
  have last: "returns (\<lambda>_. True) (do {
      found \<leftarrow> local_if_find_by_name nm s;
      (case found of None \<Rightarrow> Some Remember
       | Some i \<Rightarrow> map_option (\<lambda>vif. if mine vif then Own else Remember) (lif_heap s i)) })"
    by (rule returns_find [OF assms(1)]) (auto simp: returns_def live_def)
  have mlag: "returns (\<lambda>_. True) (if b then Some (False, True)
      else neigh_on_mlag mine (neigh_vlan_id nm) nm (lif_heap s) (mlacp_lif_list (MLACP csm)) False)" for b
    using neigh_on_mlag_returns [OF assms(1) ls] by (simp add: returns_Some)
  show ?thesis
    unfolding neigh_verdict_of_def
    by (intro returns_bind [OF neigh_on_peer_link_returns [OF assms(1)]] returns_bind [OF mlag] returns_prod returns_if last returns_Some TrueI)
qed

text \<open>An announcement of the peer: either the address is the switch's own and nothing happens, or the
  kernel refuses the entry and the tables stay, or the announcement is recorded.\<close>

lemma record_evolves:
  assumes "typed t" "csm_heap t c = Some csm" "neigh_typed (f (MLACP csm))"
    "\<And>M. mlacp_lif_list (f M) = mlacp_lif_list M" "\<And>M. system_id (f M) = system_id M"
  shows "on_csm c (MLACP_update f) t = Some (set_csm c (MLACP_update f csm) t)"
    "evolves t (set_csm c (MLACP_update f csm) t)"
proof -
  show "on_csm c (MLACP_update f) t = Some (set_csm c (MLACP_update f csm) t)" using assms(2) by (simp add: on_csm_def)
  have "csm_typed (MLACP_update f csm)"
    using typedD(2) [OF assms(1,2)] assms(3,5) by (simp add: csm_typed_def MLACP_update_def)
  then show "evolves t (set_csm c (MLACP_update f csm) t)"
    using evolves_set [OF assms(1,2), of "MLACP_update f csm" "s_env t"] assms(4) by (simp add: MLACP_update_def flip: set_csm_env)
qed

lemma evolves_csm:
  assumes "evolves s t" "live (csm_heap s) c"
  obtains csm where "csm_heap t c = Some csm" "csm_typed csm"
  using evolves_live(1) [OF assms(1), of c] assms(2) typedD(2) [OF evolves_typed [OF assms(1)]]
  by (auto simp: live_def)

lemma record_step:
  assumes "evolves s t" "live (csm_heap s) c" "\<And>M. neigh_typed M \<Longrightarrow> neigh_typed (f M)"
    "\<And>M. mlacp_lif_list (f M) = mlacp_lif_list M" "\<And>M. system_id (f M) = system_id M"
  shows "returns (evolves s) (on_csm c (MLACP_update f) t)"
proof -
  obtain csm where c: "csm_heap t c = Some csm" "csm_typed csm" by (rule evolves_csm [OF assms(1,2)])
  then have "neigh_typed (f (MLACP csm))" using assms(3) by (simp add: csm_typed_def)
  from record_evolves [OF evolves_typed [OF assms(1)] c(1) this assms(4,5)]
  show ?thesis using evolves_trans [OF assms(1)] by (simp add: returns_Some)
qed

lemma record_keeps:
  "mlacp_lif_list (record_arp e nm M) = mlacp_lif_list M" "system_id (record_arp e nm M) = system_id M"
  "mlacp_lif_list (record_ndisc d nm M) = mlacp_lif_list M" "system_id (record_ndisc d nm M) = system_id M"
  by (simp_all add: record_arp_def record_ndisc_def mlacp_enqueue_arp_def mlacp_enqueue_ndisc_def Let_def)

lemma name_read:
  assumes "cstr_at a = Some nm" "length a = MAX_L_PORT_NAME"
  shows "c_string nm" "length nm < MAX_L_PORT_NAME"
proof -
  have nm: "nm = bytes_str (takeWhile (\<lambda>b. b \<noteq> 0) a)" "0 \<in> set a"
    using assms(1) by (auto simp: cstr_at_def split: if_splits)
  have ne: "char_of (unat b) \<noteq> CHR 0x00" if "b \<noteq> 0" for b :: byte
  proof
    assume "char_of (unat b) = CHR 0x00"
    then have "of_char (char_of (unat b)) = (0::nat)" by simp
    then have "unat b mod 256 = 0" by (simp only: of_char_of)
    moreover have "unat b < 256" using unsigned_less [of b, where 'a = nat] by simp
    ultimately show False using that by (simp add: unat_eq_0)
  qed
  show "c_string nm"
    unfolding nm c_string_def bytes_str_def set_map
  proof
    assume "CHR 0x00 \<in> (\<lambda>b. char_of (unat b)) ` set (takeWhile (\<lambda>b. b \<noteq> 0) a)"
    then obtain b where "b \<in> set (takeWhile (\<lambda>b. b \<noteq> 0) a)" "char_of (unat b) = CHR 0x00" by (rule imageE) simp
    with ne [of b] show False by (blast dest: set_takeWhileD)
  qed
  have "length (takeWhile (\<lambda>b. b \<noteq> 0) a) < length a"
    using nm(2) by (induction a) auto
  then show "length nm < MAX_L_PORT_NAME" using assms(2) by (simp add: nm bytes_str_def)
qed

lemma arp_entry_evolves:
  assumes "typed s" "live (csm_heap s) c" "ARPMsg_fits e" "0 \<in> set (arp_ifname e)"
  shows "returns (\<lambda>(rc, t). evolves s t) (mlacp_fsm_update_arp_entry c e s)"
proof -
  obtain csm where csm: "csm_heap s c = Some csm" using assms(2) by (auto simp: live_def)
  obtain nm where nm: "cstr_at (arp_ifname e) = Some nm" "c_string nm" "length nm < MAX_L_PORT_NAME"
    using name_read [of "arp_ifname e"] assms(3,4) by (auto simp: cstr_at_def ARPMsg_fits_def)
  have "length (arp_mac_addr e) = 6" using assms(3) by (simp add: ARPMsg_fits_def)
  then have rec: "returns (\<lambda>(rc, u). evolves s u) (map_option (Pair 0) (on_csm c (MLACP_update (record_arp e nm)) t))" if "evolves s t" for t
    using record_step [OF that assms(2), of "record_arp e nm"] record_arp_refines(2) [OF _ _ nm(2,3)] record_keeps
    by (auto simp: returns_def)
  show ?thesis
    unfolding mlacp_fsm_update_arp_entry_def csm nm Option.bind.simps Let_def
    by (rule returns_bind [OF neigh_verdict_returns [OF typedD(1) [OF assms(1)] csm]])
      (auto intro!: returns_bind [OF install_neigh_quiet [OF assms(1)]] rec returns_if dest: quiet_evolves simp: returns_Some evolves_refl assms(1))
qed

lemma ndisc_entry_evolves:
  assumes "typed s" "live (csm_heap s) c" "NDISCMsg_fits e" "0 \<in> set (nd_ifname e)"
  shows "returns (\<lambda>(rc, t). evolves s t) (mlacp_fsm_update_ndisc_entry c e s)"
proof -
  obtain csm where csm: "csm_heap s c = Some csm" using assms(2) by (auto simp: live_def)
  obtain nm where nm: "cstr_at (nd_ifname e) = Some nm" "c_string nm" "length nm < MAX_L_PORT_NAME"
    using name_read [of "nd_ifname e"] assms(3,4) by (auto simp: cstr_at_def NDISCMsg_fits_def)
  have "length (nd_ipv6_addr e) = 16 \<and> length (nd_mac_addr e) = 6" using assms(3) by (simp add: NDISCMsg_fits_def)
  then have rec: "returns (\<lambda>(rc, u). evolves s u) (map_option (Pair 0) (on_csm c (MLACP_update (record_ndisc e nm)) t))" if "evolves s t" for t
    using record_step [OF that assms(2), of "record_ndisc e nm"] record_ndisc_refines(2) [OF _ _ nm(2,3)] record_keeps
    by (auto simp: returns_def)
  show ?thesis
    unfolding mlacp_fsm_update_ndisc_entry_def csm nm Option.bind.simps Let_def
    by (rule returns_bind [OF neigh_verdict_returns [OF typedD(1) [OF assms(1)] csm]])
      (auto intro!: returns_bind [OF install_neigh_quiet [OF assms(1)]] rec returns_if dest: quiet_evolves simp: returns_Some evolves_refl assms(1))
qed

text \<open>An announcement as a step of the map of neighbours.\<close>

lemma record_csm:
  assumes "quiet s t" "csm_heap s c = Some csm"
  obtains csm' where "csm_heap t c = Some csm'" "csm_rest csm' = csm_rest csm" "neigh_typed (MLACP csm')"
proof -
  have "map_option csm_rest (csm_heap t c) = Some (csm_rest csm)"
    using assms by (simp add: quiet_def)
  then obtain csm' where c: "csm_heap t c = Some csm'" "csm_rest csm' = csm_rest csm" by auto
  then have "csm_typed csm'" using typedD(2) [OF quiet_typed [OF assms(1)]] by blast
  with c show ?thesis using that by (auto simp: csm_typed_def)
qed


section \<open>Messages\<close>

lemma head_fields:
  assumes "6 \<le> length tlv"
  shows "\<exists>h. peek mLACPARPInfoTLV_overlay 0 tlv = Some h \<and> peek get_u16 4 tlv = Some (ai_num_of_entry h)"
    "\<exists>h. peek mLACPNDISCInfoTLV_overlay 0 tlv = Some h \<and> peek get_u16 4 tlv = Some (ni_num_of_entry h)"
proof -
  obtain h g where h: "peek mLACPARPInfoTLV_overlay 0 tlv = Some h" "peek mLACPNDISCInfoTLV_overlay 0 tlv = Some g"
    using arpinfo.peek_overlay_None_iff [of 0 tlv] ndiscinfo.peek_overlay_None_iff [of 0 tlv] assms
    by (auto simp: sizeof_mLACPARPInfoTLV_def sizeof_mLACPNDISCInfoTLV_def)
  from h(1) obtain r where "mLACPARPInfoTLV_overlay tlv = Some (h, r)" by (auto simp: peek_def)
  then have "tlv = mLACPARPInfoTLV_image h @ r" using arpinfo.overlay_sound by blast
  then have "peek get_u16 4 tlv = Some (ai_num_of_entry h)"
    by (simp add: mLACPARPInfoTLV_image_def ICCParameter_image_def access)
  moreover from h(2) obtain q where "mLACPNDISCInfoTLV_overlay tlv = Some (g, q)" by (auto simp: peek_def)
  then have "tlv = mLACPNDISCInfoTLV_image g @ q" using ndiscinfo.overlay_sound by blast
  then have "peek get_u16 4 tlv = Some (ni_num_of_entry g)"
    by (simp add: mLACPNDISCInfoTLV_image_def ICCParameter_image_def access)
  ultimately show "\<exists>h. peek mLACPARPInfoTLV_overlay 0 tlv = Some h \<and> peek get_u16 4 tlv = Some (ai_num_of_entry h)"
    "\<exists>h. peek mLACPNDISCInfoTLV_overlay 0 tlv = Some h \<and> peek get_u16 4 tlv = Some (ni_num_of_entry h)"
    using h by blast+
qed

text \<open>The names of the entries of a message end inside their arrays.\<close>

definition arp_names_end :: "bytes \<Rightarrow> bool" where
  "arp_names_end tlv \<longleftrightarrow> (\<forall>i e. peek ARPMsg_overlay (6 + 36 * i) tlv = Some e \<longrightarrow> 0 \<in> set (arp_ifname e))"

definition nd_names_end :: "bytes \<Rightarrow> bool" where
  "nd_names_end tlv \<longleftrightarrow> (\<forall>i e. peek NDISCMsg_overlay (6 + 48 * i) tlv = Some e \<longrightarrow> 0 \<in> set (nd_ifname e))"

lemma entry_loop_evolves:
  assumes "typed s" "live (csm_heap s) c"
    "\<And>i t. i < n \<Longrightarrow> typed t \<Longrightarrow> live (csm_heap t) c \<Longrightarrow> returns (evolves t) (f i t)"
  shows "returns (evolves s) (foreach f [0..<n] s)"
proof (rule returns_foreach)
  fix i t assume "i \<in> set [0..<n]" and t: "evolves s t"
  then show "returns (evolves s) (f i t)"
    using returns_mono [OF assms(3) evolves_trans [OF t]] evolves_live(1) [OF t] evolves_typed [OF t] assms(2) by simp
qed (rule evolves_refl [OF assms(1)])

lemma arp_info_evolves:
  assumes "typed s" "live (csm_heap s) c" "arp_names_end tlv" "peek get_u16 4 tlv = Some w" "6 + unat (ntohs w) * 36 \<le> length tlv"
  shows "returns (\<lambda>(rc, t). evolves s t) (mlacp_fsm_update_arp_info c tlv s)"
proof -
  obtain h where h: "peek mLACPARPInfoTLV_overlay 0 tlv = Some h" "ai_num_of_entry h = w"
    using head_fields(1) [of tlv] assms(4,5) by auto
  have "returns (evolves s) (foreach (\<lambda>i s. do {
      entry \<leftarrow> peek ARPMsg_overlay (sizeof_mLACPARPInfoTLV + sizeof_ARPMsg * i) tlv;
      map_option snd (mlacp_fsm_update_arp_entry c entry s) }) [0..<unat (ntohs w)] s)"
  proof (rule entry_loop_evolves [OF assms(1,2)])
    fix i t assume i: "i < unat (ntohs w)" and t: "typed t" "live (csm_heap t) c"
    have "36 * i + 36 \<le> unat (ntohs w) * 36" using i by simp
    then obtain e where e: "peek ARPMsg_overlay (6 + 36 * i) tlv = Some e"
      using arpmsg.peek_overlay_None_iff [of "6 + 36 * i" tlv] assms(5) by (auto simp: sizeof_ARPMsg_def)
    have "ARPMsg_fits e" "0 \<in> set (arp_ifname e)" using arpmsg.peek_fits [OF e] assms(3) e by (auto simp: arp_names_end_def)
    from snd_returns [OF arp_entry_evolves [OF t this]] e
    show "returns (evolves t) (do {
        entry \<leftarrow> peek ARPMsg_overlay (sizeof_mLACPARPInfoTLV + sizeof_ARPMsg * i) tlv;
        map_option snd (mlacp_fsm_update_arp_entry c entry t) })"
      by (simp add: sizeof_mLACPARPInfoTLV_def sizeof_ARPMsg_def)
  qed
  then show ?thesis
    using h evolves_refl [OF assms(1)] by (auto simp: mlacp_fsm_update_arp_info_def Let_def returns_def)
qed

lemma ndisc_info_evolves:
  assumes "typed s" "live (csm_heap s) c" "nd_names_end tlv" "peek get_u16 4 tlv = Some w" "6 + unat (ntohs w) * 48 \<le> length tlv"
  shows "returns (\<lambda>(rc, t). evolves s t) (mlacp_fsm_update_ndisc_info c tlv s)"
proof -
  obtain h where h: "peek mLACPNDISCInfoTLV_overlay 0 tlv = Some h" "ni_num_of_entry h = w"
    using head_fields(2) [of tlv] assms(4,5) by auto
  have "returns (evolves s) (foreach (\<lambda>i s. do {
      entry \<leftarrow> peek NDISCMsg_overlay (sizeof_mLACPNDISCInfoTLV + sizeof_NDISCMsg * i) tlv;
      map_option snd (mlacp_fsm_update_ndisc_entry c entry s) }) [0..<unat (ntohs w)] s)"
  proof (rule entry_loop_evolves [OF assms(1,2)])
    fix i t assume i: "i < unat (ntohs w)" and t: "typed t" "live (csm_heap t) c"
    have "48 * i + 48 \<le> unat (ntohs w) * 48" using i by simp
    then obtain e where e: "peek NDISCMsg_overlay (6 + 48 * i) tlv = Some e"
      using ndiscmsg.peek_overlay_None_iff [of "6 + 48 * i" tlv] assms(5) by (auto simp: sizeof_NDISCMsg_def)
    have "NDISCMsg_fits e" "0 \<in> set (nd_ifname e)" using ndiscmsg.peek_fits [OF e] assms(3) e by (auto simp: nd_names_end_def)
    from snd_returns [OF ndisc_entry_evolves [OF t this]] e
    show "returns (evolves t) (do {
        entry \<leftarrow> peek NDISCMsg_overlay (sizeof_mLACPNDISCInfoTLV + sizeof_NDISCMsg * i) tlv;
        map_option snd (mlacp_fsm_update_ndisc_entry c entry t) })"
      by (simp add: sizeof_mLACPNDISCInfoTLV_def sizeof_NDISCMsg_def)
  qed
  then show ?thesis
    using h evolves_refl [OF assms(1)] by (auto simp: mlacp_fsm_update_ndisc_info_def Let_def returns_def)
qed

lemma count_evolves:
  assumes "typed s" "live (csm_heap s) c"
  shows "returns (evolves s) (on_csm c (MLACP_SET_ICCP_RX_DBG_COUNTER t st) s)"
proof -
  have log: "msg_log (MLACP_SET_ICCP_RX_DBG_COUNTER t st csm) = msg_log csm" for csm
    by (simp add: MLACP_SET_ICCP_RX_DBG_COUNTER_def Let_def)
  have "returns (quiet s) (on_csm c (MLACP_SET_ICCP_RX_DBG_COUNTER t st) s)"
  proof (rule on_csm_quiet [OF assms])
    fix csm assume t: "csm_typed csm"
    then have "MsgLog_ok (msg_log (MLACP_SET_ICCP_RX_DBG_COUNTER t st csm))" by (simp add: log csm_typed_def)
    from unlogged_typed [OF unlogged_rx t this] show "csm_typed (MLACP_SET_ICCP_RX_DBG_COUNTER t st csm) \<and>
      peer_link_if (MLACP_SET_ICCP_RX_DBG_COUNTER t st csm) = peer_link_if csm \<and>
      mlacp_lif_list (MLACP (MLACP_SET_ICCP_RX_DBG_COUNTER t st csm)) = mlacp_lif_list (MLACP csm) \<and>
      csm_rest (MLACP_SET_ICCP_RX_DBG_COUNTER t st csm) = csm_rest csm" by blast
  qed
  then show ?thesis by (rule returns_mono) (rule quiet_evolves)
qed

lemma fit_tlv:
  assumes "entries_fit 4 6 n msg = Some True"
  obtains w where "peek get_u16 4 (drop sizeof_ICCHdr msg) = Some w" "6 + unat (ntohs w) * n \<le> length (drop sizeof_ICCHdr msg)"
  using assms by (auto simp: entries_fit_def peek_def sizeof_ICCHdr_def add.commute split: if_splits Option.bind_splits)

lemma entries_fit_defined: "\<exists>b. entries_fit 4 6 n msg = Some b"
proof (cases "length msg < 22")
  case False
  then obtain w r where "get_u16 (drop 20 msg) = Some (w, r)" by (cases "get_u16 (drop 20 msg)") auto
  then show ?thesis by (auto simp: entries_fit_def peek_def sizeof_ICCHdr_def)
qed (auto simp: entries_fit_def sizeof_ICCHdr_def)

text \<open>C11: Type safety of neighbour messages.  Whatever lengths and counts an ARP or ND message claims,
  handling it on a typed system returns and leaves a typed system, provided the interface names in
  it end inside their arrays: no read leaves the message, no pointer dangles, and the lists and
  queues hold well-formed entries, one for each address.\<close>

theorem neigh_message_safe:
  assumes "typed s" "live (csm_heap s) c" "peek get_u16 sizeof_ICCHdr msg = Some w"
    "par_type w = TLV_T_MLACP_ARP_INFO \<and> arp_names_end (drop sizeof_ICCHdr msg) \<or>
     par_type w = TLV_T_MLACP_NDISC_INFO \<and> nd_names_end (drop sizeof_ICCHdr msg)"
  shows "\<exists>t. mlacp_sync_receiver_handler c (Some msg) s = Some t \<and> typed t \<and> lif_heap t = lif_heap s \<and>
    dom (csm_heap t) = dom (csm_heap s)"
proof -
  have count: "returns (evolves s) (on_csm c (MLACP_SET_ICCP_RX_DBG_COUNTER ty st) t)" if "evolves s t" for t ty st
    using count_evolves [OF evolves_typed [OF that], of c ty st] evolves_live(1) [OF that] assms(2) evolves_trans [OF that]
    by (auto simp: returns_def)
  have arp: "returns (evolves s) (mlacp_sync_recv_arpInfo c msg s)" if "arp_names_end (drop sizeof_ICCHdr msg)"
  proof (cases "entries_fit 4 6 36 msg = Some True")
    case True
    then obtain v where v: "peek get_u16 4 (drop sizeof_ICCHdr msg) = Some v" "6 + unat (ntohs v) * 36 \<le> length (drop sizeof_ICCHdr msg)"
      by (rule fit_tlv)
    with True count show ?thesis
      by (auto simp: mlacp_sync_recv_arpInfo_def sizeof_mLACPARPInfoTLV_def sizeof_ARPMsg_def count_rx_def assms(3)
          intro!: returns_bind [OF arp_info_evolves [OF assms(1,2) that v]])
  next
    case False
    then show ?thesis
      using entries_fit_defined [of 36 msg] by (auto simp: mlacp_sync_recv_arpInfo_def sizeof_mLACPARPInfoTLV_def sizeof_ARPMsg_def
          returns_Some evolves_refl assms(1))
  qed
  have nd: "returns (evolves s) (mlacp_sync_recv_ndiscInfo c msg s)" if "nd_names_end (drop sizeof_ICCHdr msg)"
  proof (cases "entries_fit 4 6 48 msg = Some True")
    case True
    then obtain v where v: "peek get_u16 4 (drop sizeof_ICCHdr msg) = Some v" "6 + unat (ntohs v) * 48 \<le> length (drop sizeof_ICCHdr msg)"
      by (rule fit_tlv)
    with True show ?thesis
      using snd_returns [OF ndisc_info_evolves [OF assms(1,2) that v]]
      by (simp add: mlacp_sync_recv_ndiscInfo_def sizeof_mLACPNDISCInfoTLV_def sizeof_NDISCMsg_def)
  next
    case False
    then show ?thesis
      using entries_fit_defined [of 48 msg] by (auto simp: mlacp_sync_recv_ndiscInfo_def sizeof_mLACPNDISCInfoTLV_def sizeof_NDISCMsg_def
          returns_Some evolves_refl assms(1))
  qed
  have "returns (evolves s) (mlacp_sync_receiver_handler c (Some msg) s)"
    using assms(3,4) arp nd by (auto simp: mlacp_sync_receiver_handler_def)
  then show ?thesis by (auto simp: returns_def evolves_def)
qed

end
