(* ===== verification/Peer_Config.thy ===== *)
theory Peer_Config
  imports Neigh_Types
begin

unbundle bit_operations_syntax

text \<open>
  The configuration of the peer: the messages of fixed size from the sender to the queue of
  the receiver, the VLANs of the peer's port channels, the system configuration, and
  the configuration messages that the receiver cannot handle.
\<close>

section \<open>Messages of fixed size\<close>

lemma post_fixed:
  assumes "csm_heap s c = Some csm" "can_send csm (s_env s)"
    "prep csm CSM_BUFFER_SIZE g_csm_buf (s_env s) = prepare_fixed_tlv csm tlv CSM_BUFFER_SIZE g_csm_buf (s_env s)"
    "4 \<le> length tlv" "16 + length tlv \<le> CSM_BUFFER_SIZE"
  obtains csm' e where "post_msg c prep s = Some ((set_csm c csm' s)\<lparr>s_env := e\<rparr>)" "unlogged csm' = unlogged csm"
    "can_send csm' e" "peer_out e = peer_out (s_env s) @ [(sock_fd csm, app_message csm (s_env s) tlv)]"
proof -
  let ?n = "16 + length tlv" and ?buf = "zbuf CSM_BUFFER_SIZE (app_message csm (s_env s) tlv)"
  let ?s = "s\<lparr>s_env := next_msg_id (s_env s)\<rparr>"
  have prep: "prep csm CSM_BUFFER_SIZE g_csm_buf (s_env s) = Some (int ?n, ?buf, next_msg_id (s_env s))"
    using prepare_fixed_image [of g_csm_buf CSM_BUFFER_SIZE tlv csm "s_env s"] assms(3,5) by simp
  have pre: "csm_heap ?s c = Some csm" "can_send csm (s_env ?s)" "0 < ?n" "?n \<le> length ?buf" "20 \<le> length ?buf"
    using assms by simp_all
  obtain csm' e where r: "send_buf c ?buf (int ?n) ?s = Some (int ?n, (set_csm c csm' ?s)\<lparr>s_env := e\<rparr>)"
    "unlogged csm' = unlogged csm" "can_send csm' e" "peer_out e = peer_out (s_env ?s) @ [(sock_fd csm, take ?n ?buf)]"
    by (rule send_buf_run [OF pre])
  show ?thesis
  proof (rule that)
    show "post_msg c prep s = Some ((set_csm c csm' s)\<lparr>s_env := e\<rparr>)"
      unfolding post_msg_def send_msg_def using assms(1) prep r(1) by (simp add: set_csm_def)
  qed (use r in simp_all)
qed

section \<open>The VLANs of a port channel of the peer\<close>

text \<open>The VLAN tree as a map from VLAN to its mark.\<close>

abbreviation vlan_marks :: "PeerInterface \<Rightarrow> 16 word \<rightharpoonup> 16 word" where
  "vlan_marks p \<equiv> list_map vid vlan_removed (pif_vlan_tree p)"

lemma list_map_Some:
  "rb_sorted key t \<Longrightarrow> list_map key val t k = Some y \<longleftrightarrow> (\<exists>x \<in> set t. key x = k \<and> val x = y)"
  by (induction t) (auto simp: rb_sorted_def)

lemma list_map_sorted_eq:
  assumes "rb_sorted key t" "\<And>k y. f k = Some y \<longleftrightarrow> (\<exists>x \<in> set t. key x = k \<and> val x = y)"
  shows "list_map key val t = f"
proof
  fix k
  have "list_map key val t k = Some y \<longleftrightarrow> f k = Some y" for y
    using assms by (simp add: list_map_Some)
  then show "list_map key val t k = f k" by (metis option.exhaust)
qed

lemma list_map_find: "list_map key val t k = map_option val (rb_find key k t)"
  by (induction t) (auto simp: rb_find_def)

lemma list_map_modify:
  "(\<And>x. key (f x) = key x) \<Longrightarrow> (\<And>x. val (f x) = y) \<Longrightarrow>
   list_map key val (rb_modify key k f t) = (if k \<in> dom (list_map key val t) then (list_map key val t)(k \<mapsto> y) else list_map key val t)"
  by (induction t) (auto simp: rb_modify_def fun_eq_iff)

lemma list_map_insert:
  assumes "rb_sorted key t" "rb_find key (key x) t = None"
  shows "list_map key val (rb_insert key x t) = (list_map key val t)(key x \<mapsto> val x)"
proof (rule list_map_sorted_eq [OF rb_insert_sorted [OF assms(1)]])
  have "\<And>z. z \<in> set t \<Longrightarrow> key z \<noteq> key x" using assms(2) by (auto simp: rb_find_def find_None_iff)
  then show "((list_map key val t)(key x \<mapsto> val x)) k = Some y \<longleftrightarrow> (\<exists>z \<in> set (rb_insert key x t). key z = k \<and> val z = y)" for k y
    using assms list_map_Some [OF assms(1), of val k y] by (auto simp: rb_insert_set)
qed

lemma add_vlan_marks:
  assumes "rb_sorted vid (pif_vlan_tree p)"
  shows "rb_sorted vid (pif_vlan_tree (peer_if_add_vlan v p))" "vlan_marks (peer_if_add_vlan v p) = (vlan_marks p)(v \<mapsto> 0)"
proof -
  let ?n = "\<lparr>vid = v, vlan_removed = 0, vlan_itf = None\<rparr>"
  let ?t = "if rb_find vid v (pif_vlan_tree p) = None then rb_insert vid ?n (pif_vlan_tree p) else pif_vlan_tree p"
  have s: "rb_sorted vid ?t" using rb_insert_sorted [OF assms] assms by simp
  have m: "list_map vid vlan_removed ?t = (if rb_find vid v (pif_vlan_tree p) = None then (vlan_marks p)(v \<mapsto> 0) else vlan_marks p)"
    using list_map_insert [OF assms, of ?n vlan_removed] by simp
  then have "v \<in> dom (list_map vid vlan_removed ?t)" by (auto simp: list_map_find)
  moreover have tree: "pif_vlan_tree (peer_if_add_vlan v p) = rb_modify vid v (vlan_removed_update (\<lambda>_. 0)) ?t"
    by (simp add: peer_if_add_vlan_def Let_def)
  ultimately show "vlan_marks (peer_if_add_vlan v p) = (vlan_marks p)(v \<mapsto> 0)"
    using list_map_modify [of vid "vlan_removed_update (\<lambda>_. 0)" vlan_removed 0 v ?t] m by simp
  show "rb_sorted vid (pif_vlan_tree (peer_if_add_vlan v p))"
    unfolding tree using s rb_modify_sorted [of vid "vlan_removed_update (\<lambda>_. 0)" v ?t] by simp
qed

lemma fold_vlan_marks:
  assumes "rb_sorted vid (pif_vlan_tree p)"
  shows "rb_sorted vid (pif_vlan_tree (fold peer_if_add_vlan vs p))"
    "vlan_marks (fold peer_if_add_vlan vs p) = (\<lambda>k. if k \<in> set vs then Some 0 else vlan_marks p k)"
  using assms by (induction vs arbitrary: p) (auto simp: add_vlan_marks fun_eq_iff)

text \<open>The traversal that unlinks a node only after it has moved on removes exactly the marked
  nodes.\<close>

lemma clean_fold:
  "(case foldl (\<lambda>(pending, t) v. (if vlan_removed v = 1 then Some (vid v) else None,
        case pending of None \<Rightarrow> t | Some k \<Rightarrow> rb_remove vid k t)) (pending, t) vs of
     (pending, t) \<Rightarrow> (case pending of None \<Rightarrow> t | Some k \<Rightarrow> rb_remove vid k t)) =
   filter (\<lambda>x. pending \<noteq> Some (vid x) \<and> \<not> (\<exists>v \<in> set vs. vlan_removed v = 1 \<and> vid v = vid x)) t"
proof (induction vs arbitrary: pending t)
  case Nil
  then show ?case by (auto simp: rb_remove_def split: option.splits intro!: filter_cong)
next
  case (Cons v vs)
  show ?case
    unfolding foldl.simps prod.case Cons.IH
    by (auto simp: rb_remove_def split: option.splits intro!: filter_cong)
qed

lemma clean_vlan_marks:
  assumes "rb_sorted vid (pif_vlan_tree p)"
  shows "pif_vlan_tree (peer_if_clean_unused_vlan p) = filter (\<lambda>v. vlan_removed v \<noteq> 1) (pif_vlan_tree p)"
proof -
  have "(\<exists>w \<in> set (pif_vlan_tree p). vlan_removed w = 1 \<and> vid w = vid v) \<longleftrightarrow> vlan_removed v = 1" if "v \<in> set (pif_vlan_tree p)" for v
    using rb.key_unique [OF assms _ that] that by blast
  then show ?thesis
    unfolding peer_if_clean_unused_vlan_def using clean_fold [of None "pif_vlan_tree p" "pif_vlan_tree p"]
    by (auto simp: split_def Let_def intro!: filter_cong)
qed

lemma update_peer_vlans_tree:
  assumes "rb_sorted vid (pif_vlan_tree p)"
  shows "rb_sorted vid (pif_vlan_tree (update_peer_vlans t vs p))"
    "set (map vid (pif_vlan_tree (update_peer_vlans t vs p))) = set vs"
    "\<forall>v \<in> set (pif_vlan_tree (update_peer_vlans t vs p)). vlan_removed v = 0"
proof -
  let ?p = "p\<lparr>pif_vlan_tree := map (vlan_removed_update (\<lambda>_. 1)) (pif_vlan_tree p), pif_ipv4_addr := ntohl (pc_ipv4_addr t),
    pif_l3_mode := pc_l3_mode t\<rparr>"
  have s: "rb_sorted vid (pif_vlan_tree ?p)" using assms by (simp add: rb_sorted_def sorted_wrt_map)
  note f = fold_vlan_marks [OF s, of vs]
  let ?t = "pif_vlan_tree (fold peer_if_add_vlan vs ?p)"
  have tree: "pif_vlan_tree (update_peer_vlans t vs p) = filter (\<lambda>v. vlan_removed v \<noteq> 1) ?t"
    unfolding update_peer_vlans_def Let_def using clean_vlan_marks [OF f(1)] .
  have one: "vlan_marks ?p k = Some y \<Longrightarrow> y = 1" for k y using list_map_Some [OF s, of vlan_removed k y] by auto
  have in_t: "(\<exists>x \<in> set ?t. vid x = k \<and> vlan_removed x = y) \<longleftrightarrow> (if k \<in> set vs then y = 0 else vlan_marks ?p k = Some y)" for k y
    using list_map_Some [OF f(1), of vlan_removed k y] unfolding f(2) by auto
  show "rb_sorted vid (pif_vlan_tree (update_peer_vlans t vs p))"
    using f(1) by (simp add: tree rb_sorted_def sorted_wrt_filter)
  show "set (map vid (pif_vlan_tree (update_peer_vlans t vs p))) = set vs"
  proof (intro set_eqI iffI)
    fix k assume "k \<in> set (map vid (pif_vlan_tree (update_peer_vlans t vs p)))"
    then obtain x where "x \<in> set ?t" "vid x = k" "vlan_removed x \<noteq> 1" unfolding tree by auto
    then show "k \<in> set vs" using in_t [of k "vlan_removed x"] one [of k "vlan_removed x"] by (auto split: if_splits)
  next
    fix k assume "k \<in> set vs"
    then obtain x where "x \<in> set ?t" "vid x = k" "vlan_removed x = 0" using in_t [of k 0] by auto
    then show "k \<in> set (map vid (pif_vlan_tree (update_peer_vlans t vs p)))" unfolding tree by force
  qed
  show "\<forall>v \<in> set (pif_vlan_tree (update_peer_vlans t vs p)). vlan_removed v = 0"
  proof
    fix v assume v: "v \<in> set (pif_vlan_tree (update_peer_vlans t vs p))"
    then have "(if vid v \<in> set vs then vlan_removed v = 0 else vlan_marks ?p (vid v) = Some (vlan_removed v))"
      using in_t [of "vid v" "vlan_removed v"] unfolding tree by auto
    with v one [of "vid v" "vlan_removed v"] show "vlan_removed v = 0" unfolding tree by (auto split: if_splits)
  qed
qed

text \<open>The message with the VLANs, and what the receiver reads from it.\<close>

lemma vlans_at_data: "length pre = off \<Longrightarrow> vlans_at off (length vs) (pre @ vlan_data vs) = Some (map vid vs)"
proof (induction vs arbitrary: off pre)
  case (Cons v vs)
  have "vlans_at (off + 2) (length vs) ((pre @ le16 (htons (vid v))) @ vlan_data vs) = Some (map vid vs)"
    using Cons.prems by (intro Cons.IH) simp
  then show ?case using Cons.prems by (simp add: vlan_data_def)
qed simp

definition po_info :: "LocalInterface \<Rightarrow> bytes" where
  "po_info po = le16 (htons (word_of_int (lif_po_id po))) @
     char_arr MAX_L_PORT_NAME (take (min (length (lif_name po)) MAX_L_PORT_NAME) (lif_name po)) @
     [word_of_nat (min (length (lif_name po)) MAX_L_PORT_NAME)] @ [lif_l3_mode po] @ le32 (htonl (lif_ipv4_addr po)) @
     le16 (htons (word_of_int (lif_po_id po))) @ le16 (htons (word_of_nat (length (lif_vlan_tree po)))) @ vlan_data (lif_vlan_tree po)"

lemma prepare_po_info:
  assumes "lif_type po = IF_T_PORT_CHANNEL"
  shows "mlacp_prepare_for_port_channel_info csm n buf (Some po) env = prepare_fixed_tlv csm
    (ICCParameter_image (icc_param TLV_T_MLACP_PORT_CHANNEL_INFO (32 + 2 * length (lif_vlan_tree po))) @ po_info po) n buf env"
  using assms by (simp add: mlacp_prepare_for_port_channel_info_def mLACPPortChannelInfoTLV_image_def po_info_def Let_def
      sizeof_mLACPPortChannelInfoTLV_def sizeof_defs)

lemma po_info_read:
  assumes "name_ok (lif_name po)"
  shows "\<exists>h. peek mLACPPortChannelInfoTLV_overlay 0 (le16 t @ le16 l @ po_info po) = Some h \<and> pc_agg_id h = htons (word_of_int (lif_po_id po)) \<and>
    pc_l3_mode h = lif_l3_mode po \<and> pc_ipv4_addr h = htonl (lif_ipv4_addr po) \<and>
    pc_num_of_vlan_id h = htons (word_of_nat (length (lif_vlan_tree po)))"
  using assms by (simp add: peek_def mLACPPortChannelInfoTLV_overlay_def ICCParameter_overlay_def po_info_def name_ok_def)

lemma find_pos_Some: "find_pos P xs = Some i \<Longrightarrow> i < length xs \<and> P (xs ! i)"
  by (induction xs arbitrary: i) (auto split: if_splits)

lemma consistency_check_returns:
  assumes "wf s"
  shows "\<exists>r. iccp_consistency_check nm s = Some r"
proof -
  have "returns (\<lambda>_. True) (check_interfaces nm s)"
    unfolding check_interfaces_def
  proof (rule returns_find [OF assms])
    fix l assume "live (lif_heap s) l"
    then obtain lif where l: "lif_heap s l = Some lif" by (auto simp: live_def)
    then have "live_opt (csm_heap s) (lif_csm lif)" using wf_lifD [OF assms l] by (simp add: wf_lif_def)
    with l show "returns (\<lambda>_. True) (case Some l of None \<Rightarrow> Some None
      | Some l \<Rightarrow> do {
          lif \<leftarrow> lif_heap s l;
          (case lif_csm lif of None \<Rightarrow> Some None
           | Some c \<Rightarrow> do { csm \<leftarrow> csm_heap s c; Some (map_option (Pair lif) (peer_if_find_by_name csm nm)) }) })"
      by (auto simp: returns_Some live_opt_def live_def split: option.splits)
  qed (simp add: returns_Some)
  then show ?thesis by (auto simp: returns_def iccp_consistency_check_def)
qed

lemma on_pif_Some:
  assumes "csm_heap s c = Some csm" "i < length (pif_list (MLACP csm))"
  shows "on_pif c i f s = Some (set_csm c (MLACP_update (pif_list_update (\<lambda>ps. ps[i := f (pif_list (MLACP csm) ! i)])) csm) s)"
  using assms by (simp add: on_pif_def pif_at_def on_csm_def)

lemma po_info_handled:
  assumes "wf r" "csm_heap r b = Some peer" "name_ok (lif_name po)" "0 \<le> lif_po_id po" "lif_po_id po < 65536"
    "length (lif_vlan_tree po) \<le> 4096"
    "find_pos (\<lambda>p. pif_type p = IF_T_PORT_CHANNEL \<and> pif_po_id p = lif_po_id po) (pif_list (MLACP peer)) = Some i"
  obtains h peer' r' where "mlacp_sync_receiver_handler b (Some (app_queued csm env TLV_T_MLACP_PORT_CHANNEL_INFO k (po_info po))) r = Some r'"
    "csm_heap r' b = Some peer'"
    "pif_list (MLACP peer') = (pif_list (MLACP peer))[i := update_peer_vlans h (map vid (lif_vlan_tree po)) (pif_list (MLACP peer) ! i)]"
    "pc_l3_mode h = lif_l3_mode po" "pc_ipv4_addr h = htonl (lif_ipv4_addr po)"
proof -
  let ?q = "app_queued csm env TLV_T_MLACP_PORT_CHANNEL_INFO k (po_info po)"
  let ?pre = "le16 TLV_T_MLACP_PORT_CHANNEL_INFO @ le16 (htons (word_of_nat k))"
  let ?n = "length (lif_vlan_tree po)"
  obtain h where h: "peek mLACPPortChannelInfoTLV_overlay 0 (?pre @ po_info po) = Some h"
    "pc_agg_id h = htons (word_of_int (lif_po_id po))" "pc_l3_mode h = lif_l3_mode po" "pc_ipv4_addr h = htonl (lif_ipv4_addr po)"
    "pc_num_of_vlan_id h = htons (word_of_nat ?n)"
    using po_info_read [OF assms(3)] by auto
  have id: "uint (word_of_int (lif_po_id po) :: 16 word) = lif_po_id po" using assms(4,5) by (simp add: unsigned_of_int take_bit_int_eq_self)
  have n: "unat (word_of_nat ?n :: 16 word) = ?n" using assms(6) by (intro small_word) simp
  have len: "length (po_info po) = 32 + 2 * ?n" using assms(3) by (simp add: po_info_def name_ok_def)
  have "vlans_at 36 ?n (?pre @ po_info po) = Some (map vid (lif_vlan_tree po))"
    using assms(3) vlans_at_data [of "?pre @ take 32 (po_info po)" 36 "lif_vlan_tree po"]
    by (simp add: po_info_def name_ok_def)
  note vs = this [folded sizeof_mLACPPortChannelInfoTLV_def]
  have "peek get_u16 30 (po_info po) = Some (htons (word_of_nat ?n))"
    using assms(3) by (simp add: po_info_def name_ok_def access)
  then have fit: "entries_fit 34 36 2 ?q = Some True"
    using n len by (simp add: entries_fit_def app_queued_fields) (simp add: sizeof_defs)
  let ?p = "pif_list (MLACP peer) ! i" and ?f = "update_peer_vlans h (map vid (lif_vlan_tree po))"
  let ?peer = "MLACP_update (pif_list_update (\<lambda>ps. ps[i := ?f ?p])) peer"
  have i: "i < length (pif_list (MLACP peer))" using find_pos_Some [OF assms(7)] by simp
  have "wf ((set_csm b ?peer r)\<lparr>s_env := s_env r\<rparr>)"
    by (rule wf_update_csm [OF assms(1,2)]) (simp_all add: MLACP_update_def)
  then obtain x where x: "iccp_consistency_check (pif_name (?f ?p)) (set_csm b ?peer r) = Some x"
    using consistency_check_returns by (metis set_csm_env)
  have up: "mlacp_fsm_update_port_channel_info b (?pre @ po_info po) r = Some (0, set_csm b ?peer r)"
    unfolding mlacp_fsm_update_port_channel_info_def assms(2) h(1) Option.bind.simps
    using assms(7) h(2,5) id n vs on_pif_Some [OF assms(2) i, of ?f] i x
    by (simp add: pif_at_def set_csm_def MLACP_update_def)
  let ?counted = "MLACP_SET_ICCP_RX_DBG_COUNTER TLV_T_MLACP_PORT_CHANNEL_INFO ICCP_DBG_CNTR_STS_OK ?peer"
  have "mlacp_sync_receiver_handler b (Some ?q) r = Some (set_csm b ?counted (set_csm b ?peer r))"
    using up fit by (simp add: mlacp_sync_receiver_handler_def mlacp_sync_recv_portChanInfo_def app_queued_fields par_type_def
        sizeof_mLACPPortChannelInfoTLV_def nak_or_count_def count_rx_def on_csm_def set_csm_def)
  moreover have "pif_list (MLACP ?counted) = (pif_list (MLACP peer))[i := ?f ?p]"
    by (simp add: MLACP_SET_ICCP_RX_DBG_COUNTER_def Let_def MLACP_update_def)
  ultimately show ?thesis using that h(3,4) by (simp add: set_csm_def)
qed

lemma update_peer_vlans_fields:
  "pif_l3_mode (update_peer_vlans h vs p) = pc_l3_mode h" "pif_ipv4_addr (update_peer_vlans h vs p) = ntohl (pc_ipv4_addr h)"
  "pif_name (update_peer_vlans h vs p) = pif_name p"
proof -
  have "pif_l3_mode (fold peer_if_add_vlan vs p) = pif_l3_mode p \<and> pif_ipv4_addr (fold peer_if_add_vlan vs p) = pif_ipv4_addr p \<and>
    pif_name (fold peer_if_add_vlan vs p) = pif_name p" for p
    by (induction vs arbitrary: p) (simp_all add: peer_if_add_vlan_def Let_def)
  then show "pif_l3_mode (update_peer_vlans h vs p) = pc_l3_mode h" "pif_ipv4_addr (update_peer_vlans h vs p) = ntohl (pc_ipv4_addr h)"
    "pif_name (update_peer_vlans h vs p) = pif_name p"
    by (simp_all add: update_peer_vlans_def peer_if_clean_unused_vlan_def Let_def split_def)
qed

text \<open>C14: The VLANs of a port channel are mirrored at the peer: the message that announces the port
  channel is queued for the application of the peer, and handling it gives the interface of that
  name there exactly the VLANs of the sender, in order and unmarked, its mode and its address -
  whatever VLANs were known before - so that the checks of the configuration find no difference;
  the other interfaces of the peer stay.\<close>

theorem port_channel_vlans_mirrored:
  assumes "csm_heap s a = Some csm" "can_send csm (s_env s)" "lif_type po = IF_T_PORT_CHANNEL" "name_ok (lif_name po)"
    "0 \<le> lif_po_id po \<and> lif_po_id po < 65536" "length (lif_vlan_tree po) \<le> 4096" "rb_sorted vid (lif_vlan_tree po)"
    and "wf r" "csm_heap r b = Some peer"
    "find_pos (\<lambda>p. pif_type p = IF_T_PORT_CHANNEL \<and> pif_po_id p = lif_po_id po) (pif_list (MLACP peer)) = Some i"
    "rb_sorted vid (pif_vlan_tree (pif_list (MLACP peer) ! i))"
  shows "\<exists>t m q r' peer' pif. post_msg a (\<lambda>csm n buf. mlacp_prepare_for_port_channel_info csm n buf (Some po)) s = Some t \<and>
    peer_out (s_env t) = peer_out (s_env s) @ [(sock_fd csm, m)] \<and> iccp_csm_enqueue_msg peer m = Some (mlacp_enqueue_msg peer q) \<and>
    mlacp_sync_receiver_handler b (Some q) r = Some r' \<and> csm_heap r' b = Some peer' \<and>
    pif_list (MLACP peer') = (pif_list (MLACP peer))[i := pif] \<and> pif_name pif = pif_name (pif_list (MLACP peer) ! i) \<and>
    map vid (pif_vlan_tree pif) = map vid (lif_vlan_tree po) \<and> list_all (\<lambda>v. vlan_removed v = 0) (pif_vlan_tree pif) \<and>
    iccp_check_interface_mode po pif \<and> iccp_check_interface_layer3_addr po pif \<and> iccp_check_interface_vlan po pif"
proof -
  let ?k = "32 + 2 * length (lif_vlan_tree po)"
  let ?tlv = "ICCParameter_image (icc_param TLV_T_MLACP_PORT_CHANNEL_INFO ?k) @ po_info po"
  let ?q = "app_queued csm (s_env s) TLV_T_MLACP_PORT_CHANNEL_INFO ?k (po_info po)"
  have len: "length (po_info po) = ?k" using assms(4) by (simp add: po_info_def name_ok_def)
  have pre: "mlacp_prepare_for_port_channel_info csm CSM_BUFFER_SIZE g_csm_buf (Some po) (s_env s) =
      prepare_fixed_tlv csm ?tlv CSM_BUFFER_SIZE g_csm_buf (s_env s)" "4 \<le> length ?tlv" "16 + length ?tlv \<le> CSM_BUFFER_SIZE"
    using prepare_po_info [OF assms(3)] assms(6) len by (simp_all add: sizeof_defs)
  obtain csm' e where send: "post_msg a (\<lambda>csm n buf. mlacp_prepare_for_port_channel_info csm n buf (Some po)) s = Some ((set_csm a csm' s)\<lparr>s_env := e\<rparr>)"
    "peer_out e = peer_out (s_env s) @ [(sock_fd csm, app_message csm (s_env s) ?tlv)]"
    by (rule post_fixed [where prep = "\<lambda>csm n buf. mlacp_prepare_for_port_channel_info csm n buf (Some po)", OF assms(1,2) pre])
  obtain h peer' r' where rcv: "mlacp_sync_receiver_handler b (Some ?q) r = Some r'" "csm_heap r' b = Some peer'"
    "pif_list (MLACP peer') = (pif_list (MLACP peer))[i := update_peer_vlans h (map vid (lif_vlan_tree po)) (pif_list (MLACP peer) ! i)]"
    "pc_l3_mode h = lif_l3_mode po" "pc_ipv4_addr h = htonl (lif_ipv4_addr po)"
    by (rule po_info_handled [OF assms(8,9,4) _ _ assms(6,10)]) (use assms(5) in auto)
  let ?pif = "update_peer_vlans h (map vid (lif_vlan_tree po)) (pif_list (MLACP peer) ! i)"
  note tree = update_peer_vlans_tree [OF assms(11), of h "map vid (lif_vlan_tree po)"]
  have vids: "map vid (pif_vlan_tree ?pif) = map vid (lif_vlan_tree po)"
    using tree(1,2) assms(7) by (intro strict_sorted_equal) (simp_all add: rb_sorted_keys)
  have found: "rb_find vid (vid v) t \<noteq> None" if "vid v \<in> set (map vid t)" for v :: VLAN_ID and t :: "VLAN_ID list"
    using that by (auto simp: rb_find_def find_None_iff)
  have "iccp_check_interface_vlan po ?pif"
    unfolding iccp_check_interface_vlan_def list_all_iff
    using found [of _ "pif_vlan_tree ?pif"] found [of _ "lif_vlan_tree po"] vids by (metis image_eqI list.set_map)
  moreover have "iccp_check_interface_mode po ?pif" "iccp_check_interface_layer3_addr po ?pif"
    using rcv(4,5) by (simp_all add: iccp_check_interface_mode_def iccp_check_interface_layer3_addr_def update_peer_vlans_fields)
  ultimately show ?thesis
    using send rcv vids tree(3) app_enqueued [OF mlacp_tlvs(6), of peer csm "s_env s" ?k "po_info po"]
    by (intro exI [of _ "(set_csm a csm' s)\<lparr>s_env := e\<rparr>"] exI [of _ "app_message csm (s_env s) ?tlv"] exI [of _ ?q]
        exI [of _ r'] exI [of _ peer'] exI [of _ ?pif]) (simp add: update_peer_vlans_fields list_all_iff)
qed

section \<open>System configuration\<close>

lemma steady_update_if:
  assumes "wf s" "live (lif_heap s) l"
  shows "steady same_base (update_if_ipmac_on_standby l) s"
proof -
  obtain lif where lif: "lif_heap s l = Some lif" using live_Some [OF assms(2)] by blast
  show ?thesis
  proof (cases "lif_csm lif")
    case None
    with lif show ?thesis by (intro steady_same) (auto simp: update_if_ipmac_on_standby_def)
  next
    case (Some c)
    then obtain csm where csm: "csm_heap s c = Some csm"
      using wf_lifD [OF assms(1) lif] by (auto simp: wf_lif_def live_opt_def live_def)
    let ?mac = "rs_system_id (remote_system (MLACP csm))"
    let ?g = "\<lambda>v s. do { vif \<leftarrow> lif_heap s v;
        if local_if_is_l3_mode vif \<and> lif_l3_mac_addr vif \<noteq> ?mac \<and> \<not> lif_is_l3_proto_enabled vif
        then set_vlan_l3_mac v ?mac s else Some s }"
    let ?first = "\<lambda>s. if peer_if_find_by_name csm (lif_name lif) \<noteq> None \<and> lif_mac_addr lif \<noteq> ?mac
        then map_option (change_hwaddr (lif_ifindex lif) ?mac) (on_lif l (lif_mac_addr_ori_update (\<lambda>_. lif_mac_addr lif)) s) else Some s"
    have "steady same_base (on_lif l (lif_mac_addr_ori_update (\<lambda>_. lif_mac_addr lif))) s"
      by (rule steady_on_lif [OF assms(2)]) simp
    then have "steady same_base ?first s" by (auto simp: steady_def)
    then obtain t where t: "?first s = Some t" "base t = base s" unfolding steady_def by blast
    have ok: "wf t" "live (lif_heap t) l" using carry [OF t(2)] assms by blast+
    have "steady same_base (on_lif l (lif_l3_mac_addr_update (\<lambda>_. ?mac)))
        (iccp_set_interface_ipadd_mac lif (mac_addr_to_str ?mac) t)"
      by (rule steady_on_lif [OF carry(3) [OF _ ok(2)]]) simp_all
    moreover have "steady same_base (foreach_vlan (\<lambda>_. ?g) (lif_vlan_tree lif)) t"
    proof -
      obtain lif' where lif': "lif_heap t l = Some lif'" using live_Some [OF ok(2)] by blast
      have "lif_base lif' = lif_base lif"
        using fun_cong [OF arg_cong [OF t(2), of lif_heap], of l] lif lif' by (simp add: base_heaps)
      then have "lif_vlan_tree lif' = lif_vlan_tree lif" by (metis lif_base_fields(2))
      moreover have "steady same_base (?g v) u" if "live (lif_heap u) v" for v u
        using steady_vlan_l3_mac [OF that, of ?mac] live_Some [OF that] by (auto simp: steady_def)
      ultimately show ?thesis using steady_foreach_vlan [OF ok(1) lif', of ?g] by simp
    qed
    ultimately show ?thesis using lif Some csm t
      by (auto simp: update_if_ipmac_on_standby_def steady_def Let_def)
  qed
qed

lemma steady_update_ifs:
  assumes "wf s" "list_all (live (lif_heap s)) ls"
  shows "steady same_base (foreach update_if_ipmac_on_standby ls) s"
proof (rule sys.steady_foreach [OF assms(1)])
  fix l t assume "l \<in> set ls" and t: "wf t" "base t = base s"
  then have "live (lif_heap t) l" using assms(2) carry(3) [OF t(2)] by (simp add: list_all_iff)
  with t(1) show "steady same_base (update_if_ipmac_on_standby l) t" by (rule steady_update_if)
qed

definition sys_info :: "CSM \<Rightarrow> bytes" where
  "sys_info csm = system_id (MLACP csm) @ le16 (htons (system_priority (MLACP csm))) @ [node_id (MLACP csm)]"

lemma prepare_sys_info:
  "mlacp_prepare_for_sys_config csm n buf env =
     prepare_fixed_tlv csm (ICCParameter_image (icc_param TLV_T_MLACP_SYSTEM_CONFIG 9) @ sys_info csm) n buf env"
  by (simp add: mlacp_prepare_for_sys_config_def mLACPSysConfigTLV_image_def sys_info_def sizeof_mLACPSysConfigTLV_def sizeof_defs)

lemma peek_drop: "n \<le> length bs \<Longrightarrow> peek get n bs = peek get 0 (drop n bs)"
  by (simp add: peek_def)

lemma sys_info_read:
  assumes "length (system_id (MLACP csm)) = 6"
  shows "\<exists>h. peek mLACPSysConfigTLV_overlay sizeof_ICCHdr (app_queued csm env t k (sys_info csm)) = Some h \<and>
    sc_sys_id h = system_id (MLACP csm) \<and> sc_sys_priority h = htons (system_priority (MLACP csm)) \<and> sc_node_id h = node_id (MLACP csm)"
proof -
  have "16 \<le> length (app_queued csm env t k (sys_info csm))" by (simp add: app_queued_fields)
  then have "peek mLACPSysConfigTLV_overlay sizeof_ICCHdr (app_queued csm env t k (sys_info csm)) =
      peek mLACPSysConfigTLV_overlay 0 (le16 t @ le16 (htons (word_of_nat k)) @ sys_info csm)"
    by (subst peek_drop) (simp_all add: sizeof_ICCHdr_def app_queued_fields [unfolded sizeof_ICCHdr_def])
  then show ?thesis
    using assms by (simp add: peek_def mLACPSysConfigTLV_overlay_def ICCParameter_overlay_def sys_info_def)
qed

text \<open>The session that learned a configuration.\<close>

definition learn_system :: "mLACP \<Rightarrow> mLACP \<Rightarrow> mLACP" where
  "learn_system S M = M\<lparr>
     node_id := (if node_id S = node_id M then node_id M + 1 else node_id M),
     remote_system := \<lparr>rs_system_id = system_id S, rs_system_priority = system_priority S, rs_node_id = ucast (node_id S)\<rparr>\<rparr>"

lemma sys_info_handled:
  assumes "wf r" "csm_heap r b = Some peer" "length (system_id (MLACP csm)) = 6"
  shows "\<exists>r' peer'. mlacp_sync_receiver_handler b (Some (app_queued csm env TLV_T_MLACP_SYSTEM_CONFIG k (sys_info csm))) r = Some r' \<and>
    csm_heap r' b = Some peer' \<and> unlogged (csm_base peer') = unlogged (csm_base (MLACP_update (learn_system (MLACP csm)) peer))"
proof -
  let ?q = "app_queued csm env TLV_T_MLACP_SYSTEM_CONFIG k (sys_info csm)"
  obtain h where h: "peek mLACPSysConfigTLV_overlay sizeof_ICCHdr ?q = Some h" "sc_sys_id h = system_id (MLACP csm)"
    "sc_sys_priority h = htons (system_priority (MLACP csm))" "sc_node_id h = node_id (MLACP csm)"
    using sys_info_read [OF assms(3)] by blast
  let ?peer = "MLACP_update (learn_system (MLACP csm)) peer" and ?ls = "mlacp_lif_list (MLACP peer)"
  let ?s = "set_csm b ?peer r"
  have "wf (?s\<lparr>s_env := s_env r\<rparr>)"
    by (rule wf_update_csm [OF assms(1,2)]) (simp_all add: MLACP_update_def learn_system_def)
  then have wf: "wf ?s" by (simp flip: set_csm_env)
  have "list_all (live (lif_heap ?s)) ?ls" using wf_csmD [OF assms(1,2)] by (simp add: wf_csm_def set_csm_def)
  then obtain t where t: "foreach update_if_ipmac_on_standby ?ls ?s = Some t" "base t = base ?s"
    using steady_update_ifs [OF wf] unfolding steady_def by blast
  let ?u = "if role_type peer = STP_ROLE_STANDBY \<and> rs_system_id (remote_system (MLACP peer)) \<noteq> sc_sys_id h
    then snd (mlacp_link_set_iccp_system_id (mlag_id peer) (sc_sys_id h) t) else t"
  have "base ?u = base ?s" using t(2) by simp
  then obtain csm' where csm': "csm_heap ?u b = Some csm'" "csm_base csm' = csm_base ?peer"
    using base_csm [of ?u ?s b ?peer] by (auto simp: set_csm_def)
  have step: "on_csm b (MLACP_update (\<lambda>M. M\<lparr>node_id := (if sc_node_id h = node_id M then node_id M + 1 else node_id M),
      remote_system := \<lparr>rs_system_id = sc_sys_id h, rs_system_priority = ntohs (sc_sys_priority h), rs_node_id = ucast (sc_node_id h)\<rparr>\<rparr>)) r = Some ?s"
    using assms(2) h by (simp add: on_csm_def learn_system_def [abs_def])
  have up: "mlacp_fsm_update_system_conf b h r = Some (0, ?u)"
    unfolding mlacp_fsm_update_system_conf_def assms(2) step Option.bind.simps Let_def t(1) ..
  have "mlacp_sync_receiver_handler b (Some ?q) r =
      on_csm b (MLACP_SET_ICCP_RX_DBG_COUNTER TLV_T_MLACP_SYSTEM_CONFIG ICCP_DBG_CNTR_STS_OK) ?u"
    by (simp add: mlacp_sync_receiver_handler_def mlacp_sync_recv_sysConf_def app_queued_fields par_type_def h(1) up
        nak_or_count_def count_rx_def)
  moreover have "csm_base (MLACP_SET_ICCP_RX_DBG_COUNTER ty st csm') = MLACP_SET_ICCP_RX_DBG_COUNTER ty st (csm_base csm')" for ty st
    by (simp add: MLACP_SET_ICCP_RX_DBG_COUNTER_def csm_base_def Let_def MLACP_update_def)
  ultimately show ?thesis using csm' by (auto simp: on_csm_def set_csm_def)
qed

text \<open>C15: The system configuration travels to the peer: the message is queued for its application,
  and handling it returns and records identifier, priority and node of the sender and nothing else,
  except that a receiver with the sender's node number takes the next one.  So the node numbers
  differ after one side has sent its configuration, and the answer changes neither.\<close>

theorem system_config_learned:
  assumes "csm_heap s a = Some csm" "can_send csm (s_env s)" "length (system_id (MLACP csm)) = 6"
    and "wf r" "csm_heap r b = Some peer"
  shows "\<exists>t m q r' peer'. mlacp_sync_send_sysConf a s = Some t \<and> peer_out (s_env t) = peer_out (s_env s) @ [(sock_fd csm, m)] \<and>
    iccp_csm_enqueue_msg peer m = Some (mlacp_enqueue_msg peer q) \<and> mlacp_sync_receiver_handler b (Some q) r = Some r' \<and>
    csm_heap r' b = Some peer' \<and> unlogged (csm_base peer') = unlogged (csm_base (MLACP_update (learn_system (MLACP csm)) peer)) \<and>
    node_id (MLACP peer') \<noteq> node_id (MLACP csm) \<and> node_id (learn_system (MLACP peer') (MLACP csm)) = node_id (MLACP csm)"
proof -
  let ?tlv = "ICCParameter_image (icc_param TLV_T_MLACP_SYSTEM_CONFIG 9) @ sys_info csm"
  let ?q = "app_queued csm (s_env s) TLV_T_MLACP_SYSTEM_CONFIG 9 (sys_info csm)"
  have pre: "mlacp_prepare_for_sys_config csm CSM_BUFFER_SIZE g_csm_buf (s_env s) =
      prepare_fixed_tlv csm ?tlv CSM_BUFFER_SIZE g_csm_buf (s_env s)" "4 \<le> length ?tlv" "16 + length ?tlv \<le> CSM_BUFFER_SIZE"
    using assms(3) by (simp_all add: prepare_sys_info sys_info_def sizeof_defs)
  obtain csm' e where send: "post_msg a mlacp_prepare_for_sys_config s = Some ((set_csm a csm' s)\<lparr>s_env := e\<rparr>)"
    "peer_out e = peer_out (s_env s) @ [(sock_fd csm, app_message csm (s_env s) ?tlv)]"
    by (rule post_fixed [where prep = mlacp_prepare_for_sys_config, OF assms(1,2) pre])
  obtain r' peer' where rcv: "mlacp_sync_receiver_handler b (Some ?q) r = Some r'" "csm_heap r' b = Some peer'"
    "unlogged (csm_base peer') = unlogged (csm_base (MLACP_update (learn_system (MLACP csm)) peer))"
    using sys_info_handled [OF assms(4,5,3)] by blast
  have "node_id (MLACP peer') = node_id (learn_system (MLACP csm) (MLACP peer))"
    using arg_cong [OF rcv(3), of "\<lambda>c. node_id (MLACP c)"] by (simp add: unlogged_def MLACP_update_def)
  then have "node_id (MLACP peer') \<noteq> node_id (MLACP csm)" by (auto simp: learn_system_def)
  then show ?thesis
    using send rcv app_enqueued [OF mlacp_tlvs(1), of peer csm "s_env s" 9 "sys_info csm"]
    by (intro exI [of _ "(set_csm a csm' s)\<lparr>s_env := e\<rparr>"] exI [of _ "app_message csm (s_env s) ?tlv"] exI [of _ ?q]
        exI [of _ r'] exI [of _ peer']) (simp add: mlacp_sync_send_sysConf_def learn_system_def)
qed

section \<open>Configurations the receiver cannot handle\<close>

lemma find_pos_None: "find_pos P xs = None \<longleftrightarrow> \<not> list_ex P xs"
  by (induction xs) auto

text \<open>C19: A port-channel configuration of the peer that is no purge makes the receiver fault when it
  claims a name longer than the array it is copied to, whatever the name is, and when it is about
  an unknown port channel without saying that it is new: the first is a write behind the
  end of the array, the second goes through a null pointer.\<close>

theorem agg_config_faults:
  assumes "csm_heap r b = Some peer" "peek get_u16 sizeof_ICCHdr msg = Some w" "par_type w = TLV_T_MLACP_AGGREGATOR_CONFIG"
    "peek mLACPAggConfigTLV_overlay sizeof_ICCHdr msg = Some t" "cstr_at (ac_agg_name t) = Some nm" "ac_flags t AND 0x02 = 0"
    "MAX_L_PORT_NAME < unat (ac_agg_name_len t) \<or>
     ac_flags t AND 0x01 = 0 \<and> \<not> list_ex (\<lambda>p. pif_name p = nm) (pif_list (MLACP peer))"
  shows "mlacp_sync_receiver_handler b (Some msg) r = None"
proof -
  have "mlacp_fsm_update_Agg_conf b t r = None"
  proof (cases "MAX_L_PORT_NAME < unat (ac_agg_name_len t)")
    case True
    with assms(1,5,6) show ?thesis
      by (auto simp: mlacp_fsm_update_Agg_conf_def split_def Let_def split: Option.bind_splits)
  next
    case False
    with assms(7) have "ac_flags t AND 0x01 = 0" "find_pos (\<lambda>p. pif_name p = nm) (pif_list (MLACP peer)) = None"
      by (simp_all add: find_pos_None)
    with assms(1,5,6) show ?thesis by (simp add: mlacp_fsm_update_Agg_conf_def)
  qed
  then show ?thesis
    using assms(2-4) by (simp add: mlacp_sync_receiver_handler_def mlacp_sync_recv_aggConf_def)
qed

end
