(* ===== verification/Sync_Stages.thy ===== *)
theory Sync_Stages
  imports Peer_Config
begin

unbundle bit_operations_syntax

text \<open>
  The stages of the application: answering a synchronisation request, whatever \<^verbatim>\<open>send\<close>
  returns, the step to the next stage, the heartbeat, and the state a session cannot
  leave.  The session is followed up to its counters and its log: \<open>holding c K s\<close> says that
  the session at \<open>c\<close> is \<open>K\<close> in this sense.
\<close>

section \<open>The session up to its counters\<close>

definition holding :: "nat \<Rightarrow> CSM \<Rightarrow> System \<Rightarrow> bool" where
  "holding c K s \<longleftrightarrow> typed s \<and> (\<exists>csm. csm_heap s c = Some csm \<and> csm_rest csm = csm_rest K)"

lemma holdingE:
  assumes "holding c K s"
  obtains csm where "typed s" "csm_heap s c = Some csm" "csm_rest csm = csm_rest K" "live (csm_heap s) c"
  using assms by (auto simp: holding_def live_def)

lemma rest_MLACP:
  "csm_rest csm = csm_rest K \<Longrightarrow> iccp_counters_update (\<lambda>_. []) (MLACP csm) = iccp_counters_update (\<lambda>_. []) (MLACP K)"
  by (drule arg_cong [where f = MLACP]) (simp add: csm_rest_def unlogged_def MLACP_update_def)

lemma rest_mlacp_fields:
  assumes "csm_rest csm = csm_rest K"
  shows "mlacp_current_state (MLACP csm) = mlacp_current_state (MLACP K)" "sync_state (MLACP csm) = sync_state (MLACP K)"
    "wait_for_sync_data (MLACP csm) = wait_for_sync_data (MLACP K)" "mlacp_lif_list (MLACP csm) = mlacp_lif_list (MLACP K)"
    "mlacp_msg_list (MLACP csm) = mlacp_msg_list (MLACP K)" "mac_msg_list (MLACP csm) = mac_msg_list (MLACP K)"
  using arg_cong [OF rest_MLACP [OF assms], of mlacp_current_state] arg_cong [OF rest_MLACP [OF assms], of sync_state]
    arg_cong [OF rest_MLACP [OF assms], of wait_for_sync_data] arg_cong [OF rest_MLACP [OF assms], of mlacp_lif_list]
    arg_cong [OF rest_MLACP [OF assms], of mlacp_msg_list] arg_cong [OF rest_MLACP [OF assms], of mac_msg_list]
  by simp_all

lemma rest_csm_fields:
  assumes "csm_rest csm = csm_rest K"
  shows "peer_link_if csm = peer_link_if K" "heartbeat_update_time csm = heartbeat_update_time K" "sock_fd csm = sock_fd K"
    "role_type csm = role_type K" "session_timeout csm = session_timeout K"
  using arg_cong [OF assms, of peer_link_if] arg_cong [OF assms, of heartbeat_update_time] arg_cong [OF assms, of sock_fd]
    arg_cong [OF assms, of role_type] arg_cong [OF assms, of session_timeout]
  by (simp_all add: csm_rest_def unlogged_def csm_base_def MLACP_update_def)

lemma holding_quiet: "holding c K s \<Longrightarrow> quiet s t \<Longrightarrow> holding c K t"
proof (erule holdingE)
  fix csm assume h: "csm_heap s c = Some csm" "csm_rest csm = csm_rest K" and q: "quiet s t"
  have "map_option csm_rest (csm_heap t c) = Some (csm_rest K)" using q h by (simp add: quiet_def)
  then show "holding c K t" using quiet_typed [OF q] by (auto simp: holding_def)
qed

text \<open>An assignment to fields of the application.\<close>

lemma rest_update:
  assumes "\<And>M. f (iccp_counters_update (\<lambda>_. []) M) = iccp_counters_update (\<lambda>_. []) (f M)" "csm_rest csm = csm_rest K"
  shows "csm_rest (MLACP_update f csm) = csm_rest (MLACP_update f K)"
proof -
  have "csm_rest (MLACP_update f k) = MLACP_update f (csm_rest k)" for k
    using assms(1) by (cases k; cases "app_csm k") (simp add: csm_rest_def unlogged_def csm_base_def MLACP_update_def)
  then show ?thesis using assms(2) by simp
qed

lemma holding_update:
  assumes "holding c K s" "\<And>M. f (iccp_counters_update (\<lambda>_. []) M) = iccp_counters_update (\<lambda>_. []) (f M)"
    "\<And>M. mlacp_lif_list (f M) = mlacp_lif_list M" "\<And>M. system_id (f M) = system_id M" "\<And>M. neigh_typed M \<Longrightarrow> neigh_typed (f M)"
  shows "returns (holding c (MLACP_update f K)) (on_csm c (MLACP_update f) s)"
proof -
  obtain csm where h: "typed s" "csm_heap s c = Some csm" "csm_rest csm = csm_rest K" by (rule holdingE [OF assms(1)])
  have "neigh_typed (f (MLACP csm))" using typedD(2) [OF h(1,2)] assms(5) by (simp add: csm_typed_def)
  note r = record_evolves [where f = f, OF h(1,2) this assms(3,4)]
  show ?thesis
    using r rest_update [of f, OF assms(2) h(3)] by (auto simp: returns_def holding_def evolves_typed set_csm_def)
qed

text \<open>Assignments to an interface.\<close>

lemma typed_set_lif:
  assumes "typed s" "lif_heap s l = Some lif" "lif_typed lif'" "lif_csm lif' = lif_csm lif" "lif_vlan_tree lif' = lif_vlan_tree lif"
  shows "typed (set_lif l lif' s)"
proof -
  let ?t = "set_lif l lif' s"
  have live: "live (lif_heap ?t) = live (lif_heap s)" using assms(2) by (auto simp: live_def set_lif_def fun_eq_iff)
  then have lo: "live_opt (lif_heap ?t) = live_opt (lif_heap s)" by (simp add: live_opt_def [abs_def])
  have "dom (lif_heap ?t) = dom (lif_heap s)" using assms(2) by (auto simp: set_lif_def)
  moreover have "wf_lif ?t (the (lif_heap ?t x)) = wf_lif s (the (lif_heap s x))" for x
    using assms(2,4,5) lo by (auto simp: wf_lif_def set_lif_def)
  moreover have "wf_csm ?t y = wf_csm s y" for y
    using live lo by (simp add: wf_csm_def set_lif_def)
  ultimately have "wf ?t" using typedD(1) [OF assms(1)] live by (simp add: wf_def set_lif_def)
  then show ?thesis using assms by (auto simp: typed_def set_lif_def)
qed

lemma holding_on_lif:
  assumes "holding c K s" "live (lif_heap s) l" "\<And>lif. lif_typed lif \<Longrightarrow> lif_typed (f lif)" "\<And>lif. lif_csm (f lif) = lif_csm lif"
    "\<And>lif. lif_vlan_tree (f lif) = lif_vlan_tree lif"
  shows "returns (\<lambda>t. holding c K t \<and> dom (lif_heap t) = dom (lif_heap s)) (on_lif l f s)"
proof -
  obtain lif where l: "lif_heap s l = Some lif" using assms(2) by (auto simp: live_def)
  have "typed s" using assms(1) by (simp add: holding_def)
  from typed_set_lif [OF this l assms(3) [OF typedD(3) [OF this l]] assms(4,5)]
  show ?thesis using assms(1) l by (auto simp: on_lif_def returns_def holding_def set_lif_def)
qed

section \<open>Sending\<close>

text \<open>Every message can be prepared: one that is too long for the buffer is an error, not a fault.\<close>

abbreviation prepared :: "nat \<Rightarrow> (int \<times> bytes \<times> Env) option \<Rightarrow> bool" where
  "prepared n r \<equiv> returns (\<lambda>(len, buf, e). length buf = n \<and> nat len \<le> n) r"

lemma prepare_fixed_returns: "length buf = n \<Longrightarrow> prepared n (prepare_fixed_tlv csm tlv n buf env)"
  using prepare_fixed_image [of buf n tlv csm env] prepare_fixed_too_big [of n tlv csm buf env]
  by (cases "16 + length tlv \<le> n") (simp_all add: returns_Some)

lemma prepares_return:
  assumes "length buf = n"
  shows "prepared n (mlacp_prepare_for_sys_config csm n buf env)" "prepared n (mlacp_prepare_for_Aggport_config csm n buf lif f env)"
    "prepared n (mlacp_prepare_for_Aggport_state csm n buf (Some lif) env)"
    "prepared n (mlacp_prepare_for_port_channel_info csm n buf (Some lif) env)"
    "prepared n (mlacp_prepare_for_port_peerlink_info csm n buf (Some lif) env)"
    "prepared n (mlacp_prepare_for_sync_data_tlv csm n buf fl env)" "prepared n (mlacp_prepare_for_heartbeat csm n buf env)"
    "prepared n (mlacp_prepare_for_if_up_ack csm n buf ty i p env)"
  using assms prepare_fixed_returns [OF assms] prepare_fixed_returns [of "zbuf n []" n] memzero_zbuf [OF assms]
  by (simp_all add: mlacp_prepare_for_sys_config_def mlacp_prepare_for_Aggport_config_def mlacp_prepare_for_Aggport_state_def
      mlacp_prepare_for_port_channel_info_def mlacp_prepare_for_port_peerlink_info_def mlacp_prepare_for_sync_data_tlv_def
      mlacp_prepare_for_heartbeat_def mlacp_prepare_for_if_up_ack_def returns_Some Let_def)

definition same_lifs :: "System \<Rightarrow> System \<Rightarrow> bool" where
  "same_lifs s t \<longleftrightarrow> dom (lif_heap t) = dom (lif_heap s)"

lemma same_lifs_live: "same_lifs s t \<Longrightarrow> live (lif_heap t) l = live (lif_heap s) l"
  by (auto simp: same_lifs_def live_def dom_def)

lemma same_lifs_trans: "same_lifs s t \<Longrightarrow> same_lifs t u \<Longrightarrow> same_lifs s u"
  by (simp add: same_lifs_def)

lemma quiet_lifs: "quiet s t \<Longrightarrow> same_lifs s t"
  by (simp add: quiet_def evolves_def same_lifs_def)

text \<open>A step that keeps the session and the interfaces in place.\<close>

abbreviation stands :: "nat \<Rightarrow> CSM \<Rightarrow> System \<Rightarrow> System \<Rightarrow> bool" where
  "stands c K s t \<equiv> holding c K t \<and> same_lifs s t"

lemma send_holding:
  assumes "holding c K s" "\<And>csm env. prepared CSM_BUFFER_SIZE (prep csm CSM_BUFFER_SIZE g_csm_buf env)"
  shows "returns (\<lambda>(rc, t). stands c K s t) (send_msg c prep s)"
proof -
  obtain csm where h: "typed s" "csm_heap s c = Some csm" by (rule holdingE [OF assms(1)])
  obtain n buf e where p: "prep csm CSM_BUFFER_SIZE g_csm_buf (s_env s) = Some (n, buf, e)" "length buf = CSM_BUFFER_SIZE" "nat n \<le> length buf"
    using assms(2) [of csm "s_env s"] by (auto simp: returns_def)
  then have "20 \<le> length buf" by simp
  from send_msg_quiet [where prep = prep, OF h p(1,3) this] show ?thesis
    by (rule returns_mono) (auto dest: holding_quiet [OF assms(1)] quiet_lifs)
qed

lemma post_holding:
  assumes "holding c K s" "\<And>csm env. prepared CSM_BUFFER_SIZE (prep csm CSM_BUFFER_SIZE g_csm_buf env)"
  shows "returns (stands c K s) (post_msg c prep s)"
  unfolding post_msg_def using snd_returns [OF send_holding [where prep = prep, OF assms]] .

text \<open>The walk over the port channels.\<close>

lemma each_port_channel_holding:
  assumes "holding c K s"
    "\<And>l lif t. stands c K s t \<Longrightarrow> live (lif_heap t) l \<Longrightarrow> lif_heap t l = Some lif \<Longrightarrow> lif_type lif = IF_T_PORT_CHANNEL \<Longrightarrow>
       returns (stands c K s) (f l lif t)"
  shows "returns (stands c K s) (each_port_channel c f s)"
proof -
  obtain csm where h: "typed s" "csm_heap s c = Some csm" by (rule holdingE [OF assms(1)])
  have ls: "list_all (live (lif_heap s)) (mlacp_lif_list (MLACP csm))"
    using wf_csmD [OF typedD(1) [OF h(1)] h(2)] by (simp add: wf_csm_def)
  have "returns (stands c K s) (foreach (\<lambda>l s. do { lif \<leftarrow> lif_heap s l; if lif_type lif = IF_T_PORT_CHANNEL then f l lif s else Some s })
      (mlacp_lif_list (MLACP csm)) s)"
  proof (rule returns_foreach)
    fix l t assume l: "l \<in> set (mlacp_lif_list (MLACP csm))" and t: "stands c K s t"
    have "live (lif_heap t) l" using ls l same_lifs_live [of s t] t by (simp add: list_all_iff)
    then show "returns (stands c K s) (do { lif \<leftarrow> lif_heap t l; if lif_type lif = IF_T_PORT_CHANNEL then f l lif t else Some t })"
      using t assms(2) by (auto simp: live_def returns_Some)
  qed (simp add: assms(1) same_lifs_def)
  then show ?thesis using h(2) by (simp add: each_port_channel_def)
qed

lemma lif_flags_typed:
  "lif_typed lif \<Longrightarrow> lif_typed (lif_port_config_sync_update g lif)" "lif_typed lif \<Longrightarrow> lif_typed (lif_changed_update g lif)"
  by (simp_all add: lif_typed_def)

lemma post_then_flag:
  assumes "stands c K s t" "live (lif_heap t) l" "\<And>csm env. prepared CSM_BUFFER_SIZE (prep csm CSM_BUFFER_SIZE g_csm_buf env)"
    "\<And>lif. lif_typed lif \<Longrightarrow> lif_typed (f lif)" "\<And>lif. lif_csm (f lif) = lif_csm lif" "\<And>lif. lif_vlan_tree (f lif) = lif_vlan_tree lif"
  shows "returns (stands c K s) (do { t \<leftarrow> post_msg c prep t; on_lif l f t })"
proof (rule returns_bind [OF post_holding])
  fix u assume u: "stands c K t u"
  then have "live (lif_heap u) l" using same_lifs_live assms(2) by blast
  with u have "returns (\<lambda>v. holding c K v \<and> dom (lif_heap v) = dom (lif_heap u)) (on_lif l f u)"
    by (intro holding_on_lif assms(4-6)) auto
  then show "returns (stands c K s) (on_lif l f u)"
    by (rule returns_mono) (use assms(1) u in \<open>auto simp: same_lifs_def\<close>)
qed (use assms in auto)

lemma senders_holding:
  assumes "holding c K s"
  shows "returns (stands c K s) (mlacp_sync_send_sysConf c s)" "returns (stands c K s) (mlacp_sync_send_aggConf c s)"
    "returns (stands c K s) (mlacp_sync_send_aggState c s)" "returns (stands c K s) (mlacp_sync_send_syncPortChannelInfo c s)"
    "returns (stands c K s) (mlacp_sync_send_syncPeerLinkInfo c s)"
proof -
  show "returns (stands c K s) (mlacp_sync_send_sysConf c s)"
    unfolding mlacp_sync_send_sysConf_def by (rule post_holding [OF assms]) (simp add: prepares_return)
  show "returns (stands c K s) (mlacp_sync_send_aggConf c s)"
    unfolding mlacp_sync_send_aggConf_def
    by (intro each_port_channel_holding [OF assms] post_then_flag lif_flags_typed) (simp_all add: prepares_return)
  show "returns (stands c K s) (mlacp_sync_send_aggState c s)"
    unfolding mlacp_sync_send_aggState_def
    by (intro each_port_channel_holding [OF assms] post_then_flag lif_flags_typed) (simp_all add: prepares_return)
  show "returns (stands c K s) (mlacp_sync_send_syncPortChannelInfo c s)"
    unfolding mlacp_sync_send_syncPortChannelInfo_def
    by (intro each_port_channel_holding [OF assms] post_then_flag lif_flags_typed) (simp_all add: prepares_return)
  obtain csm where h: "typed s" "csm_heap s c = Some csm" by (rule holdingE [OF assms])
  have "live_opt (lif_heap s) (peer_link_if csm)" using wf_csmD [OF typedD(1) [OF h(1)] h(2)] by (simp add: wf_csm_def)
  moreover have "returns (stands c K s) (post_msg c (\<lambda>csm n buf. mlacp_prepare_for_port_peerlink_info csm n buf (Some lif)) s)" for lif
    by (rule post_holding [OF assms]) (simp add: prepares_return)
  ultimately show "returns (stands c K s) (mlacp_sync_send_syncPeerLinkInfo c s)"
    using h(2) assms by (auto simp: mlacp_sync_send_syncPeerLinkInfo_def live_opt_def live_def returns_Some same_lifs_def split: option.splits)
qed

section \<open>The queues of changes, whatever is sent\<close>

lemma poke_returns: "length buf = n \<Longrightarrow> off + length bs \<le> n \<Longrightarrow> returns (\<lambda>b. length b = n) (poke off bs buf)"
  using poke_Some [of off bs buf] by (auto simp: returns_def poke_length)

lemma entry_head_returns:
  assumes "length buf = n" "22 \<le> n"
  shows "returns (\<lambda>(b, e). length b = n) (entry_head csm t ml tn k buf env)"
proof -
  have fill: "returns (\<lambda>(b, e). length b = n) (mlacp_fill_icc_header csm ml buf env)"
    unfolding mlacp_fill_icc_header_def iccp_csm_fill_icc_rg_id_tlv_def
    by (intro returns_bind [OF poke_returns] returns_Some; (use assms in \<open>simp add: sizeof_defs\<close>)?)
  show ?thesis
    unfolding entry_head_def
    by (rule returns_bind [OF fill], clarify)
      (intro returns_bind [OF poke_returns] returns_bind [of "\<lambda>b. length b = n"] returns_if returns_Some poke_returns;
       use assms in \<open>simp add: sizeof_defs\<close>)
qed

lemma name_bytes:
  assumes "neigh_name_ok a"
  obtains nm where "cstr_at a = Some nm" "length nm < MAX_L_PORT_NAME"
  using assms by (auto simp: neigh_name_ok_def)

lemma prepare_entries_return:
  assumes "length buf = n"
  shows "mac_entry_ok m \<Longrightarrow> prepared n (mlacp_prepare_for_mac_info_to_peer csm n buf m k env)"
    "arp_entry_ok a \<Longrightarrow> prepared n (mlacp_prepare_for_arp_info csm n buf a k env)"
    "ndisc_entry_ok d \<Longrightarrow> prepared n (mlacp_prepare_for_ndisc_info csm n buf d k env)"
proof -
  have err: "prepared n (Some (MCLAG_ERROR, buf, env))" using assms by (simp add: returns_Some)
  have head: "returns (\<lambda>(b, e). length b = n) (entry_head csm t ml tn k buf env)" if "22 \<le> n" for t ml tn
    using entry_head_returns [OF assms that] .
  show "prepared n (mlacp_prepare_for_mac_info_to_peer csm n buf m k env)" if "mac_entry_ok m"
    unfolding mlacp_prepare_for_mac_info_to_peer_def Let_def
    by (intro returns_if err returns_bind [OF head] returns_prod returns_bind [OF poke_returns] returns_Some;
        (use that in \<open>auto simp: tlv_sizes mac_entry_ok_def\<close>)?)
  show "prepared n (mlacp_prepare_for_arp_info csm n buf a k env)" if ok: "arp_entry_ok a"
  proof -
    obtain nm where nm: "cstr_at (arp_ifname a) = Some nm" "length nm < MAX_L_PORT_NAME"
      using ok by (auto simp: arp_entry_ok_def elim: name_bytes)
    show ?thesis
      unfolding mlacp_prepare_for_arp_info_def Let_def nm(1) Option.bind.simps
      by (intro returns_if err returns_bind [OF head] returns_prod returns_bind [OF poke_returns] returns_Some;
          (use ok nm(2) in \<open>auto simp: tlv_sizes arp_entry_ok_def\<close>)?)
  qed
  show "prepared n (mlacp_prepare_for_ndisc_info csm n buf d k env)" if ok: "ndisc_entry_ok d"
  proof -
    obtain nm where nm: "cstr_at (nd_ifname d) = Some nm" "length nm < MAX_L_PORT_NAME"
      using ok by (auto simp: ndisc_entry_ok_def elim: name_bytes)
    show ?thesis
      unfolding mlacp_prepare_for_ndisc_info_def Let_def nm(1) Option.bind.simps
      by (intro returns_if err returns_bind [OF head] returns_prod returns_bind [OF poke_returns] returns_Some;
          (use ok nm(2) in \<open>auto simp: tlv_sizes ndisc_entry_ok_def\<close>)?)
  qed
qed

lemma send_queue_returns:
  assumes add: "\<And>x q s buf k. P (x # q) s \<Longrightarrow> length buf = CSM_BUFFER_SIZE \<Longrightarrow>
      returns (\<lambda>(len, buf, t). P q t \<and> length buf = CSM_BUFFER_SIZE \<and> nat len \<le> CSM_BUFFER_SIZE) (add x k buf s)"
    and send: "\<And>q s buf n. P q s \<Longrightarrow> length buf = CSM_BUFFER_SIZE \<Longrightarrow> nat n \<le> CSM_BUFFER_SIZE \<Longrightarrow>
      returns (\<lambda>(rc, t). P q t) (send_buf c buf n s)"
    and start: "P q s"
  shows "returns (P []) (send_queue c full add q s)"
proof -
  let ?I = "\<lambda>q (b, s). P q s \<and> length (snd (snd b)) = CSM_BUFFER_SIZE \<and> nat (fst (snd b)) \<le> CSM_BUFFER_SIZE"
  have step: "returns (?I q) (send_entry c full add x (b, s))" if "?I (x # q) (b, s)" for x q b s
    unfolding send_entry_def send_batch_def Let_def split_def
    using that by (intro returns_bind [OF add] returns_if returns_bind [OF send] returns_Some) (auto simp: split_def)
  have "returns (?I []) (foreach (send_entry c full add) q bs)" if "?I q bs" for bs
    using that
  proof (induction q arbitrary: bs)
    case (Cons x q)
    obtain b s where bs: "bs = (b, s)" by (rule prod.exhaust)
    show ?case
      unfolding foreach.simps bs by (rule returns_bind [OF step Cons.IH]) (use Cons.prems bs in auto)
  qed (simp add: returns_Some)
  then have "returns (?I []) (foreach (send_entry c full add) q ((0, 0, g_csm_buf), s))" using start by simp
  then show ?thesis
    unfolding send_queue_def flush_batch_def Let_def split_def
    by (rule returns_bind) (auto intro!: returns_if returns_Some snd_returns send)
qed

lemma neigh_typed_queues:
  "neigh_typed M \<Longrightarrow> list_all arp_entry_ok q \<Longrightarrow> neigh_typed (arp_msg_list_update (\<lambda>_. q) M)"
  "neigh_typed M \<Longrightarrow> list_all ndisc_entry_ok d \<Longrightarrow> neigh_typed (ndisc_msg_list_update (\<lambda>_. d) M)"
  by (simp_all add: neigh_typed_def)

lemma send_buf_holding:
  assumes "stands c K s t" "length buf = CSM_BUFFER_SIZE" "nat n \<le> CSM_BUFFER_SIZE"
  shows "returns (\<lambda>(rc, u). stands c K s u) (send_buf c buf n t)"
proof -
  obtain csm where h: "typed t" "csm_heap t c = Some csm" using assms(1) by (auto elim: holdingE)
  have "nat n \<le> length buf" "20 \<le> length buf" using assms(2,3) by simp_all
  from send_buf_quiet [OF h this] show ?thesis
    by (rule returns_mono) (use assms(1) in \<open>auto dest: holding_quiet quiet_lifs elim: same_lifs_trans\<close>)
qed

text \<open>Taking the first entry of a queue and putting it into the buffer.\<close>

lemma add_entry_holding:
  assumes "stands c (MLACP_update f K) s t" "csm_heap t c = Some csm" "length buf = CSM_BUFFER_SIZE"
    "\<And>csm env. prepared CSM_BUFFER_SIZE (prep csm CSM_BUFFER_SIZE buf env)"
    "\<And>M. g (iccp_counters_update (\<lambda>_. []) M) = iccp_counters_update (\<lambda>_. []) (g M)"
    "\<And>M. mlacp_lif_list (g M) = mlacp_lif_list M" "\<And>M. system_id (g M) = system_id M" "\<And>M. neigh_typed M \<Longrightarrow> neigh_typed (g M)"
    "\<And>M. g (f M) = h M"
  shows "returns (\<lambda>(len, buf, u). stands c (MLACP_update h K) s u \<and> length buf = CSM_BUFFER_SIZE \<and> nat len \<le> CSM_BUFFER_SIZE)
    (do { (len, buf, env) \<leftarrow> prep (MLACP_update g csm) CSM_BUFFER_SIZE buf (s_env t);
          Some (len, buf, (set_csm c (MLACP_update g csm) t)\<lparr>s_env := env\<rparr>) })"
proof -
  have t: "typed t" "csm_rest csm = csm_rest (MLACP_update f K)" using assms(1,2) by (auto elim!: holdingE)
  have "csm_typed (MLACP_update g csm)" using typedD(2) [OF t(1) assms(2)] assms(7,8) by (simp add: csm_typed_def MLACP_update_def)
  then have "evolves t ((set_csm c (MLACP_update g csm) t)\<lparr>s_env := e\<rparr>)" for e
    using evolves_set [OF t(1) assms(2), of "MLACP_update g csm" e] assms(6) by (simp add: MLACP_update_def)
  moreover have "csm_rest (MLACP_update g csm) = csm_rest (MLACP_update h K)"
    using rest_update [of g, OF assms(5) t(2)] assms(9) by (simp add: MLACP_update_def comp_def)
  ultimately have u: "stands c (MLACP_update h K) s ((set_csm c (MLACP_update g csm) t)\<lparr>s_env := e\<rparr>)" for e
    using assms(1) by (auto simp: holding_def evolves_def same_lifs_def set_csm_def)
  show ?thesis
    by (rule returns_bind [OF assms(4)]) (auto simp: returns_Some u)
qed

lemma queue_holding:
  assumes K: "holding c K s" "MLACP_update (put q) K = K" "list_all ok q"
    and add: "\<And>x k buf t. add x k buf t = (do { csm \<leftarrow> csm_heap t c;
        (len, buf, env) \<leftarrow> prep x k (MLACP_update pop csm) CSM_BUFFER_SIZE buf (s_env t);
        Some (len, buf, (set_csm c (MLACP_update pop csm) t)\<lparr>s_env := env\<rparr>) })"
    and prep: "\<And>x k csm buf env. ok x \<Longrightarrow> length buf = CSM_BUFFER_SIZE \<Longrightarrow> prepared CSM_BUFFER_SIZE (prep x k csm CSM_BUFFER_SIZE buf env)"
    and pop: "\<And>M. pop (iccp_counters_update (\<lambda>_. []) M) = iccp_counters_update (\<lambda>_. []) (pop M)"
      "\<And>M. mlacp_lif_list (pop M) = mlacp_lif_list M" "\<And>M. system_id (pop M) = system_id M"
      "\<And>M. neigh_typed M \<Longrightarrow> neigh_typed (pop M)" "\<And>x q M. pop (put (x # q) M) = put q M"
  shows "returns (stands c (MLACP_update (put []) K) s) (send_queue c full add q s)"
proof -
  let ?P = "\<lambda>q t. stands c (MLACP_update (put q) K) s t \<and> list_all ok q"
  have "returns (?P []) (send_queue c full add q s)"
  proof (rule send_queue_returns)
    fix x q t k and buf :: bytes assume P: "?P (x # q) t" and buf: "length buf = CSM_BUFFER_SIZE"
    obtain csm where t: "csm_heap t c = Some csm" using P by (auto elim: holdingE)
    have "returns (\<lambda>(len, buf, u). stands c (MLACP_update (put q) K) s u \<and> length buf = CSM_BUFFER_SIZE \<and> nat len \<le> CSM_BUFFER_SIZE)
      (add x k buf t)"
      unfolding add t Option.bind.simps
      by (rule add_entry_holding [where prep = "prep x k" and f = "put (x # q)" and K = K and g = pop, OF _ t buf]) (use P buf prep pop in auto)
    then show "returns (\<lambda>(len, buf, u). ?P q u \<and> length buf = CSM_BUFFER_SIZE \<and> nat len \<le> CSM_BUFFER_SIZE) (add x k buf t)"
      by (rule returns_mono) (use P in auto)
  next
    show "returns (\<lambda>(rc, u). ?P q u) (send_buf c buf n t)" if "?P q t" "length buf = CSM_BUFFER_SIZE" "nat n \<le> CSM_BUFFER_SIZE" for q t buf n
      by (rule returns_mono [OF send_buf_holding]) (use that in auto)
  qed (use K in \<open>simp add: same_lifs_def\<close>)
  then show ?thesis by (rule returns_mono) simp
qed

lemma neigh_queues_holding:
  assumes "holding c K s"
  shows "returns (stands c (MLACP_update (arp_msg_list_update (\<lambda>_. [])) K) s) (mlacp_sync_send_syncArpInfo c s)"
    "returns (stands c (MLACP_update (ndisc_msg_list_update (\<lambda>_. [])) K) s) (mlacp_sync_send_syncNdiscInfo c s)"
proof -
  obtain csm where h: "typed s" "csm_heap s c = Some csm" "csm_rest csm = csm_rest K" by (rule holdingE [OF assms])
  have q: "arp_msg_list (MLACP csm) = arp_msg_list (MLACP K)" "ndisc_msg_list (MLACP csm) = ndisc_msg_list (MLACP K)"
    using csm_rest_fields [OF h(3)] by simp_all
  have ok: "list_all arp_entry_ok (arp_msg_list (MLACP K))" "list_all ndisc_entry_ok (ndisc_msg_list (MLACP K))"
    using typedD(2) [OF h(1,2)] q by (simp_all add: csm_typed_def neigh_typed_def)
  have tl: "list_all P ms \<Longrightarrow> list_all P (tl ms)" for P and ms :: "'z list" by (cases ms) auto
  show "returns (stands c (MLACP_update (arp_msg_list_update (\<lambda>_. [])) K) s) (mlacp_sync_send_syncArpInfo c s)"
    unfolding mlacp_sync_send_syncArpInfo_def h(2) Option.bind.simps q
    by (rule queue_holding [where put = "\<lambda>q. arp_msg_list_update (\<lambda>_. q)" and pop = "arp_msg_list_update tl" and ok = arp_entry_ok and
          prep = "\<lambda>x k csm n buf. mlacp_prepare_for_arp_info csm n buf x k", OF assms _ ok(1)])
      (simp_all add: MLACP_update_def add_arp_def Let_def prepare_entries_return neigh_typed_def tl)
  show "returns (stands c (MLACP_update (ndisc_msg_list_update (\<lambda>_. [])) K) s) (mlacp_sync_send_syncNdiscInfo c s)"
    unfolding mlacp_sync_send_syncNdiscInfo_def h(2) Option.bind.simps q
    by (rule queue_holding [where put = "\<lambda>q. ndisc_msg_list_update (\<lambda>_. q)" and pop = "ndisc_msg_list_update tl" and ok = ndisc_entry_ok and
          prep = "\<lambda>x k csm n buf. mlacp_prepare_for_ndisc_info csm n buf x k", OF assms _ ok(2)])
      (simp_all add: MLACP_update_def add_ndisc_def Let_def prepare_entries_return neigh_typed_def tl)
qed

section \<open>Answering a request\<close>

abbreviation with_sync_state :: "MLACP_SYNC_STATE \<Rightarrow> CSM \<Rightarrow> CSM" where
  "with_sync_state st \<equiv> MLACP_update (sync_state_update (\<lambda>_. st))"

lemma sender_handler_holding:
  assumes "holding c K s" "sync_state (MLACP K) = st"
  shows "st = MLACP_SYNC_SYSCONF \<or> st = MLACP_SYNC_AGGCONF \<or> st = MLACP_SYNC_AGGSTATE \<or> st = MLACP_SYNC_AGGINFO \<or> st = MLACP_SYNC_PEERLINKINFO \<Longrightarrow>
      returns (stands c K s) (mlacp_sync_sender_handler c s)"
    "st = MLACP_SYNC_ARP_INFO \<Longrightarrow> returns (stands c (MLACP_update (arp_msg_list_update (\<lambda>_. [])) K) s) (mlacp_sync_sender_handler c s)"
    "st = MLACP_SYNC_NDISC_INFO \<Longrightarrow> returns (stands c (MLACP_update (ndisc_msg_list_update (\<lambda>_. [])) K) s) (mlacp_sync_sender_handler c s)"
    "st = MLACP_SYNC_DONE \<Longrightarrow> returns (stands c (MLACP_update (wait_for_sync_data_update (\<lambda>_. 0)) K) s) (mlacp_sync_sender_handler c s)"
proof -
  obtain csm where h: "csm_heap s c = Some csm" "csm_rest csm = csm_rest K" by (rule holdingE [OF assms(1)])
  have st: "sync_state (MLACP csm) = st" using rest_mlacp_fields(2) [OF h(2)] assms(2) by simp
  note open_handler = mlacp_sync_sender_handler_def h(1) st
  show "returns (stands c K s) (mlacp_sync_sender_handler c s)" if "st = MLACP_SYNC_SYSCONF \<or> st = MLACP_SYNC_AGGCONF \<or>
    st = MLACP_SYNC_AGGSTATE \<or> st = MLACP_SYNC_AGGINFO \<or> st = MLACP_SYNC_PEERLINKINFO"
    using that senders_holding [OF assms(1)] by (auto simp: open_handler)
  show "st = MLACP_SYNC_ARP_INFO \<Longrightarrow> returns (stands c (MLACP_update (arp_msg_list_update (\<lambda>_. [])) K) s) (mlacp_sync_sender_handler c s)"
    "st = MLACP_SYNC_NDISC_INFO \<Longrightarrow> returns (stands c (MLACP_update (ndisc_msg_list_update (\<lambda>_. [])) K) s) (mlacp_sync_sender_handler c s)"
    using neigh_queues_holding [OF assms(1)] by (simp_all add: open_handler)
  have "returns (stands c (MLACP_update (wait_for_sync_data_update (\<lambda>_. 0)) K) s) (mlacp_sync_send_syncDoneData c s)"
    unfolding mlacp_sync_send_syncDoneData_def
  proof (rule returns_bind)
    show "returns (stands c (MLACP_update (wait_for_sync_data_update (\<lambda>_. 0)) K) s) (on_csm c (MLACP_update (wait_for_sync_data_update (\<lambda>_. 0))) s)"
      using holding_update [OF assms(1), of "wait_for_sync_data_update (\<lambda>_. 0)"] h(1)
      by (simp add: on_csm_def returns_def same_lifs_def set_csm_def neigh_typed_def)
    fix t assume t: "stands c (MLACP_update (wait_for_sync_data_update (\<lambda>_. 0)) K) s t"
    show "returns (stands c (MLACP_update (wait_for_sync_data_update (\<lambda>_. 0)) K) s) (post_msg c (\<lambda>csm n buf. mlacp_prepare_for_sync_data_tlv csm n buf 1) t)"
      by (rule returns_mono [OF post_holding]) (use t in \<open>auto simp: prepares_return elim: same_lifs_trans\<close>)
  qed
  then show "st = MLACP_SYNC_DONE \<Longrightarrow> returns (stands c (MLACP_update (wait_for_sync_data_update (\<lambda>_. 0)) K) s) (mlacp_sync_sender_handler c s)"
    by (simp add: open_handler)
qed

text \<open>The session after a field was assigned.\<close>

lemma set_holding:
  assumes "holding c K s" "\<And>M. f (iccp_counters_update (\<lambda>_. []) M) = iccp_counters_update (\<lambda>_. []) (f M)"
    "\<And>M. mlacp_lif_list (f M) = mlacp_lif_list M" "\<And>M. system_id (f M) = system_id M" "\<And>M. neigh_typed (f M) = neigh_typed M"
  shows "returns (stands c (MLACP_update f K) s) (on_csm c (MLACP_update f) s)"
proof -
  obtain csm where h: "csm_heap s c = Some csm" by (rule holdingE [OF assms(1)])
  show ?thesis using holding_update [of c K s f, OF assms(1-4)] assms(5) h by (auto simp: on_csm_def returns_def same_lifs_def set_csm_def)
qed

lemma send_all_step:
  assumes "returns (stands c K' s) (mlacp_sync_sender_handler c s)" "sync_state_succ (sync_state (MLACP K')) = Some st"
    "\<And>t. stands c (with_sync_state st K') s t \<Longrightarrow> returns P (send_all_loop c t)"
  shows "returns P (send_all_loop c s)"
proof -
  have "returns P (do { csm \<leftarrow> csm_heap t c;
      if sync_state (MLACP csm) \<noteq> MLACP_SYNC_DONE then do {
        st \<leftarrow> sync_state_succ (sync_state (MLACP csm));
        s \<leftarrow> on_csm c (MLACP_update (sync_state_update (\<lambda>_. st))) t;
        send_all_loop c s }
      else do { s \<leftarrow> on_csm c (MLACP_update (wait_for_sync_data_update (\<lambda>_. 0))) t; next_stage c s } })" if t: "stands c K' s t" for t
  proof -
    obtain csm where h: "csm_heap t c = Some csm" "csm_rest csm = csm_rest K'" using t by (auto elim: holdingE)
    have "sync_state (MLACP csm) = sync_state (MLACP K')" using rest_mlacp_fields(2) [OF h(2)] .
    moreover have "sync_state (MLACP K') \<noteq> MLACP_SYNC_DONE" using assms(2) by auto
    moreover have "returns P (do { s \<leftarrow> on_csm c (with_sync_state st) t; send_all_loop c s })"
    proof (rule returns_bind [OF set_holding])
      fix u assume "stands c (with_sync_state st K') t u"
      then show "returns P (send_all_loop c u)" using t by (intro assms(3)) (auto elim: same_lifs_trans)
    qed (use t in \<open>auto simp: neigh_typed_def\<close>)
    ultimately show ?thesis using h(1) assms(2) by simp
  qed
  from returns_bind [OF assms(1) this] show ?thesis by (subst send_all_loop.simps) simp
qed

text \<open>The session that has answered a request and goes on to the next stage.\<close>

definition answered_session :: "MLACP_APP_STATE \<Rightarrow> CSM \<Rightarrow> CSM" where
  "answered_session st = MLACP_update (\<lambda>M. M\<lparr>arp_msg_list := [], ndisc_msg_list := [], sync_state := MLACP_SYNC_DONE,
     wait_for_sync_data := 0, mlacp_current_state := st\<rparr>)"

lemma update_twice: "MLACP_update f (MLACP_update g K) = MLACP_update (\<lambda>M. f (g M)) K"
  by (simp add: MLACP_update_def comp_def)

lemma send_all_last:
  assumes "holding c K s" "sync_state (MLACP K) = MLACP_SYNC_DONE" "app_state_succ (mlacp_current_state (MLACP K)) = Some st"
  shows "returns (stands c (MLACP_update (\<lambda>M. M\<lparr>wait_for_sync_data := 0, mlacp_current_state := st\<rparr>) K) s) (send_all_loop c s)"
proof -
  let ?W = "MLACP_update (wait_for_sync_data_update (\<lambda>_. 0)) K"
  let ?E = "MLACP_update (\<lambda>M. M\<lparr>wait_for_sync_data := 0, mlacp_current_state := st\<rparr>) K"
  have "returns (stands c ?E s) (do { csm \<leftarrow> csm_heap t c;
      if sync_state (MLACP csm) \<noteq> MLACP_SYNC_DONE then do {
        st \<leftarrow> sync_state_succ (sync_state (MLACP csm));
        s \<leftarrow> on_csm c (MLACP_update (sync_state_update (\<lambda>_. st))) t;
        send_all_loop c s }
      else do { s \<leftarrow> on_csm c (MLACP_update (wait_for_sync_data_update (\<lambda>_. 0))) t; next_stage c s } })" if t: "stands c ?W s t" for t
  proof -
    obtain csm where h: "csm_heap t c = Some csm" "csm_rest csm = csm_rest ?W" using t by (auto elim: holdingE)
    have "sync_state (MLACP csm) = MLACP_SYNC_DONE" using rest_mlacp_fields(2) [OF h(2)] assms(2) by (simp add: MLACP_update_def)
    moreover have "returns (stands c ?E s) (do { s \<leftarrow> on_csm c (MLACP_update (wait_for_sync_data_update (\<lambda>_. 0))) t; next_stage c s })"
    proof (rule returns_bind [OF set_holding])
      fix u assume u: "stands c (MLACP_update (wait_for_sync_data_update (\<lambda>_. 0)) ?W) t u"
      then obtain k where k: "csm_heap u c = Some k" "csm_rest k = csm_rest (MLACP_update (wait_for_sync_data_update (\<lambda>_. 0)) ?W)"
        by (auto elim: holdingE)
      have "mlacp_current_state (MLACP k) = mlacp_current_state (MLACP K)" using rest_mlacp_fields(1) [OF k(2)] by (simp add: MLACP_update_def)
      moreover have "returns (stands c ?E u) (on_csm c (MLACP_update (mlacp_current_state_update (\<lambda>_. st))) u)"
        using set_holding [OF conjunct1 [OF u], of "mlacp_current_state_update (\<lambda>_. st)"] by (simp add: update_twice neigh_typed_def)
      ultimately have "returns (stands c ?E u) (next_stage c u)" using k(1) assms(3) by (simp add: next_stage_def)
      then show "returns (stands c ?E s) (next_stage c u)" by (rule returns_mono) (use t u in \<open>auto elim: same_lifs_trans\<close>)
    qed (use t in \<open>auto simp: neigh_typed_def\<close>)
    ultimately show ?thesis using h(1) by simp
  qed
  from returns_bind [OF sender_handler_holding(4) [OF assms(1,2) refl] this] show ?thesis by (subst send_all_loop.simps) simp
qed

lemma send_all_holding:
  assumes "holding c K s" "app_state_succ (mlacp_current_state (MLACP K)) = Some st"
  shows "returns (holding c (answered_session st K)) (mlacp_sync_send_all_info_handler c s)"
proof -
  let ?P = "holding c (answered_session st K)"
  let ?N = "with_sync_state MLACP_SYNC_DONE (MLACP_update (ndisc_msg_list_update (\<lambda>_. []))
      (with_sync_state MLACP_SYNC_NDISC_INFO (MLACP_update (arp_msg_list_update (\<lambda>_. [])) (with_sync_state MLACP_SYNC_ARP_INFO K))))"
  have N: "MLACP_update (\<lambda>M. M\<lparr>wait_for_sync_data := 0, mlacp_current_state := st\<rparr>) ?N = answered_session st K"
    unfolding update_twice answered_session_def by simp
  have "sync_state (MLACP ?N) = MLACP_SYNC_DONE" "app_state_succ (mlacp_current_state (MLACP ?N)) = Some st"
    using assms(2) by (simp_all add: MLACP_update_def)
  note last = send_all_last [of c ?N, OF _ this, unfolded N]
  have L7: "returns ?P (send_all_loop c t)" if "stands c ?N u t" for t u
    using last [OF conjunct1 [OF that]] by (rule returns_mono) simp
  have L6: "returns ?P (send_all_loop c t)" if "stands c (with_sync_state MLACP_SYNC_NDISC_INFO (MLACP_update (arp_msg_list_update (\<lambda>_. []))
      (with_sync_state MLACP_SYNC_ARP_INFO K))) u t" for t u
    by (rule send_all_step [OF sender_handler_holding(3) [OF conjunct1 [OF that]] _ L7]) (auto simp: MLACP_update_def)
  have L5: "returns ?P (send_all_loop c t)" if "stands c (with_sync_state MLACP_SYNC_ARP_INFO K) u t" for t u
    by (rule send_all_step [OF sender_handler_holding(2) [OF conjunct1 [OF that]] _ L6]) (auto simp: MLACP_update_def)
  have again: "stands c (with_sync_state st' (with_sync_state st'' K)) u t = stands c (with_sync_state st' K) u t" for st' st'' u t
    by (simp add: update_twice)
  have onward: "returns ?P (send_all_loop c t)"
    if "stands c (with_sync_state st' K) u t" "sync_state_succ st' = Some st''"
      "st' = MLACP_SYNC_SYSCONF \<or> st' = MLACP_SYNC_AGGCONF \<or> st' = MLACP_SYNC_AGGSTATE \<or> st' = MLACP_SYNC_AGGINFO \<or> st' = MLACP_SYNC_PEERLINKINFO"
      "\<And>t u. stands c (with_sync_state st'' K) u t \<Longrightarrow> returns ?P (send_all_loop c t)" for t u st' st''
  proof (rule send_all_step [OF sender_handler_holding(1) [OF conjunct1 [OF that(1)] refl]])
    show "sync_state_succ (sync_state (MLACP (with_sync_state st' K))) = Some st''" using that(2) by (simp add: MLACP_update_def)
    show "sync_state (MLACP (with_sync_state st' K)) = MLACP_SYNC_SYSCONF \<or> sync_state (MLACP (with_sync_state st' K)) = MLACP_SYNC_AGGCONF \<or>
      sync_state (MLACP (with_sync_state st' K)) = MLACP_SYNC_AGGSTATE \<or> sync_state (MLACP (with_sync_state st' K)) = MLACP_SYNC_AGGINFO \<or>
      sync_state (MLACP (with_sync_state st' K)) = MLACP_SYNC_PEERLINKINFO" using that(3) by (simp add: MLACP_update_def)
  qed (use that(4) again in blast)
  have L4: "returns ?P (send_all_loop c t)" if "stands c (with_sync_state MLACP_SYNC_PEERLINKINFO K) u t" for t u
    by (rule onward [OF that _ _ L5]) auto
  have L3: "returns ?P (send_all_loop c t)" if "stands c (with_sync_state MLACP_SYNC_AGGINFO K) u t" for t u
    by (rule onward [OF that _ _ L4]) auto
  have L2: "returns ?P (send_all_loop c t)" if "stands c (with_sync_state MLACP_SYNC_AGGSTATE K) u t" for t u
    by (rule onward [OF that _ _ L3]) auto
  have L1: "returns ?P (send_all_loop c t)" if "stands c (with_sync_state MLACP_SYNC_AGGCONF K) u t" for t u
    by (rule onward [OF that _ _ L2]) auto
  have L0: "returns ?P (send_all_loop c t)" if "stands c (with_sync_state MLACP_SYNC_SYSCONF K) u t" for t u
    by (rule onward [OF that _ _ L1]) auto
  show ?thesis
    unfolding mlacp_sync_send_all_info_handler_def
    by (intro returns_bind [OF post_holding [OF assms(1)]] returns_bind [OF set_holding] L0) (auto simp: prepares_return neigh_typed_def)
qed

lemma holding_self: "typed s \<Longrightarrow> csm_heap s c = Some csm \<Longrightarrow> holding c csm s"
  by (auto simp: holding_def)


text \<open>C17: A synchronisation request that arrives in the EXCHANGE state is answered as well, and the
  answer ends the session's work: the state is advanced once more, from EXCHANGE to ERROR.\<close>

theorem request_in_exchange_fatal:
  assumes "typed s" "csm_heap s c = Some csm" "mlacp_current_state (MLACP csm) = MLACP_STATE_EXCHANGE"
    "peek get_u16 sizeof_ICCHdr msg = Some w" "par_type w = TLV_T_MLACP_SYNC_REQUEST"
    "peek get_u16 (sizeof_ICCHdr + sizeof_ICCParameter) msg = Some r"
  shows "\<exists>t csm'. mlacp_sync_receiver_handler c (Some msg) s = Some t \<and> typed t \<and> csm_heap t c = Some csm' \<and>
    csm_rest csm' = csm_rest (answered_session MLACP_STATE_ERROR (MLACP_update (sync_req_num_update (\<lambda>_. uint (ntohs r))) csm))"
proof -
  let ?f = "sync_req_num_update (\<lambda>_. uint (ntohs r))"
  let ?E = "answered_session MLACP_STATE_ERROR (MLACP_update ?f csm)"
  have "app_state_succ (mlacp_current_state (MLACP (MLACP_update ?f csm))) = Some MLACP_STATE_ERROR" using assms(3) by (simp add: MLACP_update_def)
  note send = send_all_holding [OF _ this]
  have count: "returns (holding c ?E) (count_rx c msg ICCP_DBG_CNTR_STS_OK t)" if t: "holding c ?E t" for t
  proof -
    obtain k where k: "typed t" "csm_heap t c = Some k" "csm_rest k = csm_rest ?E" "live (csm_heap t) c" by (rule holdingE [OF t])
    let ?k = "MLACP_SET_ICCP_RX_DBG_COUNTER (par_type w) ICCP_DBG_CNTR_STS_OK k"
    have "returns (evolves t) (on_csm c (MLACP_SET_ICCP_RX_DBG_COUNTER (par_type w) ICCP_DBG_CNTR_STS_OK) t)"
      using count_evolves [OF k(1,4)] .
    then show ?thesis
      using k(2,3) csm_rest_unlogged [OF unlogged_rx] assms(4)
      by (auto simp: count_rx_def returns_def holding_def evolves_def on_csm_def set_csm_def)
  qed
  have "returns (holding c ?E) (mlacp_sync_recv_syncReq c msg s)"
    unfolding mlacp_sync_recv_syncReq_def assms(6) Option.bind.simps
    by (intro returns_bind [OF set_holding [OF holding_self [OF assms(1,2)]]] returns_bind [OF send] count) (auto simp: neigh_typed_def)
  then show ?thesis
    using assms(4,5) by (auto simp: mlacp_sync_receiver_handler_def returns_def elim!: holdingE)
qed

section \<open>The state no session leaves\<close>

lemma turn_in_error:
  assumes "csm_heap s c = Some csm" "mlacp_current_state (MLACP csm) = MLACP_STATE_ERROR"
  shows "mlacp_turn c msg s = Some (s\<lparr>mlacp_prev_state := MLACP_STATE_ERROR\<rparr>)"
  using assms by (simp add: mlacp_turn_def Let_def)


section \<open>Heartbeat\<close>

text \<open>C16: A heartbeat that is due is sent and noted, and the message keeps the session of the receiver
  alive: it is queued for the application, handling it records the present time, and until the
  timeout of the session has passed from then on the check of the heartbeat leaves the
  session and the system as they are.\<close>

theorem heartbeat_keeps_alive:
  assumes "csm_heap s a = Some csm" "can_send csm (s_env s)"
    "heartbeat_send_time csm = 0 \<or> clock s - heartbeat_send_time csm > keepalive_time csm"
    and "csm_heap r b = Some peer" "0 < clock r"
  shows "\<exists>t csm' m q r'. mlacp_sync_send_heartbeat a s = Some t \<and> csm_heap t a = Some csm' \<and> heartbeat_send_time csm' = clock s \<and>
    peer_out (s_env t) = peer_out (s_env s) @ [(sock_fd csm, m)] \<and> iccp_csm_enqueue_msg peer m = Some (mlacp_enqueue_msg peer q) \<and>
    mlacp_sync_receiver_handler b (Some q) r = Some r' \<and>
    (\<forall>k \<le> clock r + session_timeout peer. heartbeat_update b (r'\<lparr>clock := k\<rparr>) = Some (r'\<lparr>clock := k\<rparr>))"
proof -
  let ?tlv = "ICCParameter_image (icc_param TLV_T_MLACP_HEARTBEAT 1) @ [0xFF]"
  let ?q = "app_queued csm (s_env s) TLV_T_MLACP_HEARTBEAT 1 [0xFF]"
  have pre: "mlacp_prepare_for_heartbeat csm CSM_BUFFER_SIZE g_csm_buf (s_env s) =
      prepare_fixed_tlv csm ?tlv CSM_BUFFER_SIZE g_csm_buf (s_env s)" "4 \<le> length ?tlv" "16 + length ?tlv \<le> CSM_BUFFER_SIZE"
    by (simp_all add: mlacp_prepare_for_heartbeat_def mLACPHeartbeatTLV_image_def sizeof_mLACPHeartbeatTLV_def sizeof_defs)
  obtain k e where send: "post_msg a mlacp_prepare_for_heartbeat s = Some ((set_csm a k s)\<lparr>s_env := e\<rparr>)"
    "peer_out e = peer_out (s_env s) @ [(sock_fd csm, app_message csm (s_env s) ?tlv)]"
    by (rule post_fixed [where prep = mlacp_prepare_for_heartbeat, OF assms(1,2) pre])
  let ?k = "k\<lparr>heartbeat_send_time := clock s\<rparr>"
  let ?t = "set_csm a ?k ((set_csm a k s)\<lparr>s_env := e\<rparr>)"
  have sent: "mlacp_sync_send_heartbeat a s = Some ?t"
    using assms(1,3) send(1) by (simp add: mlacp_sync_send_heartbeat_def on_csm_def set_csm_def)
  let ?p = "peer\<lparr>heartbeat_update_time := clock r\<rparr>"
  let ?p' = "MLACP_SET_ICCP_RX_DBG_COUNTER TLV_T_MLACP_HEARTBEAT ICCP_DBG_CNTR_STS_OK ?p"
  let ?r = "set_csm b ?p' (set_csm b ?p r)"
  have "mlacp_sync_receiver_handler b (Some ?q) r = Some ?r"
    using assms(4) by (simp add: mlacp_sync_receiver_handler_def app_queued_fields par_type_def mlacp_sync_recv_heartbeat_def
        mlacp_fsm_update_heartbeat_def count_rx_def on_csm_def set_csm_def)
  moreover have "heartbeat_update_time ?p' = clock r" "session_timeout ?p' = session_timeout peer"
    by (simp_all add: MLACP_SET_ICCP_RX_DBG_COUNTER_def Let_def MLACP_update_def)
  then have "\<forall>k \<le> clock r + session_timeout peer. heartbeat_update b (?r\<lparr>clock := k\<rparr>) = Some (?r\<lparr>clock := k\<rparr>)"
    using assms(5) by (simp add: heartbeat_update_def heartbeat_check_def set_csm_def)
  moreover have "iccp_csm_enqueue_msg peer (app_message csm (s_env s) ?tlv) = Some (mlacp_enqueue_msg peer ?q)"
    using app_enqueued [OF mlacp_tlvs(11), of peer csm "s_env s" 1 "[0xFF]"] .
  ultimately show ?thesis
    using sent send(2)
    by (intro exI [of _ ?t] exI [of _ ?k] exI [of _ "app_message csm (s_env s) ?tlv"] exI [of _ ?q] exI [of _ ?r]) (simp add: set_csm_def)
qed

end
