(* ===== verification/Sync_Witnesses.thy ===== *)
theory Sync_Witnesses
  imports Witnesses Sync_Stages
begin

unbundle bit_operations_syntax

text \<open>
  Concrete inputs at which the hypotheses of the properties of the synchronisation hold,
  and the properties applied there.
\<close>

section \<open>Queues\<close>

text \<open>A session with one MAC entry that waits to be sent.\<close>

definition queue_csm :: CSM where
  "queue_csm = MLACP_update (mac_msg_list_update (\<lambda>_. [0])) (table_csm ''PortChannel9'' 0)"

definition queue_sys :: System where
  "queue_sys = (table_sys ''PortChannel9'' 0)\<lparr>csm_heap := [0 \<mapsto> queue_csm]\<rparr>"

lemma queue_sys_facts [simp]:
  "csm_heap queue_sys 0 = Some queue_csm" "mac_msg_list (MLACP queue_csm) = [0]"
  "mac_heap (MLACP queue_csm) = [0 \<mapsto> demo_mac MAC_SYNC_ADD 0]" "s_env queue_sys = Env_start" "sock_fd queue_csm = 7"
  by (simp_all add: queue_sys_def queue_csm_def table_sys_def system_init_def table_csm_def demo_csm_def MLACP_update_def)

lemma queue_csm_inv: "mac_inv (MLACP queue_csm)"
  using table_sys_ready [of "''PortChannel9''" 0] by (simp add: mac_ready_def mac_inv_def mac_key_def [abs_def] queue_csm_def live_def rb_sorted_def)

lemma queue_csm_sends: "can_send queue_csm Env_start"
  by (simp add: can_send_def Env_start_def queue_csm_def table_csm_def demo_csm_def MLACP_update_def CSM_zero_def MsgLog_ok_def MsgLog_zero_def)

lemma demo_mac_ok: "mac_entry_ok (demo_mac op age)"
  by (simp add: mac_entry_ok_def demo_mac_def, code_simp)

theorem mac_queue_delivered_witness:
  "\<exists>t out. mlacp_sync_send_syncMacInfo 0 queue_sys = Some t \<and> peer_out (s_env t) = peer_out Env_start @ out \<and> out \<noteq> []"
  using mac_queue_delivered [of queue_sys 0 queue_csm] by (auto simp: queue_csm_inv queue_csm_sends demo_mac_ok dest: delivered_empty_iff)

definition demo_arp :: ARPMsg where
  "demo_arp = \<lparr>arp_op_type = NEIGH_SYNC_ADD, arp_flag = 0, arp_learn_flag = NEIGH_LOCAL, arp_ifname = char_arr 20 ''Vlan10'', arp_pad = 0,
     arp_ipv4_addr = 0x0100000A, arp_mac_addr = [0, 1, 2, 3, 4, 5], arp_tail_pad = 0\<rparr>"

definition demo_nd :: NDISCMsg where
  "demo_nd = \<lparr>nd_op_type = NEIGH_SYNC_DEL, nd_flag = 0, nd_learn_flag = NEIGH_LOCAL, nd_ifname = char_arr 20 ''Vlan10'', nd_pad = 0,
     nd_ipv6_addr = replicate 16 1, nd_mac_addr = [0, 1, 2, 3, 4, 5], nd_tail_pad = 0\<rparr>"

definition neigh_csm :: CSM where
  "neigh_csm = MLACP_update (\<lambda>M. M\<lparr>arp_msg_list := [demo_arp], ndisc_msg_list := [demo_nd]\<rparr>) demo_csm"

definition neigh_sys :: System where
  "neigh_sys = (system_init 3 Env_start 200)\<lparr>csm_list := [0], csm_heap := [0 \<mapsto> neigh_csm]\<rparr>"

lemma neigh_sys_facts [simp]:
  "csm_heap neigh_sys 0 = Some neigh_csm" "arp_msg_list (MLACP neigh_csm) = [demo_arp]"
  "ndisc_msg_list (MLACP neigh_csm) = [demo_nd]" "s_env neigh_sys = Env_start"
  by (simp_all add: neigh_sys_def neigh_csm_def system_init_def MLACP_update_def)

lemma demo_name_ok: "neigh_name_ok (char_arr 20 ''Vlan10'')"
  unfolding neigh_name_ok_def by (intro exI [of _ "''Vlan10''"] conjI) (simp_all, code_simp)

lemma demo_neigh_ok: "arp_entry_ok demo_arp" "ndisc_entry_ok demo_nd"
  using demo_name_ok by (simp_all add: arp_entry_ok_def ndisc_entry_ok_def demo_arp_def demo_nd_def)

lemma neigh_csm_sends: "can_send neigh_csm Env_start"
  by (simp add: can_send_def Env_start_def neigh_csm_def demo_csm_def MLACP_update_def CSM_zero_def MsgLog_ok_def MsgLog_zero_def)

theorem neigh_queues_delivered_witness:
  "(\<exists>t out. mlacp_sync_send_syncArpInfo 0 neigh_sys = Some t \<and> peer_out (s_env t) = peer_out Env_start @ out \<and> out \<noteq> []) \<and>
   (\<exists>t out. mlacp_sync_send_syncNdiscInfo 0 neigh_sys = Some t \<and> peer_out (s_env t) = peer_out Env_start @ out \<and> out \<noteq> [])"
  using neigh_queues_delivered [of neigh_sys 0 neigh_csm] by (auto simp: neigh_csm_sends demo_neigh_ok dest: delivered_empty_iff)

section \<open>Neighbours\<close>

lemma neigh_sys_typed: "typed neigh_sys"
proof -
  have "wf neigh_sys"
    by (simp add: wf_def neigh_sys_def system_init_def live_def wf_csm_def live_opt_def neigh_csm_def demo_csm_def
        CSM_zero_def AppCSM_zero_def mLACP_zero_def MLACP_update_def)
  moreover have "csm_typed neigh_csm"
    using demo_neigh_ok
    by (simp add: csm_typed_def neigh_typed_def name_ok_def neigh_csm_def demo_csm_def CSM_zero_def AppCSM_zero_def mLACP_zero_def
        MLACP_update_def MsgLog_ok_def MsgLog_zero_def c_string_def)
  ultimately show ?thesis by (simp add: typed_def neigh_sys_def system_init_def)
qed

lemma demo_arp_name: "cstr_at (arp_ifname demo_arp) = Some ''Vlan10''" "ARPMsg_fits demo_arp" "0 \<in> set (arp_ifname demo_arp)"
  unfolding demo_arp_def ARPMsg_fits_def by (simp, code_simp)+

lemma neigh_sys_verdict: "neigh_verdict_of mine_peer mine ''Vlan10'' neigh_csm neigh_sys = Some Remember"
  by (simp add: neigh_verdict_of_def neigh_on_peer_link_def local_if_find_by_name_def neigh_sys_def system_init_def neigh_csm_def demo_csm_def
      CSM_zero_def AppCSM_zero_def mLACP_zero_def MLACP_update_def)


text \<open>A message with the entry above, as it is queued: the header, the TLV and its entry.\<close>

definition arp_info_msg :: bytes where
  "arp_info_msg = replicate 16 0 @ le16 TLV_T_MLACP_ARP_INFO @ le16 (htons 38) @ le16 (htons 1) @ ARPMsg_image demo_arp"

lemma arp_info_msg_names: "arp_names_end (drop sizeof_ICCHdr arp_info_msg)"
proof -
  let ?pre = "le16 TLV_T_MLACP_ARP_INFO @ le16 (htons 38) @ le16 (htons 1)"
  have "drop sizeof_ICCHdr arp_info_msg = ?pre @ ARPMsg_image demo_arp" by (simp add: arp_info_msg_def sizeof_ICCHdr_def)
  moreover have "peek ARPMsg_overlay (6 + 36 * i) (?pre @ ARPMsg_image demo_arp) = (if i = 0 then Some demo_arp else None)" for i
    using arpmsg.peek_image [OF demo_arp_name(2), of ?pre 6 "[]"] arpmsg.peek_overlay_None_iff [of "6 + 36 * i" "?pre @ ARPMsg_image demo_arp"]
      arpmsg.image_length [OF demo_arp_name(2)] by (simp add: sizeof_ARPMsg_def)
  ultimately show ?thesis using demo_arp_name(3) by (simp add: arp_names_end_def)
qed

theorem neigh_message_safe_witness:
  "\<exists>t. mlacp_sync_receiver_handler 0 (Some arp_info_msg) neigh_sys = Some t \<and> typed t"
proof -
  have "peek get_u16 sizeof_ICCHdr arp_info_msg = Some TLV_T_MLACP_ARP_INFO"
    by (simp add: arp_info_msg_def sizeof_ICCHdr_def access)
  moreover have "par_type TLV_T_MLACP_ARP_INFO = TLV_T_MLACP_ARP_INFO" by code_simp
  ultimately show ?thesis
    using neigh_message_safe [OF neigh_sys_typed, of 0 arp_info_msg TLV_T_MLACP_ARP_INFO] arp_info_msg_names by (auto simp: live_def)
qed

section \<open>Configuration of the peer\<close>

definition demo_po :: LocalInterface where
  "demo_po = \<lparr>lif_ifindex = 12, lif_type = IF_T_PORT_CHANNEL, lif_name = ''PortChannel1'', lif_mac_addr = replicate 6 0, lif_mac_addr_ori = replicate 6 0,
     lif_state = PORT_STATE_UP, lif_ipv4_addr = 0, lif_prefixlen = 0, lif_ipv6_addr = replicate 4 0, lif_prefixlen_v6 = 0,
     lif_ipv6_ll_addr = replicate 4 0, lif_ll_prefixlen_v6 = 0, lif_l3_mode = 0, lif_l3_mac_addr = replicate 6 0, lif_is_peer_link = 0,
     lif_portchannel_member_buf = [], lif_is_arp_accept = 0, lif_po_id = 1, lif_po_active = 1, lif_mlacp_state = MLACP_STATE_INIT,
     lif_isolate_to_peer_link = 0, lif_po_down_time = 0, lif_csm = None, lif_changed = 0, lif_port_config_sync = 0,
     lif_is_traffic_disable = False, lif_is_l3_proto_enabled = False, lif_vlan_count = 2, lif_master_ifindex = 0,
     lif_vlan_tree = [\<lparr>vid = 10, vlan_removed = 0, vlan_itf = None\<rparr>, \<lparr>vid = 20, vlan_removed = 0, vlan_itf = None\<rparr>]\<rparr>"

text \<open>The peer knows the port channel with other VLANs.\<close>

definition peer_csm :: CSM where
  "peer_csm = MLACP_update (\<lambda>M. M\<lparr>pif_list := [PeerInterface_zero\<lparr>pif_type := IF_T_PORT_CHANNEL, pif_name := ''PortChannel1'', pif_po_id := 1,
     pif_vlan_tree := [\<lparr>vid = 5, vlan_removed = 0, vlan_itf = None\<rparr>, \<lparr>vid = 20, vlan_removed = 0, vlan_itf = None\<rparr>]\<rparr>]\<rparr>) demo_csm"

definition peer_sys :: System where
  "peer_sys = (system_init 3 Env_start 200)\<lparr>csm_list := [0], csm_heap := [0 \<mapsto> peer_csm], clock := 100\<rparr>"

lemma peer_sys_facts [simp]: "csm_heap peer_sys 0 = Some peer_csm" "clock peer_sys = 100"
  by (simp_all add: peer_sys_def)

lemma peer_sys_wf: "wf peer_sys"
  by (simp add: wf_def peer_sys_def system_init_def live_def wf_csm_def live_opt_def peer_csm_def demo_csm_def
      CSM_zero_def AppCSM_zero_def mLACP_zero_def MLACP_update_def)

lemma demo_po_name: "name_ok (lif_name demo_po)"
  unfolding name_ok_def demo_po_def by (simp, code_simp)

theorem port_channel_vlans_mirrored_witness:
  "\<exists>t q r' peer' pif. post_msg 0 (\<lambda>csm n buf. mlacp_prepare_for_port_channel_info csm n buf (Some demo_po)) neigh_sys = Some t \<and>
    mlacp_sync_receiver_handler 0 (Some q) peer_sys = Some r' \<and> csm_heap r' 0 = Some peer' \<and> pif_list (MLACP peer') = [pif] \<and>
    map vid (pif_vlan_tree pif) = [10, 20]"
proof -
  have po: "lif_type demo_po = IF_T_PORT_CHANNEL" "0 \<le> lif_po_id demo_po \<and> lif_po_id demo_po < 65536" "length (lif_vlan_tree demo_po) \<le> 4096"
    "rb_sorted vid (lif_vlan_tree demo_po)" "map vid (lif_vlan_tree demo_po) = [10, 20]"
    by (simp_all add: demo_po_def rb_sorted_def)
  have "find_pos (\<lambda>p. pif_type p = IF_T_PORT_CHANNEL \<and> pif_po_id p = lif_po_id demo_po) (pif_list (MLACP peer_csm)) = Some 0"
    "rb_sorted vid (pif_vlan_tree (pif_list (MLACP peer_csm) ! 0))" "length (pif_list (MLACP peer_csm)) = 1"
    by (simp_all add: peer_csm_def MLACP_update_def demo_po_def rb_sorted_def)
  note pos = this(1,2) and one = this(3)
  have upd: "(pif_list (MLACP peer_csm))[0 := pif] = [pif]" for pif using one by (cases "pif_list (MLACP peer_csm)") auto
  have send: "can_send neigh_csm (s_env neigh_sys)" using neigh_csm_sends by simp
  show ?thesis
    using port_channel_vlans_mirrored [OF neigh_sys_facts(1) send po(1) demo_po_name po(2-4) peer_sys_wf peer_sys_facts(1) pos, unfolded upd po(5)]
    by (elim exE conjE) (intro exI conjI; assumption)
qed

theorem system_config_learned_witness:
  "\<exists>t q r' peer'. mlacp_sync_send_sysConf 0 neigh_sys = Some t \<and> mlacp_sync_receiver_handler 0 (Some q) peer_sys = Some r' \<and>
    csm_heap r' 0 = Some peer' \<and> node_id (MLACP peer') \<noteq> node_id (MLACP neigh_csm)"
proof -
  have "length (system_id (MLACP neigh_csm)) = 6"
    by (simp add: neigh_csm_def demo_csm_def CSM_zero_def AppCSM_zero_def mLACP_zero_def MLACP_update_def)
  then show ?thesis
    using system_config_learned [OF neigh_sys_facts(1) _ _ peer_sys_wf peer_sys_facts(1)] neigh_csm_sends by auto
qed

text \<open>A configuration with the claim of a name of 200 bytes.\<close>

definition long_name_config :: mLACPAggConfigTLV where
  "long_name_config = \<lparr>ac_icc_parameter = \<lparr>ip_type = ucast TLV_T_MLACP_AGGREGATOR_CONFIG, ip_f_bit = 0, ip_u_bit = 0, ip_len = 0\<rparr>,
     ac_ro_id = replicate 8 0, ac_agg_id = 1, ac_mac_addr = replicate 6 0, ac_actor_key = 0, ac_member_ports_priority = 0, ac_flags = 1,
     ac_agg_name_len = 200, ac_agg_name = char_arr 20 ''PortChannel7''\<rparr>"

definition long_name_msg :: bytes where
  "long_name_msg = replicate 16 0 @ mLACPAggConfigTLV_image long_name_config"

theorem agg_config_faults_witness: "mlacp_sync_receiver_handler 0 (Some long_name_msg) peer_sys = None"
proof (rule agg_config_faults [OF peer_sys_facts(1)])
  show "peek get_u16 sizeof_ICCHdr long_name_msg = Some TLV_T_MLACP_AGGREGATOR_CONFIG"
    "par_type TLV_T_MLACP_AGGREGATOR_CONFIG = TLV_T_MLACP_AGGREGATOR_CONFIG" by code_simp+
  have "mLACPAggConfigTLV_fits long_name_config" by (simp add: long_name_config_def mLACPAggConfigTLV_fits_def)
  from aggconfig.peek_image [OF this, of "replicate 16 0" 16 "[]"]
  show "peek mLACPAggConfigTLV_overlay sizeof_ICCHdr long_name_msg = Some long_name_config"
    by (simp add: long_name_msg_def sizeof_ICCHdr_def)
  show "cstr_at (ac_agg_name long_name_config) = Some ''PortChannel7''" unfolding long_name_config_def by (simp, code_simp)
qed (simp_all add: long_name_config_def)

section \<open>Stages\<close>

definition stage_csm :: "MLACP_APP_STATE \<Rightarrow> CSM" where
  "stage_csm st = MLACP_update (\<lambda>M. M\<lparr>mlacp_current_state := st, wait_for_sync_data := 0\<rparr>) (neigh_csm\<lparr>role_type := STP_ROLE_ACTIVE\<rparr>)"

definition stage_sys :: "MLACP_APP_STATE \<Rightarrow> System" where
  "stage_sys st = neigh_sys\<lparr>csm_heap := [0 \<mapsto> stage_csm st]\<rparr>"

lemma stage_sys_facts [simp]:
  "csm_heap (stage_sys st) 0 = Some (stage_csm st)" "mlacp_current_state (MLACP (stage_csm st)) = st" "role_type (stage_csm st) = STP_ROLE_ACTIVE"
  "wait_for_sync_data (MLACP (stage_csm st)) = 0"
  by (simp_all add: stage_sys_def stage_csm_def MLACP_update_def)

lemma stage_sys_typed: "typed (stage_sys st)"
proof -
  have "stage_sys st = (set_csm 0 (stage_csm st) neigh_sys)\<lparr>s_env := s_env neigh_sys\<rparr>"
    by (simp add: stage_sys_def set_csm_def neigh_sys_def system_init_def)
  moreover have "csm_typed (stage_csm st)"
    using typedD(2) [OF neigh_sys_typed neigh_sys_facts(1)] by (simp add: csm_typed_def neigh_typed_def stage_csm_def MLACP_update_def)
  ultimately show ?thesis
    using evolves_set [OF neigh_sys_typed neigh_sys_facts(1), of "stage_csm st" "s_env neigh_sys"]
    by (simp add: evolves_def stage_csm_def MLACP_update_def)
qed

text \<open>A request with the number 7, and a heartbeat, as they are queued.\<close>

definition request_msg :: bytes where
  "request_msg = app_queued CSM_zero Env_start TLV_T_MLACP_SYNC_REQUEST 8 (le16 (htons 7) @ replicate 6 0)"

definition heartbeat_msg :: bytes where
  "heartbeat_msg = app_queued CSM_zero Env_start TLV_T_MLACP_HEARTBEAT 1 [0xFF]"

lemma request_msg_facts:
  "msg_type_at request_msg = Some MSG_T_RG_APP_DATA" "peek get_u16 sizeof_ICCHdr request_msg = Some TLV_T_MLACP_SYNC_REQUEST"
  "par_type TLV_T_MLACP_SYNC_REQUEST = TLV_T_MLACP_SYNC_REQUEST" "peek get_u16 (sizeof_ICCHdr + sizeof_ICCParameter) request_msg = Some (htons 7)"
  by (simp_all add: request_msg_def app_queued_fields par_type_def sizeof_ICCParameter_def access)


theorem request_in_exchange_fatal_witness:
  "\<exists>t csm'. mlacp_sync_receiver_handler 0 (Some request_msg) (stage_sys MLACP_STATE_EXCHANGE) = Some t \<and> csm_heap t 0 = Some csm' \<and>
    mlacp_current_state (MLACP csm') = MLACP_STATE_ERROR"
proof -
  let ?K = "answered_session MLACP_STATE_ERROR (MLACP_update (sync_req_num_update (\<lambda>_. uint (ntohs (htons 7)))) (stage_csm MLACP_STATE_EXCHANGE))"
  obtain t csm' where r: "mlacp_sync_receiver_handler 0 (Some request_msg) (stage_sys MLACP_STATE_EXCHANGE) = Some t" "csm_heap t 0 = Some csm'"
    "csm_rest csm' = csm_rest ?K"
    using request_in_exchange_fatal [OF stage_sys_typed stage_sys_facts(1,2) request_msg_facts(2-4)] by auto
  have "mlacp_current_state (MLACP csm') = MLACP_STATE_ERROR"
    using rest_mlacp_fields(1) [OF r(3)] by (simp add: answered_session_def MLACP_update_def)
  with r show ?thesis by blast
qed


theorem heartbeat_keeps_alive_witness:
  "\<exists>t q r'. mlacp_sync_send_heartbeat 0 neigh_sys = Some t \<and> mlacp_sync_receiver_handler 0 (Some q) peer_sys = Some r' \<and>
    heartbeat_update 0 (r'\<lparr>clock := 115\<rparr>) = Some (r'\<lparr>clock := 115\<rparr>)"
proof -
  have "can_send neigh_csm (s_env neigh_sys)" "heartbeat_send_time neigh_csm = 0" "session_timeout peer_csm = 15"
    using neigh_csm_sends by (simp_all add: neigh_csm_def peer_csm_def demo_csm_def CSM_zero_def MLACP_update_def)
  with heartbeat_keeps_alive [OF neigh_sys_facts(1) _ _ peer_sys_facts(1)] show ?thesis by fastforce
qed

end
