(* ===== verification/Spec2Isabelle.thy ===== *)
theory Spec2Isabelle
  imports Sync_Witnesses
begin

text \<open>
  A verification library for \<^verbatim>\<open>iccpd\<close>, the MC-LAG control daemon of the repository
  (\<^verbatim>\<open>src/src/iccpd\<close>; paths below are relative to it).

  \<^bold>\<open>The program.\<close>  Two switches that form a multi-chassis LAG run one daemon each.  The
  daemons keep a TCP session (\<^verbatim>\<open>scheduler.c\<close>), negotiate it with the connection state
  machine of ICCP (\<^verbatim>\<open>iccp_csm.c\<close>, with the application state machine \<^verbatim>\<open>app_csm.c\<close> on top) and
  then keep their MAC, ARP, ND and port-channel tables synchronised with TLVs
  (\<^verbatim>\<open>mlacp_fsm.c\<close>, \<^verbatim>\<open>mlacp_sync_prepare.c\<close>, \<^verbatim>\<open>mlacp_sync_update.c\<close>).  What a daemon learns it
  tells the rest of its switch (\<^verbatim>\<open>mlacp_link_handler.c\<close>, \<^verbatim>\<open>iccp_netlink.c\<close>).

  \<^bold>\<open>Conventions.\<close>  Memory is a list of bytes, integers keep their width; the host is
  little-endian.  An access outside of an object or through a dangling pointer is a
  fault, the value \<open>None\<close> of an option; a theorem that an operation returns says that it is
  \<open>Some\<close>.  Heap objects (sessions, interfaces, MAC entries) live in maps from addresses, so
  that sharing and freed objects are visible.  Everything the operating system decides
  (results of \<^verbatim>\<open>send\<close>, \<^verbatim>\<open>recv\<close> and \<^verbatim>\<open>connect\<close>, the clock, the message counter) is read from
  the record \<open>Env\<close>, and what the daemon sends is appended to logs there; the theorems
  quantify over it.

  \<^bold>\<open>Theories and source files.\<close>
  \<^item> \<open>Prelude\<close>: bytes, byte order, bounded reads and writes, C strings, decimal notation.
  \<^item> \<open>Msg_Format\<close>, \<open>Mlacp_Tlv\<close>: \<^verbatim>\<open>include/msg_format.h\<close>, \<^verbatim>\<open>include/mlacp_tlv.h\<close>; one record per
    packed structure with its byte image, its overlay and the proof that they are inverse.
  \<^item> \<open>Rb_Table\<close>: the contract of the ordered trees as a locale, and sorted lists that fulfil it.
  \<^item> \<open>Rb_Pointer\<close>: \<^verbatim>\<open>openbsd_tree.c\<close>, the red-black trees with their pointers, rotations and colours.
  \<^item> \<open>Iccp_State\<close>, \<open>Iccp_System\<close>: the structures of \<^verbatim>\<open>port.h\<close>, \<^verbatim>\<open>mlacp_fsm.h\<close>, \<^verbatim>\<open>iccp_csm.h\<close>,
    \<^verbatim>\<open>system.h\<close>, and \<^verbatim>\<open>system.c\<close>.
  \<^item> \<open>Iccp_Prepare\<close>, \<open>Iccp_Csm\<close>: the control messages of \<^verbatim>\<open>iccp_csm.c\<close> and \<^verbatim>\<open>app_csm.c\<close>, their queues
    and their answers.
  \<^item> \<open>Sync_Prepare\<close>: \<^verbatim>\<open>mlacp_sync_prepare.c\<close>, every encoder of an application TLV.
  \<^item> \<open>Syncd_Out\<close>, \<open>Link_Handler\<close>: messages to \<^verbatim>\<open>mclagsyncd\<close>, port isolation, traffic distribution,
    interface MAC addresses (\<^verbatim>\<open>mlacp_link_handler.c\<close>, \<^verbatim>\<open>iccp_netlink.c\<close>).
  \<^item> \<open>Session\<close>: \<^verbatim>\<open>scheduler.c\<close> (connecting, accepting, reading, heartbeat, disconnect) and the
    transitions, the reset and the role of \<^verbatim>\<open>iccp_csm.c\<close>.
  \<^item> \<open>Mac_Table\<close>: the MAC table (\<^verbatim>\<open>mlacp_link_handler.c\<close>, \<^verbatim>\<open>mlacp_fsm.c\<close>, \<^verbatim>\<open>mlacp_sync_update.c\<close>).
  \<^item> \<open>Mlacp_Send\<close>: the senders of \<^verbatim>\<open>mlacp_fsm.c\<close>: the messages of the initial synchronisation and the
    queues of MAC, ARP and ND changes, which leave in batches.
  \<^item> \<open>Neigh\<close>, \<open>Po_State\<close>: neighbours, the state of port channels, the session coming up
    (\<^verbatim>\<open>mlacp_link_handler.c\<close>), the interfaces of the peer (\<^verbatim>\<open>port.c\<close>) and \<^verbatim>\<open>iccp_consistency_check.c\<close>.
  \<^item> \<open>Sync_Update\<close>: \<^verbatim>\<open>mlacp_sync_update.c\<close>, what the messages of the peer change.
  \<^item> \<open>Mlacp_Fsm\<close>: the receivers and the state machine of \<^verbatim>\<open>mlacp_fsm.c\<close>, up to \<^verbatim>\<open>mlacp_fsm_transit\<close>.

  \<^bold>\<open>Lemma groups.\<close>
  \<^item> \<open>Steady\<close>: a locale for operations that return and leave an abstraction of the state
    alone; interpreted for the base of the system, for the MAC table and for one entry.
  \<^item> \<open>Disconnect\<close>: taking a session down, for every outcome of the system calls.
  \<^item> \<open>Handshake\<close>, \<open>Connection\<close>: transitions of the connection state machine, two sessions
    reaching the operational state together, the invariant of a session, roles.
  \<^item> \<open>Reading\<close>: reassembly of messages from an arbitrarily fragmented stream.
  \<^item> \<open>Mac_Invariant\<close>, \<open>Mac_Ops\<close>: the invariant of the MAC table under every sequence of events,
    and the functional behaviour of announcements.
  \<^item> \<open>Rb_Rep\<close>, \<open>Rb_Insert\<close>, \<open>Rb_Remove\<close>, \<open>Rb_Walk\<close>: a heap represents a tree; insertion and removal with
    pointers refine those of a sorted list and keep the tree balanced; lookups and walks agree.
  \<^item> \<open>Queue_Sync\<close>, \<open>Delivery\<close>: a locale for the queues of changes, interpreted for MAC, ARP and ND: what
    is queued leaves in full batches, in order, and the peer handles exactly these entries.
  \<^item> \<open>Calculus\<close>: rules for computations that return or fault, used by the theories below.
  \<^item> \<open>Neigh_Table\<close>, \<open>Neigh_Types\<close>: the neighbours as a map, typed systems, type safety of the messages
    with neighbours, and announcements as steps of the map.
  \<^item> \<open>Peer_Config\<close>: the VLANs and the system configuration of the sender at the receiver; the
    configurations that make the receiver fault.
  \<^item> \<open>Sync_Stages\<close>: answering a synchronisation request, whatever \<^verbatim>\<open>send\<close> returns, the ERROR state, the
    heartbeat.
  \<^item> \<open>Witnesses\<close>, \<open>Sync_Witnesses\<close>: the properties at concrete inputs.

  \<^bold>\<open>Bounds and fuel.\<close>  Loops are structural recursions over the list they walk.  The loops
  around \<^verbatim>\<open>send\<close> and \<^verbatim>\<open>recv\<close> recurse over the list of results of the environment; a list that
  is too short is a call that does not return, and the properties about them say which
  results are needed.  The number of rounds in the handshake is a bound that is proved
  to be enough.  The loop of the answer to a request (\<open>send_all_loop\<close>) and the loop over the
  received messages (\<open>mlacp_fsm_loop\<close>) are partial functions; that they return is proved where a
  property says so.

  \<^bold>\<open>Not modelled.\<close>  The event loop itself (\<^verbatim>\<open>epoll\<close>), netlink parsing with the library
  \<^verbatim>\<open>libnl\<close> (\<^verbatim>\<open>iccp_ifm.c\<close>, most of \<^verbatim>\<open>iccp_netlink.c\<close>), the output of the show commands
  (\<^verbatim>\<open>iccp_cmd_show.c\<close>, \<^verbatim>\<open>mclagdctl\<close>), logging and process start-up: they are input and output
  without a state of their own.  The creation and removal of local interfaces and of
  sessions on configuration and kernel events (\<^verbatim>\<open>local_if_create\<close>, \<^verbatim>\<open>iccp_cli.c\<close>, the interface
  messages of \<^verbatim>\<open>mclagsyncd\<close>) is not modelled: the theorems hold for every set of interfaces
  and sessions.  The \<^verbatim>\<open>finalize\<close> functions only release resources.  The platform drivers and the other daemons of the
  repository are independent programs.  A failing allocation is not modelled.
\<close>

end
